(* ===== verification/Prelude.thy ===== *)
theory Prelude
  imports Main
begin

text \<open>
  The execution model shared by every component. A handler of the server is an asynchronous
  function: between two calls of the database, of the random source or of the session table it
  may be suspended, and other handlers run. A handler is therefore a tree of atomic calls
  (type \<open>prog\<close>). It is read in two ways: \<open>run\<close> executes it alone, and \<open>always\<close> speaks of all
  its executions in which other handlers change the shared state between any two calls, as long
  as everybody keeps the invariant.
\<close>

section \<open>Collections used by the components\<close>

named_theorems run_simps \<open>how programs and database statements execute\<close>
named_theorems op_defs \<open>definitions of the operations, for unfolding a whole handler\<close>
named_theorems safe_rules \<open>invariant preservation, statement by statement\<close>

section \<open>Programs\<close>

datatype (dead 'w, 'a) prog =
    Ret 'a
  | Call "'w \<Rightarrow> 'w" "'w \<Rightarrow> ('w, 'a) prog"

primrec bind :: "('w, 'a) prog \<Rightarrow> ('a \<Rightarrow> ('w, 'b) prog) \<Rightarrow> ('w, 'b) prog" where
  "bind (Ret x) k = k x"
| "bind (Call u c) k = Call u (\<lambda>w. bind (c w) k)"

primrec run :: "('w, 'a) prog \<Rightarrow> 'w \<Rightarrow> 'a \<times> 'w" where
  "run (Ret x) w = (x, w)"
| "run (Call u c) w = run (c w) (u w)"

text \<open>An atomic call: its result is computed in the state in which it is made.\<close>

definition atomic :: "('w \<Rightarrow> 'a \<times> 'w) \<Rightarrow> ('w, 'a) prog" where
  "atomic f = Call (\<lambda>w. snd (f w)) (\<lambda>w. Ret (fst (f w)))"

text \<open>The \<open>?\<close> operator of the source: the first error ends the function.\<close>

definition bindE :: "('w, 'e + 'a) prog \<Rightarrow> ('a \<Rightarrow> ('w, 'e + 'b) prog) \<Rightarrow> ('w, 'e + 'b) prog" where
  "bindE p k = bind p (\<lambda>r. case r of Inl e \<Rightarrow> Ret (Inl e) | Inr x \<Rightarrow> k x)"

definition okE :: "'a \<Rightarrow> ('w, 'e + 'a) prog" where
  "okE x = Ret (Inr x)"

definition errE :: "'e \<Rightarrow> ('w, 'e + 'a) prog" where
  "errE e = Ret (Inl e)"

definition map_errE :: "('e \<Rightarrow> 'f) \<Rightarrow> ('w, 'e + 'a) prog \<Rightarrow> ('w, 'f + 'a) prog" where
  "map_errE f p = bind p (\<lambda>r. case r of Inl e \<Rightarrow> errE (f e) | Inr x \<Rightarrow> okE x)"

text \<open>\<open>ok_or\<close> of \<open>Option\<close>, lifted to programs.\<close>

definition ok_orE :: "'e \<Rightarrow> 'a option \<Rightarrow> ('w, 'e + 'a) prog" where
  "ok_orE e x = (case x of None \<Rightarrow> errE e | Some y \<Rightarrow> okE y)"

text \<open>\<open>unwrap_or_default()\<close> and \<open>unwrap_or\<close> of \<open>Result\<close>.\<close>

definition unwrap_or :: "'e + 'a \<Rightarrow> 'a \<Rightarrow> 'a" where
  "unwrap_or r d = (case r of Inl _ \<Rightarrow> d | Inr x \<Rightarrow> x)"

lemma run_bind [run_simps]: "run (bind p k) w = (case run p w of (x, w') \<Rightarrow> run (k x) w')"
  by (induction p arbitrary: w) auto

lemma run_atomic [run_simps]: "run (atomic f) w = f w"
  by (simp add: atomic_def)

lemma run_bindE [run_simps]:
  "run (bindE p k) w = (case run p w of (Inl e, w') \<Rightarrow> (Inl e, w') | (Inr x, w') \<Rightarrow> run (k x) w')"
  by (simp add: bindE_def run_bind split: prod.split sum.split)

lemma run_okE [run_simps]: "run (okE x) w = (Inr x, w)"
  by (simp add: okE_def)

lemma run_errE [run_simps]: "run (errE e) w = (Inl e, w)"
  by (simp add: errE_def)

lemma run_map_errE [run_simps]:
  "run (map_errE f p) w = (case run p w of (Inl e, w') \<Rightarrow> (Inl (f e), w') | (Inr x, w') \<Rightarrow> (Inr x, w'))"
  by (simp add: map_errE_def run_bind errE_def okE_def split: prod.split sum.split)

lemma run_ok_orE [run_simps]:
  "run (ok_orE e x) w = (case x of None \<Rightarrow> (Inl e, w) | Some y \<Rightarrow> (Inr y, w))"
  by (simp add: ok_orE_def run_simps split: option.split)

lemma unwrap_or_simps [simp]: "unwrap_or (Inl e) d = d" "unwrap_or (Inr x) d = x"
  by (simp_all add: unwrap_or_def)


section \<open>All interleavings\<close>

text \<open>
  \<open>always I Q p\<close>: whatever the other handlers do between the calls of \<open>p\<close>, every call of \<open>p\<close> that
  is made where \<open>I\<close> holds keeps \<open>I\<close>, and the value \<open>p\<close> returns satisfies \<open>Q\<close>.
\<close>

primrec always :: "('w \<Rightarrow> bool) \<Rightarrow> ('a \<Rightarrow> bool) \<Rightarrow> ('w, 'a) prog \<Rightarrow> bool" where
  "always I Q (Ret x) = Q x"
| "always I Q (Call u c) = (\<forall>w. (I w \<longrightarrow> I (u w)) \<and> always I Q (c w))"

abbreviation safe :: "('w \<Rightarrow> bool) \<Rightarrow> ('w, 'a) prog \<Rightarrow> bool" where
  "safe I \<equiv> always I (\<lambda>_. True)"

lemma always_bind:
  "always I R p \<Longrightarrow> (\<And>x. R x \<Longrightarrow> always I Q (k x)) \<Longrightarrow> always I Q (bind p k)"
  by (induction p) auto

lemma always_mono: "always I Q p \<Longrightarrow> (\<And>x. Q x \<Longrightarrow> R x) \<Longrightarrow> always I R p"
  by (induction p) auto

lemma safe_Ret [safe_rules]: "safe I (Ret x)"
  by simp

lemma safe_bind [safe_rules]: "safe I p \<Longrightarrow> (\<And>x. safe I (k x)) \<Longrightarrow> safe I (bind p k)"
  by (rule always_bind)

lemma safe_atomic: "(\<And>w. I w \<Longrightarrow> I (snd (f w))) \<Longrightarrow> safe I (atomic f)"
  by (simp add: atomic_def)

lemma safe_bindE [safe_rules]: "safe I p \<Longrightarrow> (\<And>x. safe I (k x)) \<Longrightarrow> safe I (bindE p k)"
  by (auto simp: bindE_def intro!: safe_bind split: sum.split)

lemma safe_okE [safe_rules]: "safe I (okE x)"
  by (simp add: okE_def)

lemma safe_errE [safe_rules]: "safe I (errE x)"
  by (simp add: errE_def)

lemma safe_map_errE [safe_rules]: "safe I p \<Longrightarrow> safe I (map_errE f p)"
  by (auto simp: map_errE_def intro!: safe_bind safe_okE safe_errE split: sum.split)

lemma safe_ok_orE [safe_rules]: "safe I (ok_orE e x)"
  by (simp add: ok_orE_def safe_okE safe_errE split: option.split)

lemma safe_if [safe_rules]: "safe I p \<Longrightarrow> safe I q \<Longrightarrow> safe I (if b then p else q)"
  by simp

lemma safe_option [safe_rules]:
  "safe I p \<Longrightarrow> (\<And>x. safe I (q x)) \<Longrightarrow> safe I (case y of None \<Rightarrow> p | Some x \<Rightarrow> q x)"
  by (cases y) auto

lemma safe_sum [safe_rules]:
  "(\<And>e. safe I (p e)) \<Longrightarrow> (\<And>x. safe I (q x)) \<Longrightarrow> safe I (case y of Inl e \<Rightarrow> p e | Inr x \<Rightarrow> q x)"
  by (cases y) auto

lemma safe_prod [safe_rules]: "(\<And>a b. safe I (p a b)) \<Longrightarrow> safe I (case y of (a, b) \<Rightarrow> p a b)"
  by (cases y) auto

lemma safe_let [safe_rules]: "(\<And>x. safe I (p x)) \<Longrightarrow> safe I (Let y p)"
  by simp

text \<open>Running alone is one of the interleavings.\<close>

lemma always_run: "always I Q p \<Longrightarrow> I w \<Longrightarrow> I (snd (run p w)) \<and> Q (fst (run p w))"
  by (induction p arbitrary: w) auto

section \<open>What a program returns\<close>

text \<open>\<open>yields Q p\<close>: whatever the state is at each of its calls, \<open>p\<close> returns a value with \<open>Q\<close>.\<close>

abbreviation yields :: "('a \<Rightarrow> bool) \<Rightarrow> ('w, 'a) prog \<Rightarrow> bool" where
  "yields \<equiv> always (\<lambda>_. True)"

named_theorems yields_rules \<open>what programs return, construct by construct\<close>

lemma yields_True: "yields (\<lambda>_. True) p"
  by (induction p) auto

lemma yields_run: "yields Q p \<Longrightarrow> Q (fst (run p w))"
  using always_run [of "\<lambda>_. True" Q p w] by simp

lemma yields_Ret [yields_rules]: "Q x \<Longrightarrow> yields Q (Ret x)"
  by simp

lemma yields_bind [yields_rules]: "(\<And>x. yields Q (k x)) \<Longrightarrow> yields Q (bind p k)"
  by (rule always_bind [OF yields_True])

lemma yields_bind_via: "yields R p \<Longrightarrow> (\<And>x. R x \<Longrightarrow> yields Q (k x)) \<Longrightarrow> yields Q (bind p k)"
  by (rule always_bind)

lemma yields_if [yields_rules]: "yields Q p \<Longrightarrow> yields Q q \<Longrightarrow> yields Q (if b then p else q)"
  by simp

lemma yields_option [yields_rules]:
  "yields Q p \<Longrightarrow> (\<And>x. yields Q (q x)) \<Longrightarrow> yields Q (case y of None \<Rightarrow> p | Some x \<Rightarrow> q x)"
  by (cases y) auto

lemma yields_sum [yields_rules]:
  "(\<And>e. yields Q (p e)) \<Longrightarrow> (\<And>x. yields Q (q x)) \<Longrightarrow> yields Q (case y of Inl e \<Rightarrow> p e | Inr x \<Rightarrow> q x)"
  by (cases y) auto

lemma yields_prod [yields_rules]: "(\<And>a b. yields Q (p a b)) \<Longrightarrow> yields Q (case y of (a, b) \<Rightarrow> p a b)"
  by (cases y) auto

lemma yields_let [yields_rules]: "(\<And>x. yields Q (p x)) \<Longrightarrow> yields Q (Let y p)"
  by simp

section \<open>A system of concurrent programs\<close>

text \<open>
  The running system: the programs started so far and the shared state. A step makes the next
  call of one of them, or starts a program taken from the set of those that clients can start.
\<close>

inductive sys_step ::
  "('w, 'a) prog set \<Rightarrow> ('w, 'a) prog list \<times> 'w \<Rightarrow> ('w, 'a) prog list \<times> 'w \<Rightarrow> bool"
  for P where
  call: "i < length ps \<Longrightarrow> ps ! i = Call u c \<Longrightarrow> sys_step P (ps, w) (ps[i := c w], u w)"
| spawn: "p \<in> P \<Longrightarrow> sys_step P (ps, w) (ps @ [p], w)"

inductive_cases sys_stepE: "sys_step P (ps, w) t"

inductive sys_reach ::
  "('w, 'a) prog set \<Rightarrow> 'w \<Rightarrow> ('w, 'a) prog list \<times> 'w \<Rightarrow> bool"
  for P w0 where
  init: "sys_reach P w0 ([], w0)"
| step: "sys_reach P w0 s \<Longrightarrow> sys_step P s t \<Longrightarrow> sys_reach P w0 t"

lemma sys_step_invariant:
  assumes "sys_step P s t" and "\<And>p. p \<in> P \<Longrightarrow> safe I p"
    and "I (snd s)" and "\<forall>p \<in> set (fst s). safe I p"
  shows "I (snd t) \<and> (\<forall>p \<in> set (fst t). safe I p)"
  using assms
proof (cases rule: sys_step.cases)
  case (call i ps u c w)
  then have "safe I (Call u c)"
    using assms(4) nth_mem [of i ps] by auto
  then have "I (u w) \<and> safe I (c w)"
    using assms(3) call by simp
  then show ?thesis
    using assms(4) call set_update_subset_insert [of ps i "c w"] by auto
next
  case (spawn p ps w)
  then show ?thesis using assms by auto
qed

theorem sys_reach_invariant:
  assumes "sys_reach P w0 s" and "I w0" and "\<And>p. p \<in> P \<Longrightarrow> safe I p"
  shows "I (snd s)"
proof -
  from assms(1) have "I (snd s) \<and> (\<forall>p \<in> set (fst s). safe I p)"
  proof (induction rule: sys_reach.induct)
    case init
    show ?case using assms(2) by simp
  next
    case (step s t)
    then show ?case using sys_step_invariant [of P s t I] assms(3) by blast
  qed
  then show ?thesis by simp
qed

text \<open>The programs of a reachable state are rests of programs that were started.\<close>

lemma sys_reach_safe:
  assumes "sys_reach P w0 s" and "\<And>p. p \<in> P \<Longrightarrow> safe I p"
  shows "\<forall>p \<in> set (fst s). safe I p"
  using assms(1)
proof (induction rule: sys_reach.induct)
  case (step s t)
  from step.hyps(2) show ?case
  proof (cases rule: sys_step.cases)
    case (call i ps u c w)
    then have "safe I (Call u c)" using step.IH nth_mem [of i ps] by auto
    with call step.IH show ?thesis by (auto dest!: set_update_subset_insert [THEN subsetD])
  qed (use step.IH assms(2) in auto)
qed simp

lemma sys_reach_step_keeps:
  assumes "sys_reach P w0 s" "sys_step P s t" and "\<And>p. p \<in> P \<Longrightarrow> safe I p" and "I (snd s)"
  shows "I (snd t)"
  using sys_step_invariant [OF assms(2,3,4) sys_reach_safe [OF assms(1,3)]] by blast

text \<open>Running one program to its end without interruption is among the executions.\<close>

lemma sys_reach_finish:
  "sys_reach P w0 (ps @ [p], w) \<Longrightarrow> \<exists>ps'. sys_reach P w0 (ps', snd (run p w))"
proof (induction p arbitrary: w)
  case (Ret x)
  then show ?case by auto
next
  case (Call u c)
  from sys_step.call [of "length ps" "ps @ [Call u c]" u c P w]
  have "sys_step P (ps @ [Call u c], w) (ps @ [c w], u w)" by simp
  with Call.prems have "sys_reach P w0 (ps @ [c w], u w)" by (rule sys_reach.step)
  with Call.IH [of "c w"] show ?case by simp
qed

lemma sys_reach_run:
  "sys_reach P w0 (ps, w) \<Longrightarrow> p \<in> P \<Longrightarrow> \<exists>ps'. sys_reach P w0 (ps', snd (run p w))"
  by (rule sys_reach_finish, rule sys_reach.step, assumption, rule sys_step.spawn)

section \<open>Lists as tables\<close>

lemma find_append: "find P (xs @ ys) = (case find P xs of None \<Rightarrow> find P ys | Some x \<Rightarrow> Some x)"
  by (induction xs) auto

lemma find_filter_other: "(\<And>x. P x \<Longrightarrow> Q x) \<Longrightarrow> find P (filter Q xs) = find P xs"
  by (induction xs) auto

lemma find_filter_none: "(\<And>x. P x \<Longrightarrow> \<not> Q x) \<Longrightarrow> find P (filter Q xs) = None"
  by (induction xs) auto

lemma find_map_upd:
  "(\<And>x. P (f x) = P x) \<Longrightarrow> find P (map f xs) = map_option f (find P xs)"
  by (induction xs) auto

lemma find_key_upd:
  "(\<And>x. key (f x) = key x) \<Longrightarrow>
   find (\<lambda>x. key x = k) (map (\<lambda>x. if key x = j then f x else x) xs) =
     (if k = j then map_option f (find (\<lambda>x. key x = k) xs) else find (\<lambda>x. key x = k) xs)"
  by (induction xs) auto

lemma find_key_None: "find (\<lambda>x. key x = k) xs = None \<longleftrightarrow> k \<notin> set (map key xs)"
  by (induction xs) auto

lemma filter_other_upd:
  "(\<And>x. k (f x) = k x) \<Longrightarrow> filter (\<lambda>x. k x \<noteq> i) (map (\<lambda>x. if k x = i then f x else x) xs) = filter (\<lambda>x. k x \<noteq> i) xs"
  by (induction xs) auto

lemma find_key_unique:
  "distinct (map f xs) \<Longrightarrow> x \<in> set xs \<Longrightarrow> find (\<lambda>y. f y = f x) xs = Some x"
  by (induction xs) (auto simp: image_iff)

lemma find_SomeD: "find P xs = Some x \<Longrightarrow> P x \<and> x \<in> set xs"
  by (induction xs) (auto split: if_splits)

lemma find_NoneD: "find P xs = None \<Longrightarrow> x \<in> set xs \<Longrightarrow> \<not> P x"
  by (induction xs) (auto split: if_splits)

lemma map_if_key: "(\<And>x. f (g x) = f x) \<Longrightarrow> map f (map g xs) = map f xs"
  by (induction xs) auto

text \<open>A list of rows as a map from keys to values; the first row with a key counts.\<close>

definition table :: "('a \<Rightarrow> 'k) \<Rightarrow> ('a \<Rightarrow> 'v) \<Rightarrow> 'a list \<Rightarrow> 'k \<Rightarrow> 'v option" where
  "table key val xs k = map_option val (find (\<lambda>x. key x = k) xs)"

lemma table_Nil [simp]: "table key val [] = Map.empty"
  by (simp add: table_def fun_eq_iff)

lemma table_None: "table key val xs k = None \<longleftrightarrow> k \<notin> key ` set xs"
  by (simp add: table_def find_None_iff image_iff) metis

lemma table_append: "key x \<notin> key ` set xs \<Longrightarrow> table key val (xs @ [x]) = (table key val xs)(key x \<mapsto> val x)"
  using find_key_None [of key "key x" xs] by (auto simp: table_def fun_eq_iff find_append split: option.split)

lemma table_update:
  assumes "\<And>x. key (f x) = key x"
  shows "table key val (map (\<lambda>x. if key x = j then f x else x) xs) =
    (table key val xs)(j := table key (\<lambda>x. val (f x)) xs j)"
proof
  fix k
  show "table key val (map (\<lambda>x. if key x = j then f x else x) xs) k = ((table key val xs)(j := table key (\<lambda>x. val (f x)) xs j)) k"
    using find_key_upd [of key f k j xs] assms by (simp add: table_def option.map_comp comp_def)
qed

lemma table_filter: "table key val (filter (\<lambda>x. P (key x)) xs) = (\<lambda>k. if P k then table key val xs k else None)"
proof
  fix k
  show "table key val (filter (\<lambda>x. P (key x)) xs) k = (if P k then table key val xs k else None)"
    by (auto simp: table_def intro!: arg_cong [where f = "map_option val"] find_filter_other find_filter_none)
qed

lemma table_remove: "table key val (filter (\<lambda>x. key x \<noteq> k) xs) = (table key val xs)(k := None)"
  using table_filter [of key val "\<lambda>x. x \<noteq> k" xs] by (simp add: fun_eq_iff)

lemma table_const: "table key (\<lambda>_. v) xs k = (if k \<in> key ` set xs then Some v else None)"
  using table_None [of key "\<lambda>_. v" xs k] by (auto simp: table_def)

lemma table_columns:
  "(\<And>x. key (f x) = key x) \<Longrightarrow> (\<And>x. val (f x) = val x) \<Longrightarrow> table key val (map (\<lambda>x. if P x then f x else x) xs) = table key val xs"
proof
  fix k
  assume "\<And>x. key (f x) = key x" "\<And>x. val (f x) = val x"
  then show "table key val (map (\<lambda>x. if P x then f x else x) xs) k = table key val xs k"
    by (induction xs) (auto simp: table_def)
qed

end
