(* ===== verification/Rust_Str.thy ===== *)
theory Rust_Str
  imports Prelude "HOL-Library.List_Lexorder" "HOL-Library.Char_ord"
begin

text \<open>
  The parts of Rust's \<open>str\<close> and \<open>String\<close> that the server uses. A Rust string is its sequence of
  UTF-8 bytes, an Isabelle \<open>string\<close>; comparing two of them byte by byte is what both Rust's
  \<open>cmp\<close> and SQLite's binary collation do. Where the library counts Unicode scalar values
  (\<open>chars\<close>, \<open>trim\<close>) the UTF-8 coding is written out.
\<close>

section \<open>Prefixes, suffixes, splitting\<close>

abbreviation nl :: char where "nl \<equiv> CHR 0x0A"
abbreviation cr :: char where "cr \<equiv> CHR 0x0D"
abbreviation tab :: char where "tab \<equiv> CHR 0x09"
abbreviation dquote :: char where "dquote \<equiv> CHR 0x22"

text \<open>A text between single quotes, and between double quotes.\<close>

abbreviation squoted :: "string \<Rightarrow> string" where "squoted s \<equiv> CHR 0x27 # s @ [CHR 0x27]"
abbreviation dquoted :: "string \<Rightarrow> string" where "dquoted s \<equiv> dquote # s @ [dquote]"

definition starts_with :: "string \<Rightarrow> string \<Rightarrow> bool" where
  "starts_with s p = (take (length p) s = p)"

definition strip_prefix :: "string \<Rightarrow> string \<Rightarrow> string option" where
  "strip_prefix s p = (if starts_with s p then Some (drop (length p) s) else None)"

definition ends_with :: "string \<Rightarrow> string \<Rightarrow> bool" where
  "ends_with s p = (length p \<le> length s \<and> drop (length s - length p) s = p)"

definition strip_suffix :: "string \<Rightarrow> string \<Rightarrow> string option" where
  "strip_suffix s p = (if ends_with s p then Some (take (length s - length p) s) else None)"

text \<open>\<open>trim_end_matches\<close> with a non-empty pattern removes it as often as it ends the string.\<close>

function trim_end_matches :: "string \<Rightarrow> string \<Rightarrow> string" where
  "trim_end_matches s p =
     (if p \<noteq> [] \<and> ends_with s p then trim_end_matches (take (length s - length p) s) p else s)"
  by pat_completeness auto
termination
  by (relation "measure (\<lambda>(s, p). length s)") (auto simp: ends_with_def min_def)

declare trim_end_matches.simps [simp del]

fun split_once :: "string \<Rightarrow> char \<Rightarrow> (string \<times> string) option" where
  "split_once [] c = None"
| "split_once (x # xs) c =
     (if x = c then Some ([], xs)
      else map_option (\<lambda>(a, b). (x # a, b)) (split_once xs c))"

definition contains_char :: "string \<Rightarrow> char \<Rightarrow> bool" where
  "contains_char s c = (c \<in> set s)"

fun contains_str :: "string \<Rightarrow> string \<Rightarrow> bool" where
  "contains_str [] p = (p = [])"
| "contains_str (x # xs) p = (starts_with (x # xs) p \<or> contains_str xs p)"

text \<open>\<open>s.rsplit(c).next()\<close>: what follows the last \<open>c\<close>.\<close>

definition rsplit_next :: "string \<Rightarrow> char \<Rightarrow> string" where
  "rsplit_next s c = rev (takeWhile (\<lambda>x. x \<noteq> c) (rev s))"

definition replace_char :: "string \<Rightarrow> char \<Rightarrow> string \<Rightarrow> string" where
  "replace_char s c r = concat (map (\<lambda>x. if x = c then r else [x]) s)"

fun join :: "string list \<Rightarrow> string \<Rightarrow> string" where
  "join [] sep = []"
| "join [x] sep = x"
| "join (x # y # ys) sep = x @ sep @ join (y # ys) sep"

section \<open>Lines and white space\<close>

text \<open>\<open>split_inclusive('\n')\<close>, then \<open>lines()\<close>: a line loses its line feed and one carriage
  return before it; a last line without line feed is kept as it is.\<close>

fun raw_lines :: "string \<Rightarrow> string list" where
  "raw_lines [] = []"
| "raw_lines (c # cs) =
     (if c = nl then [c] # raw_lines cs
      else (case raw_lines cs of [] \<Rightarrow> [[c]] | l # ls \<Rightarrow> (c # l) # ls))"

definition strip_eol :: "string \<Rightarrow> string" where
  "strip_eol l =
     (case strip_suffix l [nl] of
        None \<Rightarrow> l
      | Some m \<Rightarrow> (case strip_suffix m [cr] of None \<Rightarrow> m | Some k \<Rightarrow> k))"

definition str_lines :: "string \<Rightarrow> string list" where
  "str_lines s = map strip_eol (raw_lines s)"

text \<open>The characters with the Unicode property White_Space, in UTF-8.\<close>

definition ws_units :: "string list" where
  "ws_units =
     [[CHR 0x09], [CHR 0x0A], [CHR 0x0B], [CHR 0x0C], [CHR 0x0D], [CHR 0x20],
      [CHR 0xC2, CHR 0x85], [CHR 0xC2, CHR 0xA0], [CHR 0xE1, CHR 0x9A, CHR 0x80],
      [CHR 0xE2, CHR 0x80, CHR 0x80], [CHR 0xE2, CHR 0x80, CHR 0x81], [CHR 0xE2, CHR 0x80, CHR 0x82],
      [CHR 0xE2, CHR 0x80, CHR 0x83], [CHR 0xE2, CHR 0x80, CHR 0x84], [CHR 0xE2, CHR 0x80, CHR 0x85],
      [CHR 0xE2, CHR 0x80, CHR 0x86], [CHR 0xE2, CHR 0x80, CHR 0x87], [CHR 0xE2, CHR 0x80, CHR 0x88],
      [CHR 0xE2, CHR 0x80, CHR 0x89], [CHR 0xE2, CHR 0x80, CHR 0x8A], [CHR 0xE2, CHR 0x80, CHR 0xA8],
      [CHR 0xE2, CHR 0x80, CHR 0xA9], [CHR 0xE2, CHR 0x80, CHR 0xAF], [CHR 0xE2, CHR 0x81, CHR 0x9F],
      [CHR 0xE3, CHR 0x80, CHR 0x80]]"

function trim_start :: "string \<Rightarrow> string" where
  "trim_start s =
     (case find (\<lambda>u. starts_with s u) ws_units of
        None \<Rightarrow> s
      | Some u \<Rightarrow> (if u \<noteq> [] \<and> s \<noteq> [] then trim_start (drop (length u) s) else s))"
  by pat_completeness auto
termination
  by (relation "measure length") auto

function trim_end :: "string \<Rightarrow> string" where
  "trim_end s =
     (case find (\<lambda>u. ends_with s u) ws_units of
        None \<Rightarrow> s
      | Some u \<Rightarrow> (if u \<noteq> [] \<and> s \<noteq> [] then trim_end (take (length s - length u) s) else s))"
  by pat_completeness auto
termination
  by (relation "measure length") (auto simp: min_def simp flip: length_greater_0_conv)

declare trim_start.simps [simp del] trim_end.simps [simp del]

definition trim :: "string \<Rightarrow> string" where
  "trim s = trim_end (trim_start s)"

section \<open>UTF-8\<close>

abbreviation byte_in :: "nat \<Rightarrow> nat \<Rightarrow> char \<Rightarrow> bool" where
  "byte_in lo hi c \<equiv> lo \<le> of_char c \<and> of_char c \<le> hi"

abbreviation cont_byte :: "char \<Rightarrow> bool" where
  "cont_byte c \<equiv> byte_in 0x80 0xBF c"

text \<open>The first character of a byte string: whether it is well formed, and its length or the
  length of the ill-formed part that a lossy conversion replaces as one.\<close>

fun utf8_second :: "char \<Rightarrow> char \<Rightarrow> bool" where
  "utf8_second a b =
     (if of_char a = (0xE0::nat) then byte_in 0xA0 0xBF b
      else if of_char a = (0xED::nat) then byte_in 0x80 0x9F b
      else if of_char a = (0xF0::nat) then byte_in 0x90 0xBF b
      else if of_char a = (0xF4::nat) then byte_in 0x80 0x8F b
      else cont_byte b)"

fun utf8_chunk :: "string \<Rightarrow> bool \<times> nat" where
  "utf8_chunk [] = (True, 0)"
| "utf8_chunk (a # s) =
     (if byte_in 0 0x7F a then (True, 1)
      else if byte_in 0xC2 0xDF a then
        (case s of b # _ \<Rightarrow> if cont_byte b then (True, 2) else (False, 1) | _ \<Rightarrow> (False, 1))
      else if byte_in 0xE0 0xEF a then
        (case s of
           b # t \<Rightarrow> if utf8_second a b
             then (case t of c # _ \<Rightarrow> if cont_byte c then (True, 3) else (False, 2) | _ \<Rightarrow> (False, 2))
             else (False, 1)
         | _ \<Rightarrow> (False, 1))
      else if byte_in 0xF0 0xF4 a then
        (case s of
           b # t \<Rightarrow> if utf8_second a b
             then (case t of
                     c # v \<Rightarrow> if cont_byte c
                       then (case v of d # _ \<Rightarrow> if cont_byte d then (True, 4) else (False, 3)
                             | _ \<Rightarrow> (False, 3))
                       else (False, 2)
                   | _ \<Rightarrow> (False, 2))
             else (False, 1)
         | _ \<Rightarrow> (False, 1))
      else (False, 1))"

lemma utf8_chunk_pos: "s \<noteq> [] \<Longrightarrow> 0 < snd (utf8_chunk s)"
  by (cases s) (simp_all split: list.splits)

declare utf8_chunk.simps [simp del]

function utf8_chunks :: "string \<Rightarrow> (bool \<times> string) list" where
  "utf8_chunks s =
     (if s = [] then []
      else (let (ok, n) = utf8_chunk s in (ok, take n s) # utf8_chunks (drop n s)))"
  by pat_completeness auto
termination
proof (relation "measure length")
  fix s x ok n
  assume "s \<noteq> []" and "x = utf8_chunk s" and "(ok, n) = x"
  then have "0 < n" using utf8_chunk_pos [of s] by (metis snd_conv)
  then show "(drop n s, s) \<in> measure length" using \<open>s \<noteq> []\<close> by simp
qed simp

declare utf8_chunks.simps [simp del]

definition from_utf8 :: "string \<Rightarrow> string option" where
  "from_utf8 s = (if list_all fst (utf8_chunks s) then Some s else None)"

definition from_utf8_lossy :: "string \<Rightarrow> string" where
  "from_utf8_lossy s =
     concat (map (\<lambda>(ok, t). if ok then t else [CHR 0xEF, CHR 0xBF, CHR 0xBD]) (utf8_chunks s))"

text \<open>A character of a string, by its encoding, and the encoding of the character U+0000 to
  U+00FF that \<open>byte as char\<close> gives.\<close>

definition str_chars :: "string \<Rightarrow> string list" where
  "str_chars s = map snd (utf8_chunks s)"

definition latin1_char :: "nat \<Rightarrow> string" where
  "latin1_char n =
     (if n < 0x80 then [char_of n] else [char_of (0xC0 + n div 64), char_of (0x80 + n mod 64)])"

end
