(* ===== verification/Json.thy ===== *)
theory Json
  imports Rust_Str "HOL-Library.Word"
begin

text \<open>
  JSON values (the \<open>serde_json::Value\<close> the MCP server computes with), the accessors the tools
  use, and the JSON-RPC messages of \<open>src/mcp/jsonrpc.rs\<close>. An object is the list of its members;
  the text of a value is produced by the JSON library and is a parameter of the model.
\<close>

section \<open>Values\<close>

text \<open>A number keeps the three representations of the library: an unsigned 64-bit integer, a
  negative integer, or the text of a floating-point number.\<close>

datatype json_number = PosInt "64 word" | NegInt int | Float string

datatype json =
    JNull
  | JBool bool
  | JNumber json_number
  | JString string
  | JArray "json list"
  | JObject "(string \<times> json) list"

definition json_get :: "json \<Rightarrow> string \<Rightarrow> json option" where
  "json_get v k = (case v of JObject ms \<Rightarrow> map_of ms k | _ \<Rightarrow> None)"

text \<open>\<open>value[key]\<close>: an absent member reads as null.\<close>

definition json_index :: "json \<Rightarrow> string \<Rightarrow> json" where
  "json_index v k = (case json_get v k of None \<Rightarrow> JNull | Some x \<Rightarrow> x)"

definition as_str :: "json \<Rightarrow> string option" where
  "as_str v = (case v of JString s \<Rightarrow> Some s | _ \<Rightarrow> None)"

definition as_u64 :: "json \<Rightarrow> 64 word option" where
  "as_u64 v = (case v of JNumber (PosInt n) \<Rightarrow> Some n | _ \<Rightarrow> None)"

definition is_object :: "json \<Rightarrow> bool" where
  "is_object v = (case v of JObject _ \<Rightarrow> True | _ \<Rightarrow> False)"

definition json_opt_str :: "string option \<Rightarrow> json" where
  "json_opt_str x = (case x of None \<Rightarrow> JNull | Some s \<Rightarrow> JString s)"

abbreviation json_len :: "nat \<Rightarrow> json" where
  "json_len n \<equiv> JNumber (PosInt (of_nat n))"

lemma json_get_obj [simp]: "json_get (JObject ms) k = map_of ms k"
  by (simp add: json_get_def)

lemma as_str_simps [simp]: "as_str (JString s) = Some s" "as_str JNull = None"
  by (simp_all add: as_str_def)

lemma as_u64_simps [simp]: "as_u64 (JNumber (PosInt n)) = Some n" "as_u64 JNull = None"
  by (simp_all add: as_u64_def)

section \<open>JSON-RPC 2.0 messages\<close>

record JsonRpcRequest =
  rpc_jsonrpc :: string
  rpc_id :: "json option"
  rpc_method :: string
  rpc_params :: json

definition PARSE_ERROR :: int where "PARSE_ERROR = -32700"
definition METHOD_NOT_FOUND :: int where "METHOD_NOT_FOUND = -32601"
definition INVALID_PARAMS :: int where "INVALID_PARAMS = -32602"
definition INTERNAL_ERROR :: int where "INTERNAL_ERROR = -32603"
definition INVALID_REQUEST :: int where "INVALID_REQUEST = -32600"

text \<open>The id member is left out when there is none (\<open>skip_serializing_if\<close>).\<close>

definition id_member :: "json option \<Rightarrow> (string \<times> json) list" where
  "id_member i = (case i of None \<Rightarrow> [] | Some v \<Rightarrow> [(''id'', v)])"

definition rpc_success :: "json option \<Rightarrow> json \<Rightarrow> json" where
  "rpc_success i result =
     JObject ([(''jsonrpc'', JString ''2.0'')] @ id_member i @ [(''result'', result)])"

definition rpc_error :: "json option \<Rightarrow> int \<Rightarrow> string \<Rightarrow> json" where
  "rpc_error i code message =
     JObject ([(''jsonrpc'', JString ''2.0'')] @ id_member i @
       [(''error'', JObject [(''code'', JNumber (NegInt code)), (''message'', JString message)])])"

definition method_not_found :: "json option \<Rightarrow> json" where
  "method_not_found i = rpc_error i (-32601) ''Method not found''"

definition invalid_params :: "json option \<Rightarrow> string \<Rightarrow> json" where
  "invalid_params i msg = rpc_error i (-32602) msg"

definition internal_error :: "json option \<Rightarrow> string \<Rightarrow> json" where
  "internal_error i msg = rpc_error i (-32603) msg"

lemma rpc_success_id: "json_get (rpc_success i r) ''id'' = i"
  by (simp add: rpc_success_def id_member_def split: option.split)

lemma rpc_error_id: "json_get (rpc_error i c m) ''id'' = i"
  by (simp add: rpc_error_def id_member_def split: option.split)

lemma rpc_success_result: "json_get (rpc_success i r) ''result'' = Some r"
  by (simp add: rpc_success_def id_member_def split: option.split)

lemma rpc_success_no_error: "json_get (rpc_success i r) ''error'' = None"
  by (simp add: rpc_success_def id_member_def split: option.split)

end
