(* ===== verification/App_Error.thy ===== *)
theory App_Error
  imports Json
begin

text \<open>
  Errors and HTTP messages: \<open>src/error.rs\<close>, and the requests and responses every handler reads
  and returns. A response is a status code, its headers in the order they are set, and the bytes
  of its body.
\<close>

section \<open>Errors\<close>

text \<open>What the database driver reports: an error of the database engine with its message, a
  missing row, or a failure of the connection.\<close>

datatype sqlx_error = SqlDatabase string | RowNotFound | SqlOther string

datatype AppError =
    NotFound string
  | Unauthorized
  | Forbidden string
  | BadRequest string
  | Conflict string
  | PreconditionFailed string
  | Database sqlx_error
  | Internal string

text \<open>The text of an error; the text of a driver error is the driver's (\<open>show_sqlx\<close>).\<close>

definition error_to_string :: "(sqlx_error \<Rightarrow> string) \<Rightarrow> AppError \<Rightarrow> string" where
  "error_to_string show_sqlx e =
     (case e of
        NotFound s \<Rightarrow> ''not found: '' @ s
      | Unauthorized \<Rightarrow> ''unauthorized''
      | Forbidden s \<Rightarrow> ''forbidden: '' @ s
      | BadRequest s \<Rightarrow> ''bad request: '' @ s
      | Conflict s \<Rightarrow> ''conflict: '' @ s
      | PreconditionFailed s \<Rightarrow> ''precondition failed: '' @ s
      | Database d \<Rightarrow> ''database error: '' @ show_sqlx d
      | Internal s \<Rightarrow> ''internal error: '' @ s)"

section \<open>Requests and responses\<close>

text \<open>A header value that is not readable as text is present with value \<open>None\<close>; this is what
  \<open>get(..).and_then(|v| v.to_str().ok())\<close> sees of it.\<close>

record http_request =
  req_method :: string
  req_headers :: "(string \<times> string option) list"
  req_body :: string

definition header_str :: "http_request \<Rightarrow> string \<Rightarrow> string option" where
  "header_str r name = (case map_of (req_headers r) name of None \<Rightarrow> None | Some v \<Rightarrow> v)"

record http_response =
  resp_status :: nat
  resp_headers :: "(string \<times> string) list"
  resp_body :: string

abbreviation OK :: nat where "OK \<equiv> 200"
abbreviation CREATED :: nat where "CREATED \<equiv> 201"
abbreviation ACCEPTED :: nat where "ACCEPTED \<equiv> 202"
abbreviation NO_CONTENT :: nat where "NO_CONTENT \<equiv> 204"
abbreviation MULTI_STATUS :: nat where "MULTI_STATUS \<equiv> 207"
abbreviation MOVED_PERMANENTLY :: nat where "MOVED_PERMANENTLY \<equiv> 301"
abbreviation BAD_REQUEST :: nat where "BAD_REQUEST \<equiv> 400"
abbreviation UNAUTHORIZED :: nat where "UNAUTHORIZED \<equiv> 401"
abbreviation FORBIDDEN :: nat where "FORBIDDEN \<equiv> 403"
abbreviation NOT_FOUND :: nat where "NOT_FOUND \<equiv> 404"
abbreviation METHOD_NOT_ALLOWED :: nat where "METHOD_NOT_ALLOWED \<equiv> 405"
abbreviation CONFLICT :: nat where "CONFLICT \<equiv> 409"
abbreviation PRECONDITION_FAILED :: nat where "PRECONDITION_FAILED \<equiv> 412"
abbreviation INTERNAL_SERVER_ERROR :: nat where "INTERNAL_SERVER_ERROR \<equiv> 500"

text \<open>\<open>(status, text).into_response()\<close>.\<close>

definition text_response :: "nat \<Rightarrow> string \<Rightarrow> http_response" where
  "text_response st msg =
     \<lparr>resp_status = st, resp_headers = [(''content-type'', ''text/plain; charset=utf-8'')],
      resp_body = msg\<rparr>"

text \<open>What a handler ends with: a response, or a panic that closes the connection. Building a
  response from header values that are not legal in HTTP panics (\<open>unwrap\<close> of the builder's error).\<close>

datatype outcome = Reply http_response | Panic

definition built :: "(string \<Rightarrow> bool) \<Rightarrow> nat \<Rightarrow> (string \<times> string) list \<Rightarrow> string \<Rightarrow> outcome" where
  "built value_ok st hs body =
     (if list_all (\<lambda>(n, v). value_ok v) hs
      then Reply \<lparr>resp_status = st, resp_headers = hs, resp_body = body\<rparr> else Panic)"

definition outcome_status :: "outcome \<Rightarrow> nat option" where
  "outcome_status r = (case r of Reply resp \<Rightarrow> Some (resp_status resp) | Panic \<Rightarrow> None)"

lemma outcome_status_simps [simp]:
  "outcome_status (Reply resp) = Some (resp_status resp)" "outcome_status Panic = None"
  by (simp_all add: outcome_status_def)

definition error_status :: "AppError \<Rightarrow> nat" where
  "error_status e =
     (case e of
        NotFound _ \<Rightarrow> NOT_FOUND
      | Unauthorized \<Rightarrow> UNAUTHORIZED
      | Forbidden _ \<Rightarrow> FORBIDDEN
      | BadRequest _ \<Rightarrow> BAD_REQUEST
      | Conflict _ \<Rightarrow> CONFLICT
      | PreconditionFailed _ \<Rightarrow> PRECONDITION_FAILED
      | Database _ \<Rightarrow> INTERNAL_SERVER_ERROR
      | Internal _ \<Rightarrow> INTERNAL_SERVER_ERROR)"

definition into_response :: "(sqlx_error \<Rightarrow> string) \<Rightarrow> AppError \<Rightarrow> http_response" where
  "into_response show_sqlx e = text_response (error_status e) (error_to_string show_sqlx e)"

lemma text_response_status [simp]: "resp_status (text_response st msg) = st"
  by (simp add: text_response_def)

lemma text_response_body [simp]: "resp_body (text_response st msg) = msg"
  by (simp add: text_response_def)

end
