(* ===== verification/Externals.thy ===== *)
theory Externals
  imports App_Error
begin

text \<open>
  The libraries and services the server calls, as one record of functions that every operation
  takes as its first argument: the random source and the clocks, failures of the database
  connection, password hashing, base64, reading a request body, the XML reader and writer, and
  the JSON codec. A source that answers differently each time is a function of the number of the
  call; the number comes from a counter in the state. What the server relies on is stated by the
  predicates below, and a property that needs one of them has it as a hypothesis.
\<close>

section \<open>XML events\<close>

text \<open>What the XML reader delivers: an element with its qualified name, its local name and its
  readable attributes; a text with the result of unescaping it.\<close>

record xml_elem =
  el_name :: string
  el_local :: string
  el_attrs :: "(string \<times> string) list"

datatype xml_event =
    XStart xml_elem
  | XEmpty xml_elem
  | XEnd string
  | XText "string option"
  | XOther
  | XEof
  | XError

text \<open>What the XML writer is given: events, or bytes written past it.\<close>

datatype xml_out =
    ODecl string string
  | OStart string "(string \<times> string) list"
  | OText string
  | OEnd string
  | OEmpty string
  | ORaw string

section \<open>The external functions\<close>

record ext =
  uuid_v7 :: "nat \<Rightarrow> string"
  uuid_v4 :: "nat \<Rightarrow> string"
  rand_bytes :: "nat \<Rightarrow> string"
  salt_string :: "nat \<Rightarrow> string"
  datetime_now :: "nat \<Rightarrow> string"
  utc_stamp :: "nat \<Rightarrow> string"
  db_fault :: "nat \<Rightarrow> sqlx_error option"
  db_connect :: "string \<Rightarrow> sqlx_error option"
  sqlx_display :: "sqlx_error \<Rightarrow> string"
  argon2_hash :: "string \<Rightarrow> string \<Rightarrow> string + string"
  phc_parse :: "string \<Rightarrow> string option"
  argon2_verify :: "string \<Rightarrow> string \<Rightarrow> bool"
  base64_url_encode :: "string \<Rightarrow> string"
  base64_decode :: "string \<Rightarrow> string option"
  to_bytes :: "string \<Rightarrow> nat \<Rightarrow> string option"
  header_value_ok :: "string \<Rightarrow> bool"
  path_decode :: "string \<Rightarrow> string option"
  path_rejection :: http_response
  route_not_found :: http_response
  route_method_not_allowed :: http_response
  xml_read :: "string \<Rightarrow> xml_event list"
  xml_write :: "xml_out list \<Rightarrow> string"
  json_pretty :: "json \<Rightarrow> string"
  json_vec :: "json \<Rightarrow> string"
  rpc_from_slice :: "string \<Rightarrow> string + JsonRpcRequest"

section \<open>What the server relies on\<close>

text \<open>The database answers every statement.\<close>

definition no_faults :: "ext \<Rightarrow> bool" where
  "no_faults E \<longleftrightarrow> (\<forall>n. db_fault E n = None)"

text \<open>Two UUIDs drawn at different times differ, also across the two versions.\<close>

definition uuids_distinct :: "ext \<Rightarrow> bool" where
  "uuids_distinct E \<longleftrightarrow> inj (uuid_v7 E) \<and> inj (uuid_v4 E) \<and> (\<forall>m n. uuid_v7 E m \<noteq> uuid_v4 E n)"

text \<open>A body is delivered unless it is longer than the limit.\<close>

definition bodies_bounded :: "ext \<Rightarrow> bool" where
  "bodies_bounded E \<longleftrightarrow> (\<forall>b n. to_bytes E b n = (if length b \<le> n then Some b else None))"

text \<open>Argon2: a hash that was computed is readable, and verifies exactly its own password.\<close>

definition hashing_sound :: "ext \<Rightarrow> bool" where
  "hashing_sound E \<longleftrightarrow>
     (\<forall>p s h. argon2_hash E p s = Inr h \<longrightarrow>
        phc_parse E h = None \<and> (\<forall>q. argon2_verify E q h \<longleftrightarrow> q = p))"

text \<open>The counter-indexed source never refuses to hash.\<close>

definition hashing_total :: "ext \<Rightarrow> bool" where
  "hashing_total E \<longleftrightarrow> (\<forall>p s. \<exists>h. argon2_hash E p s = Inr h)"

text \<open>Header values of visible ASCII characters and spaces are legal, and a UUID is written with
  such characters.\<close>

definition printable :: "string \<Rightarrow> bool" where
  "printable s \<longleftrightarrow> list_all (\<lambda>c. (32::nat) \<le> of_char c \<and> of_char c < (127::nat)) s"

definition headers_sound :: "ext \<Rightarrow> bool" where
  "headers_sound E \<longleftrightarrow> (\<forall>v. printable v \<longrightarrow> header_value_ok E v)"

definition uuids_printable :: "ext \<Rightarrow> bool" where
  "uuids_printable E \<longleftrightarrow> (\<forall>n. printable (uuid_v4 E n) \<and> printable (uuid_v7 E n))"

text \<open>The statuses of the answers the framework gives by itself.\<close>

definition framework_statuses :: "ext \<Rightarrow> bool" where
  "framework_statuses E \<longleftrightarrow>
     resp_status (path_rejection E) = BAD_REQUEST \<and> resp_status (route_not_found E) = NOT_FOUND \<and>
     resp_status (route_method_not_allowed E) = METHOD_NOT_ALLOWED"

lemma no_faultsD: "no_faults E \<Longrightarrow> db_fault E n = None"
  by (simp add: no_faults_def)

lemma uuid_v7_eq: "uuids_distinct E \<Longrightarrow> uuid_v7 E m = uuid_v7 E n \<longleftrightarrow> m = n"
  by (auto simp: uuids_distinct_def inj_eq)

lemma uuid_v4_eq: "uuids_distinct E \<Longrightarrow> uuid_v4 E m = uuid_v4 E n \<longleftrightarrow> m = n"
  by (auto simp: uuids_distinct_def inj_eq)

lemma uuid_v7_v4: "uuids_distinct E \<Longrightarrow> uuid_v7 E m \<noteq> uuid_v4 E n"
  by (auto simp: uuids_distinct_def)

lemma to_bytes_eq: "bodies_bounded E \<Longrightarrow> to_bytes E b n = (if length b \<le> n then Some b else None)"
  by (simp add: bodies_bounded_def)

section \<open>A concrete environment\<close>

text \<open>One instance of the external functions that meets all of the above: tagged unary numerals
  as random values, and the identity for encodings. It serves to evaluate the model.\<close>

definition demo_ext :: ext where
  "demo_ext =
     \<lparr>uuid_v7 = (\<lambda>n. CHR ''v'' # replicate n CHR ''7''),
      uuid_v4 = (\<lambda>n. CHR ''u'' # replicate n CHR ''4''),
      rand_bytes = (\<lambda>n. replicate n CHR ''r''),
      salt_string = (\<lambda>n. replicate n CHR ''s''),
      datetime_now = (\<lambda>n. ''2026-03-01 09:00:00''),
      utc_stamp = (\<lambda>n. ''20260301T090000Z''),
      db_fault = (\<lambda>n. None),
      db_connect = (\<lambda>url. None),
      sqlx_display = (\<lambda>e. case e of SqlDatabase m \<Rightarrow> m | RowNotFound \<Rightarrow> ''no rows'' | SqlOther m \<Rightarrow> m),
      argon2_hash = (\<lambda>p s. Inr (CHR ''$'' # p)),
      phc_parse = (\<lambda>h. if starts_with h ''$'' then None else Some ''invalid hash''),
      argon2_verify = (\<lambda>p h. h = CHR ''$'' # p),
      base64_url_encode = (\<lambda>b. b),
      base64_decode = (\<lambda>s. Some s),
      to_bytes = (\<lambda>b n. if length b \<le> n then Some b else None),
      header_value_ok = list_all (\<lambda>c. (32::nat) \<le> of_char c \<and> of_char c \<noteq> (127::nat)),
      path_decode = (\<lambda>s. Some s),
      path_rejection = text_response BAD_REQUEST ''Invalid URL'',
      route_not_found = \<lparr>resp_status = NOT_FOUND, resp_headers = [], resp_body = []\<rparr>,
      route_method_not_allowed =
        \<lparr>resp_status = METHOD_NOT_ALLOWED, resp_headers = [], resp_body = []\<rparr>,
      xml_read = (\<lambda>b. []),
      xml_write = (\<lambda>evs. concat (map (\<lambda>e. case e of OText t \<Rightarrow> t | ORaw t \<Rightarrow> t | _ \<Rightarrow> []) evs)),
      json_pretty = (\<lambda>v. case v of JString s \<Rightarrow> s | _ \<Rightarrow> ''{}''),
      json_vec = (\<lambda>v. case v of JString s \<Rightarrow> s | _ \<Rightarrow> ''{}''),
      rpc_from_slice = (\<lambda>b. Inl ''expected value'')\<rparr>"

lemma demo_no_faults: "no_faults demo_ext"
  by (simp add: demo_ext_def no_faults_def)

lemma demo_uuids_distinct: "uuids_distinct demo_ext"
  by (auto simp: demo_ext_def uuids_distinct_def inj_def replicate_eq_replicate)

lemma demo_bodies_bounded: "bodies_bounded demo_ext"
  by (simp add: demo_ext_def bodies_bounded_def)

lemma demo_hashing_sound: "hashing_sound demo_ext"
  by (auto simp: demo_ext_def hashing_sound_def starts_with_def)

lemma demo_hashing_total: "hashing_total demo_ext"
  by (simp add: demo_ext_def hashing_total_def)

lemma demo_headers_sound: "headers_sound demo_ext"
  by (auto simp: demo_ext_def headers_sound_def printable_def list_all_iff)

lemma demo_uuids_printable: "uuids_printable demo_ext"
  by (simp add: demo_ext_def uuids_printable_def printable_def list_all_iff)

lemma demo_framework_statuses: "framework_statuses demo_ext"
  by (simp add: demo_ext_def framework_statuses_def)

end
