(* ===== verification/Database.thy ===== *)
theory Database
  imports Externals "HOL-Library.Option_ord"
begin

text \<open>
  The shared state: the six tables of \<open>migrations/001_initial.sql\<close> with the row types of
  \<open>src/db/models.rs\<close>, the MCP sessions, and the counter of external calls. Each SQL statement
  that changes a table is one atomic function; the constraints the schema declares (primary
  keys, unique columns, foreign keys with their cascades) are checked as SQLite checks them,
  and \<open>db_inv\<close> states them of a whole state. A statement may also fail as a whole without any
  effect, when \<open>db_fault\<close> says so.
\<close>

section \<open>Rows\<close>

record User =
  u_id :: string
  u_username :: string
  u_email :: "string option"
  u_password_hash :: string
  u_created_at :: string

record Calendar =
  c_id :: string
  c_owner_id :: string
  c_name :: string
  c_description :: string
  c_color :: string
  c_timezone :: string
  c_ctag :: string
  c_sync_token :: string
  c_created_at :: string
  c_updated_at :: string

record CalendarObject =
  o_id :: string
  o_calendar_id :: string
  o_uid :: string
  o_etag :: string
  o_ical_data :: string
  o_component_type :: string
  o_dtstart :: "string option"
  o_dtend :: "string option"
  o_summary :: "string option"
  o_created_at :: string
  o_updated_at :: string

record CalendarShare =
  s_id :: string
  s_calendar_id :: string
  s_user_id :: string
  s_permission :: string
  s_created_at :: string

record SyncChange =
  x_id :: int
  x_calendar_id :: string
  x_object_uid :: string
  x_change_type :: string
  x_sync_token :: string
  x_created_at :: string

record McpToken =
  t_id :: string
  t_user_id :: string
  t_token_hash :: string
  t_name :: string
  t_created_at :: string
  t_expires_at :: "string option"

datatype Permission = Read | ReadWrite

definition perm_as_str :: "Permission \<Rightarrow> string" where
  "perm_as_str p = (case p of Read \<Rightarrow> ''read'' | ReadWrite \<Rightarrow> ''read-write'')"

definition perm_from_str_value :: "string \<Rightarrow> Permission option" where
  "perm_from_str_value s =
     (if s = ''read'' then Some Read else if s = ''read-write'' then Some ReadWrite else None)"

definition can_write :: "Permission \<Rightarrow> bool" where
  "can_write p = (case p of ReadWrite \<Rightarrow> True | _ \<Rightarrow> False)"

instantiation Permission :: linorder
begin

definition less_eq_Permission :: "Permission \<Rightarrow> Permission \<Rightarrow> bool" where
  "less_eq_Permission p q = (can_write p \<longrightarrow> can_write q)"

definition less_Permission :: "Permission \<Rightarrow> Permission \<Rightarrow> bool" where
  "less_Permission p q = (\<not> can_write p \<and> can_write q)"

instance
proof
  fix p q r :: Permission
  show "(p < q) = (p \<le> q \<and> \<not> q \<le> p)"
    by (auto simp: less_Permission_def less_eq_Permission_def)
  show "p \<le> p" by (simp add: less_eq_Permission_def)
  show "p \<le> q \<Longrightarrow> q \<le> r \<Longrightarrow> p \<le> r" by (simp add: less_eq_Permission_def)
  show "p \<le> q \<Longrightarrow> q \<le> p \<Longrightarrow> p = q"
    by (cases p; cases q) (simp_all add: less_eq_Permission_def can_write_def)
  show "p \<le> q \<or> q \<le> p" by (auto simp: less_eq_Permission_def)
qed

end

section \<open>The state\<close>

record world =
  db_users :: "User list"
  db_calendars :: "Calendar list"
  db_objects :: "CalendarObject list"
  db_shares :: "CalendarShare list"
  db_changes :: "SyncChange list"
  db_tokens :: "McpToken list"
  change_seq :: int
  mcp_sessions :: "(string \<times> string) list"
  ticks :: nat

definition init_world :: world where
  "init_world =
     \<lparr>db_users = [], db_calendars = [], db_objects = [], db_shares = [], db_changes = [],
      db_tokens = [], change_seq = 0, mcp_sessions = [], ticks = 0\<rparr>"

definition tick :: "world \<Rightarrow> world" where
  "tick w = w\<lparr>ticks := Suc (ticks w)\<rparr>"

type_synonym 'a stmt = "world \<Rightarrow> (sqlx_error + 'a) \<times> world"
type_synonym 'a app = "(world, AppError + 'a) prog"

text \<open>A statement is sent to the database and either fails as a whole or is executed.\<close>

definition exec :: "ext \<Rightarrow> 'a stmt \<Rightarrow> (world, sqlx_error + 'a) prog" where
  "exec E q = atomic (\<lambda>w. case db_fault E (ticks w) of Some e \<Rightarrow> (Inl e, tick w) | None \<Rightarrow> q (tick w))"

text \<open>\<open>....await?\<close> on a statement: the driver's error becomes \<open>AppError::Database\<close>.\<close>

definition query :: "ext \<Rightarrow> 'a stmt \<Rightarrow> 'a app" where
  "query E q = map_errE Database (exec E q)"

definition select :: "(world \<Rightarrow> 'a) \<Rightarrow> 'a stmt" where
  "select f w = (Inr (f w), w)"

text \<open>\<open>fetch_one\<close>: no row is an error.\<close>

definition select_one :: "(world \<Rightarrow> 'a option) \<Rightarrow> 'a stmt" where
  "select_one f w = (case f w of None \<Rightarrow> Inl RowNotFound | Some x \<Rightarrow> Inr x, w)"

text \<open>One draw from a random source or a clock.\<close>

definition draw :: "(nat \<Rightarrow> 'a) \<Rightarrow> (world, 'a) prog" where
  "draw f = atomic (\<lambda>w. (f (ticks w), tick w))"

section \<open>Statements that change a table\<close>

definition unique_failed :: "string \<Rightarrow> sqlx_error" where
  "unique_failed col = SqlDatabase (''UNIQUE constraint failed: '' @ col)"

definition foreign_key_failed :: sqlx_error where
  "foreign_key_failed = SqlDatabase ''FOREIGN KEY constraint failed''"

definition check_failed :: "string \<Rightarrow> sqlx_error" where
  "check_failed col = SqlDatabase (''CHECK constraint failed: '' @ col)"

definition permission_check :: "string \<Rightarrow> bool" where
  "permission_check p = (p \<in> {''read'', ''read-write''})"

definition change_type_check :: "string \<Rightarrow> bool" where
  "change_type_check t = (t \<in> {''created'', ''modified'', ''deleted''})"

definition user_exists :: "world \<Rightarrow> string \<Rightarrow> bool" where
  "user_exists w i = (i \<in> set (map u_id (db_users w)))"

definition calendar_exists :: "world \<Rightarrow> string \<Rightarrow> bool" where
  "calendar_exists w i = (i \<in> set (map c_id (db_calendars w)))"

definition insert_user :: "User \<Rightarrow> unit stmt" where
  "insert_user r w =
     (if u_id r \<in> set (map u_id (db_users w)) then (Inl (unique_failed ''users.id''), w)
      else if u_username r \<in> set (map u_username (db_users w))
        then (Inl (unique_failed ''users.username''), w)
      else (Inr (), w\<lparr>db_users := db_users w @ [r]\<rparr>))"

definition update_password :: "string \<Rightarrow> string \<Rightarrow> nat stmt" where
  "update_password hash username w =
     (Inr (length (filter (\<lambda>u. u_username u = username) (db_users w))),
      w\<lparr>db_users := map (\<lambda>u. if u_username u = username then u\<lparr>u_password_hash := hash\<rparr> else u)
                        (db_users w)\<rparr>)"

definition insert_calendar :: "Calendar \<Rightarrow> unit stmt" where
  "insert_calendar r w =
     (if c_id r \<in> set (map c_id (db_calendars w)) then (Inl (unique_failed ''calendars.id''), w)
      else if \<not> user_exists w (c_owner_id r) then (Inl foreign_key_failed, w)
      else (Inr (), w\<lparr>db_calendars := db_calendars w @ [r]\<rparr>))"

text \<open>The two UPDATE statements on a calendar; both set \<open>updated_at\<close> to the current time.\<close>

definition update_calendar_props ::
  "ext \<Rightarrow> string \<Rightarrow> string \<Rightarrow> string \<Rightarrow> string \<Rightarrow> string \<Rightarrow> unit stmt" where
  "update_calendar_props E name description color timezone i w =
     (Inr (),
      w\<lparr>db_calendars := map (\<lambda>c. if c_id c = i
            then c\<lparr>c_name := name, c_description := description, c_color := color,
                   c_timezone := timezone, c_updated_at := datetime_now E (ticks w)\<rparr>
            else c) (db_calendars w)\<rparr>)"

definition update_calendar_tokens :: "ext \<Rightarrow> string \<Rightarrow> string \<Rightarrow> unit stmt" where
  "update_calendar_tokens E token i w =
     (Inr (),
      w\<lparr>db_calendars := map (\<lambda>c. if c_id c = i
            then c\<lparr>c_ctag := token, c_sync_token := token, c_updated_at := datetime_now E (ticks w)\<rparr>
            else c) (db_calendars w)\<rparr>)"

text \<open>Deleting a calendar deletes its objects, shares and changes (ON DELETE CASCADE).\<close>

definition delete_calendar_row :: "string \<Rightarrow> nat stmt" where
  "delete_calendar_row i w =
     (Inr (length (filter (\<lambda>c. c_id c = i) (db_calendars w))),
      w\<lparr>db_calendars := filter (\<lambda>c. c_id c \<noteq> i) (db_calendars w),
        db_objects := filter (\<lambda>ob. o_calendar_id ob \<noteq> i) (db_objects w),
        db_shares := filter (\<lambda>s. s_calendar_id s \<noteq> i) (db_shares w),
        db_changes := filter (\<lambda>x. x_calendar_id x \<noteq> i) (db_changes w)\<rparr>)"

abbreviation obj_key :: "CalendarObject \<Rightarrow> string \<times> string" where
  "obj_key ob \<equiv> (o_calendar_id ob, o_uid ob)"

definition insert_object :: "CalendarObject \<Rightarrow> unit stmt" where
  "insert_object r w =
     (if o_id r \<in> set (map o_id (db_objects w)) then (Inl (unique_failed ''calendar_objects.id''), w)
      else if obj_key r \<in> set (map obj_key (db_objects w))
        then (Inl (unique_failed ''calendar_objects.calendar_id, calendar_objects.uid''), w)
      else if \<not> calendar_exists w (o_calendar_id r) then (Inl foreign_key_failed, w)
      else (Inr (), w\<lparr>db_objects := db_objects w @ [r]\<rparr>))"

definition update_object_row ::
  "ext \<Rightarrow> string \<Rightarrow> string \<Rightarrow> string \<Rightarrow> string option \<Rightarrow> string option \<Rightarrow> string option \<Rightarrow>
   string \<Rightarrow> string \<Rightarrow> unit stmt" where
  "update_object_row E etag ical_data component_type dtstart dtend summary cid uid w =
     (Inr (),
      w\<lparr>db_objects := map (\<lambda>ob. if obj_key ob = (cid, uid)
            then ob\<lparr>o_etag := etag, o_ical_data := ical_data, o_component_type := component_type,
                    o_dtstart := dtstart, o_dtend := dtend, o_summary := summary,
                    o_updated_at := datetime_now E (ticks w)\<rparr>
            else ob) (db_objects w)\<rparr>)"

definition delete_object_row :: "string \<Rightarrow> string \<Rightarrow> nat stmt" where
  "delete_object_row cid uid w =
     (Inr (length (filter (\<lambda>ob. obj_key ob = (cid, uid)) (db_objects w))),
      w\<lparr>db_objects := filter (\<lambda>ob. obj_key ob \<noteq> (cid, uid)) (db_objects w)\<rparr>)"

abbreviation share_key :: "CalendarShare \<Rightarrow> string \<times> string" where
  "share_key s \<equiv> (s_calendar_id s, s_user_id s)"

text \<open>INSERT ... ON CONFLICT(calendar_id, user_id) DO UPDATE SET permission.\<close>

definition upsert_share :: "CalendarShare \<Rightarrow> unit stmt" where
  "upsert_share r w =
     (if \<not> permission_check (s_permission r) then (Inl (check_failed ''permission''), w)
      else if share_key r \<in> set (map share_key (db_shares w))
        then (Inr (), w\<lparr>db_shares := map (\<lambda>s. if share_key s = share_key r
                then s\<lparr>s_permission := s_permission r\<rparr> else s) (db_shares w)\<rparr>)
      else if s_id r \<in> set (map s_id (db_shares w)) then (Inl (unique_failed ''calendar_shares.id''), w)
      else if \<not> (calendar_exists w (s_calendar_id r) \<and> user_exists w (s_user_id r))
        then (Inl foreign_key_failed, w)
      else (Inr (), w\<lparr>db_shares := db_shares w @ [r]\<rparr>))"

definition delete_share_row :: "string \<Rightarrow> string \<Rightarrow> nat stmt" where
  "delete_share_row cid uid w =
     (Inr (length (filter (\<lambda>s. share_key s = (cid, uid)) (db_shares w))),
      w\<lparr>db_shares := filter (\<lambda>s. share_key s \<noteq> (cid, uid)) (db_shares w)\<rparr>)"

text \<open>The id is AUTOINCREMENT: one more than any id the table ever had.\<close>

definition insert_change :: "SyncChange \<Rightarrow> unit stmt" where
  "insert_change r w =
     (if \<not> change_type_check (x_change_type r) then (Inl (check_failed ''change_type''), w)
      else if \<not> calendar_exists w (x_calendar_id r) then (Inl foreign_key_failed, w)
      else (Inr (), w\<lparr>db_changes := db_changes w @ [r\<lparr>x_id := change_seq w + 1\<rparr>],
                      change_seq := change_seq w + 1\<rparr>))"

definition insert_token :: "McpToken \<Rightarrow> unit stmt" where
  "insert_token r w =
     (if t_id r \<in> set (map t_id (db_tokens w)) then (Inl (unique_failed ''mcp_tokens.id''), w)
      else if \<not> user_exists w (t_user_id r) then (Inl foreign_key_failed, w)
      else (Inr (), w\<lparr>db_tokens := db_tokens w @ [r]\<rparr>))"

definition delete_token_row :: "string \<Rightarrow> nat stmt" where
  "delete_token_row i w =
     (Inr (length (filter (\<lambda>t. t_id t = i) (db_tokens w))),
      w\<lparr>db_tokens := filter (\<lambda>t. t_id t \<noteq> i) (db_tokens w)\<rparr>)"

lemmas stmt_defs =
  insert_user_def update_password_def insert_calendar_def update_calendar_props_def
  update_calendar_tokens_def
  delete_calendar_row_def insert_object_def update_object_row_def delete_object_row_def
  upsert_share_def delete_share_row_def insert_change_def insert_token_def delete_token_row_def

section \<open>Execution without faults\<close>

lemma run_exec: "no_faults E \<Longrightarrow> run (exec E q) w = q (tick w)"
  by (simp add: exec_def run_atomic no_faults_def)

lemma run_query:
  "no_faults E \<Longrightarrow>
   run (query E q) w = (case q (tick w) of (Inl e, w') \<Rightarrow> (Inl (Database e), w') | (Inr x, w') \<Rightarrow> (Inr x, w'))"
  by (simp add: query_def run_map_errE run_exec)

lemma run_select: "no_faults E \<Longrightarrow> run (query E (select f)) w = (Inr (f (tick w)), tick w)"
  by (simp add: run_query select_def)

lemma run_draw [run_simps]: "run (draw f) w = (f (ticks w), tick w)"
  by (simp add: draw_def run_atomic)

lemma tick_simps [simp]:
  "db_users (tick w) = db_users w" "db_calendars (tick w) = db_calendars w"
  "db_objects (tick w) = db_objects w" "db_shares (tick w) = db_shares w"
  "db_changes (tick w) = db_changes w" "db_tokens (tick w) = db_tokens w"
  "change_seq (tick w) = change_seq w" "mcp_sessions (tick w) = mcp_sessions w"
  "ticks (tick w) = Suc (ticks w)"
  by (simp_all add: tick_def)

lemma exists_tick [simp]:
  "user_exists (tick w) i = user_exists w i" "calendar_exists (tick w) i = calendar_exists w i"
  by (simp_all add: user_exists_def calendar_exists_def)

text \<open>Two states hold the same data: only the counter of external calls may differ.\<close>

definition same_data :: "world \<Rightarrow> world \<Rightarrow> bool" where
  "same_data w v \<longleftrightarrow> v\<lparr>ticks := ticks w\<rparr> = w"

lemma same_data_refl [simp]: "same_data w w"
  by (simp add: same_data_def)

lemma same_data_iff:
  "same_data w v \<longleftrightarrow>
     db_users v = db_users w \<and> db_calendars v = db_calendars w \<and> db_objects v = db_objects w \<and>
     db_shares v = db_shares w \<and> db_changes v = db_changes w \<and> db_tokens v = db_tokens w \<and>
     change_seq v = change_seq w \<and> mcp_sessions v = mcp_sessions w"
  by (cases w; cases v) (auto simp: same_data_def)

lemma same_data_tick_left [simp]: "same_data (tick w) v = same_data w v"
  by (simp add: same_data_iff)

lemma same_data_trans: "same_data u v \<Longrightarrow> same_data v w \<Longrightarrow> same_data u w"
  by (simp add: same_data_iff)

lemma same_data_tick [simp]: "same_data w (tick v) = same_data w v"
  by (simp add: same_data_def tick_def)

end
