(* ===== verification/Ical_Parser.thy ===== *)
theory Ical_Parser
  imports Rust_Str
begin

text \<open>
  \<open>src/ical/parser.rs\<close>: the line-based extraction of the fields that are stored beside the raw
  iCalendar text.
\<close>

section \<open>Definitions\<close>

record IcalFields =
  i_uid :: "string option"
  i_dtstart :: "string option"
  i_dtend :: "string option"
  i_summary :: "string option"
  i_component_type :: string

text \<open>Unfolding: a line that starts with a space or a tab continues the line before it. The loop
  keeps the lines finished so far and the current line.\<close>

fun unfold_loop :: "string list \<Rightarrow> string list \<Rightarrow> string \<Rightarrow> string list" where
  "unfold_loop [] result current = (if current = [] then result else result @ [current])"
| "unfold_loop (raw_line # rest) result current =
     (let line = trim_end_matches raw_line [cr]
      in if starts_with line '' '' \<or> starts_with line [tab]
         then unfold_loop rest result (current @ drop 1 line)
         else unfold_loop rest (if current = [] then result else result @ [current]) line)"

definition unfold_lines :: "string \<Rightarrow> string list" where
  "unfold_lines data = unfold_loop (str_lines data) [] []"

text \<open>\<open>NAME:value\<close>, or \<open>NAME;parameters:value\<close>.\<close>

definition extract_property :: "string \<Rightarrow> string \<Rightarrow> string option" where
  "extract_property line name =
     (case strip_prefix line name of
        None \<Rightarrow> None
      | Some rest \<Rightarrow>
          (case strip_prefix rest '':'' of
             Some stripped \<Rightarrow> Some stripped
           | None \<Rightarrow>
               (if starts_with rest '';'' then map_option snd (split_once rest CHR '':'') else None)))"

text \<open>One turn of the loop of \<open>extract_fields\<close>: entering or leaving a component, then the first
  property that matches.\<close>

definition enter_component :: "string \<Rightarrow> bool \<times> IcalFields \<Rightarrow> bool \<times> IcalFields" where
  "enter_component line st =
     (case st of (in_component, fs) \<Rightarrow>
        if starts_with line ''BEGIN:VEVENT'' then (True, fs\<lparr>i_component_type := ''VEVENT''\<rparr>)
        else if starts_with line ''BEGIN:VTODO'' then (True, fs\<lparr>i_component_type := ''VTODO''\<rparr>)
        else if starts_with line ''END:VEVENT'' \<or> starts_with line ''END:VTODO'' then (False, fs)
        else (in_component, fs))"

definition read_property :: "string \<Rightarrow> IcalFields \<Rightarrow> IcalFields" where
  "read_property line fs =
     (case extract_property line ''UID'' of Some v \<Rightarrow> fs\<lparr>i_uid := Some v\<rparr> | None \<Rightarrow>
     (case extract_property line ''DTSTART'' of Some v \<Rightarrow> fs\<lparr>i_dtstart := Some v\<rparr> | None \<Rightarrow>
     (case extract_property line ''DTEND'' of Some v \<Rightarrow> fs\<lparr>i_dtend := Some v\<rparr> | None \<Rightarrow>
     (case extract_property line ''DUE'' of
        Some v \<Rightarrow> (if i_dtend fs = None then fs\<lparr>i_dtend := Some v\<rparr> else fs) | None \<Rightarrow>
     (case extract_property line ''SUMMARY'' of Some v \<Rightarrow> fs\<lparr>i_summary := Some v\<rparr> | None \<Rightarrow> fs)))))"

definition field_step :: "bool \<times> IcalFields \<Rightarrow> string \<Rightarrow> bool \<times> IcalFields" where
  "field_step st raw =
     (let line = trim raw; (in_component, fs) = enter_component line st
      in if \<not> in_component \<and> \<not> starts_with line ''UID'' then (in_component, fs)
         else (in_component, read_property line fs))"

definition no_fields :: IcalFields where
  "no_fields = \<lparr>i_uid = None, i_dtstart = None, i_dtend = None, i_summary = None,
                i_component_type = ''VEVENT''\<rparr>"

definition extract_fields :: "string \<Rightarrow> IcalFields" where
  "extract_fields ical_data = snd (foldl field_step (False, no_fields) (unfold_lines ical_data))"

end
