(* ===== verification/Ical_Builder.thy ===== *)
theory Ical_Builder
  imports Ical_Parser
begin

text \<open>
  \<open>src/ical/builder.rs\<close>: the iCalendar text of an event created through the MCP tools. The time
  stamp and the UID come from the clock and the random source, and are arguments here.
\<close>

section \<open>Definitions\<close>

definition vtimezone_std_offset :: "string \<Rightarrow> string" where
  "vtimezone_std_offset tz =
     ''TZOFFSETFROM:'' @
     (if tz \<in> {''America/Los_Angeles'', ''America/Vancouver''} then ''-0800''
      else if tz \<in> {''America/Denver'', ''America/Phoenix''} then ''-0700''
      else if tz = ''America/Chicago'' then ''-0600''
      else if tz \<in> {''America/New_York'', ''America/Toronto''} then ''-0500''
      else if tz = ''Europe/London'' then ''+0000''
      else if tz \<in> {''Europe/Paris'', ''Europe/Berlin'', ''Europe/Rome''} then ''+0100''
      else if tz = ''Asia/Tokyo'' then ''+0900''
      else if tz = ''Australia/Sydney'' then ''+1100''
      else ''+0000'')"

definition vtimezone_dst_offset :: "string \<Rightarrow> string" where
  "vtimezone_dst_offset tz =
     ''TZOFFSETTO:'' @
     (if tz \<in> {''America/Los_Angeles'', ''America/Vancouver''} then ''-0700''
      else if tz = ''America/Denver'' then ''-0600''
      else if tz = ''America/Chicago'' then ''-0500''
      else if tz \<in> {''America/New_York'', ''America/Toronto''} then ''-0400''
      else if tz = ''Europe/London'' then ''+0100''
      else if tz \<in> {''Europe/Paris'', ''Europe/Berlin'', ''Europe/Rome''} then ''+0200''
      else if tz \<in> {''Asia/Tokyo'', ''America/Phoenix''} then ''+0900''
      else if tz = ''Australia/Sydney'' then ''+1100''
      else ''+0000'')"

definition vtimezone_lines :: "string \<Rightarrow> string list" where
  "vtimezone_lines tz =
     [''BEGIN:VTIMEZONE'', ''TZID:'' @ tz,
      ''BEGIN:STANDARD'', ''DTSTART:19671029T020000'', ''RRULE:FREQ=YEARLY;BYDAY=1SU;BYMONTH=11'',
      vtimezone_std_offset tz, vtimezone_dst_offset tz, ''END:STANDARD'',
      ''BEGIN:DAYLIGHT'', ''DTSTART:20070311T020000'', ''RRULE:FREQ=YEARLY;BYDAY=2SU;BYMONTH=3'',
      vtimezone_dst_offset tz, vtimezone_std_offset tz, ''END:DAYLIGHT'',
      ''END:VTIMEZONE'']"

definition vevent_lines ::
  "string \<Rightarrow> string \<Rightarrow> string \<Rightarrow> string \<Rightarrow> string \<Rightarrow> string option \<Rightarrow> string option \<Rightarrow> string option \<Rightarrow>
   string list" where
  "vevent_lines now uid summary dtstart dtend description location timezone =
     [''BEGIN:VCALENDAR'', ''VERSION:2.0'', ''PRODID:-//CalDAV Server//EN''] @
     (case timezone of Some tz \<Rightarrow> vtimezone_lines tz | None \<Rightarrow> []) @
     [''BEGIN:VEVENT'', ''UID:'' @ uid, ''DTSTAMP:'' @ now] @
     (case timezone of
        Some tz \<Rightarrow> [''DTSTART;TZID='' @ tz @ '':'' @ dtstart, ''DTEND;TZID='' @ tz @ '':'' @ dtend]
      | None \<Rightarrow> [''DTSTART:'' @ dtstart, ''DTEND:'' @ dtend]) @
     [''SUMMARY:'' @ summary] @
     (case description of Some d \<Rightarrow> [''DESCRIPTION:'' @ d] | None \<Rightarrow> []) @
     (case location of Some l \<Rightarrow> [''LOCATION:'' @ l] | None \<Rightarrow> []) @
     [''END:VEVENT'', ''END:VCALENDAR'']"

definition build_vevent ::
  "string \<Rightarrow> string \<Rightarrow> string \<Rightarrow> string \<Rightarrow> string \<Rightarrow> string option \<Rightarrow> string option \<Rightarrow> string option \<Rightarrow>
   string" where
  "build_vevent now uid summary dtstart dtend description location timezone =
     join (vevent_lines now uid summary dtstart dtend description location timezone) [cr, nl] @ [cr, nl]"

definition uid_of :: "string \<Rightarrow> string" where
  "uid_of uuid = uuid @ ''@caldav-server''"

end
