(* ===== verification/Object_Text.thy ===== *)
theory Object_Text
  imports Database Ical_Builder
begin

text \<open>
  The columns that are stored beside the text of a calendar object: \<open>ObjectFields\<close> of
  \<open>src/db/events.rs\<close>, how PUT reads them from the text (\<open>src/caldav/put.rs\<close>) and how the event tools
  fill them (\<open>src/mcp/tools\<close>).
\<close>

section \<open>Definitions\<close>

record ObjectFields =
  f_component_type :: string
  f_dtstart :: "string option"
  f_dtend :: "string option"
  f_summary :: "string option"

definition put_fields :: "IcalFields \<Rightarrow> ObjectFields" where
  "put_fields fs =
     \<lparr>f_component_type = i_component_type fs, f_dtstart = i_dtstart fs, f_dtend = i_dtend fs,
      f_summary = i_summary fs\<rparr>"

definition put_uid :: "string \<Rightarrow> string \<Rightarrow> string" where
  "put_uid filename ical_data =
     (case i_uid (extract_fields ical_data) of
        Some u \<Rightarrow> u | None \<Rightarrow> trim_end_matches filename ''.ics'')"

definition event_fields :: "string \<Rightarrow> string \<Rightarrow> string \<Rightarrow> ObjectFields" where
  "event_fields title start stop =
     \<lparr>f_component_type = ''VEVENT'', f_dtstart = Some start, f_dtend = Some stop, f_summary = Some title\<rparr>"

lemma fields_eta [simp]:
  "\<lparr>f_component_type = f_component_type f, f_dtstart = f_dtstart f, f_dtend = f_dtend f, f_summary = f_summary f\<rparr> = f"
  by (cases f) simp

section \<open>Columns that describe the text\<close>

text \<open>The columns and the UID agree with the text: they were read from it, or it was built from them.\<close>

definition describes :: "string \<Rightarrow> string \<Rightarrow> ObjectFields \<Rightarrow> bool" where
  "describes uid data flds \<longleftrightarrow>
     flds = put_fields (extract_fields data) \<and> (case i_uid (extract_fields data) of Some u \<Rightarrow> uid = u | None \<Rightarrow> True) \<or>
     (\<exists>now title start stop description location timezone.
        data = build_vevent now uid title start stop description location timezone \<and>
        flds = event_fields title start stop)"

lemma describes_put [simp]: "describes (put_uid fname data) data (put_fields (extract_fields data))"
  by (simp add: describes_def put_uid_def split: option.split)

lemma describes_event [simp]:
  "describes uid (build_vevent now uid title start stop d l z) (event_fields title start stop)"
  unfolding describes_def by blast

definition object_fields :: "CalendarObject \<Rightarrow> ObjectFields" where
  "object_fields ob =
     \<lparr>f_component_type = o_component_type ob, f_dtstart = o_dtstart ob, f_dtend = o_dtend ob, f_summary = o_summary ob\<rparr>"

definition described :: "CalendarObject \<Rightarrow> bool" where
  "described ob \<longleftrightarrow> describes (o_uid ob) (o_ical_data ob) (object_fields ob)"

end
