(* ===== verification/Schema.thy ===== *)
theory Schema
  imports Object_Text
begin

text \<open>
  The integrity of the database: every constraint of \<open>migrations/001_initial.sql\<close> as a predicate
  on the state, and the contract \<open>stmt_invariant\<close> under which a property of the state survives
  every statement of the server. The theories of the components prove inside that contract that
  their operations keep the property whatever runs between their statements; it is interpreted
  for the integrity predicate and for the permanence of users.
\<close>

section \<open>Integrity\<close>

text \<open>A reference points to an existing row: the set of referring values is among the keys.\<close>

abbreviation user_ids :: "world \<Rightarrow> string set" where
  "user_ids w \<equiv> set (map u_id (db_users w))"

abbreviation calendar_ids :: "world \<Rightarrow> string set" where
  "calendar_ids w \<equiv> set (map c_id (db_calendars w))"

definition users_ok :: "world \<Rightarrow> bool" where
  "users_ok w \<longleftrightarrow> distinct (map u_id (db_users w)) \<and> distinct (map u_username (db_users w))"

definition calendars_ok :: "world \<Rightarrow> bool" where
  "calendars_ok w \<longleftrightarrow>
     distinct (map c_id (db_calendars w)) \<and> set (map c_owner_id (db_calendars w)) \<subseteq> user_ids w"

definition objects_ok :: "world \<Rightarrow> bool" where
  "objects_ok w \<longleftrightarrow>
     distinct (map o_id (db_objects w)) \<and> distinct (map obj_key (db_objects w)) \<and>
     set (map o_calendar_id (db_objects w)) \<subseteq> calendar_ids w"

definition shares_ok :: "world \<Rightarrow> bool" where
  "shares_ok w \<longleftrightarrow>
     distinct (map s_id (db_shares w)) \<and> distinct (map share_key (db_shares w)) \<and>
     set (map s_calendar_id (db_shares w)) \<subseteq> calendar_ids w \<and>
     set (map s_user_id (db_shares w)) \<subseteq> user_ids w \<and>
     list_all permission_check (map s_permission (db_shares w))"

definition changes_ok :: "world \<Rightarrow> bool" where
  "changes_ok w \<longleftrightarrow>
     sorted_wrt (<) (map x_id (db_changes w)) \<and>
     (\<forall>i \<in> set (map x_id (db_changes w)). i \<le> change_seq w) \<and>
     set (map x_calendar_id (db_changes w)) \<subseteq> calendar_ids w \<and>
     list_all change_type_check (map x_change_type (db_changes w))"

definition tokens_ok :: "world \<Rightarrow> bool" where
  "tokens_ok w \<longleftrightarrow>
     distinct (map t_id (db_tokens w)) \<and> set (map t_user_id (db_tokens w)) \<subseteq> user_ids w"

definition db_inv :: "world \<Rightarrow> bool" where
  "db_inv w \<longleftrightarrow> users_ok w \<and> calendars_ok w \<and> objects_ok w \<and> shares_ok w \<and> changes_ok w \<and> tokens_ok w"

lemmas ok_defs =
  users_ok_def calendars_ok_def objects_ok_def shares_ok_def changes_ok_def tokens_ok_def
  user_exists_def calendar_exists_def

section \<open>The contract of the statements\<close>

text \<open>The weaker contract suffices for everything that only reads: the counter may advance.\<close>

locale tick_invariant =
  fixes I :: "world \<Rightarrow> bool"
  assumes keep_tick: "I w \<Longrightarrow> I (tick w)"
begin

lemma safe_exec: "(\<And>w. I w \<Longrightarrow> I (snd (q w))) \<Longrightarrow> safe I (exec E q)"
  by (auto simp: exec_def keep_tick intro!: safe_atomic split: option.split)

lemma safe_query: "(\<And>w. I w \<Longrightarrow> I (snd (q w))) \<Longrightarrow> safe I (query E q)"
  by (auto simp: query_def intro!: safe_map_errE safe_exec)

lemma safe_select [safe_rules]: "safe I (query E (select f))"
  by (rule safe_query) (simp add: select_def)

lemma safe_select_one [safe_rules]: "safe I (query E (select_one f))"
  by (rule safe_query) (simp add: select_one_def)

lemma safe_draw [safe_rules]: "safe I (draw f)"
  by (auto simp: draw_def keep_tick intro!: safe_atomic)

end

locale stmt_invariant = tick_invariant +
  assumes keep_insert_user: "I w \<Longrightarrow> I (snd (insert_user u w))"
    and keep_update_password: "I w \<Longrightarrow> I (snd (update_password h n w))"
    and keep_insert_calendar: "I w \<Longrightarrow> I (snd (insert_calendar c w))"
    and keep_update_calendar_props: "I w \<Longrightarrow> I (snd (update_calendar_props E n d k z i w))"
    and keep_update_calendar_tokens: "I w \<Longrightarrow> I (snd (update_calendar_tokens E tk i w))"
    and keep_delete_calendar: "I w \<Longrightarrow> I (snd (delete_calendar_row i w))"
    and keep_insert_object: "I w \<Longrightarrow> described ob \<Longrightarrow> I (snd (insert_object ob w))"
    and keep_update_object: "I w \<Longrightarrow>
      describes uid ic \<lparr>f_component_type = ct, f_dtstart = ds, f_dtend = de, f_summary = sm\<rparr> \<Longrightarrow>
      I (snd (update_object_row E e ic ct ds de sm cid uid w))"
    and keep_delete_object: "I w \<Longrightarrow> I (snd (delete_object_row cid uid w))"
    and keep_upsert_share: "I w \<Longrightarrow> I (snd (upsert_share s w))"
    and keep_delete_share: "I w \<Longrightarrow> I (snd (delete_share_row cid uid w))"
    and keep_insert_change: "I w \<Longrightarrow> I (snd (insert_change x w))"
    and keep_insert_token: "I w \<Longrightarrow> I (snd (insert_token t w))"
    and keep_delete_token: "I w \<Longrightarrow> I (snd (delete_token_row i w))"
    and keep_sessions: "I w \<Longrightarrow> I (w\<lparr>mcp_sessions := ss\<rparr>)"

text \<open>Between the two: the contract of the statements that change the objects of one calendar.\<close>

locale object_stmts = tick_invariant +
  fixes cid :: string
  assumes keep_object_insert: "I w \<Longrightarrow> o_calendar_id ob = cid \<Longrightarrow> described ob \<Longrightarrow> I (snd (insert_object ob w))"
    and keep_object_update: "I w \<Longrightarrow>
      describes uid ic \<lparr>f_component_type = ct, f_dtstart = ds, f_dtend = de, f_summary = sm\<rparr> \<Longrightarrow>
      I (snd (update_object_row E e ic ct ds de sm cid uid w))"
    and keep_object_delete: "I w \<Longrightarrow> I (snd (delete_object_row cid uid w))"
    and keep_object_change: "I w \<Longrightarrow> x_calendar_id x = cid \<Longrightarrow> I (snd (insert_change x w))"
    and keep_object_tags: "I w \<Longrightarrow> I (snd (update_calendar_tokens E tk cid w))"

sublocale stmt_invariant \<subseteq> object_at: object_stmts I cid for cid
  by unfold_locales
    (simp_all add: keep_insert_object keep_update_object keep_delete_object keep_insert_change
      keep_update_calendar_tokens)

section \<open>Integrity is kept by every statement\<close>

text \<open>An UPDATE that leaves a column alone leaves the list of its values alone.\<close>

lemma map_upd_column:
  "(\<And>x. k (f x) = k x) \<Longrightarrow> map k (map (\<lambda>x. if P x then f x else x) xs) = map k xs"
  by (induction xs) auto

lemma sorted_wrt_map_filter: "sorted_wrt R (map f xs) \<Longrightarrow> sorted_wrt R (map f (filter P xs))"
  by (induction xs) auto

lemma db_inv_tick [simp]: "db_inv (tick w) = db_inv w"
  by (simp add: db_inv_def ok_defs)

lemma db_inv_sessions [simp]: "db_inv (w\<lparr>mcp_sessions := ss\<rparr>) = db_inv w"
  by (simp add: db_inv_def ok_defs)

lemma db_inv_insert_user: "db_inv w \<Longrightarrow> db_inv (snd (insert_user u w))"
  by (auto simp: db_inv_def ok_defs insert_user_def)

lemma db_inv_update_password: "db_inv w \<Longrightarrow> db_inv (snd (update_password h n w))"
  by (simp add: db_inv_def ok_defs update_password_def map_upd_column del: map_map set_map)

lemma db_inv_insert_calendar: "db_inv w \<Longrightarrow> db_inv (snd (insert_calendar c w))"
  by (auto simp: db_inv_def ok_defs insert_calendar_def)

lemma db_inv_update_calendar_props: "db_inv w \<Longrightarrow> db_inv (snd (update_calendar_props E n d k z i w))"
  by (simp add: db_inv_def ok_defs update_calendar_props_def map_upd_column del: map_map set_map)

lemma db_inv_update_calendar_tokens: "db_inv w \<Longrightarrow> db_inv (snd (update_calendar_tokens E tk i w))"
  by (simp add: db_inv_def ok_defs update_calendar_tokens_def map_upd_column del: map_map set_map)

lemma db_inv_delete_calendar: "db_inv w \<Longrightarrow> db_inv (snd (delete_calendar_row i w))"
  by (auto simp: db_inv_def ok_defs delete_calendar_row_def distinct_map_filter sorted_wrt_map_filter
      list_all_iff)

lemma db_inv_insert_object: "db_inv w \<Longrightarrow> db_inv (snd (insert_object ob w))"
  by (auto simp: db_inv_def ok_defs insert_object_def)

lemma db_inv_update_object: "db_inv w \<Longrightarrow> db_inv (snd (update_object_row E e ic ct ds de sm cid uid w))"
  by (simp add: db_inv_def ok_defs update_object_row_def map_upd_column del: map_map set_map)

lemma db_inv_delete_object: "db_inv w \<Longrightarrow> db_inv (snd (delete_object_row cid uid w))"
  by (auto simp: db_inv_def ok_defs delete_object_row_def distinct_map_filter)

lemma db_inv_upsert_share: "db_inv w \<Longrightarrow> db_inv (snd (upsert_share s w))"
proof (cases "share_key s \<in> set (map share_key (db_shares w))")
  case True
  have perms: "list_all permission_check (map s_permission
      (map (\<lambda>t. if share_key t = share_key s then t\<lparr>s_permission := s_permission s\<rparr> else t) xs))"
    if "permission_check (s_permission s)" "list_all permission_check (map s_permission xs)" for xs
    using that by (induction xs) auto
  show "db_inv w \<Longrightarrow> db_inv (snd (upsert_share s w))"
    using True perms
    by (simp add: db_inv_def ok_defs upsert_share_def map_upd_column del: map_map set_map)
next
  case False
  then show "db_inv w \<Longrightarrow> db_inv (snd (upsert_share s w))"
    by (auto simp: db_inv_def ok_defs upsert_share_def)
qed

lemma db_inv_delete_share: "db_inv w \<Longrightarrow> db_inv (snd (delete_share_row cid uid w))"
  by (auto simp: db_inv_def ok_defs delete_share_row_def distinct_map_filter list_all_iff)

lemma db_inv_insert_change: "db_inv w \<Longrightarrow> db_inv (snd (insert_change x w))"
  by (auto simp: db_inv_def ok_defs insert_change_def sorted_wrt_append)

lemma db_inv_insert_token: "db_inv w \<Longrightarrow> db_inv (snd (insert_token t w))"
  by (auto simp: db_inv_def ok_defs insert_token_def)

lemma db_inv_delete_token: "db_inv w \<Longrightarrow> db_inv (snd (delete_token_row i w))"
  by (auto simp: db_inv_def ok_defs delete_token_row_def distinct_map_filter)

interpretation integrity: stmt_invariant db_inv
  by unfold_locales
    (simp_all add: db_inv_insert_user db_inv_update_password db_inv_insert_calendar
      db_inv_update_calendar_props db_inv_update_calendar_tokens db_inv_delete_calendar
      db_inv_insert_object db_inv_update_object db_inv_delete_object db_inv_upsert_share
      db_inv_delete_share db_inv_insert_change db_inv_insert_token db_inv_delete_token)

lemma db_inv_init: "db_inv init_world"
  by (simp add: db_inv_def ok_defs init_world_def)

text \<open>No statement removes a user.\<close>

interpretation user_kept: stmt_invariant "\<lambda>w. i \<in> user_ids w" for i
  by unfold_locales (auto simp: stmt_defs)

text \<open>The columns of every object describe its text.\<close>

definition texts_described :: "world \<Rightarrow> bool" where
  "texts_described w \<longleftrightarrow> list_all described (db_objects w)"

interpretation texts: stmt_invariant texts_described
  by unfold_locales
    (auto simp: texts_described_def stmt_defs list_all_iff described_def object_fields_def split: if_splits)

text \<open>Changing the objects of one calendar leaves everything else alone.\<close>

definition same_outside :: "world \<Rightarrow> string \<Rightarrow> world \<Rightarrow> bool" where
  "same_outside w cid v \<longleftrightarrow>
     db_users v = db_users w \<and> db_shares v = db_shares w \<and> db_tokens v = db_tokens w \<and>
     mcp_sessions v = mcp_sessions w \<and> map c_id (db_calendars v) = map c_id (db_calendars w) \<and>
     filter (\<lambda>c. c_id c \<noteq> cid) (db_calendars v) = filter (\<lambda>c. c_id c \<noteq> cid) (db_calendars w) \<and>
     filter (\<lambda>ob. o_calendar_id ob \<noteq> cid) (db_objects v) = filter (\<lambda>ob. o_calendar_id ob \<noteq> cid) (db_objects w) \<and>
     filter (\<lambda>x. x_calendar_id x \<noteq> cid) (db_changes v) = filter (\<lambda>x. x_calendar_id x \<noteq> cid) (db_changes w)"

lemma same_outside_refl [simp]: "same_outside w cid w"
  by (simp add: same_outside_def)

lemma filter_map_outside:
  "(\<And>x. k (f x) = k x) \<Longrightarrow> (\<And>x. P x \<Longrightarrow> k x = i) \<Longrightarrow>
   filter (\<lambda>x. k x \<noteq> i) (map (\<lambda>x. if P x then f x else x) xs) = filter (\<lambda>x. k x \<noteq> i) xs"
  by (induction xs) auto

interpretation confined: object_stmts "same_outside w cid" cid for w cid
proof unfold_locales
  show "same_outside w cid (snd (insert_object ob v))" if "same_outside w cid v" "o_calendar_id ob = cid" for ob v
    using that by (auto simp: insert_object_def same_outside_def)
  show "same_outside w cid (snd (update_object_row E e ic ct ds de sm cid uid v))" if "same_outside w cid v"
    for E e ic ct ds de sm uid v
  proof -
    have "filter (\<lambda>ob. o_calendar_id ob \<noteq> cid) (db_objects (snd (update_object_row E e ic ct ds de sm cid uid v)))
        = filter (\<lambda>ob. o_calendar_id ob \<noteq> cid) (db_objects v)"
      unfolding update_object_row_def by (simp, rule filter_map_outside) simp_all
    then show ?thesis using that by (simp add: same_outside_def) (simp add: update_object_row_def)
  qed
  show "same_outside w cid (snd (delete_object_row cid uid v))" if "same_outside w cid v" for uid v
  proof -
    have "filter (\<lambda>ob. o_calendar_id ob \<noteq> cid) (db_objects (snd (delete_object_row cid uid v)))
        = filter (\<lambda>ob. o_calendar_id ob \<noteq> cid) (db_objects v)"
      by (auto simp: delete_object_row_def intro!: filter_cong)
    then show ?thesis using that by (simp add: same_outside_def) (simp add: delete_object_row_def)
  qed
  show "same_outside w cid (snd (insert_change x v))" if "same_outside w cid v" "x_calendar_id x = cid" for x v
    using that by (auto simp: insert_change_def same_outside_def)
  show "same_outside w cid (snd (update_calendar_tokens E tk cid v))" if "same_outside w cid v" for E tk v
    using that by (simp add: update_calendar_tokens_def same_outside_def map_upd_column filter_other_upd del: map_map)
qed (simp add: same_outside_def)

text \<open>A program that only reads leaves the data as they are.\<close>

interpretation reading: tick_invariant "same_data w" for w
  by unfold_locales simp

section \<open>A small state\<close>

text \<open>Two users with a calendar each; the first calendar has one event and is shared for reading
  with the second user.\<close>

definition alice :: User where
  "alice = \<lparr>u_id = ''u1'', u_username = ''alice'', u_email = Some ''alice@example.com'',
     u_password_hash = ''$secret'', u_created_at = ''2026-01-01 00:00:00''\<rparr>"

definition bob :: User where
  "bob = \<lparr>u_id = ''u2'', u_username = ''bob'', u_email = None,
     u_password_hash = ''$hidden'', u_created_at = ''2026-01-02 00:00:00''\<rparr>"

definition work :: Calendar where
  "work = \<lparr>c_id = ''work'', c_owner_id = ''u1'', c_name = ''Work'', c_description = [], c_color = ''#0E61B9'',
     c_timezone = ''UTC'', c_ctag = ''data:,sync-w'', c_sync_token = ''data:,sync-w'',
     c_created_at = ''2026-01-01 00:00:00'', c_updated_at = ''2026-01-01 00:00:00''\<rparr>"

definition home :: Calendar where
  "home = \<lparr>c_id = ''home'', c_owner_id = ''u2'', c_name = ''Home'', c_description = [], c_color = ''#0E61B9'',
     c_timezone = ''UTC'', c_ctag = ''data:,sync-h'', c_sync_token = ''data:,sync-h'',
     c_created_at = ''2026-01-02 00:00:00'', c_updated_at = ''2026-01-02 00:00:00''\<rparr>"

definition standup :: CalendarObject where
  "standup = \<lparr>o_id = ''o1'', o_calendar_id = ''work'', o_uid = ''standup'', o_etag = dquoted ''e1'',
     o_ical_data = ''BEGIN:VEVENT'', o_component_type = ''VEVENT'', o_dtstart = Some ''20260301T090000Z'',
     o_dtend = Some ''20260301T093000Z'', o_summary = Some ''Standup'',
     o_created_at = ''2026-01-03 00:00:00'', o_updated_at = ''2026-01-03 00:00:00''\<rparr>"

definition work_for_bob :: CalendarShare where
  "work_for_bob = \<lparr>s_id = ''s1'', s_calendar_id = ''work'', s_user_id = ''u2'', s_permission = ''read'',
     s_created_at = ''2026-01-04 00:00:00''\<rparr>"

definition standup_created :: SyncChange where
  "standup_created = \<lparr>x_id = 1, x_calendar_id = ''work'', x_object_uid = ''standup'', x_change_type = ''created'',
     x_sync_token = ''data:,sync-c1'', x_created_at = ''2026-01-03 00:00:00''\<rparr>"

definition demo_world :: world where
  "demo_world =
     \<lparr>db_users = [alice, bob], db_calendars = [work, home], db_objects = [standup],
      db_shares = [work_for_bob], db_changes = [standup_created], db_tokens = [], change_seq = 1,
      mcp_sessions = [], ticks = 0\<rparr>"

lemmas demo_defs =
  demo_world_def alice_def bob_def work_def home_def standup_def work_for_bob_def standup_created_def

lemma demo_world_inv: "db_inv demo_world"
  by (simp add: db_inv_def ok_defs demo_defs permission_check_def change_type_check_def)

end
