(* ===== verification/Users.thy ===== *)
theory Users
  imports Schema
begin

text \<open>
  \<open>src/db/users.rs\<close>: creating users, looking them up, resetting and verifying passwords. The
  salt is drawn from the random source; hashing and verification are the Argon2 library.
\<close>

section \<open>Operations\<close>

definition hash_password :: "ext \<Rightarrow> string \<Rightarrow> string app" where
  "hash_password E password =
     bind (draw (salt_string E)) (\<lambda>salt.
       case argon2_hash E password salt of
         Inl e \<Rightarrow> errE (Internal (''Password hashing failed: '' @ e))
       | Inr hash \<Rightarrow> okE hash)"

definition verify_password :: "ext \<Rightarrow> string \<Rightarrow> string \<Rightarrow> AppError + bool" where
  "verify_password E password hash =
     (case phc_parse E hash of
        Some e \<Rightarrow> Inl (Internal (''Invalid password hash: '' @ e))
      | None \<Rightarrow> Inr (argon2_verify E password hash))"

definition get_user_by_username :: "ext \<Rightarrow> string \<Rightarrow> User option app" where
  "get_user_by_username E username =
     query E (select (\<lambda>w. find (\<lambda>u. u_username u = username) (db_users w)))"

definition get_user_by_id :: "ext \<Rightarrow> string \<Rightarrow> User option app" where
  "get_user_by_id E i = query E (select (\<lambda>w. find (\<lambda>u. u_id u = i) (db_users w)))"

definition get_user_by_email :: "ext \<Rightarrow> string \<Rightarrow> User option app" where
  "get_user_by_email E email =
     query E (select (\<lambda>w. find (\<lambda>u. u_email u = Some email) (db_users w)))"

text \<open>A failed UNIQUE constraint is a conflict, every other database error is passed on.\<close>

definition create_user_error :: "string \<Rightarrow> sqlx_error \<Rightarrow> AppError" where
  "create_user_error username e =
     (case e of
        SqlDatabase msg \<Rightarrow>
          if contains_str msg ''UNIQUE''
          then Conflict (''User '' @ squoted username @ '' already exists'')
          else Database e
      | _ \<Rightarrow> Database e)"

definition create_user :: "ext \<Rightarrow> string \<Rightarrow> string option \<Rightarrow> string \<Rightarrow> User app" where
  "create_user E username email password =
     bind (draw (uuid_v7 E)) (\<lambda>i.
     bindE (hash_password E password) (\<lambda>password_hash.
     bindE (map_errE (create_user_error username)
              (exec E (\<lambda>w. insert_user
                 \<lparr>u_id = i, u_username = username, u_email = email, u_password_hash = password_hash,
                  u_created_at = datetime_now E (ticks w)\<rparr> w))) (\<lambda>_.
     bindE (get_user_by_username E username) (\<lambda>user.
     ok_orE (Internal ''User created but not found'') user))))"

definition reset_password :: "ext \<Rightarrow> string \<Rightarrow> string \<Rightarrow> unit app" where
  "reset_password E username new_password =
     bindE (hash_password E new_password) (\<lambda>hash.
     bindE (query E (update_password hash username)) (\<lambda>rows.
       if rows = 0 then errE (Internal (''User '' @ squoted username @ '' not found''))
       else okE ()))"

text \<open>The login name is tried as a username first, then as an email address.\<close>

definition verify_user :: "ext \<Rightarrow> string \<Rightarrow> string \<Rightarrow> User option app" where
  "verify_user E username password =
     bindE (get_user_by_username E username) (\<lambda>by_name.
     bindE (case by_name of
              Some u \<Rightarrow> okE (Some u)
            | None \<Rightarrow> get_user_by_email E username) (\<lambda>found.
       case found of
         None \<Rightarrow> okE None
       | Some user \<Rightarrow>
           (case verify_password E password (u_password_hash user) of
              Inl e \<Rightarrow> errE e
            | Inr ok \<Rightarrow> okE (if ok then Some user else None))))"

lemmas users_defs [op_defs] =
  hash_password_def get_user_by_username_def get_user_by_id_def get_user_by_email_def
  create_user_def reset_password_def verify_user_def

section \<open>Every interleaving keeps an invariant of the statements\<close>

context tick_invariant
begin

lemma safe_get_user_by_username [safe_rules]: "safe I (get_user_by_username E n)"
  unfolding get_user_by_username_def by (rule safe_select)

lemma safe_get_user_by_id [safe_rules]: "safe I (get_user_by_id E n)"
  unfolding get_user_by_id_def by (rule safe_select)

lemma safe_get_user_by_email [safe_rules]: "safe I (get_user_by_email E n)"
  unfolding get_user_by_email_def by (rule safe_select)

lemma safe_hash_password [safe_rules]: "safe I (hash_password E p)"
  unfolding hash_password_def by (intro safe_rules)

lemma safe_verify_user [safe_rules]: "safe I (verify_user E n p)"
  unfolding verify_user_def by (intro safe_rules)

end

context stmt_invariant
begin

lemma safe_create_user [safe_rules]: "safe I (create_user E n m p)"
  unfolding create_user_def by (intro safe_rules safe_exec keep_insert_user)

lemma safe_reset_password [safe_rules]: "safe I (reset_password E n p)"
  unfolding reset_password_def by (intro safe_rules safe_query keep_update_password)

end

section \<open>Behaviour\<close>

lemma run_get_user_by_username [run_simps]:
  "no_faults E \<Longrightarrow> run (get_user_by_username E n) w
     = (Inr (find (\<lambda>u. u_username u = n) (db_users w)), tick w)"
  by (simp add: get_user_by_username_def run_select)

lemma run_get_user_by_email [run_simps]:
  "no_faults E \<Longrightarrow> run (get_user_by_email E n) w
     = (Inr (find (\<lambda>u. u_email u = Some n) (db_users w)), tick w)"
  by (simp add: get_user_by_email_def run_select)

lemma run_hash_password [run_simps]:
  "run (hash_password E p) w =
     (case argon2_hash E p (salt_string E (ticks w)) of
        Inl e \<Rightarrow> Inl (Internal (''Password hashing failed: '' @ e)) | Inr h \<Rightarrow> Inr h, tick w)"
  by (simp add: hash_password_def run_simps split: sum.split)

text \<open>The account a login name stands for.\<close>

definition login_user :: "world \<Rightarrow> string \<Rightarrow> User option" where
  "login_user w n =
     (case find (\<lambda>u. u_username u = n) (db_users w) of
        Some u \<Rightarrow> Some u
      | None \<Rightarrow> find (\<lambda>u. u_email u = Some n) (db_users w))"

lemma verify_user_result:
  assumes "no_faults E"
  shows "fst (run (verify_user E n p) w) =
    (case login_user w n of
       None \<Rightarrow> Inr None
     | Some u \<Rightarrow> (case verify_password E p (u_password_hash u) of
                   Inl e \<Rightarrow> Inl e | Inr ok \<Rightarrow> Inr (if ok then Some u else None)))"
  using assms
  by (simp add: verify_user_def run_simps login_user_def split: option.split sum.split)

lemma verify_user_reads: "same_data w (snd (run (verify_user E n p) w))"
  using always_run [OF reading.safe_verify_user same_data_refl] by blast

text \<open>Creating a user, statement by statement: the id, the salt, the insertion, the lookup.\<close>

definition fresh_user_id :: "ext \<Rightarrow> world \<Rightarrow> bool" where
  "fresh_user_id E w \<longleftrightarrow> uuid_v7 E (ticks w) \<notin> user_ids w"

definition created_user :: "ext \<Rightarrow> world \<Rightarrow> string \<Rightarrow> string option \<Rightarrow> string \<Rightarrow> User" where
  "created_user E w username email hash =
     \<lparr>u_id = uuid_v7 E (ticks w), u_username = username, u_email = email, u_password_hash = hash,
      u_created_at = datetime_now E (ticks w + 3)\<rparr>"

lemma find_username_append:
  "u_username u = n \<Longrightarrow> n \<notin> set (map u_username us) \<Longrightarrow> find (\<lambda>v. u_username v = n) (us @ [u]) = Some u"
  by (induction us) auto

lemma find_username_None: "find (\<lambda>v. u_username v = n) us = None \<longleftrightarrow> n \<notin> set (map u_username us)"
  by (induction us) auto

lemma run_create_user:
  assumes "no_faults E" and "argon2_hash E p (salt_string E (ticks w + 1)) = Inr h"
    and "fresh_user_id E w" and "n \<notin> set (map u_username (db_users w))"
  shows "run (create_user E n m p) w =
    (Inr (created_user E w n m h),
     w\<lparr>db_users := db_users w @ [created_user E w n m h], ticks := ticks w + 4\<rparr>)"
  using assms
  by (simp add: create_user_def run_simps run_exec insert_user_def created_user_def fresh_user_id_def
      find_username_append tick_def eval_nat_numeral)

section \<open>Properties\<close>

lemma verify_password_sound:
  "hashing_sound E \<Longrightarrow> argon2_hash E p s = Inr h \<Longrightarrow> verify_password E q h = Inr (q = p)"
  by (auto simp: verify_password_def hashing_sound_def)

text \<open>A free name, and a name in use.\<close>

lemma create_user_free:
  assumes "no_faults E" "hashing_sound E" "hashing_total E" "fresh_user_id E w"
    and "n \<notin> set (map u_username (db_users w))"
  shows "\<exists>u w'. run (create_user E n m p) w = (Inr u, w') \<and> u_username u = n \<and> u_email u = m \<and>
    db_users w' = db_users w @ [u] \<and>
    (\<forall>q. fst (run (verify_user E n q) w') = Inr (if q = p then Some u else None))"
proof -
  obtain h where h: "argon2_hash E p (salt_string E (ticks w + 1)) = Inr h"
    using assms(3) by (auto simp: hashing_total_def)
  show ?thesis
    using assms(5)
    by (simp add: run_create_user [OF assms(1) h assms(4,5)] verify_user_result [OF assms(1)] login_user_def
        find_username_append created_user_def verify_password_sound [OF assms(2) h])
qed

lemma create_user_taken:
  assumes "no_faults E" "hashing_total E" "n \<in> set (map u_username (db_users w))"
  shows "\<exists>w'. run (create_user E n m p) w = (Inl (Conflict (''User '' @ squoted n @ '' already exists'')), w') \<and> same_data w w'"
proof -
  obtain h where h: "argon2_hash E p (salt_string E (Suc (ticks w))) = Inr h"
    using assms(2) by (auto simp: hashing_total_def)
  have "create_user_error n (unique_failed c) = Conflict (''User '' @ squoted n @ '' already exists'')" for c
    by (simp add: create_user_error_def unique_failed_def starts_with_def)
  then show ?thesis
    using assms(1,3) h by (simp add: create_user_def run_simps run_exec insert_user_def)
qed

text \<open>C19: creating an account. Under a free name it succeeds and adds one account, and logging in under
  that name afterwards returns the account exactly for the password it was created with; under a
  name in use it ends with a conflict and leaves the data as they were.\<close>

theorem create_user_outcomes:
  assumes "no_faults E" "hashing_sound E" "hashing_total E" "fresh_user_id E w"
  shows "case run (create_user E n m p) w of
      (Inr u, w') \<Rightarrow> n \<notin> set (map u_username (db_users w)) \<and> u_username u = n \<and> u_email u = m \<and>
        db_users w' = db_users w @ [u] \<and>
        (\<forall>q. fst (run (verify_user E n q) w') = Inr (if q = p then Some u else None))
    | (Inl e, w') \<Rightarrow> n \<in> set (map u_username (db_users w)) \<and>
        e = Conflict (''User '' @ squoted n @ '' already exists'') \<and> same_data w w'"
proof (cases "n \<in> set (map u_username (db_users w))")
  case True
  then obtain w' where "run (create_user E n m p) w = (Inl (Conflict (''User '' @ squoted n @ '' already exists'')), w')"
      "same_data w w'"
    using create_user_taken [OF assms(1,3)] by blast
  with True show ?thesis unfolding case_prod_beta by (simp del: set_map)
next
  case False
  then obtain u w' where "run (create_user E n m p) w = (Inr u, w')" "u_username u = n" "u_email u = m"
      "db_users w' = db_users w @ [u]" "\<forall>q. fst (run (verify_user E n q) w') = Inr (if q = p then Some u else None)"
    using create_user_free [OF assms] by blast
  with False show ?thesis unfolding case_prod_beta by (simp del: set_map)
qed

theorem create_user_outcomes_witness:
  "(\<exists>u w'. run (create_user demo_ext ''carol'' None ''pw'') demo_world = (Inr u, w') \<and>
     fst (run (verify_user demo_ext ''carol'' ''pw'') w') = Inr (Some u) \<and>
     fst (run (verify_user demo_ext ''carol'' ''guess'') w') = Inr None) \<and>
   (\<exists>e. fst (run (create_user demo_ext ''bob'' None ''pw'') demo_world) = Inl e)"
proof -
  have "fresh_user_id demo_ext demo_world" by (simp add: fresh_user_id_def demo_defs demo_ext_def)
  note outcome = create_user_outcomes [OF demo_no_faults demo_hashing_sound demo_hashing_total this, of _ None "''pw''"]
  have "''carol'' \<notin> set (map u_username (db_users demo_world))" "''bob'' \<in> set (map u_username (db_users demo_world))"
    by (simp_all add: demo_defs)
  with outcome [of "''carol''"] outcome [of "''bob''"] show ?thesis
    by (auto split: prod.splits sum.splits)
qed

text \<open>C20: resetting a password replaces it for exactly that account. Afterwards the account
  accepts the new password only, every other account is untouched, and an unknown name is an
  error that changes nothing.\<close>

theorem reset_password_effect:
  assumes "no_faults E" "hashing_sound E" "hashing_total E" "users_ok w"
  shows "case run (reset_password E n p) w of
      (Inr _, w') \<Rightarrow> n \<in> set (map u_username (db_users w)) \<and>
        filter (\<lambda>u. u_username u \<noteq> n) (db_users w') = filter (\<lambda>u. u_username u \<noteq> n) (db_users w) \<and>
        (\<forall>q. (\<exists>u. fst (run (verify_user E n q) w') = Inr (Some u)) \<longleftrightarrow> q = p)
    | (Inl e, w') \<Rightarrow> n \<notin> set (map u_username (db_users w)) \<and> same_data w w'"
proof -
  obtain h where h: "argon2_hash E p (salt_string E (ticks w)) = Inr h"
    using assms(3) by (auto simp: hashing_total_def)
  let ?us = "map (\<lambda>u. if u_username u = n then u\<lparr>u_password_hash := h\<rparr> else u) (db_users w)"
  have rows: "filter (\<lambda>u. u_username u = n) (db_users w) = [] \<longleftrightarrow> n \<notin> set (map u_username (db_users w))"
    by (auto simp: filter_empty_conv)
  have other: "filter (\<lambda>u. u_username u \<noteq> n) ?us = filter (\<lambda>u. u_username u \<noteq> n) (db_users w)"
    by (rule filter_other_upd) simp
  have run: "run (reset_password E n p) w =
      (if n \<in> set (map u_username (db_users w)) then Inr () else Inl (Internal (''User '' @ squoted n @ '' not found'')),
       (tick (tick w))\<lparr>db_users := ?us\<rparr>)"
    using assms(1) h rows by (simp add: reset_password_def run_simps run_query update_password_def)
  show ?thesis
  proof (cases "n \<in> set (map u_username (db_users w))")
    case True
    obtain u where u: "find (\<lambda>v. u_username v = n) (db_users w) = Some u"
      using True find_username_None [of n "db_users w"] by (cases "find (\<lambda>v. u_username v = n) (db_users w)") auto
    have "find (\<lambda>v. u_username v = n) ?us = Some (u\<lparr>u_password_hash := h\<rparr>)"
      using find_key_upd [where key = u_username and k = n and j = n and f = "\<lambda>u. u\<lparr>u_password_hash := h\<rparr>"
          and xs = "db_users w"] u by simp
    then show ?thesis
      using True other unfolding run
      by (auto simp: verify_user_result [OF assms(1)] login_user_def verify_password_sound [OF assms(2) h])
  next
    case False
    then have "?us = db_users w" by (intro map_idI) auto
    then show ?thesis using False unfolding run by (simp add: same_data_iff)
  qed
qed

theorem reset_password_effect_witness:
  "\<exists>w'. run (reset_password demo_ext ''bob'' ''new'') demo_world = (Inr (), w') \<and>
     (\<exists>u. fst (run (verify_user demo_ext ''bob'' ''new'') w') = Inr (Some u)) \<and>
     \<not> (\<exists>u. fst (run (verify_user demo_ext ''bob'' ''hidden'') w') = Inr (Some u))"
proof -
  have bob: "''bob'' \<in> set (map u_username (db_users demo_world))" "users_ok demo_world"
    using demo_world_inv by (simp_all add: demo_defs db_inv_def)
  obtain r w' where r: "run (reset_password demo_ext ''bob'' ''new'') demo_world = (r, w')" by fastforce
  note reset_password_effect [OF demo_no_faults demo_hashing_sound demo_hashing_total bob(2), of "''bob''" "''new''"]
  then have "r = Inr ()" and "(\<exists>u. fst (run (verify_user demo_ext ''bob'' q) w') = Inr (Some u)) \<longleftrightarrow> q = ''new''" for q
    using bob(1) unfolding r by (simp_all split: sum.splits)
  from this(1) this(2) [of "''new''"] this(2) [of "''hidden''"] r show ?thesis by simp
qed

end
