(* ===== verification/Tokens.thy ===== *)
theory Tokens
  imports Users
begin

text \<open>
  \<open>src/db/tokens.rs\<close>: the bearer tokens of the MCP server. Only the hash of a token is stored;
  validation tries every stored token that has not expired.
\<close>

section \<open>Operations\<close>

definition generate_raw_token :: "ext \<Rightarrow> (world, string) prog" where
  "generate_raw_token E = bind (draw (rand_bytes E)) (\<lambda>bytes. Ret (''mcp_'' @ base64_url_encode E bytes))"

definition hash_token :: "ext \<Rightarrow> string \<Rightarrow> string app" where
  "hash_token E token =
     bind (draw (salt_string E)) (\<lambda>salt.
       case argon2_hash E token salt of
         Inl e \<Rightarrow> errE (Internal (''Token hashing failed: '' @ e))
       | Inr hash \<Rightarrow> okE hash)"

definition verify_token :: "ext \<Rightarrow> string \<Rightarrow> string \<Rightarrow> AppError + bool" where
  "verify_token E token hash =
     (case phc_parse E hash of
        Some e \<Rightarrow> Inl (Internal (''Invalid token hash: '' @ e))
      | None \<Rightarrow> Inr (argon2_verify E token hash))"

definition create_token :: "ext \<Rightarrow> string \<Rightarrow> string \<Rightarrow> (string \<times> McpToken) app" where
  "create_token E user_id name =
     bind (draw (uuid_v7 E)) (\<lambda>i.
     bind (generate_raw_token E) (\<lambda>raw_token.
     bindE (hash_token E raw_token) (\<lambda>token_hash.
     bindE (query E (\<lambda>w. insert_token
              \<lparr>t_id = i, t_user_id = user_id, t_token_hash = token_hash, t_name = name,
               t_created_at = datetime_now E (ticks w), t_expires_at = None\<rparr> w)) (\<lambda>_.
     bindE (query E (select_one (\<lambda>w. find (\<lambda>t. t_id t = i) (db_tokens w)))) (\<lambda>record.
     okE (raw_token, record))))))"

text \<open>\<open>WHERE expires_at IS NULL OR expires_at > datetime('now')\<close>.\<close>

definition token_live :: "ext \<Rightarrow> world \<Rightarrow> McpToken \<Rightarrow> bool" where
  "token_live E w t =
     (case t_expires_at t of None \<Rightarrow> True | Some x \<Rightarrow> x > datetime_now E (ticks w))"

text \<open>The loop over the candidates: the first hash that verifies wins, an unreadable hash before
  it ends the search with an error.\<close>

fun find_token :: "ext \<Rightarrow> string \<Rightarrow> McpToken list \<Rightarrow> AppError + string option" where
  "find_token E raw_token [] = Inr None"
| "find_token E raw_token (t # ts) =
     (case verify_token E raw_token (t_token_hash t) of
        Inl e \<Rightarrow> Inl e
      | Inr ok \<Rightarrow> (if ok then Inr (Some (t_user_id t)) else find_token E raw_token ts))"

definition validate_token :: "ext \<Rightarrow> string \<Rightarrow> string option app" where
  "validate_token E raw_token =
     bindE (query E (select (\<lambda>w. filter (token_live E w) (db_tokens w)))) (\<lambda>tokens.
       Ret (find_token E raw_token tokens))"

definition delete_token :: "ext \<Rightarrow> string \<Rightarrow> unit app" where
  "delete_token E token_id =
     bindE (query E (delete_token_row token_id)) (\<lambda>n.
       if n = 0 then errE (NotFound ''Token not found'') else okE ())"

definition list_tokens_for_user :: "ext \<Rightarrow> string \<Rightarrow> McpToken list app" where
  "list_tokens_for_user E user_id =
     query E (select (\<lambda>w. sort_key t_created_at (filter (\<lambda>t. t_user_id t = user_id) (db_tokens w))))"

lemmas tokens_defs [op_defs] =
  generate_raw_token_def hash_token_def create_token_def validate_token_def delete_token_def
  list_tokens_for_user_def

context tick_invariant
begin

lemma safe_generate_raw_token [safe_rules]: "safe I (generate_raw_token E)"
  unfolding generate_raw_token_def by (intro safe_rules)

lemma safe_hash_token [safe_rules]: "safe I (hash_token E p)"
  unfolding hash_token_def by (intro safe_rules)

lemma safe_validate_token [safe_rules]: "safe I (validate_token E p)"
  unfolding validate_token_def by (intro safe_rules)

lemma safe_list_tokens_for_user [safe_rules]: "safe I (list_tokens_for_user E p)"
  unfolding list_tokens_for_user_def by (intro safe_rules)

end

context stmt_invariant
begin

lemma safe_create_token [safe_rules]: "safe I (create_token E u n)"
  unfolding create_token_def by (intro safe_rules safe_query keep_insert_token)

lemma safe_delete_token [safe_rules]: "safe I (delete_token E u)"
  unfolding delete_token_def by (intro safe_rules safe_query keep_delete_token)

end

section \<open>Behaviour\<close>

lemma run_validate_token [run_simps]:
  "no_faults E \<Longrightarrow> run (validate_token E raw) w =
     (find_token E raw (filter (token_live E (tick w)) (db_tokens w)), tick w)"
  by (simp add: validate_token_def run_simps run_select)

lemma find_token_Some:
  "find_token E raw ts = Inr (Some u) \<Longrightarrow>
   \<exists>t \<in> set ts. t_user_id t = u \<and> phc_parse E (t_token_hash t) = None \<and> argon2_verify E raw (t_token_hash t)"
  by (induction ts) (auto simp: verify_token_def split: option.splits if_splits)

lemma find_token_none:
  "(\<forall>t \<in> set ts. verify_token E raw (t_token_hash t) = Inr False) \<Longrightarrow> find_token E raw ts = Inr None"
  by (induction ts) auto

lemma find_token_last:
  "(\<forall>t \<in> set ts. verify_token E raw (t_token_hash t) = Inr False) \<Longrightarrow>
   verify_token E raw (t_token_hash t0) = Inr True \<Longrightarrow> find_token E raw (ts @ [t0]) = Inr (Some (t_user_id t0))"
  by (induction ts) auto

text \<open>The random text drawn next is not accepted by a stored hash, and every stored hash can be
  read.\<close>

definition token_unused :: "ext \<Rightarrow> world \<Rightarrow> string \<Rightarrow> bool" where
  "token_unused E w raw \<longleftrightarrow> (\<forall>t \<in> set (db_tokens w). verify_token E raw (t_token_hash t) = Inr False)"

definition next_token :: "ext \<Rightarrow> world \<Rightarrow> string" where
  "next_token E w = ''mcp_'' @ base64_url_encode E (rand_bytes E (ticks w + 1))"

lemma verify_token_sound:
  "hashing_sound E \<Longrightarrow> argon2_hash E p s = Inr h \<Longrightarrow> verify_token E q h = Inr (q = p)"
  by (auto simp: verify_token_def hashing_sound_def)

lemma run_create_token:
  assumes "no_faults E" "user_exists w u" "uuid_v7 E (ticks w) \<notin> set (map t_id (db_tokens w))"
    "argon2_hash E (next_token E w) (salt_string E (ticks w + 2)) = Inr h"
  shows "\<exists>t. run (create_token E u n) w = (Inr (next_token E w, t), w\<lparr>db_tokens := db_tokens w @ [t], ticks := ticks w + 5\<rparr>) \<and>
    t_id t = uuid_v7 E (ticks w) \<and> t_user_id t = u \<and> t_token_hash t = h \<and> t_name t = n \<and> t_expires_at t = None"
proof -
  have found: "find (\<lambda>t. t_id t = uuid_v7 E (ticks w)) (db_tokens w) = None"
    using assms(3) by (simp add: find_key_None del: set_map)
  show ?thesis
    using assms found
    by (cases w) (simp add: create_token_def generate_raw_token_def hash_token_def next_token_def run_simps run_query
        insert_token_def select_one_def find_append tick_def user_exists_def eval_nat_numeral)
qed

section \<open>Properties\<close>

text \<open>C18: a new token identifies its user. Creating a token for an existing user returns the secret
  text and adds one record with its hash to the table; validating that text afterwards yields the
  user.\<close>

theorem create_token_then_validate:
  assumes "no_faults E" "hashing_sound E" "hashing_total E" "user_exists w u"
    and "uuid_v7 E (ticks w) \<notin> set (map t_id (db_tokens w))" "token_unused E w (next_token E w)"
  shows "\<exists>raw t w'. run (create_token E u n) w = (Inr (raw, t), w') \<and> t_user_id t = u \<and> t_name t = n \<and>
    db_tokens w' = db_tokens w @ [t] \<and> fst (run (validate_token E raw) w') = Inr (Some u)"
proof -
  obtain h where h: "argon2_hash E (next_token E w) (salt_string E (ticks w + 2)) = Inr h"
    using assms(3) by (auto simp: hashing_total_def)
  obtain t where t: "run (create_token E u n) w = (Inr (next_token E w, t), w\<lparr>db_tokens := db_tokens w @ [t], ticks := ticks w + 5\<rparr>)"
      "t_user_id t = u" "t_token_hash t = h" "t_name t = n" "t_expires_at t = None"
    using run_create_token [OF assms(1,4,5) h, of n] by blast
  have "verify_token E (next_token E w) (t_token_hash t) = Inr True"
    by (simp add: t verify_token_sound [OF assms(2) h])
  then have "find_token E (next_token E w) (filter P (db_tokens w) @ [t]) = Inr (Some u)" for P
    using assms(6) find_token_last [of "filter P (db_tokens w)" E "next_token E w" t] t(2)
    by (simp add: token_unused_def)
  then show ?thesis
    by (simp add: t(1,2,4) run_simps assms(1) token_live_def t(5))
qed

lemma demo_token_setup:
  "user_exists demo_world ''u1''" "uuid_v7 demo_ext (ticks demo_world) \<notin> set (map t_id (db_tokens demo_world))"
  "token_unused demo_ext demo_world raw"
  by (simp_all add: user_exists_def token_unused_def demo_defs)

theorem create_token_then_validate_witness:
  "\<exists>raw t w'. run (create_token demo_ext ''u1'' ''laptop'') demo_world = (Inr (raw, t), w') \<and>
     fst (run (validate_token demo_ext raw) w') = Inr (Some ''u1'')"
  using create_token_then_validate [OF demo_no_faults demo_hashing_sound demo_hashing_total demo_token_setup, of "''laptop''"]
  by blast

text \<open>C17: validation accepts only what a stored, unexpired hash accepts. When it names a user, some
  token of that user is in the table, has not expired, and its hash verifies the text; so no text
  is accepted once the tokens whose hashes verify it are deleted.\<close>

theorem validate_token_sound:
  assumes "no_faults E"
  shows "(fst (run (validate_token E raw) w) = Inr (Some u) \<longrightarrow>
      (\<exists>t \<in> set (db_tokens w). t_user_id t = u \<and> argon2_verify E raw (t_token_hash t) \<and>
        (\<forall>x. t_expires_at t = Some x \<longrightarrow> datetime_now E (Suc (ticks w)) < x))) \<and>
    (fst (run (validate_token E raw) (snd (run (delete_token E i) w))) = Inr (Some u) \<longrightarrow>
      (\<exists>t \<in> set (db_tokens w). t_id t \<noteq> i \<and> t_user_id t = u \<and> argon2_verify E raw (t_token_hash t)))"
proof (intro conjI impI)
  show "\<exists>t \<in> set (db_tokens w). t_user_id t = u \<and> argon2_verify E raw (t_token_hash t) \<and>
        (\<forall>x. t_expires_at t = Some x \<longrightarrow> datetime_now E (Suc (ticks w)) < x)"
    if "fst (run (validate_token E raw) w) = Inr (Some u)"
    using that find_token_Some by (fastforce simp: run_simps assms token_live_def)
  have "db_tokens (snd (run (delete_token E i) w)) = filter (\<lambda>t. t_id t \<noteq> i) (db_tokens w)"
    using assms by (simp add: delete_token_def run_simps run_query delete_token_row_def)
  then show "\<exists>t \<in> set (db_tokens w). t_id t \<noteq> i \<and> t_user_id t = u \<and> argon2_verify E raw (t_token_hash t)"
    if "fst (run (validate_token E raw) (snd (run (delete_token E i) w))) = Inr (Some u)"
    using that find_token_Some by (fastforce simp: run_simps assms)
qed

definition two_tokens :: world where
  "two_tokens = demo_world\<lparr>db_tokens :=
     [\<lparr>t_id = ''t1'', t_user_id = ''u1'', t_token_hash = ''$mcp_a'', t_name = ''old'', t_created_at = ''2026-01-05'', t_expires_at = None\<rparr>,
      \<lparr>t_id = ''t2'', t_user_id = ''u1'', t_token_hash = ''$mcp_b'', t_name = ''new'', t_created_at = ''2026-01-06'', t_expires_at = Some ''2027-01-01''\<rparr>]\<rparr>"

theorem validate_token_sound_witness:
  "(\<exists>t \<in> set (db_tokens two_tokens). t_user_id t = ''u1'' \<and> argon2_verify demo_ext ''mcp_a'' (t_token_hash t)) \<and>
   (\<exists>t \<in> set (db_tokens two_tokens). t_id t \<noteq> ''t1'' \<and> t_user_id t = ''u1'' \<and> argon2_verify demo_ext ''mcp_b'' (t_token_hash t))"
proof -
  have "fst (run (validate_token demo_ext ''mcp_a'') two_tokens) = Inr (Some ''u1'')" by code_simp
  moreover have "fst (run (validate_token demo_ext ''mcp_b'') (snd (run (delete_token demo_ext ''t1'') two_tokens))) = Inr (Some ''u1'')"
    by code_simp
  ultimately show ?thesis
    using validate_token_sound [OF demo_no_faults, where raw = "''mcp_a''" and w = two_tokens and u = "''u1''"]
      validate_token_sound [OF demo_no_faults, where raw = "''mcp_b''" and i = "''t1''" and w = two_tokens and u = "''u1''"]
    by blast
qed

end
