(* ===== verification/Startup.thy ===== *)
theory Startup
  imports Tokens
begin

text \<open>
  Configuration (\<open>src/config.rs\<close>), the opening of the database (\<open>src/db/mod.rs\<close>) and the
  administration commands (\<open>src/main.rs\<close>).
\<close>

section \<open>Configuration\<close>

record Config =
  caldav_port :: "16 word"
  mcp_port :: "16 word"
  database_url :: string
  tool_mode :: string

text \<open>\<open>str::parse::<u16>()\<close>: an optional plus sign, then at least one decimal digit; the value is
  accumulated with an overflow check after every digit.\<close>

fun parse_digits :: "string \<Rightarrow> nat \<Rightarrow> nat option" where
  "parse_digits [] acc = Some acc"
| "parse_digits (c # cs) acc =
     (if 48 \<le> (of_char c :: nat) \<and> of_char c \<le> (57 :: nat)
      then let acc' = acc * 10 + (of_char c - 48)
           in (if acc' < 2 ^ 16 then parse_digits cs acc' else None)
      else None)"

definition parse_u16 :: "string \<Rightarrow> 16 word option" where
  "parse_u16 s =
     (let digits = (case strip_prefix s ''+'' of Some r \<Rightarrow> r | None \<Rightarrow> s)
      in if digits = [] then None else map_option of_nat (parse_digits digits 0))"

type_synonym env = "string \<Rightarrow> string option"

definition env_or :: "env \<Rightarrow> string \<Rightarrow> string \<Rightarrow> string" where
  "env_or env name fallback = (case env name of None \<Rightarrow> fallback | Some v \<Rightarrow> v)"

text \<open>A port that does not parse panics with the message of \<open>expect\<close> (\<open>Inl\<close>).\<close>

definition from_env :: "env \<Rightarrow> string + Config" where
  "from_env env =
     (case parse_u16 (env_or env ''CALDAV_PORT'' ''5232'') of
        None \<Rightarrow> Inl ''CALDAV_PORT must be a valid port number''
      | Some cp \<Rightarrow>
          (case parse_u16 (env_or env ''MCP_PORT'' ''5233'') of
             None \<Rightarrow> Inl ''MCP_PORT must be a valid port number''
           | Some mp \<Rightarrow> Inr
               \<lparr>caldav_port = cp, mcp_port = mp,
                database_url = env_or env ''DATABASE_URL'' ''sqlite:data/caldav.db?mode=rwc'',
                tool_mode = env_or env ''MCP_TOOL_MODE'' ''full''\<rparr>))"

section \<open>Opening the database\<close>

text \<open>\<open>sql.split(';')\<close>.\<close>

fun split_char :: "char \<Rightarrow> string \<Rightarrow> string list" where
  "split_char d [] = [[]]"
| "split_char d (c # cs) =
     (if c = d then [] # split_char d cs
      else (case split_char d cs of p # ps \<Rightarrow> (c # p) # ps | [] \<Rightarrow> [[c]]))"

definition has_sql :: "string \<Rightarrow> bool" where
  "has_sql segment =
     list_ex (\<lambda>line. trim line \<noteq> [] \<and> \<not> starts_with (trim line) ''--'') (str_lines segment)"

definition migration_statements :: "string \<Rightarrow> string list" where
  "migration_statements sql =
     filter has_sql (filter (\<lambda>s. s \<noteq> []) (map trim (split_char CHR '';'' sql)))"

text \<open>Every statement of the migration is of the form CREATE ... IF NOT EXISTS: on a database
  that has the tables it changes nothing.\<close>

fun run_statements :: "ext \<Rightarrow> string list \<Rightarrow> (world, sqlx_error + unit) prog" where
  "run_statements E [] = okE ()"
| "run_statements E (s # ss) = bindE (exec E (select (\<lambda>w. ()))) (\<lambda>_. run_statements E ss)"

definition run_migrations :: "ext \<Rightarrow> string \<Rightarrow> (world, sqlx_error + unit) prog" where
  "run_migrations E sql = run_statements E (migration_statements sql)"

definition init_pool :: "ext \<Rightarrow> string \<Rightarrow> string \<Rightarrow> (world, sqlx_error + unit) prog" where
  "init_pool E sql url =
     (case db_connect E url of Some e \<Rightarrow> errE e | None \<Rightarrow> run_migrations E sql)"

section \<open>Administration commands\<close>

datatype cli_error = CliPanic string | CliApp AppError | CliDb sqlx_error | CliMessage string | CliIo string

text \<open>A command ends with the lines it prints, or with an error.\<close>

type_synonym cli = "(world, cli_error + string list) prog"

definition cli_pool :: "ext \<Rightarrow> string \<Rightarrow> env \<Rightarrow> (world, cli_error + unit) prog" where
  "cli_pool E sql env =
     (case from_env env of
        Inl msg \<Rightarrow> errE (CliPanic msg)
      | Inr config \<Rightarrow> map_errE CliDb (init_pool E sql (database_url config)))"

definition cmd_create_user :: "ext \<Rightarrow> string \<Rightarrow> env \<Rightarrow> string \<Rightarrow> string \<Rightarrow> string option \<Rightarrow> cli" where
  "cmd_create_user E sql env username password email =
     bindE (cli_pool E sql env) (\<lambda>_.
     bindE (map_errE CliApp (create_user E username email password)) (\<lambda>user.
     okE ([''User created:'', ''  ID:       '' @ u_id user, ''  Username: '' @ u_username user] @
       (case u_email user of Some e \<Rightarrow> [''  Email:    '' @ e] | None \<Rightarrow> []))))"

definition cli_user :: "ext \<Rightarrow> string \<Rightarrow> (world, cli_error + User) prog" where
  "cli_user E username =
     bindE (map_errE CliApp (get_user_by_username E username)) (\<lambda>found.
       ok_orE (CliMessage (''User '' @ squoted username @ '' not found'')) found)"

definition cmd_create_token :: "ext \<Rightarrow> string \<Rightarrow> env \<Rightarrow> string \<Rightarrow> string \<Rightarrow> cli" where
  "cmd_create_token E sql env username name =
     bindE (cli_pool E sql env) (\<lambda>_.
     bindE (cli_user E username) (\<lambda>user.
     bindE (map_errE CliApp (create_token E (u_id user) name)) (\<lambda>(raw_token, record).
     okE [''MCP token created:'', ''  ID:    '' @ t_id record, ''  Name:  '' @ t_name record,
          ''  Token: '' @ raw_token, [],
          ''Save this token '' @ [CHR 0xE2, CHR 0x80, CHR 0x94] @ '' it cannot be retrieved again.''])))"

text \<open>\<open>{:<n}\<close>: padded with spaces to \<open>n\<close> characters.\<close>

definition pad :: "nat \<Rightarrow> string \<Rightarrow> string" where
  "pad n s = s @ replicate (n - length (str_chars s)) CHR '' ''"

definition cmd_list_users :: "ext \<Rightarrow> string \<Rightarrow> env \<Rightarrow> cli" where
  "cmd_list_users E sql env =
     bindE (cli_pool E sql env) (\<lambda>_.
     bindE (map_errE CliDb (exec E (select (\<lambda>w. sort_key u_username (db_users w))))) (\<lambda>users.
     okE (if users = [] then [''No users found.'']
          else [pad 38 ''ID'' @ '' '' @ pad 20 ''Username'' @ '' Email'', replicate 70 CHR ''-''] @
            map (\<lambda>u. pad 38 (u_id u) @ '' '' @ pad 20 (u_username u) @ '' '' @
              (case u_email u of None \<Rightarrow> ''-'' | Some e \<Rightarrow> e)) users)))"

definition cmd_list_tokens :: "ext \<Rightarrow> string \<Rightarrow> env \<Rightarrow> string \<Rightarrow> cli" where
  "cmd_list_tokens E sql env username =
     bindE (cli_pool E sql env) (\<lambda>_.
     bindE (cli_user E username) (\<lambda>user.
     bindE (map_errE CliApp (list_tokens_for_user E (u_id user))) (\<lambda>tokens.
     okE (if tokens = [] then [''No tokens found for user '' @ squoted username @ ''.'']
          else [pad 38 ''ID'' @ '' '' @ pad 20 ''Name'' @ '' Created'', replicate 70 CHR ''-''] @
            map (\<lambda>t. pad 38 (t_id t) @ '' '' @ pad 20 (t_name t) @ '' '' @ t_created_at t) tokens))))"

definition cmd_delete_token :: "ext \<Rightarrow> string \<Rightarrow> env \<Rightarrow> string \<Rightarrow> cli" where
  "cmd_delete_token E sql env token_id =
     bindE (cli_pool E sql env) (\<lambda>_.
     bindE (map_errE CliApp (delete_token E token_id)) (\<lambda>_.
     okE [''Token '' @ token_id @ '' deleted.'']))"

definition cmd_reset_password :: "ext \<Rightarrow> string \<Rightarrow> env \<Rightarrow> string \<Rightarrow> string \<Rightarrow> cli" where
  "cmd_reset_password E sql env username password =
     bindE (cli_pool E sql env) (\<lambda>_.
     bindE (map_errE CliApp (reset_password E username password)) (\<lambda>_.
     okE [''Password updated for user '' @ squoted username @ ''.'']))"

text \<open>\<open>run_server\<close>: read the configuration, open the database, build the two routers, bind the two
  ports one after the other. \<open>tcp_bind\<close> is the operating system's answer to binding a port while the
  given ports are bound already (\<open>Some\<close> is the error); what is served from then on are the routers
  with the pool and the tool mode. The commands share \<open>cli_pool\<close>, which is the same two steps.\<close>

type_synonym tcp_bind = "16 word list \<Rightarrow> 16 word \<Rightarrow> string option"

record server =
  caldav_listener :: "16 word"
  mcp_listener :: "16 word"
  served_mode :: string

definition bind_port :: "tcp_bind \<Rightarrow> 16 word list \<Rightarrow> 16 word \<Rightarrow> (world, cli_error + 16 word) prog" where
  "bind_port B bound port = (case B bound port of Some e \<Rightarrow> errE (CliIo e) | None \<Rightarrow> okE port)"

definition run_server :: "ext \<Rightarrow> tcp_bind \<Rightarrow> string \<Rightarrow> env \<Rightarrow> (world, cli_error + server) prog" where
  "run_server E B sql env =
     (case from_env env of
        Inl msg \<Rightarrow> errE (CliPanic msg)
      | Inr config \<Rightarrow>
          bindE (map_errE CliDb (init_pool E sql (database_url config))) (\<lambda>_.
          bindE (bind_port B [] (caldav_port config)) (\<lambda>caldav.
          bindE (bind_port B [caldav] (mcp_port config)) (\<lambda>mcp.
          okE \<lparr>caldav_listener = caldav, mcp_listener = mcp, served_mode = tool_mode config\<rparr>))))"

datatype Commands =
    Serve
  | CreateUser string string "string option"
  | CreateToken string string
  | ListUsers
  | ListTokens string
  | DeleteToken string
  | ResetPassword string string

text \<open>The match of \<open>main\<close>; without a subcommand the server is started. Starting prints no lines, its
  messages go to the log.\<close>

definition run_command :: "ext \<Rightarrow> tcp_bind \<Rightarrow> string \<Rightarrow> env \<Rightarrow> Commands option \<Rightarrow> cli" where
  "run_command E B sql env subcommand =
     (case (case subcommand of Some command \<Rightarrow> command | None \<Rightarrow> Serve) of
        Serve \<Rightarrow> bindE (run_server E B sql env) (\<lambda>_. okE [])
      | CreateUser username password email \<Rightarrow> cmd_create_user E sql env username password email
      | CreateToken username name \<Rightarrow> cmd_create_token E sql env username name
      | ListUsers \<Rightarrow> cmd_list_users E sql env
      | ListTokens username \<Rightarrow> cmd_list_tokens E sql env username
      | DeleteToken i \<Rightarrow> cmd_delete_token E sql env i
      | ResetPassword username password \<Rightarrow> cmd_reset_password E sql env username password)"

lemmas cli_defs [op_defs] =
  run_migrations_def init_pool_def cli_pool_def cmd_create_user_def cli_user_def
  cmd_create_token_def cmd_list_users_def cmd_list_tokens_def cmd_delete_token_def
  cmd_reset_password_def bind_port_def run_server_def

context tick_invariant
begin

lemma safe_exec_select [safe_rules]: "safe I (exec E (select f))"
  by (rule safe_exec) (simp add: select_def)

lemma safe_run_statements [safe_rules]: "safe I (run_statements E ss)"
  by (induction ss) (auto intro!: safe_rules)

lemma safe_cli_pool [safe_rules]: "safe I (cli_pool E sql env)"
  unfolding cli_pool_def init_pool_def run_migrations_def by (intro safe_rules)

lemma safe_bind_port [safe_rules]: "safe I (bind_port B ps p)"
  unfolding bind_port_def by (intro safe_rules)

lemma safe_run_server [safe_rules]: "safe I (run_server E B sql env)"
  unfolding run_server_def init_pool_def run_migrations_def by (intro safe_rules)

lemma safe_cli_user [safe_rules]: "safe I (cli_user E n)"
  unfolding cli_user_def by (intro safe_rules)

lemma safe_listing_commands [safe_rules]:
  "safe I (cmd_list_users E sql env)" "safe I (cmd_list_tokens E sql env n)"
  unfolding cmd_list_users_def cmd_list_tokens_def by (intro safe_rules)+

end

context stmt_invariant
begin

lemma safe_changing_commands [safe_rules]:
  "safe I (cmd_create_user E sql env n p m)" "safe I (cmd_create_token E sql env n t)"
  "safe I (cmd_delete_token E sql env i)" "safe I (cmd_reset_password E sql env n p)"
  unfolding cmd_create_user_def cmd_create_token_def cmd_delete_token_def cmd_reset_password_def
  by (intro safe_rules)+

lemma safe_run_command [safe_rules]: "safe I (run_command E B sql env c)"
  unfolding run_command_def by (auto intro!: safe_rules split: Commands.split)

end

section \<open>Behaviour\<close>

lemma from_env_default:
  "from_env (\<lambda>_. None) = Inr
     \<lparr>caldav_port = 5232, mcp_port = 5233, database_url = ''sqlite:data/caldav.db?mode=rwc'',
      tool_mode = ''full''\<rparr>"
  by (simp add: from_env_def env_or_def parse_u16_def strip_prefix_def starts_with_def)

lemma run_statements_ok: "no_faults E \<Longrightarrow> \<exists>w'. run (run_statements E ss) w = (Inr (), w') \<and> same_data w w'"
proof (induction ss arbitrary: w)
  case Nil
  then show ?case by (simp add: run_simps)
next
  case (Cons s ss)
  from Cons.IH [OF Cons.prems, of "tick w"]
  show ?case using Cons.prems same_data_tick by (auto simp: run_simps run_exec select_def)
qed

lemma run_cli_pool:
  assumes "no_faults E" and "from_env env = Inr c" and "db_connect E (database_url c) = None"
  shows "\<exists>w'. run (cli_pool E sql env) w = (Inr (), w') \<and> same_data w w'"
  using assms run_statements_ok [OF assms(1), of "migration_statements sql" w]
  by (auto simp: cli_pool_def init_pool_def run_migrations_def run_simps)

text \<open>The number a decimal text denotes, without any bound.\<close>

definition digit :: "char \<Rightarrow> bool" where
  "digit c \<longleftrightarrow> 48 \<le> (of_char c :: nat) \<and> of_char c \<le> (57 :: nat)"

definition decimal :: "nat \<Rightarrow> string \<Rightarrow> nat" where
  "decimal acc cs = foldl (\<lambda>a c. a * 10 + (of_char c - 48)) acc cs"

lemma decimal_simps [simp]: "decimal acc [] = acc" "decimal acc (c # cs) = decimal (acc * 10 + (of_char c - 48)) cs"
  by (simp_all add: decimal_def)

lemma decimal_grows: "acc \<le> decimal acc cs"
proof (induction cs arbitrary: acc)
  case (Cons c cs)
  have "acc \<le> acc * 10 + (of_char c - 48)" by simp
  also have "\<dots> \<le> decimal (acc * 10 + (of_char c - 48)) cs" by (rule Cons.IH)
  finally show ?case by simp
qed simp

text \<open>Checking for overflow after every digit is the same as checking once at the end.\<close>

lemma parse_digits_exact:
  "acc < 2 ^ 16 \<Longrightarrow> parse_digits cs acc = (if list_all digit cs \<and> decimal acc cs < 2 ^ 16 then Some (decimal acc cs) else None)"
proof (induction cs arbitrary: acc)
  case (Cons c cs)
  define a :: nat where "a = acc * 10 + (of_char c - 48)"
  have "parse_digits (c # cs) acc = (if digit c \<and> a < 2 ^ 16 then parse_digits cs a else None)"
    by (auto simp: digit_def a_def Let_def)
  moreover have "decimal acc (c # cs) = decimal a cs" by (simp add: a_def)
  ultimately show ?case using Cons.IH [of a] decimal_grows [of a cs] by simp
qed simp

definition denotes_port :: "string \<Rightarrow> nat \<Rightarrow> bool" where
  "denotes_port s n \<longleftrightarrow> (\<exists>ds. (s = ds \<or> s = CHR ''+'' # ds) \<and> ds \<noteq> [] \<and> list_all digit ds \<and> n = decimal 0 ds \<and> n < 2 ^ 16)"

lemma parse_u16_exact: "(\<exists>p. parse_u16 s = Some p \<and> unat p = n) \<longleftrightarrow> denotes_port s n"
proof -
  have plus: "\<not> digit CHR ''+''" by (simp add: digit_def)
  have word: "unat (word_of_nat m :: 16 word) = m" if "m < 65536" for m
    using that by (simp add: unat_of_nat)
  show ?thesis
  proof (cases s)
    case (Cons c cs)
    then show ?thesis
      using plus parse_digits_exact [of 0 cs] parse_digits_exact [of 0 "c # cs"] word
      by (cases "c = CHR ''+''") (auto simp: parse_u16_def denotes_port_def strip_prefix_def starts_with_def)
  qed (simp add: parse_u16_def denotes_port_def strip_prefix_def starts_with_def)
qed

lemma from_env_ports:
  "(\<exists>c. from_env env = Inr c \<and> unat (caldav_port c) = p \<and> unat (mcp_port c) = q) \<longleftrightarrow>
   denotes_port (env_or env ''CALDAV_PORT'' ''5232'') p \<and> denotes_port (env_or env ''MCP_PORT'' ''5233'') q"
  unfolding parse_u16_exact [symmetric] from_env_def by (auto split: option.split)

lemma from_env_rest:
  "from_env env = Inr c \<Longrightarrow>
   database_url c = env_or env ''DATABASE_URL'' ''sqlite:data/caldav.db?mode=rwc'' \<and>
   Startup.tool_mode c = env_or env ''MCP_TOOL_MODE'' ''full''"
  by (auto simp: from_env_def split: option.splits)

text \<open>What a start comes to, once the configuration is read and the database is open.\<close>

definition bound_server :: "tcp_bind \<Rightarrow> Config \<Rightarrow> cli_error + server" where
  "bound_server B c =
     (case (B [] (caldav_port c), B [caldav_port c] (mcp_port c)) of
        (Some e, _) \<Rightarrow> Inl (CliIo e)
      | (None, Some e) \<Rightarrow> Inl (CliIo e)
      | (None, None) \<Rightarrow> Inr \<lparr>caldav_listener = caldav_port c, mcp_listener = mcp_port c,
                         served_mode = Startup.tool_mode c\<rparr>)"

lemma run_run_server:
  assumes "no_faults E" "from_env env = Inr c"
  shows "\<exists>w'. same_data w w' \<and> run (run_server E B sql env) w =
    (case db_connect E (database_url c) of Some e \<Rightarrow> Inl (CliDb e) | None \<Rightarrow> bound_server B c, w')"
proof (cases "db_connect E (database_url c)")
  case None
  obtain w' where "run (run_statements E (migration_statements sql)) w = (Inr (), w')" "same_data w w'"
    using run_statements_ok [OF assms(1)] by blast
  with None assms(2) show ?thesis
    by (auto simp: run_server_def init_pool_def run_migrations_def bind_port_def bound_server_def run_simps
        split: option.split)
qed (use assms(2) in \<open>simp add: run_server_def init_pool_def run_simps\<close>)



end
