(* ===== verification/Calendars.thy ===== *)
theory Calendars
  imports Users
begin

text \<open>
  \<open>src/db/calendars.rs\<close>: calendar collections, who may see them, and the change tags that every
  mutation of an object renews.
\<close>

section \<open>Operations\<close>

definition sync_token_of :: "string \<Rightarrow> string" where
  "sync_token_of uuid = ''data:,sync-'' @ uuid"

definition new_sync_token :: "ext \<Rightarrow> (world, string) prog" where
  "new_sync_token E = bind (draw (uuid_v7 E)) (\<lambda>u. Ret (sync_token_of u))"

definition get_calendar_by_id :: "ext \<Rightarrow> string \<Rightarrow> Calendar option app" where
  "get_calendar_by_id E i = query E (select (\<lambda>w. find (\<lambda>c. c_id c = i) (db_calendars w)))"

definition create_calendar_with_id ::
  "ext \<Rightarrow> string \<Rightarrow> string \<Rightarrow> string \<Rightarrow> string \<Rightarrow> string \<Rightarrow> string \<Rightarrow> Calendar app" where
  "create_calendar_with_id E i owner_id name description color timezone =
     bind (new_sync_token E) (\<lambda>sync_token.
     bindE (query E (\<lambda>w. insert_calendar
              \<lparr>c_id = i, c_owner_id = owner_id, c_name = name, c_description = description,
               c_color = color, c_timezone = timezone, c_ctag = sync_token,
               c_sync_token = sync_token, c_created_at = datetime_now E (ticks w),
               c_updated_at = datetime_now E (ticks w)\<rparr> w)) (\<lambda>_.
     bindE (get_calendar_by_id E i) (\<lambda>cal.
     ok_orE (Internal ''Calendar created but not found'') cal)))"

definition create_calendar ::
  "ext \<Rightarrow> string \<Rightarrow> string \<Rightarrow> string \<Rightarrow> string \<Rightarrow> string \<Rightarrow> Calendar app" where
  "create_calendar E owner_id name description color timezone =
     bind (draw (uuid_v7 E)) (\<lambda>i.
       create_calendar_with_id E i owner_id name description color timezone)"

definition list_calendars_for_owner :: "ext \<Rightarrow> string \<Rightarrow> Calendar list app" where
  "list_calendars_for_owner E owner_id =
     query E (select (\<lambda>w. sort_key c_name (filter (\<lambda>c. c_owner_id c = owner_id) (db_calendars w))))"

text \<open>The query of \<open>list_calendars_for_user\<close>: the calendars the user owns, UNION (without
  duplicates) the join with the shares of the user, ordered by name.\<close>

definition owned_calendars :: "world \<Rightarrow> string \<Rightarrow> Calendar list" where
  "owned_calendars w user_id = filter (\<lambda>c. c_owner_id c = user_id) (db_calendars w)"

definition joined_calendars :: "world \<Rightarrow> string \<Rightarrow> Calendar list" where
  "joined_calendars w user_id =
     concat (map (\<lambda>c. map (\<lambda>_. c)
       (filter (\<lambda>s. s_calendar_id s = c_id c \<and> s_user_id s = user_id) (db_shares w))) (db_calendars w))"

definition accessible_calendars :: "world \<Rightarrow> string \<Rightarrow> Calendar list" where
  "accessible_calendars w user_id =
     sort_key c_name (remdups (owned_calendars w user_id @ joined_calendars w user_id))"

definition list_calendars_for_user :: "ext \<Rightarrow> string \<Rightarrow> Calendar list app" where
  "list_calendars_for_user E user_id = query E (select (\<lambda>w. accessible_calendars w user_id))"

definition update_calendar ::
  "ext \<Rightarrow> string \<Rightarrow> string option \<Rightarrow> string option \<Rightarrow> string option \<Rightarrow> string option \<Rightarrow> Calendar app" where
  "update_calendar E i name description color timezone =
     bindE (get_calendar_by_id E i) (\<lambda>found.
     bindE (ok_orE (NotFound (''Calendar '' @ i @ '' not found'')) found) (\<lambda>cal.
     bindE (query E (update_calendar_props E
              (case name of None \<Rightarrow> c_name cal | Some x \<Rightarrow> x)
              (case description of None \<Rightarrow> c_description cal | Some x \<Rightarrow> x)
              (case color of None \<Rightarrow> c_color cal | Some x \<Rightarrow> x)
              (case timezone of None \<Rightarrow> c_timezone cal | Some x \<Rightarrow> x) i)) (\<lambda>_.
     bindE (get_calendar_by_id E i) (\<lambda>updated.
     ok_orE (Internal ''Calendar updated but not found'') updated))))"

definition delete_calendar :: "ext \<Rightarrow> string \<Rightarrow> unit app" where
  "delete_calendar E i =
     bindE (query E (delete_calendar_row i)) (\<lambda>n.
       if n = 0 then errE (NotFound (''Calendar '' @ i @ '' not found'')) else okE ())"

definition bump_ctag :: "ext \<Rightarrow> string \<Rightarrow> string app" where
  "bump_ctag E calendar_id =
     bind (new_sync_token E) (\<lambda>new_token.
     bindE (query E (update_calendar_tokens E new_token calendar_id)) (\<lambda>_. okE new_token))"

lemmas calendars_defs [op_defs] =
  new_sync_token_def get_calendar_by_id_def create_calendar_with_id_def create_calendar_def
  list_calendars_for_owner_def list_calendars_for_user_def update_calendar_def delete_calendar_def
  bump_ctag_def

context tick_invariant
begin

lemma safe_new_sync_token [safe_rules]: "safe I (new_sync_token E)"
  unfolding new_sync_token_def by (intro safe_rules)

lemma safe_get_calendar_by_id [safe_rules]: "safe I (get_calendar_by_id E i)"
  unfolding get_calendar_by_id_def by (intro safe_rules)

lemma safe_list_calendars_for_owner [safe_rules]: "safe I (list_calendars_for_owner E i)"
  unfolding list_calendars_for_owner_def by (intro safe_rules)

lemma safe_list_calendars_for_user [safe_rules]: "safe I (list_calendars_for_user E i)"
  unfolding list_calendars_for_user_def by (intro safe_rules)

end

context stmt_invariant
begin

lemma safe_create_calendar_with_id [safe_rules]: "safe I (create_calendar_with_id E i u n d c t)"
  unfolding create_calendar_with_id_def by (intro safe_rules safe_query keep_insert_calendar)

lemma safe_create_calendar [safe_rules]: "safe I (create_calendar E u n d c t)"
  unfolding create_calendar_def by (intro safe_rules)

lemma safe_update_calendar [safe_rules]: "safe I (update_calendar E i n d c t)"
  unfolding update_calendar_def by (intro safe_rules safe_query keep_update_calendar_props)

lemma safe_delete_calendar [safe_rules]: "safe I (delete_calendar E i)"
  unfolding delete_calendar_def by (intro safe_rules safe_query keep_delete_calendar)

end

context object_stmts
begin

lemma safe_bump_ctag [safe_rules]: "safe I (bump_ctag E cid)"
  unfolding bump_ctag_def by (intro safe_rules safe_query keep_object_tags)

end

end
