(* ===== verification/Shares.thy ===== *)
theory Shares
  imports Calendars
begin

text \<open>
  \<open>src/db/shares.rs\<close>: grants of read or read-write access to somebody else's calendar.
\<close>

section \<open>Operations\<close>

definition find_share :: "world \<Rightarrow> string \<Rightarrow> string \<Rightarrow> CalendarShare option" where
  "find_share w calendar_id user_id = find (\<lambda>s. share_key s = (calendar_id, user_id)) (db_shares w)"

definition share_calendar :: "ext \<Rightarrow> string \<Rightarrow> string \<Rightarrow> Permission \<Rightarrow> CalendarShare app" where
  "share_calendar E calendar_id user_id permission =
     bind (draw (uuid_v7 E)) (\<lambda>i.
     bindE (query E (\<lambda>w. upsert_share
              \<lparr>s_id = i, s_calendar_id = calendar_id, s_user_id = user_id,
               s_permission = perm_as_str permission, s_created_at = datetime_now E (ticks w)\<rparr> w)) (\<lambda>_.
     query E (select_one (\<lambda>w. find_share w calendar_id user_id))))"

definition unshare_calendar :: "ext \<Rightarrow> string \<Rightarrow> string \<Rightarrow> unit app" where
  "unshare_calendar E calendar_id user_id =
     bindE (query E (delete_share_row calendar_id user_id)) (\<lambda>n.
       if n = 0 then errE (NotFound ''Share not found'') else okE ())"

definition list_shares_for_calendar :: "ext \<Rightarrow> string \<Rightarrow> CalendarShare list app" where
  "list_shares_for_calendar E calendar_id =
     query E (select (\<lambda>w. filter (\<lambda>s. s_calendar_id s = calendar_id) (db_shares w)))"

text \<open>The loop over the user's shares: each calendar is fetched by a query of its own.\<close>

fun shared_results :: "ext \<Rightarrow> CalendarShare list \<Rightarrow> (Calendar \<times> Permission) list \<Rightarrow>
    (Calendar \<times> Permission) list app" where
  "shared_results E [] results = okE results"
| "shared_results E (share # shares) results =
     bindE (get_calendar_by_id E (s_calendar_id share)) (\<lambda>cal.
       shared_results E shares
         (case (cal, perm_from_str_value (s_permission share)) of
            (Some c, Some p) \<Rightarrow> results @ [(c, p)]
          | _ \<Rightarrow> results))"

definition list_shared_calendars :: "ext \<Rightarrow> string \<Rightarrow> (Calendar \<times> Permission) list app" where
  "list_shared_calendars E user_id =
     bindE (query E (select (\<lambda>w. filter (\<lambda>s. s_user_id s = user_id) (db_shares w)))) (\<lambda>shares.
     bindE (shared_results E shares []) (\<lambda>results.
     okE (sort_key (\<lambda>r. c_name (fst r)) results)))"

definition get_user_permission :: "ext \<Rightarrow> string \<Rightarrow> string \<Rightarrow> Permission option app" where
  "get_user_permission E calendar_id user_id =
     bindE (query E (select (\<lambda>w. find (\<lambda>c. c_id c = calendar_id \<and> c_owner_id c = user_id) (db_calendars w))))
       (\<lambda>is_owner. if is_owner \<noteq> None then okE (Some ReadWrite)
         else bindE (query E (select (\<lambda>w. find_share w calendar_id user_id))) (\<lambda>share.
           okE (Option.bind share (\<lambda>s. perm_from_str_value (s_permission s)))))"

lemmas shares_defs [op_defs] =
  share_calendar_def unshare_calendar_def list_shares_for_calendar_def list_shared_calendars_def
  get_user_permission_def

context tick_invariant
begin

lemma safe_list_shares_for_calendar [safe_rules]: "safe I (list_shares_for_calendar E c)"
  unfolding list_shares_for_calendar_def by (intro safe_rules)

lemma safe_shared_results [safe_rules]: "safe I (shared_results E ss rs)"
  by (induction ss arbitrary: rs) (auto intro!: safe_rules)

lemma safe_list_shared_calendars [safe_rules]: "safe I (list_shared_calendars E u)"
  unfolding list_shared_calendars_def by (intro safe_rules)

lemma safe_get_user_permission [safe_rules]: "safe I (get_user_permission E c u)"
  unfolding get_user_permission_def by (intro safe_rules)

end

context stmt_invariant
begin

lemma safe_share_calendar [safe_rules]: "safe I (share_calendar E c u p)"
  unfolding share_calendar_def
  by (rule safe_bind [OF safe_draw], rule safe_bindE)
    (auto intro!: safe_query keep_upsert_share safe_select_one)

lemma safe_unshare_calendar [safe_rules]: "safe I (unshare_calendar E c u)"
  unfolding unshare_calendar_def by (intro safe_rules safe_query keep_delete_share)

end

section \<open>Who may see a calendar\<close>

definition has_access :: "world \<Rightarrow> string \<Rightarrow> string \<Rightarrow> bool" where
  "has_access w user_id calendar_id \<longleftrightarrow> calendar_id \<in> set (map c_id (accessible_calendars w user_id))"

definition is_shared :: "world \<Rightarrow> string \<Rightarrow> string \<Rightarrow> bool" where
  "is_shared w calendar_id user_id \<longleftrightarrow>
     (\<exists>s \<in> set (db_shares w). s_calendar_id s = calendar_id \<and> s_user_id s = user_id)"

definition owns :: "world \<Rightarrow> string \<Rightarrow> string \<Rightarrow> bool" where
  "owns w user_id calendar_id \<longleftrightarrow> (\<exists>c \<in> set (db_calendars w). c_id c = calendar_id \<and> c_owner_id c = user_id)"

lemma set_accessible:
  "set (accessible_calendars w u) = {c \<in> set (db_calendars w). c_owner_id c = u \<or> is_shared w (c_id c) u}"
  by (auto simp: accessible_calendars_def owned_calendars_def joined_calendars_def is_shared_def)

lemma has_access_iff:
  "has_access w u cid \<longleftrightarrow>
     owns w u cid \<or> (is_shared w cid u \<and> calendar_exists w cid)"
  by (auto simp: has_access_def set_accessible owns_def calendar_exists_def)

lemma find_share_eq: "find_share w cid u \<noteq> None \<longleftrightarrow> is_shared w cid u"
  by (auto simp: find_share_def find_None_iff is_shared_def)

lemma is_shared_calendar: "db_inv w \<Longrightarrow> is_shared w cid u \<Longrightarrow> calendar_exists w cid"
  by (force simp: db_inv_def shares_ok_def is_shared_def calendar_exists_def)

lemma find_share_valid:
  assumes "db_inv w" "find_share w cid u = Some s"
  shows "\<exists>p. perm_from_str_value (s_permission s) = Some p"
proof -
  have "s \<in> set (db_shares w)" using find_SomeD [OF assms(2) [unfolded find_share_def]] by simp
  then have "permission_check (s_permission s)"
    using assms(1) by (auto simp: db_inv_def shares_ok_def list_all_iff)
  then show ?thesis by (auto simp: permission_check_def perm_from_str_value_def)
qed

lemma run_get_user_permission:
  assumes "no_faults E"
  shows "fst (run (get_user_permission E cid u) w) =
    Inr (if owns w u cid then Some ReadWrite
         else Option.bind (find_share w cid u) (\<lambda>s. perm_from_str_value (s_permission s)))"
  using assms find_None_iff [of "\<lambda>c. c_id c = cid \<and> c_owner_id c = u" "db_calendars w"]
  by (auto simp: get_user_permission_def run_simps run_select find_share_def owns_def)

text \<open>Sharing again replaces the permission of the existing share.\<close>

lemma find_share_upsert:
  assumes "upsert_share r w = (Inr (), w')"
  shows "find_share w' c u =
    (if (c, u) = share_key r
     then Some (case find_share w c u of None \<Rightarrow> r | Some s \<Rightarrow> s\<lparr>s_permission := s_permission r\<rparr>)
     else find_share w c u)"
proof (cases "share_key r \<in> set (map share_key (db_shares w))")
  case True
  then have "db_shares w' = map (\<lambda>s. if share_key s = share_key r
      then s\<lparr>s_permission := s_permission r\<rparr> else s) (db_shares w)"
    using assms by (simp add: upsert_share_def split: if_splits) auto
  then have "find_share w' c u = (if (c, u) = share_key r
      then map_option (\<lambda>s. s\<lparr>s_permission := s_permission r\<rparr>) (find_share w c u) else find_share w c u)"
    unfolding find_share_def by (simp only:) (rule find_key_upd, simp)
  moreover have "(c, u) = share_key r \<Longrightarrow> find_share w c u \<noteq> None"
    using True unfolding find_share_def by (simp only: find_key_None) simp
  ultimately show ?thesis by (cases "find_share w c u") auto
next
  case False
  then have "db_shares w' = db_shares w @ [r]"
    using assms by (simp add: upsert_share_def split: if_splits) auto
  moreover have "(c, u) = share_key r \<Longrightarrow> find_share w c u = None"
    using False unfolding find_share_def by (simp only: find_key_None) simp
  ultimately show ?thesis by (auto simp: find_share_def find_append split: option.split)
qed

lemma upsert_share_data:
  "upsert_share r w = (x, w') \<Longrightarrow> db_calendars w' = db_calendars w \<and> db_users w' = db_users w \<and> db_objects w' = db_objects w"
  by (auto simp: upsert_share_def split: if_splits)

lemma perm_round_trip: "perm_from_str_value (perm_as_str p) = Some p"
  by (cases p) (simp_all add: perm_as_str_def perm_from_str_value_def)

text \<open>A share that is granted: the row for this user and calendar is the new one, all others remain.\<close>

lemma run_share_calendar:
  assumes "no_faults E" "calendar_exists w cid" "user_exists w u" "uuid_v7 E (ticks w) \<notin> set (map s_id (db_shares w))"
  obtains s w' where "run (share_calendar E cid u p) w = (Inr s, w')" "s_permission s = perm_as_str p"
    "\<forall>c v. find_share w' c v = (if (c, v) = (cid, u) then Some s else find_share w c v)"
    "db_calendars w' = db_calendars w" "db_users w' = db_users w" "db_objects w' = db_objects w" "s_calendar_id s = cid"
proof -
  let ?r = "\<lparr>s_id = uuid_v7 E (ticks w), s_calendar_id = cid, s_user_id = u, s_permission = perm_as_str p,
              s_created_at = datetime_now E (Suc (Suc (ticks w)))\<rparr>"
  have "permission_check (perm_as_str p)"
    by (cases p) (simp_all add: permission_check_def perm_as_str_def)
  then have "\<exists>w1. upsert_share ?r (tick (tick w)) = (Inr (), w1)"
    using assms(2-4) by (simp add: upsert_share_def)
  then obtain w1 where w1: "upsert_share ?r (tick (tick w)) = (Inr (), w1)" ..
  note found = find_share_upsert [OF w1]
  obtain s where s: "find_share w1 cid u = Some s" "s_permission s = perm_as_str p"
    using found [of cid u] by (auto split: option.splits)
  have "find_share (tick w1) c v = (if (c, v) = (cid, u) then Some s else find_share w c v)" for c v
    using s(1) found [of c v] by (auto simp: find_share_def)
  moreover have "run (share_calendar E cid u p) w = (Inr s, tick w1)"
    using assms(1) w1 s(1) by (simp add: share_calendar_def run_simps run_query select_one_def find_share_def)
  moreover have "s_calendar_id s = cid" using find_SomeD [OF s(1) [unfolded find_share_def]] by simp
  ultimately show thesis using that [of s "tick w1"] s(2) upsert_share_data [OF w1] by simp
qed

text \<open>The state without the share, and what revoking it answers.\<close>

definition without_share :: "world \<Rightarrow> string \<Rightarrow> string \<Rightarrow> world" where
  "without_share w cid u = (tick w)\<lparr>db_shares := filter (\<lambda>s. share_key s \<noteq> (cid, u)) (db_shares w)\<rparr>"

lemma without_share_simps:
  "db_users (without_share w cid u) = db_users w" "db_calendars (without_share w cid u) = db_calendars w"
  "is_shared (without_share w cid u) c v \<longleftrightarrow> is_shared w c v \<and> (c, v) \<noteq> (cid, u)"
  by (auto simp: without_share_def is_shared_def)

lemma has_access_without_share:
  "has_access (without_share w cid u) v c \<longleftrightarrow> has_access w v c \<and> ((c, v) \<noteq> (cid, u) \<or> owns w u cid)"
  by (auto simp: has_access_iff without_share_simps owns_def calendar_exists_def)

lemma run_unshare_calendar:
  assumes "no_faults E"
  shows "run (unshare_calendar E cid u) w =
    (if is_shared w cid u then (Inr (), without_share w cid u) else (Inl (NotFound ''Share not found''), tick w))"
proof -
  have "filter (\<lambda>s. share_key s = (cid, u)) (db_shares w) = [] \<longleftrightarrow> \<not> is_shared w cid u"
    by (auto simp: is_shared_def filter_empty_conv)
  moreover have "\<not> is_shared w cid u \<Longrightarrow> filter (\<lambda>s. share_key s \<noteq> (cid, u)) (db_shares w) = db_shares w"
    by (auto simp: is_shared_def filter_id_conv)
  ultimately show ?thesis
    using assms by (simp add: unshare_calendar_def run_simps run_query delete_share_row_def without_share_def tick_def)
qed

text \<open>A user has some permission on a calendar exactly when the calendar is in the user's list.\<close>

lemma permission_iff_access:
  assumes "no_faults E" "db_inv w"
  shows "(\<exists>p. fst (run (get_user_permission E cid u) w) = Inr (Some p)) \<longleftrightarrow> has_access w u cid"
proof -
  have "(\<exists>p. Option.bind (find_share w cid u) (\<lambda>s. perm_from_str_value (s_permission s)) = Some p) \<longleftrightarrow> is_shared w cid u"
    using find_share_eq [of w cid u] find_share_valid [OF assms(2), of cid u]
    by (cases "find_share w cid u") auto
  then show ?thesis
    using is_shared_calendar [OF assms(2), of cid u]
    by (auto simp: run_get_user_permission [OF assms(1)] has_access_iff)
qed

section \<open>Properties\<close>

text \<open>C21: access is ownership or a share. The calendars listed for a user are exactly those the user owns
  and those shared with the user, each once and in the order of their names, and the permission
  reported for the user agrees with the list: there is one exactly for the calendars listed, and
  the owner always has the right to write.\<close>

theorem access_exact:
  assumes "no_faults E" "db_inv w"
  shows "\<exists>cs. run (list_calendars_for_user E u) w = (Inr cs, tick w) \<and>
    set cs = {c \<in> set (db_calendars w). c_owner_id c = u \<or>
      (\<exists>s \<in> set (db_shares w). s_calendar_id s = c_id c \<and> s_user_id s = u)} \<and>
    distinct cs \<and> sorted (map c_name cs) \<and>
    (\<forall>cid. (\<exists>p. fst (run (get_user_permission E cid u) w) = Inr (Some p)) \<longleftrightarrow> cid \<in> set (map c_id cs)) \<and>
    (\<forall>c \<in> set cs. c_owner_id c = u \<longrightarrow> fst (run (get_user_permission E (c_id c) u) w) = Inr (Some ReadWrite))"
proof (intro exI conjI)
  let ?cs = "accessible_calendars w u"
  show "run (list_calendars_for_user E u) w = (Inr ?cs, tick w)"
    using assms(1) by (simp add: list_calendars_for_user_def run_select accessible_calendars_def owned_calendars_def joined_calendars_def)
  show "set ?cs = {c \<in> set (db_calendars w). c_owner_id c = u \<or>
      (\<exists>s \<in> set (db_shares w). s_calendar_id s = c_id c \<and> s_user_id s = u)}"
    "distinct ?cs" "sorted (map c_name ?cs)"
    by (auto simp: accessible_calendars_def owned_calendars_def joined_calendars_def)
  show "\<forall>cid. (\<exists>p. fst (run (get_user_permission E cid u) w) = Inr (Some p)) \<longleftrightarrow> cid \<in> set (map c_id ?cs)"
    using permission_iff_access [OF assms] by (simp add: has_access_def)
  show "\<forall>c \<in> set ?cs. c_owner_id c = u \<longrightarrow> fst (run (get_user_permission E (c_id c) u) w) = Inr (Some ReadWrite)"
    by (auto simp: run_get_user_permission [OF assms(1)] owns_def set_accessible)
qed

theorem access_exact_witness:
  "\<exists>cs. fst (run (list_calendars_for_user demo_ext ''u2'') demo_world) = Inr cs \<and> set (map c_id cs) = {''work'', ''home''} \<and>
     (\<exists>p. fst (run (get_user_permission demo_ext ''work'' ''u2'') demo_world) = Inr (Some p))"
proof -
  let ?perm = "\<lambda>cid. \<exists>p. fst (run (get_user_permission demo_ext cid ''u2'') demo_world) = Inr (Some p)"
  note exact = access_exact [OF demo_no_faults demo_world_inv, of "''u2''"]
  from exact obtain cs where cs: "run (list_calendars_for_user demo_ext ''u2'') demo_world = (Inr cs, tick demo_world)"
      "set cs = {c \<in> set (db_calendars demo_world). c_owner_id c = ''u2'' \<or>
        (\<exists>s \<in> set (db_shares demo_world). s_calendar_id s = c_id c \<and> s_user_id s = ''u2'')}"
      "\<forall>cid. ?perm cid \<longleftrightarrow> cid \<in> set (map c_id cs)"
    by (elim exE conjE) (rule that)
  have ids: "set (map c_id cs) = {''work'', ''home''}"
    unfolding set_map cs(2) set_filter [symmetric] by (simp add: demo_defs insert_commute)
  from cs(3) have "?perm ''work'' \<longleftrightarrow> ''work'' \<in> set (map c_id cs)" by (rule spec)
  then show ?thesis using cs(1) ids by (intro exI [of _ cs] conjI) (simp_all only: fst_conv insert_iff simp_thms)
qed

text \<open>Granting a share is effective and confined. When calendar and user exist, sharing succeeds
  and the user then has exactly the granted permission (an owner keeps the right to write), also
  when a share of another level existed before; nobody else's permission changes.\<close>

lemma share_calendar_grants:
  assumes "no_faults E" "calendar_exists w cid" "user_exists w u" "uuid_v7 E (ticks w) \<notin> set (map s_id (db_shares w))"
  shows "\<exists>s w'. run (share_calendar E cid u p) w = (Inr s, w') \<and> s_permission s = perm_as_str p \<and>
    (\<forall>c v. fst (run (get_user_permission E c v) w') =
       (if (c, v) = (cid, u) \<and> \<not> owns w u cid then Inr (Some p)
        else fst (run (get_user_permission E c v) w)))"
proof -
  obtain s w' where s: "run (share_calendar E cid u p) w = (Inr s, w')" "s_permission s = perm_as_str p"
      "\<forall>c v. find_share w' c v = (if (c, v) = (cid, u) then Some s else find_share w c v)" "db_calendars w' = db_calendars w"
    by (rule run_share_calendar [OF assms, where p = p])
  have "owns w' = owns w" using s(4) by (simp add: owns_def fun_eq_iff)
  then show ?thesis using s(1-3) by (auto simp: run_get_user_permission [OF assms(1)] perm_round_trip)
qed

text \<open>Revoking a share is effective. After a successful \<open>unshare_calendar\<close> the user has no
  access to the calendar unless the user owns it, and the access of everybody else is unchanged;
  it fails with \<open>NotFound\<close> exactly when there was no share.\<close>

lemma unshare_calendar_revokes:
  assumes "no_faults E"
  shows "case run (unshare_calendar E cid u) w of
      (Inr _, w') \<Rightarrow> is_shared w cid u \<and> \<not> is_shared w' cid u \<and>
        (\<forall>v c. has_access w' v c = (has_access w v c \<and>
           ((c, v) \<noteq> (cid, u) \<or> owns w u cid)))
    | (Inl e, w') \<Rightarrow> e = NotFound ''Share not found'' \<and> \<not> is_shared w cid u \<and> same_data w w'"
proof (cases "is_shared w cid u")
  case True
  then show ?thesis
    by (auto simp: run_unshare_calendar [OF assms] without_share_simps has_access_without_share)
qed (simp add: run_unshare_calendar [OF assms])

end
