(* ===== verification/Events.thy ===== *)
theory Events
  imports Calendars
begin

text \<open>
  \<open>src/db/events.rs\<close>: calendar objects and the log of their changes. Storing or deleting an
  object is a sequence of statements (the object, the log entry, the change tag of the calendar)
  without a transaction around them.
\<close>

section \<open>Operations\<close>

definition etag_of :: "string \<Rightarrow> string" where
  "etag_of uuid = dquoted uuid"

definition new_etag :: "ext \<Rightarrow> (world, string) prog" where
  "new_etag E = bind (draw (uuid_v4 E)) (\<lambda>u. Ret (etag_of u))"

definition lookup_object :: "world \<Rightarrow> string \<Rightarrow> string \<Rightarrow> CalendarObject option" where
  "lookup_object w calendar_id uid = find (\<lambda>ob. obj_key ob = (calendar_id, uid)) (db_objects w)"

definition get_object_by_uid :: "ext \<Rightarrow> string \<Rightarrow> string \<Rightarrow> CalendarObject option app" where
  "get_object_by_uid E calendar_id uid = query E (select (\<lambda>w. lookup_object w calendar_id uid))"

definition log_sync_change :: "ext \<Rightarrow> string \<Rightarrow> string \<Rightarrow> string \<Rightarrow> string \<Rightarrow> unit app" where
  "log_sync_change E calendar_id object_uid change_type sync_token =
     query E (\<lambda>w. insert_change
       \<lparr>x_id = 0, x_calendar_id = calendar_id, x_object_uid = object_uid,
        x_change_type = change_type, x_sync_token = sync_token,
        x_created_at = datetime_now E (ticks w)\<rparr> w)"

definition upsert_object ::
  "ext \<Rightarrow> string \<Rightarrow> string \<Rightarrow> string \<Rightarrow> ObjectFields \<Rightarrow> (CalendarObject \<times> bool) app" where
  "upsert_object E calendar_id uid ical_data flds =
     bindE (get_object_by_uid E calendar_id uid) (\<lambda>existing.
     let is_new = (existing = None) in
     bind (new_etag E) (\<lambda>etag.
     bind (draw (uuid_v7 E)) (\<lambda>u.
     let new_token = sync_token_of u in
     bindE
       (if is_new then
          bind (draw (uuid_v7 E)) (\<lambda>i.
          bindE (query E (\<lambda>w. insert_object
                   \<lparr>o_id = i, o_calendar_id = calendar_id, o_uid = uid, o_etag = etag,
                    o_ical_data = ical_data, o_component_type = f_component_type flds,
                    o_dtstart = f_dtstart flds, o_dtend = f_dtend flds,
                    o_summary = f_summary flds, o_created_at = datetime_now E (ticks w),
                    o_updated_at = datetime_now E (ticks w)\<rparr> w)) (\<lambda>_.
          log_sync_change E calendar_id uid ''created'' new_token))
        else
          bindE (query E (update_object_row E etag ical_data (f_component_type flds)
                   (f_dtstart flds) (f_dtend flds) (f_summary flds) calendar_id uid)) (\<lambda>_.
          log_sync_change E calendar_id uid ''modified'' new_token)) (\<lambda>_.
     bindE (bump_ctag E calendar_id) (\<lambda>_.
     bindE (get_object_by_uid E calendar_id uid) (\<lambda>found.
     bindE (ok_orE (Internal ''Object upserted but not found'') found) (\<lambda>obj.
     okE (obj, is_new))))))))"

definition objects_of :: "world \<Rightarrow> string \<Rightarrow> CalendarObject list" where
  "objects_of w calendar_id = filter (\<lambda>ob. o_calendar_id ob = calendar_id) (db_objects w)"

definition list_objects :: "ext \<Rightarrow> string \<Rightarrow> CalendarObject list app" where
  "list_objects E calendar_id = query E (select (\<lambda>w. sort_key o_dtstart (objects_of w calendar_id)))"

definition in_range :: "string \<Rightarrow> string \<Rightarrow> CalendarObject \<Rightarrow> bool" where
  "in_range start stop ob =
     (case (o_dtstart ob, o_dtend ob) of (Some s, Some e) \<Rightarrow> s < stop \<and> e > start | _ \<Rightarrow> False)"

definition list_objects_in_range :: "ext \<Rightarrow> string \<Rightarrow> string \<Rightarrow> string \<Rightarrow> CalendarObject list app" where
  "list_objects_in_range E calendar_id start stop =
     query E (select (\<lambda>w. sort_key o_dtstart (filter (in_range start stop) (objects_of w calendar_id))))"

definition get_objects_by_uids :: "ext \<Rightarrow> string \<Rightarrow> string list \<Rightarrow> CalendarObject list app" where
  "get_objects_by_uids E calendar_id uids =
     (if uids = [] then okE []
      else query E (select (\<lambda>w. sort_key o_dtstart
             (filter (\<lambda>ob. o_uid ob \<in> set uids) (objects_of w calendar_id)))))"

definition delete_object :: "ext \<Rightarrow> string \<Rightarrow> string \<Rightarrow> unit app" where
  "delete_object E calendar_id uid =
     bindE (query E (delete_object_row calendar_id uid)) (\<lambda>n.
       if n = 0
       then errE (NotFound (''Object with UID '' @ squoted uid @ '' not found in calendar''))
       else bind (draw (uuid_v7 E)) (\<lambda>u.
            bindE (log_sync_change E calendar_id uid ''deleted'' (sync_token_of u)) (\<lambda>_.
            bindE (bump_ctag E calendar_id) (\<lambda>_. okE ()))))"

text \<open>The two queries of \<open>get_sync_changes_since\<close>: the row logged with the token, then what was
  logged after it, or everything when the token is unknown.\<close>

definition changes_of :: "world \<Rightarrow> string \<Rightarrow> SyncChange list" where
  "changes_of w calendar_id = filter (\<lambda>x. x_calendar_id x = calendar_id) (db_changes w)"

definition sync_anchor :: "world \<Rightarrow> string \<Rightarrow> string \<Rightarrow> int option" where
  "sync_anchor w calendar_id token =
     map_option x_id (find (\<lambda>x. x_calendar_id x = calendar_id \<and> x_sync_token x = token) (db_changes w))"

definition get_sync_changes_since :: "ext \<Rightarrow> string \<Rightarrow> string \<Rightarrow> SyncChange list app" where
  "get_sync_changes_since E calendar_id since_token =
     bindE (query E (select (\<lambda>w. sync_anchor w calendar_id since_token))) (\<lambda>anchor.
       case anchor of
         Some anchor_id \<Rightarrow>
           query E (select (\<lambda>w. sort_key x_id (filter (\<lambda>x. x_id x > anchor_id) (changes_of w calendar_id))))
       | None \<Rightarrow> query E (select (\<lambda>w. sort_key x_id (changes_of w calendar_id))))"

lemmas events_defs [op_defs] =
  new_etag_def get_object_by_uid_def log_sync_change_def upsert_object_def list_objects_def
  list_objects_in_range_def get_objects_by_uids_def delete_object_def get_sync_changes_since_def

lemma lookup_tick [simp]: "lookup_object (tick w) c u = lookup_object w c u"
  by (simp add: lookup_object_def)

context tick_invariant
begin

lemma safe_new_etag [safe_rules]: "safe I (new_etag E)"
  unfolding new_etag_def by (intro safe_rules)

lemma safe_get_object_by_uid [safe_rules]: "safe I (get_object_by_uid E c u)"
  unfolding get_object_by_uid_def by (intro safe_rules)

lemma safe_list_objects [safe_rules]: "safe I (list_objects E c)"
  unfolding list_objects_def by (intro safe_rules)

lemma safe_list_objects_in_range [safe_rules]: "safe I (list_objects_in_range E c s e)"
  unfolding list_objects_in_range_def by (intro safe_rules)

lemma safe_get_objects_by_uids [safe_rules]: "safe I (get_objects_by_uids E c us)"
  unfolding get_objects_by_uids_def by (intro safe_rules)

lemma safe_get_sync_changes_since [safe_rules]: "safe I (get_sync_changes_since E c t)"
  unfolding get_sync_changes_since_def by (intro safe_rules)

end

context object_stmts
begin

lemma safe_log_sync_change [safe_rules]: "safe I (log_sync_change E cid u t s)"
  unfolding log_sync_change_def by (intro safe_query keep_object_change) simp_all

lemma safe_insert_object [safe_rules]:
  "(\<And>w. o_calendar_id (ob w) = cid) \<Longrightarrow> (\<And>w. described (ob w)) \<Longrightarrow> safe I (query E (\<lambda>w. insert_object (ob w) w))"
  by (intro safe_query keep_object_insert) simp_all

lemma safe_upsert_object [safe_rules]: "describes u d f \<Longrightarrow> safe I (upsert_object E cid u d f)"
  unfolding upsert_object_def Let_def
  by (intro safe_rules safe_query keep_object_update) (simp_all add: described_def object_fields_def)

lemma safe_delete_object [safe_rules]: "safe I (delete_object E cid u)"
  unfolding delete_object_def by (intro safe_rules safe_query keep_object_delete)

end

text \<open>The constraints of the schema do not depend on what the columns say about the text.\<close>

lemma integrity_upsert_object: "safe db_inv (upsert_object E cid u d f)"
  unfolding upsert_object_def Let_def
  by (intro integrity.safe_query integrity.object_at.safe_log_sync_change db_inv_insert_object db_inv_update_object safe_rules)
    (simp_all add: select_one_def)

end
