(* ===== verification/Keyed_Store.thy ===== *)
theory Keyed_Store
  imports Prelude
begin

text \<open>
  The contract of a store of values under keys, as the event store of the database and the table
  of MCP sessions offer it, and what follows from the contract for sequences of operations.
\<close>

section \<open>The contract of a store\<close>

text \<open>A store with keys \<open>'k\<close> and values \<open>'v\<close> over states \<open>'s\<close>; \<open>ok\<close> says when a key can be used.\<close>

datatype ('k, 'v) store_op = Put 'k 'v | Del 'k

primrec op_key :: "('k, 'v) store_op \<Rightarrow> 'k" where
  "op_key (Put k v) = k"
| "op_key (Del k) = k"

primrec map_op :: "('k, 'v) store_op \<Rightarrow> ('k \<Rightarrow> 'v option) \<Rightarrow> 'k \<Rightarrow> 'v option" where
  "map_op (Put k v) m = m(k \<mapsto> v)"
| "map_op (Del k) m = m(k := None)"

definition store_step ::
  "('k \<Rightarrow> 'v \<Rightarrow> 's \<Rightarrow> 's) \<Rightarrow> ('k \<Rightarrow> 's \<Rightarrow> 's) \<Rightarrow> ('k, 'v) store_op \<Rightarrow> 's \<Rightarrow> 's" where
  "store_step put del x s = (case x of Put k v \<Rightarrow> put k v s | Del k \<Rightarrow> del k s)"

locale keyed_store =
  fixes ok :: "'s \<Rightarrow> 'k \<Rightarrow> bool"
    and get :: "'s \<Rightarrow> 'k \<Rightarrow> 'v option"
    and put :: "'k \<Rightarrow> 'v \<Rightarrow> 's \<Rightarrow> 's"
    and del :: "'k \<Rightarrow> 's \<Rightarrow> 's"
  assumes get_put: "ok s k \<Longrightarrow> get (put k v s) = (get s)(k \<mapsto> v)"
    and get_del: "ok s k \<Longrightarrow> get (del k s) = (get s)(k := None)"
    and ok_put: "ok s k \<Longrightarrow> ok s j \<Longrightarrow> ok (put k v s) j"
    and ok_del: "ok s k \<Longrightarrow> ok s j \<Longrightarrow> ok (del k s) j"
begin

lemma ok_apply: "ok s (op_key x) \<Longrightarrow> ok s j \<Longrightarrow> ok (store_step put del x s) j"
  by (cases x) (auto simp: store_step_def intro: ok_put ok_del)

lemma get_apply: "ok s (op_key x) \<Longrightarrow> get (store_step put del x s) = map_op x (get s)"
  by (cases x) (auto simp: store_step_def get_put get_del)

lemma get_fold:
  "(\<forall>x \<in> set xs. ok s (op_key x)) \<Longrightarrow> get (fold (store_step put del) xs s) = fold map_op xs (get s)"
proof (induction xs arbitrary: s)
  case Nil
  show ?case by simp
next
  case (Cons x xs)
  then have "\<forall>y \<in> set xs. ok (store_step put del x s) (op_key y)" by (auto intro: ok_apply)
  with Cons show ?case by (simp add: get_apply)
qed

lemma last_put_wins: "ok s k \<Longrightarrow> get (put k v2 (put k v1 s)) k = Some v2"
  by (simp add: get_put ok_put)

lemma put_del: "ok s k \<Longrightarrow> get (del k (put k v s)) = (get s)(k := None)"
  by (simp add: get_put get_del ok_put)

end

end
