(* ===== verification/Object_Store.thy ===== *)
theory Object_Store
  imports Shares Events Keyed_Store
begin

text \<open>
  What storing and deleting objects does to the whole state, and the contract of the event store:
  a map from calendar and UID to the stored text and fields, with a log of changes beside it. The
  contract is a locale; it is interpreted on the operations of \<open>src/db/events.rs\<close>, under the
  assumption that the database answers and that UUIDs do not repeat.
\<close>

section \<open>Running the operations\<close>

text \<open>No identifier in use equals one that will be drawn.\<close>

definition ids_fresh :: "ext \<Rightarrow> world \<Rightarrow> bool" where
  "ids_fresh E w \<longleftrightarrow>
     (\<forall>n \<ge> ticks w. uuid_v7 E n \<notin> set (map o_id (db_objects w)) \<and>
        etag_of (uuid_v4 E n) \<notin> set (map o_etag (db_objects w)) \<and>
        sync_token_of (uuid_v7 E n) \<notin> set (map x_sync_token (db_changes w)))"

definition new_object :: "ext \<Rightarrow> nat \<Rightarrow> string \<Rightarrow> string \<Rightarrow> string \<Rightarrow> ObjectFields \<Rightarrow> CalendarObject" where
  "new_object E t cid uid data flds =
     \<lparr>o_id = uuid_v7 E (t + 3), o_calendar_id = cid, o_uid = uid, o_etag = etag_of (uuid_v4 E (t + 1)),
      o_ical_data = data, o_component_type = f_component_type flds, o_dtstart = f_dtstart flds,
      o_dtend = f_dtend flds, o_summary = f_summary flds, o_created_at = datetime_now E (t + 5),
      o_updated_at = datetime_now E (t + 5)\<rparr>"

definition changed_object :: "ext \<Rightarrow> nat \<Rightarrow> string \<Rightarrow> ObjectFields \<Rightarrow> CalendarObject \<Rightarrow> CalendarObject" where
  "changed_object E t data flds ob =
     ob\<lparr>o_etag := etag_of (uuid_v4 E (t + 1)), o_ical_data := data,
        o_component_type := f_component_type flds, o_dtstart := f_dtstart flds,
        o_dtend := f_dtend flds, o_summary := f_summary flds,
        o_updated_at := datetime_now E (t + 4)\<rparr>"

text \<open>The log entry and the change tag that every change leaves: \<open>t\<close> is the time of the log entry.\<close>

definition logged :: "ext \<Rightarrow> nat \<Rightarrow> string \<Rightarrow> string \<Rightarrow> string \<Rightarrow> string \<Rightarrow> world \<Rightarrow> world" where
  "logged E t cid uid kind token w =
     w\<lparr>db_changes := db_changes w @
         [\<lparr>x_id = change_seq w + 1, x_calendar_id = cid, x_object_uid = uid, x_change_type = kind,
           x_sync_token = token, x_created_at = datetime_now E t\<rparr>],
       change_seq := change_seq w + 1,
       db_calendars := map (\<lambda>c. if c_id c = cid
         then c\<lparr>c_ctag := sync_token_of (uuid_v7 E t), c_sync_token := sync_token_of (uuid_v7 E t),
                c_updated_at := datetime_now E (t + 2)\<rparr> else c) (db_calendars w)\<rparr>"

lemma logged_simps [simp]:
  "db_users (logged E t c u k tk w) = db_users w" "db_objects (logged E t c u k tk w) = db_objects w"
  "db_shares (logged E t c u k tk w) = db_shares w" "db_tokens (logged E t c u k tk w) = db_tokens w"
  "mcp_sessions (logged E t c u k tk w) = mcp_sessions w" "ticks (logged E t c u k tk w) = ticks w"
  by (simp_all add: logged_def)

lemma lookup_append:
  "lookup_object w c u = None \<Longrightarrow> obj_key ob = (c, u) \<Longrightarrow>
   find (\<lambda>ob. obj_key ob = (c, u)) (db_objects w @ [ob]) = Some ob"
  by (simp add: lookup_object_def find_append)

lemma lookup_NoneD: "lookup_object w c u = None \<Longrightarrow> (c, u) \<notin> set (map obj_key (db_objects w))"
  by (auto simp: lookup_object_def find_None_iff)

lemma run_log_sync_change:
  assumes "no_faults E" "calendar_exists w cid" "change_type_check kind"
  shows "run (log_sync_change E cid uid kind token) w =
    (Inr (), w\<lparr>db_changes := db_changes w @
         [\<lparr>x_id = change_seq w + 1, x_calendar_id = cid, x_object_uid = uid, x_change_type = kind,
           x_sync_token = token, x_created_at = datetime_now E (Suc (ticks w))\<rparr>],
       change_seq := change_seq w + 1, ticks := Suc (ticks w)\<rparr>)"
  using assms by (cases w) (simp add: log_sync_change_def run_query insert_change_def tick_def
      calendar_exists_def)

lemma run_bump_ctag:
  assumes "no_faults E"
  shows "run (bump_ctag E cid) w =
    (Inr (sync_token_of (uuid_v7 E (ticks w))),
     w\<lparr>db_calendars := map (\<lambda>c. if c_id c = cid
         then c\<lparr>c_ctag := sync_token_of (uuid_v7 E (ticks w)), c_sync_token := sync_token_of (uuid_v7 E (ticks w)),
                c_updated_at := datetime_now E (Suc (Suc (ticks w)))\<rparr> else c) (db_calendars w),
       ticks := Suc (Suc (ticks w))\<rparr>)"
  using assms
  by (cases w) (simp add: bump_ctag_def new_sync_token_def run_simps run_query update_calendar_tokens_def
      tick_def cong: if_cong)

lemmas run_change_rules = run_log_sync_change run_bump_ctag change_type_check_def

text \<open>Storing an object: one run for a new UID, one for a UID in use.\<close>

abbreviation at_time :: "nat \<Rightarrow> world \<Rightarrow> world" where
  "at_time t w \<equiv> w\<lparr>ticks := t\<rparr>"

definition inserted :: "ext \<Rightarrow> world \<Rightarrow> string \<Rightarrow> string \<Rightarrow> string \<Rightarrow> ObjectFields \<Rightarrow> world" where
  "inserted E w cid uid data flds =
     logged E (ticks w + 6) cid uid ''created'' (sync_token_of (uuid_v7 E (ticks w + 2)))
       (w\<lparr>db_objects := db_objects w @ [new_object E (ticks w) cid uid data flds], ticks := ticks w + 9\<rparr>)"

definition updated :: "ext \<Rightarrow> world \<Rightarrow> string \<Rightarrow> string \<Rightarrow> string \<Rightarrow> ObjectFields \<Rightarrow> world" where
  "updated E w cid uid data flds =
     logged E (ticks w + 5) cid uid ''modified'' (sync_token_of (uuid_v7 E (ticks w + 2)))
       (w\<lparr>db_objects := map (\<lambda>ob. if obj_key ob = (cid, uid)
            then changed_object E (ticks w) data flds ob else ob) (db_objects w), ticks := ticks w + 8\<rparr>)"

definition removed :: "ext \<Rightarrow> world \<Rightarrow> string \<Rightarrow> string \<Rightarrow> world" where
  "removed E w cid uid =
     logged E (ticks w + 3) cid uid ''deleted'' (sync_token_of (uuid_v7 E (ticks w + 1)))
       (w\<lparr>db_objects := filter (\<lambda>ob. obj_key ob \<noteq> (cid, uid)) (db_objects w), ticks := ticks w + 5\<rparr>)"

lemma run_get_object [run_simps]:
  "no_faults E \<Longrightarrow> run (get_object_by_uid E c u) w = (Inr (lookup_object w c u), tick w)"
  by (simp add: get_object_by_uid_def run_select lookup_object_def)

lemmas record_steps =
  tick_def logged_def eval_nat_numeral calendar_exists_def lookup_object_def find_append

lemma run_upsert_new:
  assumes "no_faults E" "calendar_exists w cid" "lookup_object w cid uid = None" "ids_fresh E w"
  shows "run (upsert_object E cid uid data flds) w =
    (Inr (new_object E (ticks w) cid uid data flds, True), inserted E w cid uid data flds)"
proof -
  have id: "uuid_v7 E (ticks w + 3) \<notin> set (map o_id (db_objects w))"
    using assms(4) by (simp add: ids_fresh_def)
  show ?thesis
    using assms(1-3) id lookup_NoneD [OF assms(3)]
    by (cases w) (simp add: upsert_object_def Let_def run_simps new_etag_def run_query insert_object_def
        inserted_def new_object_def run_change_rules record_steps cong: if_cong)
qed

lemma find_upd_key:
  "find (\<lambda>ob. obj_key ob = k) (map (\<lambda>ob. if obj_key ob = k then f ob else ob) obs)
     = map_option f (find (\<lambda>ob. obj_key ob = k) obs)"
  if "\<And>ob. obj_key (f ob) = obj_key ob"
  using that by (induction obs) auto

lemma changed_object_key [simp]:
  "o_calendar_id (changed_object E t d fs ob) = o_calendar_id ob" "o_uid (changed_object E t d fs ob) = o_uid ob"
  by (simp_all add: changed_object_def)

lemma run_update_object_row:
  assumes "no_faults E"
  shows "run (query E (update_object_row E (etag_of (uuid_v4 E (t + 1))) data (f_component_type fs)
            (f_dtstart fs) (f_dtend fs) (f_summary fs) cid uid)) (at_time (t + 3) w) =
    (Inr (), w\<lparr>db_objects := map (\<lambda>ob. if obj_key ob = (cid, uid)
        then changed_object E t data fs ob else ob) (db_objects w), ticks := t + 4\<rparr>)"
  using assms
  by (cases w) (simp add: run_query update_object_row_def changed_object_def tick_def eval_nat_numeral cong: if_cong)

lemma run_upsert_old:
  assumes "no_faults E" "calendar_exists w cid" "lookup_object w cid uid = Some ob"
  shows "run (upsert_object E cid uid data flds) w =
    (Inr (changed_object E (ticks w) data flds ob, False), updated E w cid uid data flds)"
proof -
  have steps: "tick (tick (tick w)) = at_time (ticks w + 3) w"
    by (simp add: tick_def eval_nat_numeral)
  have found: "find (\<lambda>ob. obj_key ob = (cid, uid)) (map (\<lambda>ob. if obj_key ob = (cid, uid)
      then changed_object E (ticks w) data flds ob else ob) (db_objects w))
      = Some (changed_object E (ticks w) data flds ob)"
    using assms(3) find_upd_key [where f = "changed_object E (ticks w) data flds" and k = "(cid, uid)"]
    by (simp add: lookup_object_def)
  show ?thesis
    using assms(1-3) found run_update_object_row [OF assms(1), of "ticks w" data flds cid uid w]
    by (cases w) (simp add: upsert_object_def Let_def run_simps new_etag_def steps updated_def
        run_change_rules record_steps cong: if_cong)
qed

lemma run_delete_found:
  assumes "no_faults E" "calendar_exists w cid" "lookup_object w cid uid = Some ob"
  shows "run (delete_object E cid uid) w = (Inr (), removed E w cid uid)"
proof -
  have "filter (\<lambda>ob. obj_key ob = (cid, uid)) (db_objects w) \<noteq> []"
    using find_SomeD [OF assms(3) [unfolded lookup_object_def]] by (auto simp: filter_empty_conv)
  then show ?thesis
    using assms(1,2)
    by (cases w) (simp add: delete_object_def run_simps run_query delete_object_row_def removed_def
        run_change_rules record_steps cong: if_cong)
qed

lemma run_delete_missing:
  assumes "no_faults E" "lookup_object w cid uid = None"
  shows "run (delete_object E cid uid) w =
    (Inl (NotFound (''Object with UID '' @ squoted uid @ '' not found in calendar'')), tick w)"
proof -
  have "filter (\<lambda>ob. obj_key ob = (cid, uid)) (db_objects w) = []"
    using assms(2) by (auto simp: lookup_object_def find_None_iff filter_empty_conv)
  moreover from this have "filter (\<lambda>ob. obj_key ob \<noteq> (cid, uid)) (db_objects w) = db_objects w"
    by (auto simp: filter_empty_conv filter_id_conv)
  ultimately show ?thesis
    using assms(1) by (simp add: delete_object_def run_simps run_query delete_object_row_def tick_def)
qed

section \<open>The event store keeps the contract\<close>

definition object_value :: "CalendarObject \<Rightarrow> string \<times> ObjectFields" where
  "object_value ob =
     (o_ical_data ob, \<lparr>f_component_type = o_component_type ob, f_dtstart = o_dtstart ob,
        f_dtend = o_dtend ob, f_summary = o_summary ob\<rparr>)"

definition stored_value :: "world \<Rightarrow> string \<times> string \<Rightarrow> (string \<times> ObjectFields) option" where
  "stored_value w k = map_option object_value (lookup_object w (fst k) (snd k))"

definition store_ok :: "ext \<Rightarrow> world \<Rightarrow> string \<times> string \<Rightarrow> bool" where
  "store_ok E w k \<longleftrightarrow> calendar_exists w (fst k) \<and> ids_fresh E w"

definition store_put :: "ext \<Rightarrow> string \<times> string \<Rightarrow> string \<times> ObjectFields \<Rightarrow> world \<Rightarrow> world" where
  "store_put E k v w = snd (run (upsert_object E (fst k) (snd k) (fst v) (snd v)) w)"

definition store_del :: "ext \<Rightarrow> string \<times> string \<Rightarrow> world \<Rightarrow> world" where
  "store_del E k w = snd (run (delete_object E (fst k) (snd k)) w)"

lemma stored_etag [simp]:
  "o_etag (new_object E t c u d fs) = etag_of (uuid_v4 E (t + 1))"
  "o_etag (changed_object E t d fs ob) = etag_of (uuid_v4 E (t + 1))"
  by (simp_all add: new_object_def changed_object_def)

lemma fresh_etag: "ids_fresh E w \<Longrightarrow> etag_of (uuid_v4 E (Suc (ticks w))) \<notin> set (map o_etag (db_objects w))"
  by (simp add: ids_fresh_def)

lemma object_value_new [simp]: "object_value (new_object E t c u d fs) = (d, fs)"
  by (simp add: object_value_def new_object_def)

lemma object_value_changed [simp]: "object_value (changed_object E t d fs ob) = (d, fs)"
  by (simp add: object_value_def changed_object_def)

lemma lookup_inserted:
  "lookup_object w c u = None \<Longrightarrow>
   lookup_object (inserted E w c u d fs) c' u' =
     (if (c', u') = (c, u) then Some (new_object E (ticks w) c u d fs) else lookup_object w c' u')"
  by (auto simp: lookup_object_def inserted_def find_append new_object_def split: option.split)

lemma lookup_updated:
  "lookup_object (updated E w c u d fs) c' u' =
     (if (c', u') = (c, u) then map_option (changed_object E (ticks w) d fs) (lookup_object w c u)
      else lookup_object w c' u')"
proof (cases "(c', u') = (c, u)")
  case True
  then show ?thesis
    using find_upd_key [where f = "changed_object E (ticks w) d fs" and k = "(c, u)"]
    by (simp add: lookup_object_def updated_def)
next
  case False
  have "find (\<lambda>ob. obj_key ob = (c', u')) (map (\<lambda>ob. if obj_key ob = (c, u) then f ob else ob) obs)
      = find (\<lambda>ob. obj_key ob = (c', u')) obs" if "\<And>ob. obj_key (f ob) = obj_key ob" for f obs
    using that False by (induction obs) auto
  from this [of "changed_object E (ticks w) d fs" "db_objects w"] False show ?thesis
    by (auto simp: lookup_object_def updated_def)
qed

lemma lookup_removed:
  "lookup_object (removed E w c u) c' u' = (if (c', u') = (c, u) then None else lookup_object w c' u')"
  by (auto simp: lookup_object_def removed_def find_None_iff intro!: find_filter_other)

lemma calendar_exists_logged [simp]: "calendar_exists (logged E t c u k tk w) i = calendar_exists w i"
  by (simp add: calendar_exists_def logged_def map_upd_column del: map_map set_map)

lemma other_calendars_logged:
  "filter (\<lambda>x. c_id x \<noteq> c) (db_calendars (logged E t c u k tk w)) = filter (\<lambda>x. c_id x \<noteq> c) (db_calendars w)"
  unfolding logged_def by (simp, rule filter_other_upd) simp

lemma logged_changes:
  "db_changes (logged E t c u k tk w) = db_changes w @
     [\<lparr>x_id = change_seq w + 1, x_calendar_id = c, x_object_uid = u, x_change_type = k,
       x_sync_token = tk, x_created_at = datetime_now E t\<rparr>]"
  by (simp add: logged_def)

lemma calendar_exists_changed [simp]:
  "calendar_exists (inserted E w c u d fs) i = calendar_exists w i"
  "calendar_exists (updated E w c u d fs) i = calendar_exists w i"
  "calendar_exists (removed E w c u) i = calendar_exists w i"
  by (simp_all add: inserted_def updated_def removed_def) (simp_all add: calendar_exists_def)

lemma etag_of_eq [simp]: "etag_of a = etag_of b \<longleftrightarrow> a = b"
  by (simp add: etag_of_def)

lemma sync_token_of_eq [simp]: "sync_token_of a = sync_token_of b \<longleftrightarrow> a = b"
  by (simp add: sync_token_of_def)

lemma not_in_grown: "B \<subseteq> A \<union> f ` {..<t} \<Longrightarrow> x \<notin> A \<Longrightarrow> (\<And>m. m < t \<Longrightarrow> x \<noteq> f m) \<Longrightarrow> x \<notin> B" for t :: nat
  by auto

text \<open>A state reached by changes that used only numbers already passed stays fresh.\<close>

lemma ids_fresh_step:
  assumes "ids_fresh E w" "uuids_distinct E" "ticks w \<le> ticks v"
    and "set (map o_id (db_objects v)) \<subseteq> set (map o_id (db_objects w)) \<union> uuid_v7 E ` {..<ticks v}"
    and "set (map o_etag (db_objects v)) \<subseteq> set (map o_etag (db_objects w)) \<union> (etag_of \<circ> uuid_v4 E) ` {..<ticks v}"
    and "set (map x_sync_token (db_changes v)) \<subseteq>
           set (map x_sync_token (db_changes w)) \<union> (sync_token_of \<circ> uuid_v7 E) ` {..<ticks v}"
  shows "ids_fresh E v"
  unfolding ids_fresh_def
proof (intro allI impI conjI)
  fix n assume n: "ticks v \<le> n"
  have old: "uuid_v7 E n \<notin> set (map o_id (db_objects w))"
      "etag_of (uuid_v4 E n) \<notin> set (map o_etag (db_objects w))"
      "sync_token_of (uuid_v7 E n) \<notin> set (map x_sync_token (db_changes w))"
    using assms(1,3) n by (auto simp: ids_fresh_def)
  have new: "uuid_v7 E n \<noteq> uuid_v7 E m" "uuid_v4 E n \<noteq> uuid_v4 E m" if "m < ticks v" for m
    using that n uuid_v7_eq [OF assms(2)] uuid_v4_eq [OF assms(2)] by auto
  show "uuid_v7 E n \<notin> set (map o_id (db_objects v))"
    by (rule not_in_grown [OF assms(4) old(1) new(1)])
  show "etag_of (uuid_v4 E n) \<notin> set (map o_etag (db_objects v))"
    by (rule not_in_grown [OF assms(5) old(2)]) (simp add: new(2))
  show "sync_token_of (uuid_v7 E n) \<notin> set (map x_sync_token (db_changes v))"
    by (rule not_in_grown [OF assms(6) old(3)]) (simp add: new(1))
qed

lemma ids_fresh_tick: "ids_fresh E w \<Longrightarrow> ids_fresh E (tick w)"
  by (simp add: ids_fresh_def)

lemma ids_fresh_inserted: "ids_fresh E w \<Longrightarrow> uuids_distinct E \<Longrightarrow> ids_fresh E (inserted E w c u d fs)"
  by (rule ids_fresh_step) (auto simp: inserted_def logged_def new_object_def)

lemma ids_fresh_updated: "ids_fresh E w \<Longrightarrow> uuids_distinct E \<Longrightarrow> ids_fresh E (updated E w c u d fs)"
  by (rule ids_fresh_step) (auto simp: updated_def logged_def changed_object_def)

lemma ids_fresh_removed: "ids_fresh E w \<Longrightarrow> uuids_distinct E \<Longrightarrow> ids_fresh E (removed E w c u)"
  by (rule ids_fresh_step) (auto simp: removed_def logged_def)

text \<open>The environment the contract needs: the database answers, and UUIDs do not repeat.\<close>

locale reliable =
  fixes E :: ext
  assumes answers: "no_faults E" and no_repeats: "uuids_distinct E"
begin

lemma store_put_cases:
  assumes "store_ok E w k"
  obtains "lookup_object w (fst k) (snd k) = None"
      "store_put E k v w = inserted E w (fst k) (snd k) (fst v) (snd v)"
  | ob where "lookup_object w (fst k) (snd k) = Some ob"
      "store_put E k v w = updated E w (fst k) (snd k) (fst v) (snd v)"
  using assms run_upsert_new [OF answers] run_upsert_old [OF answers]
  by (cases "lookup_object w (fst k) (snd k)") (auto simp: store_put_def store_ok_def)

lemma store_del_cases:
  assumes "store_ok E w k"
  obtains "lookup_object w (fst k) (snd k) = None" "store_del E k w = tick w"
  | ob where "lookup_object w (fst k) (snd k) = Some ob" "store_del E k w = removed E w (fst k) (snd k)"
  using assms run_delete_missing [OF answers] run_delete_found [OF answers]
  by (cases "lookup_object w (fst k) (snd k)") (auto simp: store_del_def store_ok_def)

lemma stored_value_put:
  assumes "store_ok E w k"
  shows "stored_value (store_put E k v w) = (stored_value w)(k \<mapsto> v)"
  by (rule store_put_cases [OF assms, of v])
    (auto simp: fun_eq_iff stored_value_def lookup_inserted lookup_updated prod_eq_iff)

lemma stored_value_del:
  assumes "store_ok E w k"
  shows "stored_value (store_del E k w) = (stored_value w)(k := None)"
  by (rule store_del_cases [OF assms])
    (auto simp: fun_eq_iff stored_value_def lookup_removed prod_eq_iff)

lemma store_ok_put:
  assumes "store_ok E w k" "store_ok E w j" shows "store_ok E (store_put E k v w) j"
  using assms(2)
  by (rule_tac store_put_cases [OF assms(1), of v])
    (auto simp: store_ok_def ids_fresh_inserted ids_fresh_updated no_repeats)

lemma store_ok_del:
  assumes "store_ok E w k" "store_ok E w j" shows "store_ok E (store_del E k w) j"
  using assms(2)
  by (rule_tac store_del_cases [OF assms(1)])
    (auto simp: store_ok_def ids_fresh_removed ids_fresh_tick no_repeats)

end

sublocale reliable \<subseteq> store: keyed_store "store_ok E" stored_value "store_put E" "store_del E"
  by unfold_locales (rule stored_value_put stored_value_del store_ok_put store_ok_del; assumption)+

context reliable
begin

lemma refines_map:
  "ids_fresh E w \<Longrightarrow> (\<forall>x \<in> set ops. calendar_exists w (fst (op_key x))) \<Longrightarrow>
   stored_value (fold (store_step (store_put E) (store_del E)) ops w) = fold map_op ops (stored_value w)"
  by (rule store.get_fold) (simp add: store_ok_def)

end

interpretation demo: reliable demo_ext
  by unfold_locales (rule demo_no_faults demo_uuids_distinct)+

lemma demo_world_fresh: "ids_fresh demo_ext demo_world"
  by (auto simp: ids_fresh_def demo_defs demo_ext_def etag_of_def sync_token_of_def)

lemma demo_world_calendars: "calendar_exists demo_world i \<longleftrightarrow> i \<in> {''work'', ''home''}"
  by (auto simp: calendar_exists_def demo_defs)

section \<open>Properties\<close>

text \<open>C3: the event store refines a finite map. After any sequence of stores and deletions in
  existing calendars, reading back any calendar and UID gives exactly what a map updated by the
  same sequence holds: stored text and fields come back unchanged, the last store wins, a deleted
  object is gone, and no other object is affected.\<close>

theorem event_store_refines_map:
  assumes "no_faults E" "uuids_distinct E" "ids_fresh E w"
    and "\<forall>x \<in> set ops. calendar_exists w (fst (op_key x))"
  shows "stored_value (fold (store_step (store_put E) (store_del E)) ops w) = fold map_op ops (stored_value w)"
proof -
  have "reliable E" using assms(1,2) by unfold_locales
  then show ?thesis using assms(3,4) by (rule reliable.refines_map)
qed

theorem event_store_refines_map_witness:
  "let v = (''BEGIN:VTODO'', \<lparr>f_component_type = ''VTODO'', f_dtstart = None, f_dtend = None, f_summary = None\<rparr>);
       ops = [Put (''home'', ''todo'') v, Del (''work'', ''standup''), Put (''work'', ''todo'') v];
       m = stored_value (fold (store_step (store_put demo_ext) (store_del demo_ext)) ops demo_world)
   in m (''work'', ''todo'') = Some v \<and> m (''work'', ''standup'') = None \<and> m (''home'', ''todo'') = Some v"
proof -
  have ex: "calendar_exists demo_world ''home''" "calendar_exists demo_world ''work''"
    by (simp_all add: demo_world_calendars)
  show ?thesis
    unfolding Let_def
    by (subst (1 2 3) event_store_refines_map [OF demo_no_faults demo_uuids_distinct demo_world_fresh])
      (simp_all add: ex)
qed



text \<open>Deleting an object that exists removes exactly that object, logs one deletion, and
  otherwise changes only the tags of its calendar; deleting one that does not exist reports
  \<open>NotFound\<close> and changes nothing.\<close>

lemma delete_object_effect:
  assumes "no_faults E" "calendar_exists w cid"
  shows "case run (delete_object E cid uid) w of
      (Inr _, w') \<Rightarrow> lookup_object w cid uid \<noteq> None \<and>
        db_objects w' = filter (\<lambda>ob. obj_key ob \<noteq> (cid, uid)) (db_objects w) \<and>
        map (\<lambda>x. (x_calendar_id x, x_object_uid x, x_change_type x)) (db_changes w')
          = map (\<lambda>x. (x_calendar_id x, x_object_uid x, x_change_type x)) (db_changes w) @ [(cid, uid, ''deleted'')] \<and>
        filter (\<lambda>c. c_id c \<noteq> cid) (db_calendars w') = filter (\<lambda>c. c_id c \<noteq> cid) (db_calendars w)
    | (Inl e, w') \<Rightarrow> lookup_object w cid uid = None \<and> (\<exists>msg. e = NotFound msg) \<and> same_data w w'"
proof (cases "lookup_object w cid uid")
  case None
  then show ?thesis using run_delete_missing [OF assms(1)] by simp
next
  case (Some ob)
  then show ?thesis
    using run_delete_found [OF assms Some] by (simp add: removed_def logged_changes other_calendars_logged)
qed

end
