(* ===== verification/Sync_Log.thy ===== *)
theory Sync_Log
  imports Object_Store
begin

text \<open>
  Synchronisation: the change log determines the set of UIDs of a calendar, a client that replays
  what \<open>get_sync_changes_since\<close> returns arrives at the current set, and what the token handed out
  by the server is worth.
\<close>

section \<open>Replaying the log\<close>

definition replay_change :: "SyncChange \<Rightarrow> string set \<Rightarrow> string set" where
  "replay_change x S =
     (if x_change_type x = ''deleted'' then S - {x_object_uid x} else insert (x_object_uid x) S)"

definition replay :: "SyncChange list \<Rightarrow> string set \<Rightarrow> string set" where
  "replay xs S = fold replay_change xs S"

definition uids_of :: "world \<Rightarrow> string \<Rightarrow> string set" where
  "uids_of w cid = o_uid ` set (objects_of w cid)"

definition log_consistent :: "world \<Rightarrow> string \<Rightarrow> bool" where
  "log_consistent w cid \<longleftrightarrow> replay (changes_of w cid) {} = uids_of w cid"

lemma calendar_upd_found:
  "(\<And>c. c_id (f c) = c_id c) \<Longrightarrow>
   find (\<lambda>c. c_id c = i) (map (\<lambda>c. if c_id c = i then f c else c) cs) = map_option f (find (\<lambda>c. c_id c = i) cs)"
  by (induction cs) auto

lemma replay_append: "replay (xs @ ys) S = replay ys (replay xs S)"
  by (simp add: replay_def)

text \<open>Replaying a log forgets what was known before about the UIDs it mentions.\<close>

lemma replay_known: "replay xs S = replay xs {} \<union> (S - x_object_uid ` set xs)"
proof (induction xs rule: rev_induct)
  case (snoc x xs)
  then show ?case by (auto simp: replay_append) (auto simp: replay_def replay_change_def split: if_splits)
qed (simp add: replay_def)

lemma changes_of_logged:
  "changes_of (logged E t c u k tk w) cid = changes_of w cid @
     (if c = cid then [\<lparr>x_id = change_seq w + 1, x_calendar_id = c, x_object_uid = u, x_change_type = k,
       x_sync_token = tk, x_created_at = datetime_now E t\<rparr>] else [])"
  by (simp add: changes_of_def logged_changes)

lemma uids_of_eq: "uids_of w cid = {u. lookup_object w cid u \<noteq> None}"
  by (auto simp: uids_of_def objects_of_def lookup_object_def find_None_iff)

lemma log_consistent_inserted:
  assumes "log_consistent w cid" "lookup_object w c u = None"
  shows "log_consistent (inserted E w c u d fs) cid"
proof -
  have "uids_of (inserted E w c u d fs) cid = (if c = cid then insert u (uids_of w cid) else uids_of w cid)"
    using assms(2) by (auto simp: uids_of_eq lookup_inserted)
  then show ?thesis
    using assms(1) unfolding log_consistent_def
    by (simp add: inserted_def changes_of_logged replay_append)
      (simp add: replay_def replay_change_def changes_of_def)
qed

lemma log_consistent_updated:
  assumes "log_consistent w cid" "lookup_object w c u = Some ob"
  shows "log_consistent (updated E w c u d fs) cid"
proof -
  have "uids_of (updated E w c u d fs) cid = uids_of w cid"
    by (auto simp: uids_of_eq lookup_updated)
  moreover have "c = cid \<Longrightarrow> u \<in> uids_of w cid" using assms(2) by (auto simp: uids_of_eq)
  ultimately show ?thesis
    using assms(1) unfolding log_consistent_def
    by (simp add: updated_def changes_of_logged replay_append)
      (auto simp: replay_def replay_change_def changes_of_def)
qed

lemma log_consistent_removed:
  assumes "log_consistent w cid"
  shows "log_consistent (removed E w c u) cid"
proof -
  have "uids_of (removed E w c u) cid = (if c = cid then uids_of w cid - {u} else uids_of w cid)"
    by (auto simp: uids_of_eq lookup_removed)
  then show ?thesis
    using assms unfolding log_consistent_def
    by (simp add: removed_def changes_of_logged replay_append)
      (simp add: replay_def replay_change_def changes_of_def)
qed

lemma log_consistent_tick [simp]: "log_consistent (tick w) cid = log_consistent w cid"
  by (simp add: log_consistent_def changes_of_def uids_of_def objects_of_def)

section \<open>Reading the log\<close>

lemma find_conj_filter: "find (\<lambda>x. P x \<and> Q x) xs = find Q (filter P xs)"
  by (induction xs) auto

lemma log_tick [simp]: "changes_of (tick w) cid = changes_of w cid" "sync_anchor (tick w) cid tok = sync_anchor w cid tok"
  by (simp_all add: changes_of_def sync_anchor_def)

lemma sync_anchor_eq:
  "sync_anchor w cid tok = map_option x_id (find (\<lambda>x. x_sync_token x = tok) (changes_of w cid))"
  by (simp add: sync_anchor_def changes_of_def find_conj_filter)

lemma sorted_changes:
  assumes "db_inv w" shows "sorted_wrt (<) (map x_id (changes_of w cid))"
  using assms by (simp add: db_inv_def changes_ok_def changes_of_def sorted_wrt_map_filter)

lemma sort_changes: "db_inv w \<Longrightarrow> sort_key x_id (filter P (changes_of w cid)) = filter P (changes_of w cid)"
  by (intro sort_key_id_if_sorted strict_sorted_imp_sorted sorted_wrt_map_filter sorted_changes)

lemma find_first: "find P (pre @ a # post) = Some a" if "P a" "\<forall>x \<in> set pre. \<not> P x"
  using that by (induction pre) auto

lemma filter_after:
  "sorted_wrt (<) (map f (pre @ a # post)) \<Longrightarrow> filter (\<lambda>x. f a < f x) (pre @ a # post) = post"
  for f :: "'a \<Rightarrow> int"
  by (auto simp: sorted_wrt_append filter_empty_conv filter_id_conv)

lemma run_changes_known:
  assumes "no_faults E" "db_inv w" "changes_of w cid = pre @ a # post" "x_sync_token a = tok"
    "\<forall>x \<in> set pre. x_sync_token x \<noteq> tok"
  shows "run (get_sync_changes_since E cid tok) w = (Inr post, tick (tick w))"
proof -
  have "sync_anchor w cid tok = Some (x_id a)"
    using assms(3-5) find_first [of "\<lambda>x. x_sync_token x = tok" a pre post] by (simp add: sync_anchor_eq)
  moreover have "sort_key x_id (filter (\<lambda>x. x_id x > x_id a) (changes_of w cid)) = post"
    unfolding sort_changes [OF assms(2)]
    using sorted_changes [OF assms(2), of cid] unfolding assms(3) by (rule filter_after)
  ultimately show ?thesis
    using assms(1)
    by (simp add: get_sync_changes_since_def run_simps run_select)
qed

lemma run_changes_unknown:
  assumes "no_faults E" "db_inv w" "sync_anchor w cid tok = None"
  shows "run (get_sync_changes_since E cid tok) w = (Inr (changes_of w cid), tick (tick w))"
  using assms sort_changes [OF assms(2), of "\<lambda>_. True" cid]
  by (simp add: get_sync_changes_since_def run_simps run_select)

section \<open>Properties\<close>

text \<open>C11: the change log stays consistent with the objects. If replaying the log of a calendar
  gives the UIDs it holds, then this is still so after storing or deleting any object in any
  calendar.\<close>

theorem change_log_consistent:
  assumes "no_faults E" "ids_fresh E w" "calendar_exists w c" "log_consistent w cid"
  shows "log_consistent (snd (run (upsert_object E c uid data flds) w)) cid \<and>
    log_consistent (snd (run (delete_object E c uid) w)) cid"
  using assms run_upsert_new [OF assms(1,3)] run_upsert_old [OF assms(1,3)]
    run_delete_missing [OF assms(1)] run_delete_found [OF assms(1,3)]
  by (cases "lookup_object w c uid";
      simp add: log_consistent_inserted log_consistent_updated log_consistent_removed)

lemma demo_log_consistent: "log_consistent demo_world ''work''"
  by (simp add: log_consistent_def uids_of_def objects_of_def changes_of_def replay_def replay_change_def demo_defs)

theorem change_log_consistent_witness:
  "log_consistent (snd (run (delete_object demo_ext ''work'' ''standup'') demo_world)) ''work''"
  by (rule change_log_consistent [OF demo_no_faults demo_world_fresh _ demo_log_consistent, THEN conjunct2])
    (simp add: demo_world_calendars)

text \<open>A client that holds the UIDs as of some log entry and asks with that entry's token gets
  exactly the later entries, in order, and replaying them gives the current UIDs; the query
  changes nothing.\<close>

lemma sync_delta_complete:
  assumes "no_faults E" "db_inv w" "log_consistent w cid"
    and "changes_of w cid = pre @ a # post" "x_sync_token a = tok" "\<forall>x \<in> set pre. x_sync_token x \<noteq> tok"
  shows "\<exists>w'. run (get_sync_changes_since E cid tok) w = (Inr post, w') \<and> same_data w w' \<and>
    replay post (replay (pre @ [a]) {}) = uids_of w cid"
  using run_changes_known [OF assms(1,2,4,5,6)] assms(3,4)
  by (simp add: log_consistent_def replay_append [symmetric])

text \<open>C12: a sync with the token that a calendar shows starts over, and still converges. The tag of the
  calendar and the token of the log entry are drawn separately, so no log entry carries the token
  that the calendar shows after a change: asking with it returns the whole log, not the changes since.
  A client that replays this log over any older view of the calendar still arrives at the UIDs the
  calendar holds.\<close>

theorem calendar_token_restarts_sync:
  assumes "no_faults E" "uuids_distinct E" "ids_fresh E w" "db_inv w" "calendar_exists w cid" "log_consistent w cid"
  shows "let w' = snd (run (upsert_object E cid uid data flds) w);
             tok = c_sync_token (the (find (\<lambda>c. c_id c = cid) (db_calendars w')));
             log = changes_of w' cid
         in fst (run (get_sync_changes_since E cid tok) w') = Inr log \<and> uid \<in> x_object_uid ` set log \<and>
            (\<forall>S. S \<subseteq> x_object_uid ` set log \<longrightarrow> replay log S = uids_of w' cid)"
proof -
  let ?w' = "snd (run (upsert_object E cid uid data flds) w)"
  have inv: "db_inv ?w'" using always_run [OF integrity_upsert_object assms(4)] by blast
  obtain t m w1 tk k where logged: "?w' = logged E t cid uid k tk w1" and tk: "tk = sync_token_of (uuid_v7 E m)"
      and less: "ticks w \<le> m" "m < t" and w1: "db_changes w1 = db_changes w" "db_calendars w1 = db_calendars w"
    using run_upsert_new [OF assms(1,5) _ assms(3), of uid data flds] run_upsert_old [OF assms(1,5), of uid _ data flds]
    by (cases "lookup_object w cid uid") (auto simp: inserted_def updated_def)
  have "find (\<lambda>c. c_id c = cid) (db_calendars w) \<noteq> None"
    using assms(5) by (auto simp: calendar_exists_def find_None_iff)
  then have tok: "c_sync_token (the (find (\<lambda>c. c_id c = cid) (db_calendars ?w'))) = sync_token_of (uuid_v7 E t)"
    by (auto simp: logged logged_def w1 calendar_upd_found)
  have "sync_token_of (uuid_v7 E t) \<notin> set (map x_sync_token (db_changes w))"
    using assms(3) less by (auto simp: ids_fresh_def)
  moreover have "sync_token_of (uuid_v7 E t) \<noteq> tk" using less by (simp add: tk uuid_v7_eq [OF assms(2)])
  ultimately have "sync_anchor ?w' cid (sync_token_of (uuid_v7 E t)) = None"
    by (simp add: logged sync_anchor_def logged_changes w1 find_append find_None_iff image_iff split: option.split)
      metis
  note restart = run_changes_unknown [OF assms(1) inv this]
  have "log_consistent ?w' cid"
    using assms(6) run_upsert_new [OF assms(1,5) _ assms(3), of uid data flds] run_upsert_old [OF assms(1,5), of uid _ data flds]
    by (cases "lookup_object w cid uid") (simp_all add: log_consistent_inserted log_consistent_updated)
  then have "replay (changes_of ?w' cid) S = uids_of ?w' cid" if "S \<subseteq> x_object_uid ` set (changes_of ?w' cid)" for S
    using replay_known [of "changes_of ?w' cid" S] that by (auto simp: log_consistent_def)
  moreover have "uid \<in> x_object_uid ` set (changes_of ?w' cid)"
    by (simp add: logged changes_of_logged)
  ultimately show ?thesis unfolding Let_def tok restart by simp
qed

theorem calendar_token_restarts_sync_witness:
  "let w' = snd (run (upsert_object demo_ext ''work'' ''todo'' ''BEGIN:VTODO'' (snd (object_value standup))) demo_world);
       tok = c_sync_token (the (find (\<lambda>c. c_id c = ''work'') (db_calendars w')))
   in fst (run (get_sync_changes_since demo_ext ''work'' tok) w') = Inr (changes_of w' ''work'')"
proof -
  have "calendar_exists demo_world ''work''" by (simp add: demo_world_calendars)
  from calendar_token_restarts_sync [OF demo_no_faults demo_uuids_distinct demo_world_fresh demo_world_inv this
      demo_log_consistent, of "''todo''" "''BEGIN:VTODO''" "snd (object_value standup)"]
  show ?thesis unfolding Let_def by blast
qed

end
