(* ===== verification/Multistatus.thy ===== *)
theory Multistatus
  imports Externals
begin

text \<open>
  \<open>src/caldav/xml/mod.rs\<close> and \<open>multistatus.rs\<close>: the builder of WebDAV multistatus bodies. The
  builder's state is what it has given to the XML writer so far.
\<close>

section \<open>Definitions\<close>

definition DAV_NS :: string where "DAV_NS = ''DAV:''"
definition CALDAV_NS :: string where "CALDAV_NS = ''urn:ietf:params:xml:ns:caldav''"
definition APPLE_NS :: string where "APPLE_NS = ''http://apple.com/ns/ical/''"
definition CS_NS :: string where "CS_NS = ''http://calendarserver.org/ns/''"

lemmas ns_defs = DAV_NS_def CALDAV_NS_def APPLE_NS_def CS_NS_def

datatype PropContent = PText string | PXml string | PEmpty

record PropValue =
  p_name :: string
  p_namespace :: string
  p_value :: PropContent

type_synonym builder = "xml_out list"

definition builder_new :: builder where
  "builder_new =
     [ODecl ''1.0'' ''utf-8'',
      OStart ''D:multistatus''
        [(''xmlns:D'', DAV_NS), (''xmlns:C'', CALDAV_NS), (''xmlns:A'', APPLE_NS), (''xmlns:CS'', CS_NS)]]"

definition prefix_name :: "string \<Rightarrow> string \<Rightarrow> string" where
  "prefix_name namespace local_name =
     (if namespace = DAV_NS then ''D:'' @ local_name
      else if namespace = CALDAV_NS then ''C:'' @ local_name
      else if namespace = APPLE_NS then ''A:'' @ local_name
      else if namespace = CS_NS then ''CS:'' @ local_name
      else ''D:'' @ local_name)"

definition text_element :: "string \<Rightarrow> string \<Rightarrow> builder" where
  "text_element name text = [OStart name [], OText text, OEnd name]"

definition prop_events :: "PropValue \<Rightarrow> builder" where
  "prop_events prop =
     (let prefixed = prefix_name (p_namespace prop) (p_name prop)
      in case p_value prop of
           PText text \<Rightarrow> text_element prefixed text
         | PXml xml \<Rightarrow> [ORaw (''<'' @ prefixed @ ''>'' @ xml @ ''</'' @ prefixed @ ''>'')]
         | PEmpty \<Rightarrow> [OEmpty prefixed])"

definition propstat :: "builder \<Rightarrow> string \<Rightarrow> builder" where
  "propstat props status =
     [OStart ''D:propstat'' [], OStart ''D:prop'' []] @ props @ [OEnd ''D:prop''] @
     text_element ''D:status'' status @ [OEnd ''D:propstat'']"

definition add_response :: "builder \<Rightarrow> string \<Rightarrow> PropValue list \<Rightarrow> string list \<Rightarrow> builder" where
  "add_response b href found_props not_found_props =
     b @ [OStart ''D:response'' []] @ text_element ''D:href'' href @
     (if found_props \<noteq> []
      then propstat (concat (map prop_events found_props)) ''HTTP/1.1 200 OK'' else []) @
     (if not_found_props \<noteq> []
      then propstat (map OEmpty not_found_props) ''HTTP/1.1 404 Not Found'' else []) @
     [OEnd ''D:response'']"

definition add_sync_token :: "builder \<Rightarrow> string \<Rightarrow> builder" where
  "add_sync_token b token = b @ text_element ''D:sync-token'' token"

definition builder_build :: "builder \<Rightarrow> xml_out list" where
  "builder_build b = b @ [OEnd ''D:multistatus'']"

section \<open>Well-formed output\<close>

text \<open>Reading the writer's events back: the stack of open elements, \<open>None\<close> when an end tag does
  not match.\<close>

fun open_tags :: "xml_out list \<Rightarrow> string list \<Rightarrow> string list option" where
  "open_tags [] st = Some st"
| "open_tags (OStart n as # es) st = open_tags es (n # st)"
| "open_tags (OEnd n # es) st =
     (case st of [] \<Rightarrow> None | m # st' \<Rightarrow> if m = n then open_tags es st' else None)"
| "open_tags (_ # es) st = open_tags es st"

definition balanced :: "xml_out list \<Rightarrow> bool" where
  "balanced es \<longleftrightarrow> (\<forall>st. open_tags es st = Some st)"

lemma open_tags_append:
  "open_tags (xs @ ys) st = Option.bind (open_tags xs st) (open_tags ys)"
  by (induction xs st rule: open_tags.induct) (auto split: list.split)

lemma balanced_Nil [simp]: "balanced []"
  by (simp add: balanced_def)

lemma balanced_append: "balanced xs \<Longrightarrow> balanced ys \<Longrightarrow> balanced (xs @ ys)"
  by (simp add: balanced_def open_tags_append)

lemma balanced_wrap: "balanced xs \<Longrightarrow> balanced ([OStart n as] @ xs @ [OEnd n])"
  by (simp add: balanced_def open_tags_append)

lemma balanced_concat: "(\<And>x. x \<in> set xs \<Longrightarrow> balanced (f x)) \<Longrightarrow> balanced (concat (map f xs))"
  by (induction xs) (auto intro: balanced_append)

lemma balanced_text_element: "balanced (text_element n t)"
  by (simp add: balanced_def text_element_def)

lemma balanced_prop_events: "balanced (prop_events p)"
  by (auto simp: prop_events_def Let_def text_element_def balanced_def split: PropContent.split)

lemma balanced_empties: "balanced (map OEmpty ns)"
  by (induction ns) (auto simp: balanced_def)

lemma balanced_propstat:
  assumes "balanced ps" shows "balanced (propstat ps s)"
proof -
  have "balanced ([OStart ''D:prop'' []] @ ps @ [OEnd ''D:prop''])"
    by (rule balanced_wrap [OF assms])
  then have "balanced (([OStart ''D:prop'' []] @ ps @ [OEnd ''D:prop'']) @ text_element ''D:status'' s)"
    by (rule balanced_append [OF _ balanced_text_element])
  from balanced_wrap [OF this, of "''D:propstat''" "[]"] show ?thesis
    by (simp add: propstat_def)
qed

text \<open>What one response entry adds to the builder.\<close>

definition response_events :: "string \<Rightarrow> PropValue list \<Rightarrow> string list \<Rightarrow> builder" where
  "response_events href found not_found = add_response [] href found not_found"

lemma add_response_eq: "add_response b href f n = b @ response_events href f n"
  by (simp add: add_response_def response_events_def)

lemma balanced_response: "balanced (response_events href found not_found)"
proof -
  have "balanced (text_element ''D:href'' href @
      (if found \<noteq> [] then propstat (concat (map prop_events found)) ''HTTP/1.1 200 OK'' else []) @
      (if not_found \<noteq> [] then propstat (map OEmpty not_found) ''HTTP/1.1 404 Not Found'' else []))"
    by (auto intro!: balanced_append balanced_text_element balanced_propstat balanced_concat
        balanced_prop_events balanced_empties)
  from balanced_wrap [OF this, of "''D:response''" "[]"] show ?thesis
    by (simp add: response_events_def add_response_def)
qed

text \<open>A body in the making: the opening events followed by balanced entries.\<close>

definition body_of :: "builder \<Rightarrow> builder" where
  "body_of entries = builder_build (builder_new @ entries)"

lemma body_of_wellformed: "balanced entries \<Longrightarrow> open_tags (body_of entries) [] = Some []"
  by (simp add: body_of_def builder_build_def builder_new_def balanced_def open_tags_append)

text \<open>The builder states that can arise, and the finished bodies.\<close>

definition is_builder :: "builder \<Rightarrow> bool" where
  "is_builder b \<longleftrightarrow> (\<exists>entries. balanced entries \<and> b = builder_new @ entries)"

lemma is_builder_new [simp, intro]: "is_builder builder_new"
  by (auto simp: is_builder_def intro: exI [of _ "[]"])

lemma is_builder_append: "is_builder b \<Longrightarrow> balanced es \<Longrightarrow> is_builder (b @ es)"
  using balanced_append by (fastforce simp: is_builder_def)

lemma is_builder_response [simp, intro]: "is_builder b \<Longrightarrow> is_builder (add_response b href f n)"
  by (simp add: add_response_eq is_builder_append balanced_response)

lemma is_builder_token [simp, intro]: "is_builder b \<Longrightarrow> is_builder (add_sync_token b t)"
  by (simp add: add_sync_token_def is_builder_append balanced_text_element)

lemma is_builder_foldl: "is_builder b \<Longrightarrow> (\<And>b x. is_builder b \<Longrightarrow> is_builder (f b x)) \<Longrightarrow> is_builder (foldl f b xs)"
  by (induction xs arbitrary: b) auto

lemma builder_wellformed: "is_builder b \<Longrightarrow> open_tags (builder_build b) [] = Some []"
  using body_of_wellformed by (auto simp: is_builder_def body_of_def)

end
