(* ===== verification/Xml_Parse.thy ===== *)
theory Xml_Parse
  imports Multistatus
begin

text \<open>
  \<open>src/caldav/xml/parse.rs\<close>: reading the bodies of PROPFIND and REPORT requests from the events
  of the XML reader, with the namespace declarations seen so far.
\<close>

section \<open>Namespaces\<close>

record PropRequest =
  r_namespace :: string
  r_local_name :: string

datatype PropfindRequest = AllProp | PropName | Props "PropRequest list"

text \<open>The map from prefixes to namespaces; a later insertion comes first. The key of the default
  namespace is empty.\<close>

type_synonym NsContext = "(string \<times> string) list"

fun register_attrs :: "NsContext \<Rightarrow> (string \<times> string) list \<Rightarrow> NsContext" where
  "register_attrs ctx [] = ctx"
| "register_attrs ctx ((key, val) # attrs) =
     register_attrs
       (if key = ''xmlns'' then ([], val) # ctx
        else (case strip_prefix key ''xmlns:'' of Some prefix \<Rightarrow> (prefix, val) # ctx | None \<Rightarrow> ctx))
       attrs"

definition register_from_event :: "NsContext \<Rightarrow> xml_elem \<Rightarrow> NsContext" where
  "register_from_event ctx e = register_attrs ctx (el_attrs e)"

definition known_prefix :: "string \<Rightarrow> string" where
  "known_prefix prefix =
     (if prefix \<in> {''D'', ''d''} then DAV_NS
      else if prefix \<in> {''C'', ''c'', ''cal''} then CALDAV_NS
      else if prefix \<in> {''A'', ''IC''} then APPLE_NS
      else if prefix \<in> {''CS'', ''cs''} then CS_NS
      else DAV_NS)"

definition resolve :: "NsContext \<Rightarrow> xml_elem \<Rightarrow> string" where
  "resolve ctx e =
     (case map_of (el_attrs e) ''xmlns'' of
        Some v \<Rightarrow> v
      | None \<Rightarrow>
          (case split_once (el_name e) CHR '':'' of
             Some (prefix, _) \<Rightarrow>
               (case map_of ctx prefix of Some ns \<Rightarrow> ns | None \<Rightarrow> known_prefix prefix)
           | None \<Rightarrow> (case map_of ctx [] of Some ns \<Rightarrow> ns | None \<Rightarrow> DAV_NS)))"

section \<open>PROPFIND\<close>

text \<open>A start tag or an empty element in the loop of \<open>parse_propfind\<close>: either the request is
  decided, or the loop goes on with the new state.\<close>

datatype propfind_state = PfState NsContext bool "PropRequest list"

fun propfind_element :: "xml_elem \<Rightarrow> propfind_state \<Rightarrow> PropfindRequest + propfind_state" where
  "propfind_element e (PfState ctx in_prop props) =
     (let ctx' = register_from_event ctx e; local = el_local e
      in if local = ''allprop'' then Inl AllProp
         else if local = ''propname'' then Inl PropName
         else if local = ''prop'' then Inr (PfState ctx' True props)
         else if in_prop
           then Inr (PfState ctx' in_prop
                  (props @ [\<lparr>r_namespace = resolve ctx' e, r_local_name = local\<rparr>]))
         else Inr (PfState ctx' in_prop props))"

fun propfind_finish :: "propfind_state \<Rightarrow> PropfindRequest" where
  "propfind_finish (PfState _ _ props) = (if props = [] then AllProp else Props props)"

fun propfind_loop :: "xml_event list \<Rightarrow> propfind_state \<Rightarrow> PropfindRequest" where
  "propfind_loop [] st = propfind_finish st"
| "propfind_loop (XStart e # evs) st =
     (case propfind_element e st of Inl r \<Rightarrow> r | Inr st' \<Rightarrow> propfind_loop evs st')"
| "propfind_loop (XEmpty e # evs) st =
     (case propfind_element e st of Inl r \<Rightarrow> r | Inr st' \<Rightarrow> propfind_loop evs st')"
| "propfind_loop (XEnd local # evs) (PfState ctx in_prop props) =
     propfind_loop evs (PfState ctx (if local = ''prop'' then False else in_prop) props)"
| "propfind_loop (XEof # evs) st = propfind_finish st"
| "propfind_loop (XError # evs) st = AllProp"
| "propfind_loop (XText t # evs) st = propfind_loop evs st"
| "propfind_loop (XOther # evs) st = propfind_loop evs st"

definition parse_propfind :: "ext \<Rightarrow> string \<Rightarrow> PropfindRequest" where
  "parse_propfind E body =
     (if body = [] then AllProp else propfind_loop (xml_read E body) (PfState [] False []))"

section \<open>REPORT\<close>

datatype ReportRequest =
    CalendarMultiget "PropRequest list" "string list"
  | CalendarQuery "PropRequest list" "(string \<times> string) option"
  | SyncCollection "PropRequest list" string

record report_state =
  rs_ctx :: NsContext
  rs_type :: "string option"
  rs_in_prop :: bool
  rs_in_filter :: bool
  rs_props :: "PropRequest list"
  rs_hrefs :: "string list"
  rs_time_start :: string
  rs_time_end :: string
  rs_sync_token :: string
  rs_in_sync_token :: bool
  rs_in_href :: bool

definition report_init :: report_state where
  "report_init =
     \<lparr>rs_ctx = [], rs_type = None, rs_in_prop = False, rs_in_filter = False, rs_props = [],
      rs_hrefs = [], rs_time_start = [], rs_time_end = [], rs_sync_token = [],
      rs_in_sync_token = False, rs_in_href = False\<rparr>"

fun time_range_attrs :: "(string \<times> string) list \<Rightarrow> report_state \<Rightarrow> report_state" where
  "time_range_attrs [] st = st"
| "time_range_attrs ((key, val) # attrs) st =
     time_range_attrs attrs
       (if key = ''start'' then st\<lparr>rs_time_start := val\<rparr>
        else if key = ''end'' then st\<lparr>rs_time_end := val\<rparr> else st)"

definition report_element :: "xml_elem \<Rightarrow> report_state \<Rightarrow> report_state" where
  "report_element e st0 =
     (let st = st0\<lparr>rs_ctx := register_from_event (rs_ctx st0) e\<rparr>; local = el_local e
      in if local = ''calendar-multiget'' then st\<lparr>rs_type := Some ''multiget''\<rparr>
         else if local = ''calendar-query'' then st\<lparr>rs_type := Some ''query''\<rparr>
         else if local = ''sync-collection'' then st\<lparr>rs_type := Some ''sync''\<rparr>
         else if local = ''prop'' then st\<lparr>rs_in_prop := True\<rparr>
         else if local \<in> {''filter'', ''comp-filter''} then st\<lparr>rs_in_filter := True\<rparr>
         else if local = ''href'' then st\<lparr>rs_in_href := True\<rparr>
         else if local = ''sync-token'' then st\<lparr>rs_in_sync_token := True\<rparr>
         else if local = ''time-range'' then time_range_attrs (el_attrs e) st
         else if rs_in_prop st
           then st\<lparr>rs_props := rs_props st @ [\<lparr>r_namespace = resolve (rs_ctx st) e, r_local_name = local\<rparr>]\<rparr>
         else st)"

definition report_end :: "string \<Rightarrow> report_state \<Rightarrow> report_state" where
  "report_end local st =
     (if local = ''prop'' then st\<lparr>rs_in_prop := False\<rparr>
      else if local \<in> {''filter'', ''comp-filter''} then st\<lparr>rs_in_filter := False\<rparr>
      else if local = ''href'' then st\<lparr>rs_in_href := False\<rparr>
      else if local = ''sync-token'' then st\<lparr>rs_in_sync_token := False\<rparr>
      else st)"

text \<open>A text that cannot be unescaped counts as empty.\<close>

definition report_text :: "string option \<Rightarrow> report_state \<Rightarrow> report_state" where
  "report_text t st =
     (let text = (case t of None \<Rightarrow> [] | Some s \<Rightarrow> s)
      in if rs_in_href st then st\<lparr>rs_hrefs := rs_hrefs st @ [text]\<rparr>
         else if rs_in_sync_token st then st\<lparr>rs_sync_token := text\<rparr>
         else st)"

definition report_finish :: "report_state \<Rightarrow> ReportRequest option" where
  "report_finish st =
     (case rs_type st of
        None \<Rightarrow> None
      | Some t \<Rightarrow>
          if t = ''multiget'' then Some (CalendarMultiget (rs_props st) (rs_hrefs st))
          else if t = ''query'' then
            Some (CalendarQuery (rs_props st)
              (if rs_time_start st \<noteq> [] \<and> rs_time_end st \<noteq> []
               then Some (rs_time_start st, rs_time_end st) else None))
          else if t = ''sync'' then Some (SyncCollection (rs_props st) (rs_sync_token st))
          else None)"

fun report_loop :: "xml_event list \<Rightarrow> report_state \<Rightarrow> ReportRequest option" where
  "report_loop [] st = report_finish st"
| "report_loop (XStart e # evs) st = report_loop evs (report_element e st)"
| "report_loop (XEmpty e # evs) st = report_loop evs (report_element e st)"
| "report_loop (XEnd local # evs) st = report_loop evs (report_end local st)"
| "report_loop (XText t # evs) st = report_loop evs (report_text t st)"
| "report_loop (XEof # evs) st = report_finish st"
| "report_loop (XError # evs) st = None"
| "report_loop (XOther # evs) st = report_loop evs st"

definition parse_report :: "ext \<Rightarrow> string \<Rightarrow> ReportRequest option" where
  "parse_report E body = (if body = [] then None else report_loop (xml_read E body) report_init)"

end
