(* ===== verification/Properties.thy ===== *)
theory Properties
  imports Xml_Parse Database
begin

text \<open>
  \<open>src/caldav/xml/properties.rs\<close>: the properties of every kind of resource, the hrefs under which
  resources are announced, and the selection of the properties a PROPFIND asked for.
\<close>

section \<open>Hrefs\<close>

text \<open>\<open>HrefContext\<close> of \<open>src/caldav/mod.rs\<close>: with an email the hrefs use the email path.\<close>

record HrefContext =
  h_email :: "string option"
  h_username :: string

definition encode_email_for_path :: "string \<Rightarrow> string" where
  "encode_email_for_path email = replace_char email CHR ''@'' ''%40''"

definition calendar_object_href :: "string \<Rightarrow> string \<Rightarrow> string \<Rightarrow> string" where
  "calendar_object_href username calendar_id uid =
     ''/caldav/users/'' @ username @ ''/'' @ calendar_id @ ''/'' @ uid @ ''.ics''"

definition calendar_href :: "string \<Rightarrow> string \<Rightarrow> string" where
  "calendar_href username calendar_id = ''/caldav/users/'' @ username @ ''/'' @ calendar_id @ ''/''"

definition calendar_href_for_context :: "HrefContext \<Rightarrow> string \<Rightarrow> string" where
  "calendar_href_for_context ctx calendar_id =
     (case h_email ctx of
        Some email \<Rightarrow> ''/calendar/dav/'' @ email @ ''/user/'' @ calendar_id @ ''/''
      | None \<Rightarrow> calendar_href (h_username ctx) calendar_id)"

definition calendar_object_href_for_context :: "HrefContext \<Rightarrow> string \<Rightarrow> string \<Rightarrow> string" where
  "calendar_object_href_for_context ctx calendar_id uid =
     (case h_email ctx of
        Some email \<Rightarrow> ''/calendar/dav/'' @ email @ ''/user/'' @ calendar_id @ ''/'' @ uid @ ''.ics''
      | None \<Rightarrow> calendar_object_href (h_username ctx) calendar_id uid)"

section \<open>Selection\<close>

text \<open>A token without a URI scheme is made a \<open>data:\<close> URI.\<close>

definition ensure_sync_token_uri :: "string \<Rightarrow> string" where
  "ensure_sync_token_uri token = (if contains_char token CHR '':'' then token else ''data:,'' @ token)"

definition ns_prefix :: "string \<Rightarrow> string" where
  "ns_prefix namespace =
     (if namespace = DAV_NS then ''D''
      else if namespace = CALDAV_NS then ''C''
      else if namespace = APPLE_NS then ''A''
      else if namespace = CS_NS then ''CS''
      else ''D'')"

definition prop_matches :: "PropRequest \<Rightarrow> PropValue \<Rightarrow> bool" where
  "prop_matches r p \<longleftrightarrow> r_local_name r = p_name p \<and> r_namespace r = p_namespace p"

definition filter_props :: "PropfindRequest \<Rightarrow> PropValue list \<Rightarrow> PropValue list \<times> string list" where
  "filter_props request available =
     (case request of
        AllProp \<Rightarrow> (available, [])
      | PropName \<Rightarrow> (map (\<lambda>p. p\<lparr>p_value := PEmpty\<rparr>) available, [])
      | Props requested \<Rightarrow>
          (let found = filter (\<lambda>avail. \<exists>r \<in> set requested. prop_matches r avail) available;
               not_found = map (\<lambda>r. ns_prefix (r_namespace r) @ '':'' @ r_local_name r)
                 (filter (\<lambda>r. \<not> (\<exists>p \<in> set found. prop_matches r p)) requested)
           in (found, not_found)))"

section \<open>Property lists\<close>

abbreviation dprop :: "string \<Rightarrow> string \<Rightarrow> PropContent \<Rightarrow> PropValue" where
  "dprop ns n v \<equiv> \<lparr>p_name = n, p_namespace = ns, p_value = v\<rparr>"

definition href_xml :: "string \<Rightarrow> string" where
  "href_xml s = ''<D:href>'' @ s @ ''</D:href>''"

definition root_props :: "string \<Rightarrow> PropValue list" where
  "root_props username =
     [dprop DAV_NS ''resourcetype'' (PXml ''<D:collection/>''),
      dprop DAV_NS ''current-user-principal'' (PXml (href_xml (''/caldav/users/'' @ username @ ''/''))),
      dprop DAV_NS ''displayname'' (PText ''CalDAV Server'')]"

definition root_props_unauthenticated :: "PropValue list" where
  "root_props_unauthenticated =
     [dprop DAV_NS ''resourcetype'' (PXml ''<D:collection/>''),
      dprop DAV_NS ''current-user-principal'' (PXml ''<D:unauthenticated/>''),
      dprop DAV_NS ''displayname'' (PText ''CalDAV Server'')]"

definition calendar_home_props :: "string \<Rightarrow> PropValue list" where
  "calendar_home_props username =
     [dprop DAV_NS ''resourcetype'' (PXml ''<D:collection/>''),
      dprop DAV_NS ''displayname'' (PText (username @ [CHR 0x27] @ ''s calendars'')),
      dprop DAV_NS ''current-user-principal'' (PXml (href_xml (''/caldav/users/'' @ username @ ''/'')))]"

definition supported_reports :: string where
  "supported_reports =
     ''<D:supported-report><D:report><C:calendar-multiget/></D:report></D:supported-report>'' @
     ''<D:supported-report><D:report><C:calendar-query/></D:report></D:supported-report>'' @
     ''<D:supported-report><D:report><D:sync-collection/></D:report></D:supported-report>''"

definition privileges_rw :: string where
  "privileges_rw =
     ''<D:privilege><D:read/></D:privilege>'' @ ''<D:privilege><D:write/></D:privilege>''"

definition privileges_rwc :: string where
  "privileges_rwc = privileges_rw @ ''<D:privilege><D:write-content/></D:privilege>''"

definition component_set :: string where
  "component_set =
     ''<C:comp name='' @ dquoted ''VEVENT'' @ ''/><C:comp name='' @ dquoted ''VTODO'' @ ''/>''"

definition email_home_props :: "string \<Rightarrow> string \<Rightarrow> string \<Rightarrow> PropValue list" where
  "email_home_props username email request_path =
     [dprop DAV_NS ''resourcetype'' (PXml ''<D:collection/><D:principal/>''),
      dprop DAV_NS ''displayname'' (PText username),
      dprop DAV_NS ''current-user-principal'' (PXml (href_xml request_path)),
      dprop DAV_NS ''principal-URL'' (PXml (href_xml request_path)),
      dprop CALDAV_NS ''calendar-home-set'' (PXml (href_xml request_path)),
      dprop CALDAV_NS ''calendar-user-address-set'' (PXml (href_xml (''mailto:'' @ email))),
      dprop CS_NS ''email-address-set''
        (PXml (''<CS:email-address>'' @ email @ ''</CS:email-address>'')),
      dprop CALDAV_NS ''schedule-inbox-URL'' (PXml (href_xml (request_path @ ''inbox/''))),
      dprop CALDAV_NS ''schedule-outbox-URL'' (PXml (href_xml (request_path @ ''outbox/''))),
      dprop DAV_NS ''supported-report-set'' (PXml supported_reports),
      dprop DAV_NS ''current-user-privilege-set'' (PXml privileges_rw),
      dprop CS_NS ''notification-URL'' (PXml (href_xml (request_path @ ''notifications/''))),
      dprop CS_NS ''dropbox-home-URL'' (PXml (href_xml (request_path @ ''dropbox/''))),
      dprop DAV_NS ''principal-collection-set'' (PXml (href_xml request_path)),
      dprop DAV_NS ''resource-id'' (PXml (href_xml (''urn:uuid:'' @ username))),
      dprop DAV_NS ''owner'' (PXml (href_xml request_path))]"

definition calendar_props :: "string \<Rightarrow> Calendar \<Rightarrow> PropValue list" where
  "calendar_props username calendar =
     [dprop DAV_NS ''resourcetype'' (PXml ''<D:collection/><C:calendar/>''),
      dprop DAV_NS ''displayname'' (PText (c_name calendar)),
      dprop CALDAV_NS ''calendar-description'' (PText (c_description calendar)),
      dprop APPLE_NS ''calendar-color'' (PText (c_color calendar)),
      dprop CALDAV_NS ''calendar-timezone'' (PText (c_timezone calendar)),
      dprop CALDAV_NS ''supported-calendar-component-set'' (PXml component_set),
      dprop CS_NS ''getctag'' (PText (ensure_sync_token_uri (c_ctag calendar))),
      dprop DAV_NS ''sync-token'' (PText (ensure_sync_token_uri (c_sync_token calendar))),
      dprop DAV_NS ''current-user-principal'' (PXml (href_xml (''/caldav/users/'' @ username @ ''/''))),
      dprop DAV_NS ''current-user-privilege-set'' (PXml privileges_rwc),
      dprop DAV_NS ''owner'' (PXml (href_xml (''/caldav/users/'' @ username @ ''/''))),
      dprop DAV_NS ''supported-report-set'' (PXml supported_reports)]"

definition calendar_object_props :: "CalendarObject \<Rightarrow> bool \<Rightarrow> PropValue list" where
  "calendar_object_props object include_data =
     [dprop DAV_NS ''getetag'' (PText (o_etag object)),
      dprop DAV_NS ''getcontenttype'' (PText ''text/calendar; charset=utf-8'')] @
     (if include_data then [dprop CALDAV_NS ''calendar-data'' (PText (o_ical_data object))] else [])"

definition calendar_props_for_context :: "HrefContext \<Rightarrow> Calendar \<Rightarrow> PropValue list" where
  "calendar_props_for_context ctx calendar =
     (let principal_href =
        (case h_email ctx of
           Some email \<Rightarrow> ''/calendar/dav/'' @ email @ ''/user/''
         | None \<Rightarrow> ''/caldav/users/'' @ h_username ctx @ ''/'')
      in
     [dprop DAV_NS ''resourcetype'' (PXml ''<D:collection/><C:calendar/>''),
      dprop DAV_NS ''displayname'' (PText (c_name calendar)),
      dprop CALDAV_NS ''calendar-description'' (PText (c_description calendar)),
      dprop APPLE_NS ''calendar-color'' (PText (c_color calendar)),
      dprop APPLE_NS ''calendar-order'' (PText ''1''),
      dprop CALDAV_NS ''calendar-timezone'' (PText (c_timezone calendar)),
      dprop CALDAV_NS ''supported-calendar-component-set'' (PXml component_set),
      dprop CS_NS ''getctag'' (PText (ensure_sync_token_uri (c_ctag calendar))),
      dprop DAV_NS ''sync-token'' (PText (ensure_sync_token_uri (c_sync_token calendar))),
      dprop DAV_NS ''current-user-principal'' (PXml (href_xml principal_href)),
      dprop DAV_NS ''current-user-privilege-set'' (PXml privileges_rwc),
      dprop DAV_NS ''owner'' (PXml (href_xml principal_href)),
      dprop DAV_NS ''supported-report-set'' (PXml supported_reports),
      dprop CALDAV_NS ''schedule-calendar-transp'' (PXml ''<C:opaque/>''),
      dprop CALDAV_NS ''schedule-default-calendar-URL''
        (PXml (href_xml (calendar_href_for_context ctx (c_id calendar)))),
      dprop DAV_NS ''getcontenttype'' (PText ''text/calendar; charset=utf-8''),
      dprop DAV_NS ''resource-id'' (PXml (href_xml (''urn:uuid:'' @ c_id calendar)))])"

end
