(* ===== verification/Caldav_Auth.thy ===== *)
theory Caldav_Auth
  imports Shares Events Properties
begin

text \<open>
  \<open>src/caldav/auth.rs\<close> and the authentication helpers of \<open>src/caldav/mod.rs\<close>: HTTP Basic
  credentials, the fallbacks that take the user from the URL, and the access check on a calendar.
\<close>

section \<open>Definitions\<close>

type_synonym handler = "(world, outcome) prog"

definition dav_header :: "string \<times> string" where
  "dav_header = (''DAV'', ''1, 2, 3, calendar-access, calendar-schedule'')"

definition unauthorized_response_fn :: http_response where
  "unauthorized_response_fn =
     \<lparr>resp_status = UNAUTHORIZED,
      resp_headers = [(''www-authenticate'', ''Basic realm='' @ dquoted ''CalDAV''), dav_header],
      resp_body = ''Unauthorized''\<rparr>"

text \<open>The credentials in an \<open>Authorization: Basic\<close> header; \<open>None\<close> for a malformed header.\<close>

definition basic_credentials :: "ext \<Rightarrow> string \<Rightarrow> (string \<times> string) option" where
  "basic_credentials E header =
     Option.bind (strip_prefix header ''Basic '') (\<lambda>encoded.
     Option.bind (base64_decode E encoded) (\<lambda>decoded.
     Option.bind (from_utf8 decoded) (\<lambda>credentials.
     split_once credentials CHR '':'')))"

definition parse_basic_auth :: "ext \<Rightarrow> string \<Rightarrow> (world, unit + User option) prog" where
  "parse_basic_auth E header =
     (case basic_credentials E header of
        None \<Rightarrow> Ret (Inl ())
      | Some (username, password) \<Rightarrow> map_errE (\<lambda>_. ()) (verify_user E username password))"

definition try_basic_auth :: "ext \<Rightarrow> string \<Rightarrow> (world, User option) prog" where
  "try_basic_auth E header = bind (parse_basic_auth E header) (\<lambda>r. Ret (unwrap_or r None))"

definition extract_auth_header :: "http_request \<Rightarrow> string option" where
  "extract_auth_header request = header_str request ''authorization''"

definition inline_auth :: "ext \<Rightarrow> string option \<Rightarrow> (world, http_response + User) prog" where
  "inline_auth E auth_header =
     (case auth_header of
        None \<Rightarrow> errE unauthorized_response_fn
      | Some h \<Rightarrow> bind (try_basic_auth E h) (ok_orE unauthorized_response_fn))"

definition auth_or_path_user :: "ext \<Rightarrow> string option \<Rightarrow> string \<Rightarrow> (world, http_response + User) prog" where
  "auth_or_path_user E auth_header path_username =
     (case auth_header of
        Some h \<Rightarrow> bind (try_basic_auth E h) (ok_orE unauthorized_response_fn)
      | None \<Rightarrow>
          bind (get_user_by_username E path_username) (\<lambda>r.
            ok_orE unauthorized_response_fn (unwrap_or r None)))"

definition auth_or_email_user :: "ext \<Rightarrow> string option \<Rightarrow> string \<Rightarrow> (world, http_response + User) prog" where
  "auth_or_email_user E auth_header email =
     (case auth_header of
        Some h \<Rightarrow> bind (try_basic_auth E h) (ok_orE unauthorized_response_fn)
      | None \<Rightarrow>
          bind (get_user_by_email E email) (\<lambda>r.
            ok_orE unauthorized_response_fn (unwrap_or r None)))"

definition verify_calendar_access :: "ext \<Rightarrow> User \<Rightarrow> string \<Rightarrow> (world, bool) prog" where
  "verify_calendar_access E user calendar_id =
     bind (list_calendars_for_user E (u_id user)) (\<lambda>r.
       Ret (list_ex (\<lambda>c. c_id c = calendar_id) (unwrap_or r [])))"

lemmas auth_defs [op_defs] =
  parse_basic_auth_def try_basic_auth_def inline_auth_def auth_or_path_user_def
  auth_or_email_user_def verify_calendar_access_def

context tick_invariant
begin

lemma safe_parse_basic_auth [safe_rules]: "safe I (parse_basic_auth E h)"
  unfolding parse_basic_auth_def by (intro safe_rules)

lemma safe_try_basic_auth [safe_rules]: "safe I (try_basic_auth E h)"
  unfolding try_basic_auth_def by (intro safe_rules)

lemma safe_inline_auth [safe_rules]: "safe I (inline_auth E h)"
  unfolding inline_auth_def by (intro safe_rules)

lemma safe_auth_or_path_user [safe_rules]: "safe I (auth_or_path_user E h n)"
  unfolding auth_or_path_user_def by (intro safe_rules)

lemma safe_auth_or_email_user [safe_rules]: "safe I (auth_or_email_user E h n)"
  unfolding auth_or_email_user_def by (intro safe_rules)

lemma safe_verify_calendar_access [safe_rules]: "safe I (verify_calendar_access E u c)"
  unfolding verify_calendar_access_def by (intro safe_rules)

end

end
