(* ===== verification/Caldav_Collections.thy ===== *)
theory Caldav_Collections
  imports Caldav_Auth
begin

text \<open>
  \<open>src/caldav/mkcalendar.rs\<close>, \<open>proppatch.rs\<close> and \<open>propfind.rs\<close>: creating calendars, changing
  their properties, and listing homes, calendars and objects.
\<close>

section \<open>Definitions\<close>

subsection \<open>MKCALENDAR\<close>

text \<open>The first text inside an element with the given local name. The two copies of this loop in
  the source differ in their reaction to an end tag: here any end tag leaves the element.\<close>

fun xml_value_loop :: "xml_event list \<Rightarrow> string \<Rightarrow> bool \<Rightarrow> string option" where
  "xml_value_loop [] local_name in_target = None"
| "xml_value_loop (XStart e # evs) local_name in_target =
     xml_value_loop evs local_name (if el_local e = local_name then True else in_target)"
| "xml_value_loop (XText t # evs) local_name in_target =
     (if in_target then Some (case t of None \<Rightarrow> [] | Some s \<Rightarrow> s)
      else xml_value_loop evs local_name in_target)"
| "xml_value_loop (XEnd n # evs) local_name in_target = xml_value_loop evs local_name False"
| "xml_value_loop (XEof # evs) local_name in_target = None"
| "xml_value_loop (XError # evs) local_name in_target = None"
| "xml_value_loop (_ # evs) local_name in_target = xml_value_loop evs local_name in_target"

definition extract_xml_value :: "ext \<Rightarrow> string \<Rightarrow> string \<Rightarrow> string option" where
  "extract_xml_value E xml local_name = xml_value_loop (xml_read E xml) local_name False"

definition extract_displayname :: "ext \<Rightarrow> string \<Rightarrow> string option" where
  "extract_displayname E body =
     (if body = [] then None else extract_xml_value E (from_utf8_lossy body) ''displayname'')"

definition extract_calendar_color :: "ext \<Rightarrow> string \<Rightarrow> string option" where
  "extract_calendar_color E body =
     (if body = [] then None else extract_xml_value E (from_utf8_lossy body) ''calendar-color'')"

text \<open>\<open>axum::body::to_bytes(..).unwrap_or_default()\<close>: a body over the limit counts as empty.\<close>

definition body_or_empty :: "ext \<Rightarrow> http_request \<Rightarrow> nat \<Rightarrow> string" where
  "body_or_empty E request limit =
     (case to_bytes E (req_body request) limit of None \<Rightarrow> [] | Some b \<Rightarrow> b)"

definition handle_mkcalendar :: "ext \<Rightarrow> User \<Rightarrow> string \<Rightarrow> string \<Rightarrow> http_request \<Rightarrow> handler" where
  "handle_mkcalendar E user username calendar_id request =
     (if u_username user \<noteq> username
      then Ret (Reply (text_response FORBIDDEN ''Cannot create calendars for another user''))
      else bind (get_calendar_by_id E calendar_id) (\<lambda>existing.
        case unwrap_or existing None of
          Some _ \<Rightarrow> Ret (Reply (text_response METHOD_NOT_ALLOWED ''Calendar already exists''))
        | None \<Rightarrow>
            let body = body_or_empty E request (64 * 1024);
                name = (case extract_displayname E body of Some n \<Rightarrow> n | None \<Rightarrow> calendar_id);
                color = (case extract_calendar_color E body of Some c \<Rightarrow> c | None \<Rightarrow> ''#0E61B9'')
            in bind (create_calendar_with_id E calendar_id (u_id user) name [] color ''UTC'') (\<lambda>r.
                 Ret (Reply (case r of
                   Inr _ \<Rightarrow> text_response CREATED ''Calendar created''
                 | Inl e \<Rightarrow> text_response INTERNAL_SERVER_ERROR ''Failed to create calendar'')))))"

subsection \<open>PROPPATCH\<close>

text \<open>The copy in \<open>proppatch.rs\<close>: an end tag is looked at only inside the element.\<close>

fun prop_value_loop :: "xml_event list \<Rightarrow> string \<Rightarrow> bool \<Rightarrow> string option" where
  "prop_value_loop [] local_name in_target = None"
| "prop_value_loop (XStart e # evs) local_name in_target =
     prop_value_loop evs local_name (if el_local e = local_name then True else in_target)"
| "prop_value_loop (XText t # evs) local_name in_target =
     (if in_target then Some (case t of None \<Rightarrow> [] | Some s \<Rightarrow> s)
      else prop_value_loop evs local_name in_target)"
| "prop_value_loop (XEnd n # evs) local_name in_target =
     (if in_target then prop_value_loop evs local_name False
      else prop_value_loop evs local_name in_target)"
| "prop_value_loop (XEof # evs) local_name in_target = None"
| "prop_value_loop (XError # evs) local_name in_target = None"
| "prop_value_loop (_ # evs) local_name in_target = prop_value_loop evs local_name in_target"

definition extract_prop_value :: "ext \<Rightarrow> string \<Rightarrow> string \<Rightarrow> string option" where
  "extract_prop_value E xml local_name = prop_value_loop (xml_read E xml) local_name False"

definition multistatus_headers :: "(string \<times> string) list" where
  "multistatus_headers = [(''content-type'', ''application/xml; charset=utf-8'')]"

definition proppatch_found :: "string option \<Rightarrow> string option \<Rightarrow> string option \<Rightarrow> PropValue list" where
  "proppatch_found name description color =
     (if name \<noteq> None then [dprop DAV_NS ''displayname'' PEmpty] else []) @
     (if description \<noteq> None then [dprop CALDAV_NS ''calendar-description'' PEmpty] else []) @
     (if color \<noteq> None then [dprop APPLE_NS ''calendar-color'' PEmpty] else [])"

definition handle_proppatch ::
  "ext \<Rightarrow> User \<Rightarrow> HrefContext option \<Rightarrow> string \<Rightarrow> http_request \<Rightarrow> handler" where
  "handle_proppatch E user href_ctx calendar_id request =
     bind (get_calendar_by_id E calendar_id) (\<lambda>found.
       case unwrap_or found None of
         None \<Rightarrow> Ret (Reply (text_response NOT_FOUND ''Calendar not found''))
       | Some calendar \<Rightarrow>
           let body_str = from_utf8_lossy (body_or_empty E request (64 * 1024));
               name = extract_prop_value E body_str ''displayname'';
               description = extract_prop_value E body_str ''calendar-description'';
               color = extract_prop_value E body_str ''calendar-color''
           in bind (update_calendar E (c_id calendar) name description color None) (\<lambda>r.
                Ret (Reply (case r of
                  Inl e \<Rightarrow> text_response INTERNAL_SERVER_ERROR ''Failed to update properties''
                | Inr _ \<Rightarrow>
                    let href = (case href_ctx of
                                  Some ctx \<Rightarrow> calendar_href_for_context ctx (c_id calendar)
                                | None \<Rightarrow> ''/caldav/users/'' @ u_username user @ ''/'' @ c_id calendar @ ''/'')
                    in \<lparr>resp_status = MULTI_STATUS, resp_headers = multistatus_headers,
                        resp_body = xml_write E (builder_build (add_response builder_new href
                          (proppatch_found name description color) []))\<rparr>))))"

subsection \<open>PROPFIND\<close>

definition multistatus_response :: "string \<Rightarrow> http_response" where
  "multistatus_response xml =
     \<lparr>resp_status = MULTI_STATUS, resp_headers = multistatus_headers @ [dav_header], resp_body = xml\<rparr>"

definition get_depth :: "http_request \<Rightarrow> nat" where
  "get_depth request =
     (case header_str request ''depth'' of Some v \<Rightarrow> (if v = ''1'' then 1 else 0) | None \<Rightarrow> 0)"

definition add_filtered :: "PropfindRequest \<Rightarrow> builder \<Rightarrow> string \<Rightarrow> PropValue list \<Rightarrow> builder" where
  "add_filtered propfind b href available =
     (case filter_props propfind available of (found, not_found) \<Rightarrow> add_response b href found not_found)"

definition handle_calendar_home :: "ext \<Rightarrow> User \<Rightarrow> http_request \<Rightarrow> handler" where
  "handle_calendar_home E user request =
     (let propfind = parse_propfind E (body_or_empty E request (64 * 1024));
          b = add_filtered propfind builder_new (''/caldav/users/'' @ u_username user @ ''/'')
                (calendar_home_props (u_username user))
      in if get_depth request \<ge> 1
         then bind (list_calendars_for_user E (u_id user)) (\<lambda>r.
           let cals = unwrap_or r [];
               b' = foldl (\<lambda>b cal. add_filtered propfind b (calendar_href (u_username user) (c_id cal))
                      (calendar_props (u_username user) cal)) b cals
           in Ret (Reply (multistatus_response (xml_write E (builder_build b')))))
         else Ret (Reply (multistatus_response (xml_write E (builder_build b)))))"

definition handle_calendar ::
  "ext \<Rightarrow> User \<Rightarrow> HrefContext option \<Rightarrow> string \<Rightarrow> http_request \<Rightarrow> handler" where
  "handle_calendar E user href_ctx calendar_id request =
     (let propfind = parse_propfind E (body_or_empty E request (64 * 1024))
      in bind (get_calendar_by_id E calendar_id) (\<lambda>found.
        case unwrap_or found None of
          None \<Rightarrow> Ret (Reply (text_response NOT_FOUND ''Calendar not found''))
        | Some calendar \<Rightarrow>
            let ctx = (case href_ctx of Some c \<Rightarrow> c
                       | None \<Rightarrow> \<lparr>h_email = None, h_username = u_username user\<rparr>);
                b = add_filtered propfind builder_new (calendar_href_for_context ctx (c_id calendar))
                      (calendar_props_for_context ctx calendar)
            in if get_depth request \<ge> 1
               then bind (list_objects E (c_id calendar)) (\<lambda>r.
                 let objects = unwrap_or r [];
                     b' = foldl (\<lambda>b obj. add_filtered propfind b
                            (calendar_object_href_for_context ctx (c_id calendar) (o_uid obj))
                            (calendar_object_props obj False)) b objects
                 in Ret (Reply (multistatus_response (xml_write E (builder_build b')))))
               else Ret (Reply (multistatus_response (xml_write E (builder_build b))))))"

definition handle_email_home ::
  "ext \<Rightarrow> User \<Rightarrow> string \<Rightarrow> nat \<Rightarrow> string \<Rightarrow> PropfindRequest \<Rightarrow> (world, http_response) prog" where
  "handle_email_home E user request_path depth email propfind =
     (let ctx = \<lparr>h_email = Some (encode_email_for_path email), h_username = u_username user\<rparr>;
          b = add_filtered propfind builder_new request_path
                (email_home_props (u_username user) email request_path)
      in if depth \<ge> 1
         then bind (list_calendars_for_user E (u_id user)) (\<lambda>r.
           let cals = unwrap_or r [];
               b' = foldl (\<lambda>b cal. add_filtered propfind b (calendar_href_for_context ctx (c_id cal))
                      (calendar_props_for_context ctx cal)) b cals
           in Ret (multistatus_response (xml_write E (builder_build b'))))
         else Ret (multistatus_response (xml_write E (builder_build b))))"

lemmas collections_defs [op_defs] =
  handle_mkcalendar_def handle_proppatch_def handle_calendar_home_def handle_calendar_def
  handle_email_home_def

context tick_invariant
begin

lemma safe_handle_calendar_home [safe_rules]: "safe I (handle_calendar_home E u r)"
  unfolding handle_calendar_home_def by (intro safe_rules)

lemma safe_handle_calendar [safe_rules]: "safe I (handle_calendar E u h c r)"
  unfolding handle_calendar_def by (intro safe_rules)

lemma safe_handle_email_home [safe_rules]: "safe I (handle_email_home E u p d e f)"
  unfolding handle_email_home_def by (intro safe_rules)

end

context stmt_invariant
begin

lemma safe_handle_mkcalendar [safe_rules]: "safe I (handle_mkcalendar E u n c r)"
  unfolding handle_mkcalendar_def by (intro safe_rules)

lemma safe_handle_proppatch [safe_rules]: "safe I (handle_proppatch E u h c r)"
  unfolding handle_proppatch_def by (intro safe_rules)

end

end
