(* ===== verification/Caldav_Report.thy ===== *)
theory Caldav_Report
  imports Caldav_Collections
begin

text \<open>
  \<open>src/caldav/report.rs\<close>: calendar-multiget, calendar-query and sync-collection.
\<close>

section \<open>Percent decoding\<close>

text \<open>\<open>u8::from_str_radix(.., 16)\<close> on two characters: hexadecimal digits, where the first may also
  be a plus sign. A character is given by its UTF-8 bytes.\<close>

definition hex_digit :: "string \<Rightarrow> nat option" where
  "hex_digit c =
     (case c of
        [x] \<Rightarrow> (let n = of_char x in
          if (48::nat) \<le> n \<and> n \<le> 57 then Some (n - 48)
          else if 65 \<le> n \<and> n \<le> 70 then Some (n - 55)
          else if 97 \<le> n \<and> n \<le> 102 then Some (n - 87)
          else None)
      | _ \<Rightarrow> None)"

definition hex_pair :: "string \<Rightarrow> string \<Rightarrow> nat option" where
  "hex_pair h1 h2 =
     (if h1 = ''+'' then hex_digit h2
      else (case (hex_digit h1, hex_digit h2) of (Some a, Some b) \<Rightarrow> Some (16 * a + b) | _ \<Rightarrow> None))"

text \<open>After a percent sign the next two characters are taken from the iterator whether or not they
  are hexadecimal digits.\<close>

fun percent_decode_chars :: "string list \<Rightarrow> string" where
  "percent_decode_chars [] = []"
| "percent_decode_chars (c # cs) =
     (if c = ''%''
      then (case cs of
              h1 # h2 # rest \<Rightarrow>
                (case hex_pair h1 h2 of
                   Some byte \<Rightarrow> latin1_char byte @ percent_decode_chars rest
                 | None \<Rightarrow> c @ percent_decode_chars rest)
            | _ \<Rightarrow> c)
      else c @ percent_decode_chars cs)"

definition percent_decode :: "string \<Rightarrow> string" where
  "percent_decode s = percent_decode_chars (str_chars s)"

section \<open>Handlers\<close>

definition href_uid :: "string \<Rightarrow> string option" where
  "href_uid href = map_option percent_decode (strip_suffix (rsplit_next href CHR ''/'') ''.ics'')"

definition multiget_uids :: "string list \<Rightarrow> string list" where
  "multiget_uids hrefs = List.map_filter href_uid hrefs"

definition add_object :: "HrefContext \<Rightarrow> string \<Rightarrow> bool \<Rightarrow> builder \<Rightarrow> CalendarObject \<Rightarrow> builder" where
  "add_object ctx calendar_id include_data b obj =
     add_response b (calendar_object_href_for_context ctx calendar_id (o_uid obj))
       (calendar_object_props obj include_data) []"

definition handle_multiget ::
  "ext \<Rightarrow> HrefContext \<Rightarrow> string \<Rightarrow> string list \<Rightarrow> (world, http_response) prog" where
  "handle_multiget E ctx calendar_id hrefs =
     bind (get_objects_by_uids E calendar_id (multiget_uids hrefs)) (\<lambda>r.
       let b = foldl (add_object ctx calendar_id True) builder_new (unwrap_or r [])
       in Ret (multistatus_response (xml_write E (builder_build b))))"

definition handle_query ::
  "ext \<Rightarrow> HrefContext \<Rightarrow> string \<Rightarrow> (string \<times> string) option \<Rightarrow> (world, http_response) prog" where
  "handle_query E ctx calendar_id time_range =
     bind (case time_range of
             Some (start, stop) \<Rightarrow> list_objects_in_range E calendar_id start stop
           | None \<Rightarrow> list_objects E calendar_id) (\<lambda>r.
       let b = foldl (add_object ctx calendar_id True) builder_new (unwrap_or r [])
       in Ret (multistatus_response (xml_write E (builder_build b))))"

text \<open>The loop over the changes; every change that is not a deletion reads the object again.\<close>

fun sync_changes_loop ::
  "ext \<Rightarrow> HrefContext \<Rightarrow> string \<Rightarrow> bool \<Rightarrow> SyncChange list \<Rightarrow> builder \<Rightarrow> (world, builder) prog" where
  "sync_changes_loop E ctx calendar_id include_data [] b = Ret b"
| "sync_changes_loop E ctx calendar_id include_data (change # changes) b =
     (let href = calendar_object_href_for_context ctx calendar_id (x_object_uid change)
      in if x_change_type change = ''deleted''
         then sync_changes_loop E ctx calendar_id include_data changes (add_response b href [] [])
         else bind (get_object_by_uid E calendar_id (x_object_uid change)) (\<lambda>r.
           sync_changes_loop E ctx calendar_id include_data changes
             (case unwrap_or r None of
                Some obj \<Rightarrow> add_response b href (calendar_object_props obj include_data) []
              | None \<Rightarrow> b)))"

definition handle_sync ::
  "ext \<Rightarrow> HrefContext \<Rightarrow> string \<Rightarrow> PropRequest list \<Rightarrow> string \<Rightarrow> (world, http_response) prog" where
  "handle_sync E ctx calendar_id props sync_token =
     bind (get_calendar_by_id E calendar_id) (\<lambda>found.
       case unwrap_or found None of
         None \<Rightarrow> Ret (text_response NOT_FOUND ''Calendar not found'')
       | Some calendar \<Rightarrow>
           let include_data = list_ex (\<lambda>p. r_local_name p = ''calendar-data'') props
           in bind
                (if sync_token = []
                 then bind (list_objects E calendar_id) (\<lambda>r.
                   Ret (foldl (add_object ctx calendar_id include_data) builder_new (unwrap_or r [])))
                 else bind (get_sync_changes_since E calendar_id sync_token) (\<lambda>r.
                   sync_changes_loop E ctx calendar_id include_data (unwrap_or r []) builder_new)) (\<lambda>b.
                Ret (multistatus_response (xml_write E (builder_build
                  (add_sync_token b (ensure_sync_token_uri (c_sync_token calendar))))))))"

text \<open>The response of a report is read back into memory, with a limit; beyond it the body is
  lost (\<open>unwrap_or_default\<close>) and the status stays.\<close>

definition buffer_response :: "ext \<Rightarrow> nat \<Rightarrow> http_response \<Rightarrow> http_response" where
  "buffer_response E limit resp =
     resp\<lparr>resp_body := (case to_bytes E (resp_body resp) limit of None \<Rightarrow> [] | Some b \<Rightarrow> b)\<rparr>"

definition dispatch_report ::
  "ext \<Rightarrow> HrefContext \<Rightarrow> string \<Rightarrow> ReportRequest \<Rightarrow> (world, http_response) prog" where
  "dispatch_report E ctx calendar_id report =
     (case report of
        CalendarMultiget props hrefs \<Rightarrow> handle_multiget E ctx calendar_id hrefs
      | CalendarQuery props time_range \<Rightarrow> handle_query E ctx calendar_id time_range
      | SyncCollection props sync_token \<Rightarrow> handle_sync E ctx calendar_id props sync_token)"

definition handle_report ::
  "ext \<Rightarrow> User \<Rightarrow> HrefContext option \<Rightarrow> string \<Rightarrow> http_request \<Rightarrow> handler" where
  "handle_report E user href_ctx calendar_id request =
     (let ctx = (case href_ctx of Some c \<Rightarrow> c
                 | None \<Rightarrow> \<lparr>h_email = None, h_username = u_username user\<rparr>)
      in case parse_report E (body_or_empty E request (256 * 1024)) of
           None \<Rightarrow> Ret (Reply (text_response BAD_REQUEST ''Invalid REPORT body''))
         | Some report \<Rightarrow>
             bind (dispatch_report E ctx calendar_id report) (\<lambda>resp.
               Ret (Reply (buffer_response E (512 * 1024) resp))))"

lemmas report_defs [op_defs] =
  handle_multiget_def handle_query_def handle_sync_def dispatch_report_def handle_report_def

context tick_invariant
begin

lemma safe_handle_multiget [safe_rules]: "safe I (handle_multiget E x c h)"
  unfolding handle_multiget_def by (intro safe_rules)

lemma safe_handle_query [safe_rules]: "safe I (handle_query E x c t)"
  unfolding handle_query_def by (intro safe_rules)

lemma safe_sync_changes_loop [safe_rules]: "safe I (sync_changes_loop E x c d cs b)"
  by (induction cs arbitrary: b) (auto simp: Let_def intro!: safe_rules)

lemma safe_handle_sync [safe_rules]: "safe I (handle_sync E x c p t)"
  unfolding handle_sync_def by (intro safe_rules)

lemma safe_dispatch_report [safe_rules]: "safe I (dispatch_report E x c r)"
  unfolding dispatch_report_def by (cases r) (auto intro: safe_rules)

lemma safe_handle_report [safe_rules]: "safe I (handle_report E u h c r)"
  unfolding handle_report_def by (intro safe_rules)

end

end
