(* ===== verification/Collection_Properties.thy ===== *)
theory Collection_Properties
  imports Caldav_Report Object_Store
begin

text \<open>
  What holds of the requests on calendar collections: creating, changing and deleting calendars,
  and finding objects again by the hrefs that were handed out for them.
\<close>

section \<open>Creating calendars\<close>

lemma run_get_calendar: "no_faults E \<Longrightarrow>
  run (get_calendar_by_id E i) w = (Inr (find (\<lambda>c. c_id c = i) (db_calendars w)), tick w)"
  by (simp add: get_calendar_by_id_def run_select)

lemma find_calendar_None: "find (\<lambda>c. c_id c = i) (db_calendars w) = None \<longleftrightarrow> \<not> calendar_exists w i"
  by (simp add: find_key_None calendar_exists_def)

definition new_calendar :: "ext \<Rightarrow> nat \<Rightarrow> string \<Rightarrow> string \<Rightarrow> string \<Rightarrow> string \<Rightarrow> string \<Rightarrow> string \<Rightarrow> Calendar" where
  "new_calendar E t i owner name description color timezone =
     \<lparr>c_id = i, c_owner_id = owner, c_name = name, c_description = description, c_color = color,
      c_timezone = timezone, c_ctag = sync_token_of (uuid_v7 E t), c_sync_token = sync_token_of (uuid_v7 E t),
      c_created_at = datetime_now E (t + 2), c_updated_at = datetime_now E (t + 2)\<rparr>"

lemma run_create_calendar_with_id:
  assumes "no_faults E" "\<not> calendar_exists w i" "user_exists w owner"
  shows "run (create_calendar_with_id E i owner name description color timezone) w =
    (Inr (new_calendar E (ticks w) i owner name description color timezone),
     w\<lparr>db_calendars := db_calendars w @ [new_calendar E (ticks w) i owner name description color timezone],
       ticks := ticks w + 3\<rparr>)"
proof -
  have "find (\<lambda>c. c_id c = i) (db_calendars w) = None" "i \<notin> set (map c_id (db_calendars w))"
    using assms(2) by (simp_all add: find_calendar_None calendar_exists_def)
  then show ?thesis
    using assms(1,3)
    by (cases w) (simp add: create_calendar_with_id_def new_sync_token_def run_simps run_query run_get_calendar
        insert_calendar_def new_calendar_def tick_def user_exists_def find_append eval_nat_numeral)
qed



section \<open>Changing calendars\<close>

definition patched :: "string option \<Rightarrow> string option \<Rightarrow> string option \<Rightarrow> string \<Rightarrow> Calendar \<Rightarrow> Calendar" where
  "patched name description color now c =
     c\<lparr>c_name := (case name of None \<Rightarrow> c_name c | Some x \<Rightarrow> x),
       c_description := (case description of None \<Rightarrow> c_description c | Some x \<Rightarrow> x),
       c_color := (case color of None \<Rightarrow> c_color c | Some x \<Rightarrow> x), c_updated_at := now\<rparr>"

lemma patched_id [simp]: "c_id (patched n d co now c) = c_id c"
  by (simp add: patched_def)

lemma map_only_key:
  "distinct (map key xs) \<Longrightarrow> find (\<lambda>x. key x = i) xs = Some a \<Longrightarrow> f a = g a \<Longrightarrow>
   map (\<lambda>x. if key x = i then f x else x) xs = map (\<lambda>x. if key x = i then g x else x) xs"
proof (rule map_cong [OF refl])
  fix x assume "distinct (map key xs)" "find (\<lambda>x. key x = i) xs = Some a" "f a = g a" "x \<in> set xs"
  then show "(if key x = i then f x else x) = (if key x = i then g x else x)"
    using find_key_unique [of key xs x] by auto
qed

lemma run_update_calendar:
  assumes "no_faults E" "distinct (map c_id (db_calendars w))" "find (\<lambda>c. c_id c = i) (db_calendars w) = Some cal"
  shows "\<exists>c. run (update_calendar E i name description color None) w =
    (Inr c, w\<lparr>db_calendars := map (\<lambda>c. if c_id c = i
        then patched name description color (datetime_now E (ticks w + 2)) c else c) (db_calendars w), ticks := ticks w + 3\<rparr>)"
proof -
  let ?p = "patched name description color (datetime_now E (ticks w + 2))"
  let ?q = "\<lambda>c. c\<lparr>c_name := (case name of None \<Rightarrow> c_name cal | Some x \<Rightarrow> x),
      c_description := (case description of None \<Rightarrow> c_description cal | Some x \<Rightarrow> x),
      c_color := (case color of None \<Rightarrow> c_color cal | Some x \<Rightarrow> x), c_timezone := c_timezone cal,
      c_updated_at := datetime_now E (ticks w + 2)\<rparr>"
  have "?q cal = ?p cal" by (simp add: patched_def)
  then have upd: "map (\<lambda>c. if c_id c = i then ?q c else c) (db_calendars w) = map (\<lambda>c. if c_id c = i then ?p c else c) (db_calendars w)"
    by (rule map_only_key [OF assms(2,3)])
  have "update_calendar_props E (case name of None \<Rightarrow> c_name cal | Some x \<Rightarrow> x)
      (case description of None \<Rightarrow> c_description cal | Some x \<Rightarrow> x) (case color of None \<Rightarrow> c_color cal | Some x \<Rightarrow> x)
      (c_timezone cal) i (tick (tick w)) =
    (Inr (), w\<lparr>db_calendars := map (\<lambda>c. if c_id c = i then ?q c else c) (db_calendars w), ticks := ticks w + 2\<rparr>)"
    by (cases w) (simp add: update_calendar_props_def tick_def eval_nat_numeral cong: if_cong)
  note stmt = this [unfolded upd]
  have "find (\<lambda>c. c_id c = i) (map (\<lambda>c. if c_id c = i then ?p c else c) (db_calendars w)) = Some (?p cal)"
    using assms(3) by (subst find_key_upd) simp_all
  then show ?thesis
    using assms(1,3) stmt
    by (simp add: update_calendar_def run_simps run_query run_get_calendar)
qed


definition demo_rename :: ext where
  "demo_rename = demo_ext\<lparr>xml_read :=
     \<lambda>b. [XStart \<lparr>el_name = ''D:displayname'', el_local = ''displayname'', el_attrs = []\<rparr>,
         XText (Some ''Office''), XEnd ''displayname'', XEof]\<rparr>"

lemma demo_rename_values:
  "extract_prop_value demo_rename b ''displayname'' = Some ''Office''"
  "extract_prop_value demo_rename b ''calendar-description'' = None" "extract_prop_value demo_rename b ''calendar-color'' = None"
  by (simp_all add: extract_prop_value_def demo_rename_def)


section \<open>Deleting calendars\<close>

lemma lookup_without:
  "find (\<lambda>x. (f x, g x) = (c, u)) (filter (\<lambda>x. f x \<noteq> cid) xs) =
     (if c = cid then None else find (\<lambda>x. (f x, g x) = (c, u)) xs)"
  by (induction xs) auto

lemma filter_without:
  "filter (\<lambda>x. f x = c) (filter (\<lambda>x. f x \<noteq> cid) xs) = (if c = cid then [] else filter (\<lambda>x. f x = c) xs)"
  by (induction xs) auto

lemma has_access_row:
  "has_access w u i \<longleftrightarrow> (\<exists>c \<in> set (db_calendars w). c_id c = i \<and> (c_owner_id c = u \<or> is_shared w i u))"
  by (auto simp: has_access_def set_accessible)

lemma has_access_deleted:
  assumes "db_calendars w' = filter (\<lambda>c. c_id c \<noteq> cid) (db_calendars w)" "db_shares w' = filter (\<lambda>s. s_calendar_id s \<noteq> cid) (db_shares w)"
  shows "has_access w' u i \<longleftrightarrow> i \<noteq> cid \<and> has_access w u i"
proof (cases "i = cid")
  case False
  then have "is_shared w' i u = is_shared w i u" using assms(2) by (auto simp: is_shared_def)
  with False assms(1) show ?thesis by (auto simp: has_access_row)
qed (auto simp: has_access_row assms)

text \<open>In a state that satisfies the schema a calendar that does not exist has no rows.\<close>

lemma no_rows:
  assumes "db_inv w" "\<not> calendar_exists w cid"
  shows "snd (delete_calendar_row cid w) = w"
proof -
  have "filter (\<lambda>c. c_id c \<noteq> cid) (db_calendars w) = db_calendars w"
    "filter (\<lambda>ob. o_calendar_id ob \<noteq> cid) (db_objects w) = db_objects w"
    "filter (\<lambda>s. s_calendar_id s \<noteq> cid) (db_shares w) = db_shares w"
    "filter (\<lambda>x. x_calendar_id x \<noteq> cid) (db_changes w) = db_changes w"
    using assms by (auto simp: db_inv_def ok_defs filter_id_conv list_all_iff)
  then show ?thesis by (simp add: delete_calendar_row_def)
qed

text \<open>C25: deleting a calendar deletes everything in it and nothing else. The objects, shares and log
  entries of the calendar go with it, every row of another calendar stays, and users, tokens and
  sessions are untouched; deleting a calendar that does not exist reports \<open>NotFound\<close> and changes
  nothing.\<close>

theorem delete_calendar_cascade:
  assumes "no_faults E" "db_inv w"
  shows "case run (delete_calendar E cid) w of
      (Inr _, w') \<Rightarrow> calendar_exists w cid \<and> db_calendars w' = filter (\<lambda>c. c_id c \<noteq> cid) (db_calendars w) \<and>
        (\<forall>c uid. lookup_object w' c uid = (if c = cid then None else lookup_object w c uid)) \<and>
        (\<forall>c user. find_share w' c user = (if c = cid then None else find_share w c user)) \<and>
        (\<forall>c. changes_of w' c = (if c = cid then [] else changes_of w c)) \<and>
        (\<forall>c user. has_access w' user c = (c \<noteq> cid \<and> has_access w user c)) \<and>
        db_users w' = db_users w \<and> db_tokens w' = db_tokens w \<and> mcp_sessions w' = mcp_sessions w
    | (Inl e, w') \<Rightarrow> \<not> calendar_exists w cid \<and> (\<exists>msg. e = NotFound msg) \<and> same_data w w'"
proof (cases "calendar_exists w cid")
  case True
  then have "filter (\<lambda>c. c_id c = cid) (db_calendars w) \<noteq> []"
    by (auto simp: calendar_exists_def filter_empty_conv)
  then have "run (delete_calendar E cid) w = (Inr (), snd (delete_calendar_row cid (tick w)))"
    using assms by (simp add: delete_calendar_def run_simps run_query delete_calendar_row_def)
  then show ?thesis
    using True
    by (simp add: delete_calendar_row_def lookup_object_def find_share_def changes_of_def lookup_without filter_without
        has_access_deleted [where w = w and cid = cid] del: prod.inject filter_filter)
next
  case False
  then have "filter (\<lambda>c. c_id c = cid) (db_calendars w) = []"
    by (auto simp: calendar_exists_def filter_empty_conv)
  then have "run (delete_calendar E cid) w = (Inl (NotFound (''Calendar '' @ cid @ '' not found'')), snd (delete_calendar_row cid (tick w)))"
    using assms(1) by (simp add: delete_calendar_def run_simps run_query delete_calendar_row_def)
  with False show ?thesis using no_rows [of "tick w" cid] assms(2) by simp
qed

theorem delete_calendar_cascade_witness:
  "case run (delete_calendar demo_ext ''work'') demo_world of
     (Inr _, w') \<Rightarrow> lookup_object w' ''work'' ''standup'' = None \<and> \<not> has_access w' ''u2'' ''work'' | (Inl _, _) \<Rightarrow> False"
proof -
  have "calendar_exists demo_world ''work''" by (simp add: demo_world_calendars)
  with delete_calendar_cascade [OF demo_no_faults demo_world_inv, of "''work''"] show ?thesis
    by (auto split: prod.splits sum.splits)
qed

section \<open>Finding objects by their hrefs\<close>

lemma concat_utf8_chunks: "concat (map snd (utf8_chunks s)) = s"
proof (induction s rule: utf8_chunks.induct)
  case (1 s)
  show ?case
  proof (cases "s = []")
    case False
    then show ?thesis
      using 1 [OF False refl, of "fst (utf8_chunk s)" "snd (utf8_chunk s)"]
      by (subst utf8_chunks.simps) (simp add: case_prod_beta Let_def)
  qed (simp add: utf8_chunks.simps)
qed

lemma percent_decode_chars_plain: "''%'' \<notin> set cs \<Longrightarrow> percent_decode_chars cs = concat cs"
  by (induction cs) auto

lemma percent_decode_plain: "CHR ''%'' \<notin> set s \<Longrightarrow> percent_decode s = s"
proof -
  assume plain: "CHR ''%'' \<notin> set s"
  have "''%'' \<notin> set (str_chars s)"
  proof
    assume "''%'' \<in> set (str_chars s)"
    then have "CHR ''%'' \<in> set (concat (map snd (utf8_chunks s)))" by (force simp: str_chars_def)
    with plain show False by (simp add: concat_utf8_chunks)
  qed
  then show ?thesis by (simp add: percent_decode_def percent_decode_chars_plain str_chars_def concat_utf8_chunks)
qed

lemma rsplit_last: "c \<notin> set t \<Longrightarrow> rsplit_next (s @ c # t) c = t"
  by (simp add: rsplit_next_def takeWhile_append)

lemma strip_ics: "strip_suffix (uid @ ''.ics'') ''.ics'' = Some uid"
  by (simp add: strip_suffix_def ends_with_def)

definition plain_uid :: "string \<Rightarrow> bool" where
  "plain_uid uid \<longleftrightarrow> CHR ''/'' \<notin> set uid \<and> CHR ''%'' \<notin> set uid"

lemma object_href_form: "\<exists>p. calendar_object_href_for_context ctx cid uid = p @ ''/'' @ uid @ ''.ics''"
  by (simp add: calendar_object_href_for_context_def calendar_object_href_def split: option.split)

lemma href_uid_object:
  assumes "plain_uid uid"
  shows "href_uid (calendar_object_href_for_context ctx cid uid) = Some uid"
proof -
  obtain p where "calendar_object_href_for_context ctx cid uid = p @ CHR ''/'' # uid @ ''.ics''"
    using object_href_form [of ctx cid uid] by auto
  then show ?thesis
    using assms rsplit_last [of "CHR ''/''" "uid @ ''.ics''" p]
    by (simp add: href_uid_def strip_ics percent_decode_plain plain_uid_def)
qed

lemma multiget_uids_hrefs:
  "list_all plain_uid uids \<Longrightarrow> multiget_uids (map (calendar_object_href_for_context ctx cid) uids) = uids"
  by (induction uids) (simp_all add: multiget_uids_def map_filter_simps href_uid_object)

end
