(* ===== verification/Xml_Properties.thy ===== *)
theory Xml_Properties
  imports Collection_Properties
begin

text \<open>
  Requests as clients write them, read by the parsers of \<open>src/caldav/xml/parse.rs\<close>, and what the
  server makes of them.
\<close>

section \<open>PROPFIND\<close>

text \<open>The events of the usual PROPFIND body: the namespaces are declared on the root element with
  the customary prefixes, and the requested properties are empty elements inside \<open>prop\<close>.\<close>

definition ns_attrs :: "(string \<times> string) list" where
  "ns_attrs = [(''xmlns:D'', DAV_NS), (''xmlns:C'', CALDAV_NS), (''xmlns:A'', APPLE_NS), (''xmlns:CS'', CS_NS)]"

definition dav_elem :: "string \<Rightarrow> (string \<times> string) list \<Rightarrow> xml_elem" where
  "dav_elem n attrs = \<lparr>el_name = ''D:'' @ n, el_local = n, el_attrs = attrs\<rparr>"

definition prop_elem :: "PropRequest \<Rightarrow> xml_event" where
  "prop_elem r = XEmpty \<lparr>el_name = ns_prefix (r_namespace r) @ '':'' @ r_local_name r, el_local = r_local_name r, el_attrs = []\<rparr>"

definition propfind_events :: "PropRequest list \<Rightarrow> xml_event list" where
  "propfind_events rs =
     [XStart (dav_elem ''propfind'' ns_attrs), XStart (dav_elem ''prop'' [])] @ map prop_elem rs @
     [XEnd ''prop'', XEnd ''propfind'', XEof]"

text \<open>A property in one of the four namespaces, not named like a structural element.\<close>

definition ordinary :: "PropRequest \<Rightarrow> bool" where
  "ordinary r \<longleftrightarrow> r_namespace r \<in> {DAV_NS, CALDAV_NS, APPLE_NS, CS_NS} \<and>
     r_local_name r \<notin> {''allprop'', ''propname'', ''prop''}"

abbreviation declared :: NsContext where
  "declared \<equiv> [(''CS'', CS_NS), (''A'', APPLE_NS), (''C'', CALDAV_NS), (''D'', DAV_NS)]"

lemma register_ns_attrs: "register_attrs [] ns_attrs = declared"
  by (simp add: ns_attrs_def strip_prefix_def starts_with_def)

lemma resolve_declared:
  assumes "ordinary r"
  shows "resolve declared \<lparr>el_name = ns_prefix (r_namespace r) @ '':'' @ r_local_name r, el_local = n, el_attrs = []\<rparr> = r_namespace r"
  using assms by (auto simp: ordinary_def resolve_def ns_prefix_def ns_defs)

lemma propfind_loop_props:
  "list_all ordinary rs \<Longrightarrow>
   propfind_loop (map prop_elem rs @ evs) (PfState declared True ps) = propfind_loop evs (PfState declared True (ps @ rs))"
proof (induction rs arbitrary: ps)
  case (Cons r rs)
  then have "propfind_element \<lparr>el_name = ns_prefix (r_namespace r) @ '':'' @ r_local_name r, el_local = r_local_name r, el_attrs = []\<rparr>
      (PfState declared True ps) = Inr (PfState declared True (ps @ [r]))"
    using resolve_declared [of r "r_local_name r"] by (simp add: Let_def register_from_event_def ordinary_def)
  then show ?case using Cons by (simp add: prop_elem_def)
qed simp

lemma parse_propfind_events:
  assumes "xml_read E body = propfind_events rs" "body \<noteq> []" "rs \<noteq> []" "list_all ordinary rs"
  shows "parse_propfind E body = Props rs"
  using propfind_loop_props [OF assms(4), of "[XEnd ''prop'', XEnd ''propfind'', XEof]" "[]"] assms(1-3)
  by (simp add: parse_propfind_def propfind_events_def dav_elem_def Let_def register_from_event_def register_ns_attrs)



section \<open>Values of elements\<close>

text \<open>The two copies of the loop that reads the text of an element do the same: leaving an element
  that was not entered changes nothing.\<close>

lemma value_loops_agree: "xml_value_loop evs n b = prop_value_loop evs n b"
  by (induction evs n b rule: xml_value_loop.induct) simp_all

lemma extract_values_agree: "extract_xml_value E xml n = extract_prop_value E xml n"
  by (simp add: extract_xml_value_def extract_prop_value_def value_loops_agree)

section \<open>REPORT\<close>

text \<open>A calendar-multiget as clients send it.\<close>

definition href_events :: "string \<Rightarrow> xml_event list" where
  "href_events h = [XStart (dav_elem ''href'' []), XText (Some h), XEnd ''href'']"

definition multiget_events :: "PropRequest list \<Rightarrow> string list \<Rightarrow> xml_event list" where
  "multiget_events rs hrefs =
     [XStart \<lparr>el_name = ''C:calendar-multiget'', el_local = ''calendar-multiget'', el_attrs = ns_attrs\<rparr>,
      XStart (dav_elem ''prop'' [])] @ map prop_elem rs @ [XEnd ''prop''] @ concat (map href_events hrefs) @
     [XEnd ''calendar-multiget'', XEof]"

definition reportable :: "PropRequest \<Rightarrow> bool" where
  "reportable r \<longleftrightarrow> ordinary r \<and> r_local_name r \<notin> {''calendar-multiget'', ''calendar-query'', ''sync-collection'',
     ''filter'', ''comp-filter'', ''href'', ''sync-token'', ''time-range''}"

lemma report_loop_props:
  "list_all reportable rs \<Longrightarrow> rs_ctx st = declared \<Longrightarrow> rs_in_prop st \<Longrightarrow>
   report_loop (map prop_elem rs @ evs) st = report_loop evs (st\<lparr>rs_props := rs_props st @ rs\<rparr>)"
proof (induction rs arbitrary: st)
  case (Cons r rs)
  let ?e = "\<lparr>el_name = ns_prefix (r_namespace r) @ '':'' @ r_local_name r, el_local = r_local_name r, el_attrs = []\<rparr>"
  have "report_element ?e st = st\<lparr>rs_props := rs_props st @ [r]\<rparr>"
    using Cons.prems resolve_declared [of r "r_local_name r"]
    by (simp add: report_element_def Let_def register_from_event_def reportable_def ordinary_def)
  then show ?case using Cons.IH [of "st\<lparr>rs_props := rs_props st @ [r]\<rparr>"] Cons.prems by (simp add: prop_elem_def)
qed simp

lemma report_loop_hrefs:
  "\<not> rs_in_href st \<Longrightarrow> \<not> rs_in_sync_token st \<Longrightarrow>
   report_loop (concat (map href_events hs) @ evs) st = report_loop evs (st\<lparr>rs_hrefs := rs_hrefs st @ hs\<rparr>)"
proof (induction hs arbitrary: st)
  case (Cons h hs)
  have "report_end ''href'' (report_text (Some h) (report_element (dav_elem ''href'' []) st)) = st\<lparr>rs_hrefs := rs_hrefs st @ [h]\<rparr>"
    using Cons.prems
    by (cases st) (simp add: report_element_def report_text_def report_end_def dav_elem_def Let_def register_from_event_def)
  then show ?case using Cons.IH [of "st\<lparr>rs_hrefs := rs_hrefs st @ [h]\<rparr>"] Cons.prems by (simp add: href_events_def)
qed simp

lemma parse_multiget:
  assumes "xml_read E body = multiget_events rs hrefs" "body \<noteq> []" "list_all reportable rs"
  shows "parse_report E body = Some (CalendarMultiget rs hrefs)"
proof -
  let ?st = "report_init\<lparr>rs_ctx := declared, rs_type := Some ''multiget'', rs_in_prop := True\<rparr>"
  have "report_loop (map prop_elem rs @ [XEnd ''prop''] @ concat (map href_events hrefs) @ [XEnd ''calendar-multiget'', XEof]) ?st
      = Some (CalendarMultiget rs hrefs)"
    using assms(3)
    by (simp add: report_loop_props report_loop_hrefs report_end_def report_init_def report_finish_def)
  then show ?thesis
    using assms(1,2)
    by (simp add: parse_report_def multiget_events_def dav_elem_def report_element_def Let_def register_from_event_def
        register_ns_attrs report_init_def)
qed

text \<open>A calendar-query, with or without a time range.\<close>

definition range_events :: "(string \<times> string) option \<Rightarrow> xml_event list" where
  "range_events tr =
     (case tr of None \<Rightarrow> []
      | Some (start, stop) \<Rightarrow> [XEmpty \<lparr>el_name = ''C:time-range'', el_local = ''time-range'',
          el_attrs = [(''start'', start), (''end'', stop)]\<rparr>])"

definition query_xml :: "PropRequest list \<Rightarrow> (string \<times> string) option \<Rightarrow> xml_event list" where
  "query_xml rs tr =
     [XStart \<lparr>el_name = ''C:calendar-query'', el_local = ''calendar-query'', el_attrs = ns_attrs\<rparr>,
      XStart (dav_elem ''prop'' [])] @ map prop_elem rs @
     [XEnd ''prop'', XStart \<lparr>el_name = ''C:filter'', el_local = ''filter'', el_attrs = []\<rparr>,
      XStart \<lparr>el_name = ''C:comp-filter'', el_local = ''comp-filter'', el_attrs = [(''name'', ''VEVENT'')]\<rparr>] @
     range_events tr @ [XEnd ''comp-filter'', XEnd ''filter'', XEnd ''calendar-query'', XEof]"

definition proper_range :: "(string \<times> string) option \<Rightarrow> bool" where
  "proper_range tr = (case tr of None \<Rightarrow> True | Some (start, stop) \<Rightarrow> start \<noteq> [] \<and> stop \<noteq> [])"

lemma parse_query:
  assumes "xml_read E body = query_xml rs tr" "body \<noteq> []" "list_all reportable rs" "proper_range tr"
  shows "parse_report E body = Some (CalendarQuery rs tr)"
proof -
  let ?st = "report_init\<lparr>rs_ctx := declared, rs_type := Some ''query'', rs_in_prop := True\<rparr>"
  have "report_loop (map prop_elem rs @ [XEnd ''prop'', XStart \<lparr>el_name = ''C:filter'', el_local = ''filter'', el_attrs = []\<rparr>,
      XStart \<lparr>el_name = ''C:comp-filter'', el_local = ''comp-filter'', el_attrs = [(''name'', ''VEVENT'')]\<rparr>] @
     range_events tr @ [XEnd ''comp-filter'', XEnd ''filter'', XEnd ''calendar-query'', XEof]) ?st
      = Some (CalendarQuery rs tr)"
    using assms(3,4)
    by (cases tr) (auto simp: report_loop_props report_end_def report_init_def report_finish_def range_events_def proper_range_def
        report_element_def register_from_event_def Let_def strip_prefix_def starts_with_def)
  then show ?thesis
    using assms(1,2)
    by (simp add: parse_report_def query_xml_def dav_elem_def report_element_def Let_def register_from_event_def
        register_ns_attrs report_init_def)
qed

text \<open>The objects of a calendar that meet a condition, as a report lists them, and the outcome of a
  report that lists some objects with their data.\<close>

definition listed :: "string \<Rightarrow> (CalendarObject \<Rightarrow> bool) \<Rightarrow> world \<Rightarrow> CalendarObject list" where
  "listed cid P w = sort_key o_dtstart (filter (\<lambda>ob. o_calendar_id ob = cid \<and> P ob) (db_objects w))"

definition reports_objects ::
  "ext \<Rightarrow> HrefContext \<Rightarrow> string \<Rightarrow> CalendarObject list \<Rightarrow> world \<Rightarrow> outcome \<times> world" where
  "reports_objects E ctx cid obs w =
     (Reply (buffer_response E (512 * 1024) (multistatus_response (xml_write E (builder_build
        (foldl (add_object ctx cid True) builder_new obs))))), tick w)"

definition within :: "(string \<times> string) option \<Rightarrow> CalendarObject \<Rightarrow> bool" where
  "within tr ob = (case tr of None \<Rightarrow> True | Some (start, stop) \<Rightarrow> in_range start stop ob)"

lemma report_is_dispatched:
  assumes "bodies_bounded E" "length (req_body request) \<le> 256 * 1024"
    and "parse_report E (req_body request) = Some rep"
  shows "parse_report E (body_or_empty E request (256 * 1024)) = Some rep"
  using assms by (simp add: body_or_empty_def bodies_bounded_def)

lemma multiget_reports:
  assumes "no_faults E" "uids \<noteq> []" "list_all plain_uid uids"
    and "parse_report E (body_or_empty E request (256 * 1024)) =
      Some (CalendarMultiget rs (map (calendar_object_href_for_context ctx cid) uids))"
  shows "run (handle_report E user (Some ctx) cid request) w =
    reports_objects E ctx cid (listed cid (\<lambda>ob. o_uid ob \<in> set uids) w) w"
  using assms(1,2,4) multiget_uids_hrefs [OF assms(3)]
  by (simp add: handle_report_def dispatch_report_def handle_multiget_def get_objects_by_uids_def run_simps run_select
      objects_of_def filter_filter Let_def reports_objects_def listed_def)

lemma query_reports:
  assumes "no_faults E" "parse_report E (body_or_empty E request (256 * 1024)) = Some (CalendarQuery rs tr)"
  shows "run (handle_report E user (Some ctx) cid request) w =
    reports_objects E ctx cid (listed cid (within tr) w) w"
  using assms
  by (cases tr)
    (auto simp: handle_report_def dispatch_report_def handle_query_def list_objects_def list_objects_in_range_def
      run_simps run_select objects_of_def filter_filter Let_def reports_objects_def listed_def within_def conj_commute)


definition demo_reports :: ext where
  "demo_reports = demo_ext\<lparr>xml_read := \<lambda>b.
     if b = ''<m/>''
     then multiget_events [\<lparr>r_namespace = CALDAV_NS, r_local_name = ''calendar-data''\<rparr>] [''/caldav/users/alice/work/standup.ics'']
     else query_xml [\<lparr>r_namespace = CALDAV_NS, r_local_name = ''calendar-data''\<rparr>] (Some (''20260101T000000Z'', ''20270101T000000Z''))\<rparr>"


end
