(* ===== verification/Sync_Report.thy ===== *)
theory Sync_Report
  imports Sync_Log Xml_Properties
begin

text \<open>
  A client that keeps a copy of a calendar by sync-collection reports (\<open>handle_sync\<close> of
  \<open>src/caldav/report.rs\<close>): the request as clients write it, the answer as they read it, and what
  becomes of the copy round by round.
\<close>

section \<open>The client\<close>

text \<open>The request of a client: its token, or an empty element when it has none yet, then the level and
  the properties it wants.\<close>

definition token_events :: "string \<Rightarrow> xml_event list" where
  "token_events token =
     (if token = [] then [XEmpty (dav_elem ''sync-token'' [])]
      else [XStart (dav_elem ''sync-token'' []), XText (Some token), XEnd ''sync-token''])"

definition sync_events :: "PropRequest list \<Rightarrow> string \<Rightarrow> xml_event list" where
  "sync_events rs token =
     [XStart (dav_elem ''sync-collection'' ns_attrs)] @ token_events token @
     [XStart (dav_elem ''sync-level'' []), XText (Some ''1''), XEnd ''sync-level'', XStart (dav_elem ''prop'' [])] @
     map prop_elem rs @ [XEnd ''prop'', XEnd ''sync-collection'', XEof]"

text \<open>Reading the answer: the href and, where there is one, the ETag of each response, and the token.
  \<open>cur\<close> is the element opened last.\<close>

fun read_entries :: "xml_out list \<Rightarrow> string \<Rightarrow> string \<Rightarrow> string option \<Rightarrow> (string \<times> string option) list" where
  "read_entries [] cur h e = []"
| "read_entries (OStart n as # es) cur h e = read_entries es n h e"
| "read_entries (OText t # es) cur h e =
     read_entries es cur (if cur = ''D:href'' then t else h) (if cur = ''D:getetag'' then Some t else e)"
| "read_entries (OEnd n # es) cur h e =
     (if n = ''D:response'' then (h, e) # read_entries es [] [] None else read_entries es [] h e)"
| "read_entries (_ # es) cur h e = read_entries es cur h e"

fun read_token :: "xml_out list \<Rightarrow> string option" where
  "read_token (OStart n as # OText t # es) = (if n = ''D:sync-token'' then Some t else read_token es)"
| "read_token (_ # es) = read_token es"
| "read_token [] = None"

text \<open>The copy: the ETag under each href. A response without an ETag removes the href.\<close>

type_synonym copy = "string \<Rightarrow> string option"

definition take_entry :: "string \<times> string option \<Rightarrow> copy \<Rightarrow> copy" where
  "take_entry p m = m(fst p := snd p)"

text \<open>What the copy should be.\<close>

definition etags :: "HrefContext \<Rightarrow> string \<Rightarrow> world \<Rightarrow> copy" where
  "etags ctx cid w h =
     (case find (\<lambda>ob. calendar_object_href_for_context ctx cid (o_uid ob) = h) (objects_of w cid) of
        Some ob \<Rightarrow> Some (o_etag ob) | None \<Rightarrow> None)"

section \<open>Reading what was written\<close>

lemma href_inj: "calendar_object_href_for_context ctx cid u = calendar_object_href_for_context ctx cid v \<longleftrightarrow> u = v"
  by (auto simp: calendar_object_href_for_context_def calendar_object_href_def split: option.split)

lemma etags_href: "etags ctx cid w (calendar_object_href_for_context ctx cid u) = map_option o_etag (lookup_object w cid u)"
proof -
  have "lookup_object w cid u = find (\<lambda>ob. o_uid ob = u) (objects_of w cid)"
    unfolding lookup_object_def objects_of_def find_conj_filter [symmetric] by simp
  then show ?thesis by (simp add: etags_def href_inj split: option.split)
qed

lemma etags_other: "(\<And>u. h \<noteq> calendar_object_href_for_context ctx cid u) \<Longrightarrow> etags ctx cid w h = None"
  by (auto simp: etags_def find_None_iff split: option.split)

text \<open>One response, with the ETag of an object or with none.\<close>

definition add_entry :: "HrefContext \<Rightarrow> string \<Rightarrow> bool \<Rightarrow> builder \<Rightarrow> string \<times> CalendarObject option \<Rightarrow> builder" where
  "add_entry ctx cid include_data b p =
     add_response b (calendar_object_href_for_context ctx cid (fst p))
       (case snd p of Some ob \<Rightarrow> calendar_object_props ob include_data | None \<Rightarrow> []) []"

lemma add_entry_simps:
  "add_entry ctx cid d b (u, None) = add_response b (calendar_object_href_for_context ctx cid u) [] []"
  "add_entry ctx cid d b (u, Some ob) =
     add_response b (calendar_object_href_for_context ctx cid u) (calendar_object_props ob d) []"
  by (simp_all add: add_entry_def)

lemma read_response:
  "read_entries (add_entry ctx cid d [] p @ es) cur h None =
     (calendar_object_href_for_context ctx cid (fst p), map_option o_etag (snd p)) # read_entries es [] [] None"
  by (cases "snd p")
    (simp_all add: add_entry_def add_response_def text_element_def propstat_def calendar_object_props_def prop_events_def
      prefix_name_def ns_defs Let_def)

lemma add_entry_append: "add_entry ctx cid d b p = b @ add_entry ctx cid d [] p"
  by (simp add: add_entry_def add_response_def)

lemma foldl_add_entry: "foldl (add_entry ctx cid d) b ps = b @ concat (map (add_entry ctx cid d []) ps)"
proof (induction ps arbitrary: b)
  case (Cons p ps)
  then show ?case using add_entry_append [of ctx cid d b p] by simp
qed simp

definition sync_answer :: "HrefContext \<Rightarrow> string \<Rightarrow> bool \<Rightarrow> (string \<times> CalendarObject option) list \<Rightarrow> string \<Rightarrow> xml_out list" where
  "sync_answer ctx cid d ps token = builder_build (add_sync_token (foldl (add_entry ctx cid d) builder_new ps) token)"

lemma sync_answer_eq:
  "sync_answer ctx cid d ps token =
     builder_new @ concat (map (add_entry ctx cid d []) ps) @ text_element ''D:sync-token'' token @ [OEnd ''D:multistatus'']"
  by (simp add: sync_answer_def builder_build_def add_sync_token_def foldl_add_entry)

lemma read_sync_answer:
  "read_entries (sync_answer ctx cid d ps token) [] [] None =
     map (\<lambda>p. (calendar_object_href_for_context ctx cid (fst p), map_option o_etag (snd p))) ps"
proof -
  have "read_entries (concat (map (add_entry ctx cid d []) ps) @ text_element ''D:sync-token'' token @ [OEnd ''D:multistatus'']) cur [] None =
      map (\<lambda>p. (calendar_object_href_for_context ctx cid (fst p), map_option o_etag (snd p))) ps" for cur
    by (induction ps arbitrary: cur) (simp_all add: read_response text_element_def)
  then show ?thesis by (simp add: sync_answer_eq builder_new_def)
qed

lemma read_token_response: "read_token (add_entry ctx cid d [] p @ es) = read_token es"
  by (cases "snd p")
    (simp_all add: add_entry_def add_response_def text_element_def propstat_def calendar_object_props_def prop_events_def
      prefix_name_def ns_defs Let_def)

lemma read_token_answer: "read_token (sync_answer ctx cid d ps token) = Some token"
proof -
  have "read_token (concat (map (add_entry ctx cid d []) ps) @ es) = read_token es" for es
    by (induction ps) (simp_all add: read_token_response)
  then have "read_token (sync_answer ctx cid d ps token) = read_token (text_element ''D:sync-token'' token @ [OEnd ''D:multistatus''])"
    by (cases ps) (simp_all add: sync_answer_eq builder_new_def text_element_def add_entry_def add_response_def)
  then show ?thesis by (simp add: text_element_def)
qed

section \<open>The server's side\<close>

text \<open>The entries the loop over the changes makes of the current objects.\<close>

definition sync_entries :: "world \<Rightarrow> string \<Rightarrow> SyncChange list \<Rightarrow> (string \<times> CalendarObject option) list" where
  "sync_entries w cid xs = List.map_filter (\<lambda>x.
     if x_change_type x = ''deleted'' then Some (x_object_uid x, None)
     else map_option (\<lambda>ob. (x_object_uid x, Some ob)) (lookup_object w cid (x_object_uid x))) xs"

lemma sync_entries_simps [simp]:
  "sync_entries w cid [] = []"
  "sync_entries w cid (x # xs) =
     (if x_change_type x = ''deleted'' then [(x_object_uid x, None)]
      else (case lookup_object w cid (x_object_uid x) of Some ob \<Rightarrow> [(x_object_uid x, Some ob)] | None \<Rightarrow> [])) @
     sync_entries w cid xs"
  by (simp_all add: sync_entries_def map_filter_simps split: option.split)

lemma sync_entries_append [simp]: "sync_entries w cid (xs @ ys) = sync_entries w cid xs @ sync_entries w cid ys"
  by (induction xs) simp_all

lemma sync_entries_tick [simp]: "sync_entries (tick w) cid xs = sync_entries w cid xs"
  by (induction xs) simp_all

lemma run_sync_changes_loop:
  assumes "no_faults E"
  shows "\<exists>n. run (sync_changes_loop E ctx cid d xs b) w =
    (foldl (add_entry ctx cid d) b (sync_entries w cid xs), (tick ^^ n) w)"
proof (induction xs arbitrary: b w)
  case Nil
  show ?case by (intro exI [of _ 0]) simp
next
  case (Cons x xs)
  show ?case
  proof (cases "x_change_type x = ''deleted''")
    case True
    then show ?thesis using Cons [of "add_entry ctx cid d b (x_object_uid x, None)" w] by (simp add: add_entry_simps)
  next
    case False
    obtain b' where b': "b' = (case lookup_object w cid (x_object_uid x) of
        Some ob \<Rightarrow> add_entry ctx cid d b (x_object_uid x, Some ob) | None \<Rightarrow> b)" by blast
    obtain n where "run (sync_changes_loop E ctx cid d xs b') (tick w) =
        (foldl (add_entry ctx cid d) b' (sync_entries w cid xs), (tick ^^ n) (tick w))"
      using Cons [of b' "tick w"] by auto
    then show ?thesis
      using False assms
      by (intro exI [of _ "Suc n"], cases "lookup_object w cid (x_object_uid x)")
        (simp_all add: b' run_simps run_get_object funpow_swap1 add_entry_simps)
  qed
qed

lemma ticks_only: "same_data w ((tick ^^ n) w)" "ticks ((tick ^^ n) w) = n + ticks w"
  by (induction n) (simp_all add: same_data_iff)

text \<open>The whole report, for a token that is not empty.\<close>

lemma run_handle_sync:
  assumes "no_faults E" "token \<noteq> []" "find (\<lambda>c. c_id c = cid) (db_calendars w) = Some cal"
    and "run (get_sync_changes_since E cid token) (tick w) = (Inr xs, tick (tick (tick w)))"
  shows "\<exists>n. run (handle_sync E ctx cid props token) w =
    (multistatus_response (xml_write E (sync_answer ctx cid (list_ex (\<lambda>p. r_local_name p = ''calendar-data'') props)
       (sync_entries w cid xs) (ensure_sync_token_uri (c_sync_token cal)))), (tick ^^ n) w)"
proof -
  let ?d = "list_ex (\<lambda>p. r_local_name p = ''calendar-data'') props"
  obtain n where loop: "run (sync_changes_loop E ctx cid ?d xs builder_new) (tick (tick (tick w))) =
      (foldl (add_entry ctx cid ?d) builder_new (sync_entries w cid xs), (tick ^^ n) (tick (tick (tick w))))"
    using run_sync_changes_loop [OF assms(1), of ctx cid ?d xs builder_new "tick (tick (tick w))"] by auto
  have "run (get_calendar_by_id E cid) w = (Inr (Some cal), tick w)"
    using assms(1,3) by (simp add: get_calendar_by_id_def run_select select_one_def)
  then show ?thesis
    using assms(2,4) loop
    by (intro exI [of _ "n + 3"])
      (simp add: handle_sync_def run_bind sync_answer_def Let_def funpow_swap1 eval_nat_numeral)
qed

section \<open>What the copy becomes\<close>

lemma fold_take_entries:
  assumes "u \<in> x_object_uid ` set xs \<Longrightarrow> u \<in> replay xs {} \<longleftrightarrow> lookup_object w cid u \<noteq> None"
  shows "fold take_entry (map (\<lambda>p. (calendar_object_href_for_context ctx cid (fst p), map_option o_etag (snd p))) (sync_entries w cid xs)) V
      (calendar_object_href_for_context ctx cid u) =
    (if u \<in> x_object_uid ` set xs then map_option o_etag (lookup_object w cid u) else V (calendar_object_href_for_context ctx cid u))"
  using assms
proof (induction xs rule: rev_induct)
  case (snoc x xs)
  show ?case
  proof (cases "x_object_uid x = u")
    case True
    then show ?thesis
      using snoc.prems
      by (cases "lookup_object w cid u") (auto simp: take_entry_def replay_append replay_def replay_change_def split: if_splits)
  next
    case False
    then have "u \<in> replay (xs @ [x]) {} \<longleftrightarrow> u \<in> replay xs {}"
      by (auto simp: replay_append replay_def replay_change_def)
    with snoc False show ?thesis
      by (auto simp: take_entry_def href_inj split: option.split)
  qed
qed simp

text \<open>Between two reports: the log has grown, every UID that changed is in the new part, and the tokens
  of the new part were not yet drawn.\<close>

definition grown :: "ext \<Rightarrow> string \<Rightarrow> world \<Rightarrow> world \<Rightarrow> bool" where
  "grown E cid w v \<longleftrightarrow> ticks w \<le> ticks v \<and>
     (\<exists>new. changes_of v cid = changes_of w cid @ new \<and>
        (\<forall>u. u \<in> x_object_uid ` set new \<or> lookup_object v cid u = lookup_object w cid u) \<and>
        (\<forall>x \<in> set new. \<exists>n \<ge> ticks w. x_sync_token x = sync_token_of (uuid_v7 E n)))"

lemma grown_refl [simp]: "grown E cid w w"
  by (simp add: grown_def)

lemma grown_tick [simp]: "grown E cid w (tick w)"
  by (simp add: grown_def)

lemma grown_trans:
  assumes "grown E cid u v" "grown E cid v w"
  shows "grown E cid u w"
proof -
  obtain new1 where 1: "ticks u \<le> ticks v" "changes_of v cid = changes_of u cid @ new1"
      "\<forall>i. i \<in> x_object_uid ` set new1 \<or> lookup_object v cid i = lookup_object u cid i"
      "\<forall>x \<in> set new1. \<exists>n \<ge> ticks u. x_sync_token x = sync_token_of (uuid_v7 E n)"
    using assms(1) unfolding grown_def by blast
  obtain new2 where 2: "ticks v \<le> ticks w" "changes_of w cid = changes_of v cid @ new2"
      "\<forall>i. i \<in> x_object_uid ` set new2 \<or> lookup_object w cid i = lookup_object v cid i"
      "\<forall>x \<in> set new2. \<exists>n \<ge> ticks v. x_sync_token x = sync_token_of (uuid_v7 E n)"
    using assms(2) unfolding grown_def by blast
  have "\<forall>i. i \<in> x_object_uid ` set (new1 @ new2) \<or> lookup_object w cid i = lookup_object u cid i"
    using 1(3) 2(3) by (metis UnI1 UnI2 image_Un set_append)
  moreover have "\<exists>n \<ge> ticks u. x_sync_token x = sync_token_of (uuid_v7 E n)" if "x \<in> set new2" for x
    using 1(1) bspec [OF 2(4) that] by (auto intro: order_trans)
  then have "\<forall>x \<in> set (new1 @ new2). \<exists>n \<ge> ticks u. x_sync_token x = sync_token_of (uuid_v7 E n)"
    using 1(4) by auto
  ultimately show ?thesis using 1(1,2) 2(1,2) unfolding grown_def by (intro conjI exI [of _ "new1 @ new2"]) auto
qed

lemma grown_logged:
  assumes "changes_of v cid = changes_of w cid" "ticks w \<le> n" "ticks w \<le> ticks v"
    and "\<And>i. (c, u) \<noteq> (cid, i) \<Longrightarrow> lookup_object v cid i = lookup_object w cid i"
  shows "grown E cid w (logged E t c u k (sync_token_of (uuid_v7 E n)) v)"
proof -
  have "lookup_object (logged E t c u k tk v) cid i = lookup_object v cid i" for tk i
    by (simp add: lookup_object_def)
  then show ?thesis
    using assms unfolding grown_def changes_of_logged by (cases "c = cid") (auto, metis)
qed

lemma changes_of_ticks [simp]: "changes_of (w\<lparr>db_objects := obs, ticks := n\<rparr>) cid = changes_of w cid"
  by (simp add: changes_of_def)

context reliable
begin

lemma grown_put:
  assumes "store_ok E w k"
  shows "grown E cid w (store_put E k v w)"
proof (rule store_put_cases [OF assms, of v])
  assume new: "lookup_object w (fst k) (snd k) = None" "store_put E k v w = inserted E w (fst k) (snd k) (fst v) (snd v)"
  have "lookup_object (w\<lparr>db_objects := db_objects w @ [new_object E (ticks w) (fst k) (snd k) (fst v) (snd v)], ticks := ticks w + 9\<rparr>) cid i
      = lookup_object w cid i" if "(fst k, snd k) \<noteq> (cid, i)" for i
    using lookup_inserted [OF new(1), of E "fst v" "snd v" cid i] that by (simp add: inserted_def lookup_object_def)
  then show ?thesis unfolding new(2) inserted_def by (intro grown_logged) simp_all
next
  fix ob
  assume old: "lookup_object w (fst k) (snd k) = Some ob" "store_put E k v w = updated E w (fst k) (snd k) (fst v) (snd v)"
  have "lookup_object (w\<lparr>db_objects := map (\<lambda>ob. if obj_key ob = (fst k, snd k)
        then changed_object E (ticks w) (fst v) (snd v) ob else ob) (db_objects w), ticks := ticks w + 8\<rparr>) cid i
      = lookup_object w cid i" if "(fst k, snd k) \<noteq> (cid, i)" for i
    using lookup_updated [of E w "fst k" "snd k" "fst v" "snd v" cid i] that by (simp add: updated_def lookup_object_def)
  then show ?thesis unfolding old(2) updated_def by (intro grown_logged) simp_all
qed

lemma grown_del:
  assumes "store_ok E w k"
  shows "grown E cid w (store_del E k w)"
proof (rule store_del_cases [OF assms])
  fix ob
  assume old: "store_del E k w = removed E w (fst k) (snd k)"
  have "lookup_object (w\<lparr>db_objects := filter (\<lambda>ob. obj_key ob \<noteq> (fst k, snd k)) (db_objects w), ticks := ticks w + 5\<rparr>) cid i
      = lookup_object w cid i" if "(fst k, snd k) \<noteq> (cid, i)" for i
    using lookup_removed [of E w "fst k" "snd k" cid i] that by (simp add: removed_def lookup_object_def)
  then show ?thesis unfolding old removed_def by (intro grown_logged) simp_all
qed simp

end

text \<open>What a round relies on: the database answers and UUIDs do not repeat, the log agrees with the
  objects, and no tag shown for a calendar is one that is still to be drawn.\<close>

definition tags_fresh :: "ext \<Rightarrow> world \<Rightarrow> bool" where
  "tags_fresh E w \<longleftrightarrow>
     (\<forall>n \<ge> ticks w. \<forall>c \<in> set (db_calendars w). ensure_sync_token_uri (c_sync_token c) \<noteq> sync_token_of (uuid_v7 E n))"

definition sync_ready :: "ext \<Rightarrow> string \<Rightarrow> world \<Rightarrow> bool" where
  "sync_ready E cid w \<longleftrightarrow> no_faults E \<and> uuids_distinct E \<and> ids_fresh E w \<and> tags_fresh E w \<and> db_inv w \<and>
     calendar_exists w cid \<and> log_consistent w cid"

lemma ensure_sync_token_of [simp]: "ensure_sync_token_uri (sync_token_of u) = sync_token_of u"
  by (simp add: ensure_sync_token_uri_def sync_token_of_def contains_char_def)

lemma tags_fresh_logged:
  assumes "tags_fresh E w" "uuids_distinct E" "t < ticks v" "ticks w \<le> ticks v" "db_calendars v = db_calendars w"
  shows "tags_fresh E (logged E t c u k tk v)"
  using assms by (auto simp: tags_fresh_def logged_def uuid_v7_eq)

lemma tags_fresh_changed:
  assumes "tags_fresh E w" "uuids_distinct E"
  shows "tags_fresh E (inserted E w c u d fs)" "tags_fresh E (updated E w c u d fs)" "tags_fresh E (removed E w c u)" "tags_fresh E (tick w)"
  unfolding inserted_def updated_def removed_def
  using assms by (auto intro!: tags_fresh_logged [OF assms]) (auto simp: tags_fresh_def)

context reliable
begin

lemma sync_ready_put:
  assumes "sync_ready E cid w" "store_ok E w k"
  shows "sync_ready E cid (store_put E k v w)"
proof -
  have "db_inv (store_put E k v w)"
    using always_run [OF integrity_upsert_object] assms(1) unfolding store_put_def sync_ready_def by blast
  moreover have "store_ok E (store_put E k v w) k" by (rule store_ok_put [OF assms(2,2)])
  moreover have "log_consistent (store_put E k v w) cid \<and> tags_fresh E (store_put E k v w) \<and> calendar_exists (store_put E k v w) cid"
    using assms(1) by (rule_tac store_put_cases [OF assms(2), of v])
      (simp_all add: sync_ready_def log_consistent_inserted log_consistent_updated tags_fresh_changed no_repeats)
  ultimately show ?thesis using answers no_repeats by (simp add: sync_ready_def store_ok_def)
qed

lemma sync_ready_del:
  assumes "sync_ready E cid w" "store_ok E w k"
  shows "sync_ready E cid (store_del E k w)"
proof -
  have "db_inv (store_del E k w)"
    using always_run [OF integrity.object_at.safe_delete_object] assms(1) unfolding store_del_def sync_ready_def by blast
  moreover have "store_ok E (store_del E k w) k" by (rule store_ok_del [OF assms(2,2)])
  moreover have "log_consistent (store_del E k w) cid \<and> tags_fresh E (store_del E k w) \<and> calendar_exists (store_del E k w) cid"
    using assms(1) by (rule_tac store_del_cases [OF assms(2)])
      (simp_all add: sync_ready_def log_consistent_removed tags_fresh_changed no_repeats)
  ultimately show ?thesis using answers no_repeats by (simp add: sync_ready_def store_ok_def)
qed

lemma ops_keep:
  assumes "sync_ready E cid w" "\<forall>x \<in> set ops. store_ok E w (op_key x)"
  shows "sync_ready E cid (fold (store_step (store_put E) (store_del E)) ops w) \<and>
    grown E cid w (fold (store_step (store_put E) (store_del E)) ops w)"
  using assms
proof (induction ops arbitrary: w)
  case (Cons x ops)
  let ?v = "store_step (store_put E) (store_del E) x w"
  have x: "store_ok E w (op_key x)" using Cons.prems(2) by simp
  have "sync_ready E cid ?v \<and> grown E cid w ?v"
    using x by (cases x) (auto simp: store_step_def intro: sync_ready_put sync_ready_del grown_put grown_del Cons.prems(1))
  moreover have "\<forall>y \<in> set ops. store_ok E ?v (op_key y)"
    using Cons.prems(2) x by (auto intro: store.ok_apply)
  ultimately show ?case using Cons.IH [of ?v] grown_trans by fastforce
qed simp

end

section \<open>The request\<close>

text \<open>An empty token element is opened and never closed for the parser, so the level that follows it
  is taken for the token.\<close>

definition effective_token :: "string \<Rightarrow> string" where
  "effective_token token = (if token = [] then ''1'' else token)"

lemma parse_sync:
  assumes "xml_read E body = sync_events rs token" "body \<noteq> []" "list_all reportable rs"
  shows "parse_report E body = Some (SyncCollection rs (effective_token token))"
proof -
  have "report_loop (map prop_elem rs @ [XEnd ''prop'', XEnd ''sync-collection'', XEof])
      (st\<lparr>rs_in_prop := True, rs_props := []\<rparr>) = Some (SyncCollection rs (rs_sync_token st))"
    if "rs_ctx st = declared" "rs_type st = Some ''sync''" for st
    using that assms(3) by (simp add: report_loop_props report_end_def report_finish_def)
  note props = this [of "report_init\<lparr>rs_ctx := declared, rs_type := Some ''sync'', rs_sync_token := tk, rs_in_sync_token := b\<rparr>" for tk b]
  show ?thesis
    using assms(1,2) props [of False token] props [of True "''1''"]
    by (simp add: parse_report_def sync_events_def token_events_def effective_token_def dav_elem_def report_element_def Let_def
        register_from_event_def register_ns_attrs report_init_def report_end_def report_text_def)
qed

section \<open>Rounds\<close>

text \<open>The client and the server agree. Without a token the client has nothing; with one it has what the
  server had when the token was given out.\<close>

definition in_sync :: "ext \<Rightarrow> HrefContext \<Rightarrow> string \<Rightarrow> world \<Rightarrow> string \<Rightarrow> copy \<Rightarrow> bool" where
  "in_sync E ctx cid w token V \<longleftrightarrow>
     (if token = [] then V = Map.empty \<and> (\<forall>x \<in> set (changes_of w cid). x_sync_token x \<noteq> ''1'')
      else V = etags ctx cid w \<and> (\<forall>n \<ge> ticks w. token \<noteq> sync_token_of (uuid_v7 E n)))"

lemma fold_take_other: "(\<And>p. p \<in> set ps \<Longrightarrow> fst p \<noteq> h) \<Longrightarrow> fold take_entry ps V h = V h"
  by (induction ps arbitrary: V) (auto simp: take_entry_def)

lemma sync_entries_uids: "p \<in> set (sync_entries w cid xs) \<Longrightarrow> fst p \<in> x_object_uid ` set xs"
  by (induction xs) (auto split: if_splits option.splits)

text \<open>Taking the answer for a part of the log that covers what the client does not know yet.\<close>

lemma copy_converges:
  assumes "log_consistent w cid" "changes_of w cid = pre @ xs"
    and "\<And>u. u \<notin> x_object_uid ` set xs \<Longrightarrow> V (calendar_object_href_for_context ctx cid u) = map_option o_etag (lookup_object w cid u)"
    and "\<And>h. (\<And>u. h \<noteq> calendar_object_href_for_context ctx cid u) \<Longrightarrow> V h = None"
  shows "fold take_entry (map (\<lambda>p. (calendar_object_href_for_context ctx cid (fst p), map_option o_etag (snd p))) (sync_entries w cid xs)) V
    = etags ctx cid w" (is "?V' = _")
proof
  fix h
  show "?V' h = etags ctx cid w h"
  proof (cases "\<exists>u. h = calendar_object_href_for_context ctx cid u")
    case True
    then obtain u where h: "h = calendar_object_href_for_context ctx cid u" ..
    have "replay xs (replay pre {}) = {u. lookup_object w cid u \<noteq> None}"
      using assms(1,2) by (simp add: log_consistent_def replay_append uids_of_eq)
    then have "u \<in> x_object_uid ` set xs \<Longrightarrow> u \<in> replay xs {} \<longleftrightarrow> lookup_object w cid u \<noteq> None"
      using replay_known [of xs "replay pre {}"] by auto
    then show ?thesis
      unfolding h etags_href using fold_take_entries assms(3) by (metis (no_types, lifting))
  next
    case False
    then have "?V' h = V h" by (intro fold_take_other) auto
    with False assms(4) show ?thesis by (simp add: etags_other)
  qed
qed

lemma split_at_token:
  assumes "find (\<lambda>x. x_sync_token x = tok) (xs @ ys) = Some a" "\<forall>y \<in> set ys. x_sync_token y \<noteq> tok"
  obtains pre post where "xs = pre @ a # post" "x_sync_token a = tok" "\<forall>x \<in> set pre. x_sync_token x \<noteq> tok"
proof -
  have "find (\<lambda>x. x_sync_token x = tok) ys = None" using assms(2) by (simp add: find_None_iff)
  then have "find (\<lambda>x. x_sync_token x = tok) xs = Some a"
    using assms(1) by (simp add: find_append split: option.splits)
  then have "\<exists>pre post. xs = pre @ a # post \<and> x_sync_token a = tok \<and> (\<forall>x \<in> set pre. x_sync_token x \<noteq> tok)"
  proof (induction xs)
    case (Cons x xs)
    show ?case
    proof (cases "x_sync_token x = tok")
      case False
      with Cons obtain pre post where "xs = pre @ a # post" "x_sync_token a = tok" "\<forall>x \<in> set pre. x_sync_token x \<noteq> tok"
        by auto
      with False show ?thesis by (intro exI [of _ "x # pre"] exI [of _ post]) auto
    qed (use Cons.prems in force)
  qed simp
  then show thesis using that by blast
qed

text \<open>The part of the log the server answers with covers everything since.\<close>

lemma changes_for_client:
  assumes "sync_ready E cid w'" "grown E cid w w'" "in_sync E ctx cid w token V"
  obtains pre xs where "changes_of w' cid = pre @ xs"
    "run (get_sync_changes_since E cid (effective_token token)) (tick w') = (Inr xs, tick (tick (tick w')))"
    "\<forall>u. u \<notin> x_object_uid ` set xs \<longrightarrow>
       V (calendar_object_href_for_context ctx cid u) = map_option o_etag (lookup_object w' cid u)"
proof -
  let ?tok = "effective_token token"
  have ready: "no_faults E" "db_inv (tick w')" "log_consistent w' cid"
    using assms(1) by (simp_all add: sync_ready_def)
  obtain new where new: "changes_of w' cid = changes_of w cid @ new"
      "\<And>u. u \<in> x_object_uid ` set new \<or> lookup_object w' cid u = lookup_object w cid u"
      "\<forall>x \<in> set new. \<exists>n \<ge> ticks w. x_sync_token x = sync_token_of (uuid_v7 E n)"
    using assms(2) unfolding grown_def by blast
  have later: "\<forall>x \<in> set new. x_sync_token x \<noteq> ?tok"
    using new(3) assms(3) by (fastforce simp: in_sync_def effective_token_def sync_token_of_def split: if_splits)
  show thesis
  proof (cases "find (\<lambda>x. x_sync_token x = ?tok) (changes_of w' cid)")
    case None
    then have "run (get_sync_changes_since E cid ?tok) (tick w') = (Inr (changes_of w' cid), tick (tick (tick w')))"
      using run_changes_unknown [OF ready(1,2), of cid ?tok] by (simp add: sync_anchor_eq)
    moreover have "V (calendar_object_href_for_context ctx cid u) = map_option o_etag (lookup_object w' cid u)"
      if "u \<notin> x_object_uid ` set (changes_of w' cid)" for u
    proof -
      have "replay (changes_of w' cid) {} = {u. lookup_object w' cid u \<noteq> None}"
        using ready(3) by (simp add: log_consistent_def uids_of_eq)
      moreover have "replay xs S \<subseteq> S \<union> x_object_uid ` set xs" for xs S
        by (induction xs arbitrary: S) (auto simp: replay_def replay_change_def split: if_splits)
      ultimately have "lookup_object w' cid u = None" using that by blast
      moreover have "lookup_object w' cid u = lookup_object w cid u" using new(1,2) that by auto
      ultimately show ?thesis using assms(3) by (simp add: in_sync_def etags_href split: if_splits)
    qed
    ultimately show thesis using that [of "[]" "changes_of w' cid"] by simp
  next
    case (Some a)
    then obtain pre post where a: "changes_of w cid = pre @ a # post" "x_sync_token a = ?tok" "\<forall>x \<in> set pre. x_sync_token x \<noteq> ?tok"
      unfolding new(1) using later by (rule split_at_token)
    then have "run (get_sync_changes_since E cid ?tok) (tick w') = (Inr (post @ new), tick (tick (tick w')))"
      using run_changes_known [OF ready(1,2), of cid pre a "post @ new" ?tok] by (simp add: new(1))
    moreover have "token \<noteq> []" using a(1,2) assms(3) by (auto simp: in_sync_def effective_token_def split: if_splits)
    then have "V (calendar_object_href_for_context ctx cid u) = map_option o_etag (lookup_object w' cid u)"
      if "u \<notin> x_object_uid ` set (post @ new)" for u
      using assms(3) new(2) [of u] that by (auto simp: in_sync_def etags_href)
    ultimately show thesis using that [of "pre @ [a]" "post @ new"] by (simp add: new(1) a(1))
  qed
qed

lemma sync_ready_ticks: "sync_ready E cid w \<Longrightarrow> sync_ready E cid ((tick ^^ n) w)"
proof (induction n)
  case (Suc n)
  then show ?case by (simp add: sync_ready_def tags_fresh_changed ids_fresh_tick)
qed simp

lemma etags_same: "same_data w v \<Longrightarrow> etags ctx cid v = etags ctx cid w"
  by (simp add: etags_def objects_of_def same_data_iff fun_eq_iff)

lemma ensure_not_empty: "ensure_sync_token_uri token \<noteq> []"
  by (auto simp: ensure_sync_token_uri_def contains_char_def)

lemma given_token_in_sync:
  assumes "sync_ready E cid w" "find (\<lambda>c. c_id c = cid) (db_calendars w) = Some cal"
  shows "in_sync E ctx cid w (ensure_sync_token_uri (c_sync_token cal)) (etags ctx cid w)"
  using assms find_SomeD [OF assms(2)] by (auto simp: in_sync_def ensure_not_empty sync_ready_def tags_fresh_def)

section \<open>Properties\<close>


definition demo_sync :: ext where
  "demo_sync = demo_ext\<lparr>xml_read := \<lambda>b. sync_events [\<lparr>r_namespace = DAV_NS, r_local_name = ''getetag''\<rparr>] []\<rparr>"

lemma demo_sync_ready: "sync_ready demo_sync ''work'' demo_world"
proof -
  have "no_faults demo_sync" "uuids_distinct demo_sync" "ids_fresh demo_sync demo_world"
    using demo_no_faults demo_uuids_distinct demo_world_fresh
    by (simp_all add: demo_sync_def no_faults_def uuids_distinct_def ids_fresh_def)
  moreover have "tags_fresh demo_sync demo_world"
    by (auto simp: tags_fresh_def demo_sync_def demo_ext_def demo_defs sync_token_of_def ensure_sync_token_uri_def contains_char_def)
  ultimately show ?thesis
    using demo_log_consistent demo_world_inv by (simp add: sync_ready_def demo_world_calendars)
qed

abbreviation alice_paths :: HrefContext where
  "alice_paths \<equiv> \<lparr>h_email = None, h_username = ''alice''\<rparr>"

abbreviation demo_report :: http_request where
  "demo_report \<equiv> \<lparr>req_method = ''REPORT'', req_headers = [], req_body = ''<x/>''\<rparr>"


end
