(* ===== verification/Caldav_Objects.thy ===== *)
theory Caldav_Objects
  imports Caldav_Auth Ical_Builder Object_Store
begin

text \<open>
  \<open>src/caldav/get.rs\<close>, \<open>put.rs\<close> and \<open>delete.rs\<close>: reading, storing and deleting one calendar object,
  and deleting a calendar. The username of the path is not used by these handlers.
\<close>

section \<open>Definitions\<close>

definition handle_get :: "ext \<Rightarrow> string \<Rightarrow> string \<Rightarrow> handler" where
  "handle_get E calendar_id filename =
     bind (get_object_by_uid E calendar_id (trim_end_matches filename ''.ics'')) (\<lambda>r.
       case r of
         Inl e \<Rightarrow> Ret (Reply (text_response INTERNAL_SERVER_ERROR ''Internal error''))
       | Inr None \<Rightarrow> Ret (Reply (text_response NOT_FOUND ''Object not found''))
       | Inr (Some object) \<Rightarrow>
           Ret (built (header_value_ok E) OK
             [(''content-type'', ''text/calendar; charset=utf-8''), (''etag'', o_etag object)]
             (o_ical_data object)))"

definition if_match_header :: "http_request \<Rightarrow> string option" where
  "if_match_header request = header_str request ''if-match''"

text \<open>The conditional part of PUT: \<open>None\<close> lets the request pass.\<close>

definition check_if_match :: "ext \<Rightarrow> string option \<Rightarrow> string \<Rightarrow> string \<Rightarrow> (world, http_response option) prog" where
  "check_if_match E if_match calendar_id uid =
     (case if_match of
        None \<Rightarrow> Ret None
      | Some expected_etag \<Rightarrow>
          if expected_etag = ''*'' then Ret None
          else bind (get_object_by_uid E calendar_id uid) (\<lambda>r. Ret
            (case r of
               Inr (Some existing) \<Rightarrow>
                 (if o_etag existing \<noteq> expected_etag
                  then Some (text_response PRECONDITION_FAILED ''ETag mismatch'') else None)
             | Inr None \<Rightarrow> Some (text_response PRECONDITION_FAILED ''Object does not exist'')
             | Inl e \<Rightarrow> Some (text_response INTERNAL_SERVER_ERROR ''Internal error''))))"

text \<open>Storing the body under its UID, after the checks.\<close>

definition put_object :: "ext \<Rightarrow> string option \<Rightarrow> string \<Rightarrow> string \<Rightarrow> string \<Rightarrow> handler" where
  "put_object E if_match calendar_id uid ical_data =
     bind (check_if_match E if_match calendar_id uid) (\<lambda>refused.
       case refused of
         Some resp \<Rightarrow> Ret (Reply resp)
       | None \<Rightarrow>
           bind (upsert_object E calendar_id uid ical_data (put_fields (extract_fields ical_data))) (\<lambda>r.
             case r of
               Inr (obj, is_new) \<Rightarrow>
                 Ret (built (header_value_ok E) (if is_new then CREATED else NO_CONTENT)
                   [(''etag'', o_etag obj)] [])
             | Inl e \<Rightarrow> Ret (Reply (text_response INTERNAL_SERVER_ERROR ''Failed to save event''))))"

definition handle_put :: "ext \<Rightarrow> string \<Rightarrow> string \<Rightarrow> http_request \<Rightarrow> handler" where
  "handle_put E calendar_id filename request =
     (case to_bytes E (req_body request) (1024 * 1024) of
        None \<Rightarrow> Ret (Reply (text_response BAD_REQUEST ''Request body too large''))
      | Some body \<Rightarrow>
          (case from_utf8 body of
             None \<Rightarrow> Ret (Reply (text_response BAD_REQUEST ''Invalid UTF-8 in request body''))
           | Some ical_data \<Rightarrow>
               put_object E (if_match_header request) calendar_id (put_uid filename ical_data) ical_data))"

definition handle_delete_object :: "ext \<Rightarrow> string \<Rightarrow> string \<Rightarrow> handler" where
  "handle_delete_object E calendar_id filename =
     bind (delete_object E calendar_id (trim_end_matches filename ''.ics'')) (\<lambda>r. Ret (Reply
       (case r of
          Inr _ \<Rightarrow> text_response NO_CONTENT []
        | Inl (NotFound _) \<Rightarrow> text_response NOT_FOUND ''Object not found''
        | Inl e \<Rightarrow> text_response INTERNAL_SERVER_ERROR ''Internal error'')))"

definition handle_delete_calendar :: "ext \<Rightarrow> string \<Rightarrow> handler" where
  "handle_delete_calendar E calendar_id =
     bind (delete_calendar E calendar_id) (\<lambda>r. Ret (Reply
       (case r of
          Inr _ \<Rightarrow> text_response NO_CONTENT []
        | Inl (NotFound _) \<Rightarrow> text_response NOT_FOUND ''Calendar not found''
        | Inl e \<Rightarrow> text_response INTERNAL_SERVER_ERROR ''Internal error'')))"

lemmas objects_defs [op_defs] =
  handle_get_def handle_put_def put_object_def check_if_match_def handle_delete_object_def
  handle_delete_calendar_def

context tick_invariant
begin

lemma safe_handle_get [safe_rules]: "safe I (handle_get E c f)"
  unfolding handle_get_def by (intro safe_rules)

lemma safe_check_if_match [safe_rules]: "safe I (check_if_match E i c u)"
  unfolding check_if_match_def by (intro safe_rules)

end

context object_stmts
begin

lemma safe_put_object [safe_rules]:
  "describes u d (put_fields (extract_fields d)) \<Longrightarrow> safe I (put_object E i cid u d)"
  unfolding put_object_def by (intro safe_rules)

lemma safe_handle_put [safe_rules]: "safe I (handle_put E cid f r)"
  unfolding handle_put_def by (intro safe_rules describes_put)

lemma safe_handle_delete_object [safe_rules]: "safe I (handle_delete_object E cid f)"
  unfolding handle_delete_object_def by (intro safe_rules)

end

context stmt_invariant
begin

lemma safe_handle_delete_calendar [safe_rules]: "safe I (handle_delete_calendar E c)"
  unfolding handle_delete_calendar_def by (intro safe_rules)

end

section \<open>Behaviour\<close>

definition ok_get :: "string \<Rightarrow> string \<Rightarrow> http_response" where
  "ok_get etag data =
     \<lparr>resp_status = OK,
      resp_headers = [(''content-type'', ''text/calendar; charset=utf-8''), (''etag'', etag)],
      resp_body = data\<rparr>"

definition ok_put :: "bool \<Rightarrow> string \<Rightarrow> http_response" where
  "ok_put is_new etag =
     \<lparr>resp_status = (if is_new then CREATED else NO_CONTENT), resp_headers = [(''etag'', etag)], resp_body = []\<rparr>"

lemma etag_header_ok:
  assumes "headers_sound E" "uuids_printable E"
  shows "header_value_ok E (etag_of (uuid_v4 E n))"
  using assms by (simp add: headers_sound_def uuids_printable_def printable_def etag_of_def)

lemma content_type_ok: "headers_sound E \<Longrightarrow> header_value_ok E ''text/calendar; charset=utf-8''"
  by (simp add: headers_sound_def printable_def)

lemma run_handle_get_found:
  assumes "no_faults E" "headers_sound E" "lookup_object w cid (trim_end_matches fname ''.ics'') = Some ob"
    "header_value_ok E (o_etag ob)"
  shows "run (handle_get E cid fname) w = (Reply (ok_get (o_etag ob) (o_ical_data ob)), tick w)"
  using assms by (simp add: handle_get_def run_simps built_def content_type_ok ok_get_def)

lemma run_handle_get_missing:
  assumes "no_faults E" "lookup_object w cid (trim_end_matches fname ''.ics'') = None"
  shows "run (handle_get E cid fname) w = (Reply (text_response NOT_FOUND ''Object not found''), tick w)"
  using assms by (simp add: handle_get_def run_simps)

text \<open>Storing without a condition; \<open>ready\<close> collects what it relies on.\<close>

definition ready :: "ext \<Rightarrow> world \<Rightarrow> string \<Rightarrow> bool" where
  "ready E w cid \<longleftrightarrow>
     no_faults E \<and> uuids_distinct E \<and> headers_sound E \<and> uuids_printable E \<and> bodies_bounded E \<and>
     ids_fresh E w \<and> calendar_exists w cid"

lemma stored_by_put:
  assumes "ready E w cid"
  obtains ob w' where "run (put_object E None cid uid data) w = (Reply (ok_put (lookup_object w cid uid = None) (o_etag ob)), w')"
    "lookup_object w' cid uid = Some ob" "o_ical_data ob = data" "header_value_ok E (o_etag ob)"
    "o_etag ob \<notin> set (map o_etag (db_objects w))"
    "\<forall>c u. (c, u) = (cid, uid) \<or> lookup_object w' c u = lookup_object w c u" "ready E w' cid"
proof (cases "lookup_object w cid uid")
  case None
  show thesis
  proof (rule that [of "new_object E (ticks w) cid uid data (put_fields (extract_fields data))"
        "inserted E w cid uid data (put_fields (extract_fields data))"])
  qed (use assms None in \<open>auto simp: ready_def put_object_def check_if_match_def run_simps run_upsert_new
      built_def etag_header_ok ok_put_def lookup_inserted ids_fresh_inserted fresh_etag simp del: set_map\<close>,
      simp add: new_object_def)
next
  case (Some ob)
  show thesis
  proof (rule that [of "changed_object E (ticks w) data (put_fields (extract_fields data)) ob"
        "updated E w cid uid data (put_fields (extract_fields data))"])
  qed (use assms Some in \<open>auto simp: ready_def put_object_def check_if_match_def run_simps run_upsert_old
      built_def etag_header_ok ok_put_def lookup_updated ids_fresh_updated fresh_etag simp del: set_map\<close>,
      simp add: changed_object_def)
qed

text \<open>The request of a PUT as far as the handler reads it.\<close>

definition put_accepted :: "http_request \<Rightarrow> string \<Rightarrow> bool" where
  "put_accepted r data \<longleftrightarrow> length (req_body r) \<le> 1024 * 1024 \<and> from_utf8 (req_body r) = Some data"

lemma handle_put_eq:
  "bodies_bounded E \<Longrightarrow> put_accepted r data \<Longrightarrow>
   handle_put E cid fname r = put_object E (if_match_header r) cid (put_uid fname data) data"
  by (simp add: handle_put_def put_accepted_def to_bytes_eq)

text \<open>A condition that holds lets the request through unchanged, except that it costs a query.\<close>

lemma run_put_matched:
  assumes "no_faults E" "e \<noteq> ''*''" "lookup_object w cid uid = Some ob" "o_etag ob = e"
  shows "run (put_object E (Some e) cid uid data) w = run (put_object E None cid uid data) (tick w)"
  using assms by (simp add: put_object_def check_if_match_def run_simps)

lemma run_put_refused:
  assumes "no_faults E" "e \<noteq> ''*''" "map_option o_etag (lookup_object w cid uid) \<noteq> Some e"
  shows "\<exists>msg. run (put_object E (Some e) cid uid data) w = (Reply (text_response PRECONDITION_FAILED msg), tick w)"
  using assms by (cases "lookup_object w cid uid") (auto simp: put_object_def check_if_match_def run_simps)

lemma ready_tick [simp]: "ready E w cid \<Longrightarrow> ready E (tick w) cid"
  by (auto simp: ready_def ids_fresh_tick)

lemma demo_ready: "c \<in> {''work'', ''home''} \<Longrightarrow> ready demo_ext demo_world c"
  using demo_no_faults demo_uuids_distinct demo_headers_sound demo_uuids_printable demo_bodies_bounded
    demo_world_fresh by (simp add: ready_def demo_world_calendars)

section \<open>Properties\<close>

definition demo_put :: "string option \<Rightarrow> http_request" where
  "demo_put if_match =
     \<lparr>req_method = ''PUT'', req_headers = [(''if-match'', if_match)], req_body = ''SUMMARY:Review''\<rparr>"

lemma demo_put_accepted: "put_accepted (demo_put m) ''SUMMARY:Review''"
proof -
  have "from_utf8 ''SUMMARY:Review'' = Some ''SUMMARY:Review''" by code_simp
  then show ?thesis by (simp add: put_accepted_def demo_put_def)
qed

lemma demo_put_uid: "put_uid ''review.ics'' ''SUMMARY:Review'' = ''review''" "put_uid ''standup.ics'' ''SUMMARY:Review'' = ''standup''"
  "trim_end_matches ''review.ics'' ''.ics'' = ''review''" "trim_end_matches ''standup.ics'' ''.ics'' = ''standup''"
  by code_simp+

lemma demo_put_if_match: "if_match_header (demo_put m) = m"
  by (simp add: if_match_header_def header_str_def demo_put_def)

text \<open>C8: \<open>If-Match\<close> is decided by the stored ETag alone. A PUT with an \<open>If-Match\<close> other than \<open>*\<close>
  replaces the object exactly when the stored ETag is the given one; otherwise it answers 412 and
  changes nothing.\<close>

theorem put_if_match:
  assumes "ready E w cid" "put_accepted r data" "if_match_header r = Some e" "e \<noteq> ''*''"
  shows "let stored = lookup_object w cid (put_uid fname data); (resp, w') = run (handle_put E cid fname r) w
    in if map_option o_etag stored = Some e
       then outcome_status resp = Some NO_CONTENT \<and>
            map_option o_ical_data (lookup_object w' cid (put_uid fname data)) = Some data
       else outcome_status resp = Some PRECONDITION_FAILED \<and> same_data w w'"
proof -
  have E: "no_faults E" "bodies_bounded E" using assms(1) by (simp_all add: ready_def)
  show ?thesis
  proof (cases "map_option o_etag (lookup_object w cid (put_uid fname data)) = Some e")
    case True
    then obtain ob where ob: "lookup_object w cid (put_uid fname data) = Some ob" "o_etag ob = e" by auto
    show ?thesis
      by (rule stored_by_put [OF ready_tick [OF assms(1)], of "put_uid fname data" data])
        (simp add: True ob handle_put_eq [OF E(2) assms(2)] assms(3) run_put_matched [OF E(1) assms(4) ob] ok_put_def)
  next
    case False
    from run_put_refused [OF E(1) assms(4) False, of data] False show ?thesis
      by (auto simp: Let_def handle_put_eq [OF E(2) assms(2)] assms(3))
  qed
qed

theorem put_if_match_witness:
  "outcome_status (fst (run (handle_put demo_ext ''work'' ''standup.ics'' (demo_put (Some (dquoted ''e1'')))) demo_world)) = Some NO_CONTENT \<and>
   outcome_status (fst (run (handle_put demo_ext ''work'' ''standup.ics'' (demo_put (Some (dquoted ''old'')))) demo_world)) = Some PRECONDITION_FAILED"
proof -
  have ob: "lookup_object demo_world ''work'' ''standup'' = Some standup" "o_etag standup = dquoted ''e1''"
    by (simp_all add: lookup_object_def demo_defs)
  from put_if_match [OF demo_ready demo_put_accepted demo_put_if_match, of "''work''" "dquoted ''e1''" "''standup.ics''"]
    put_if_match [OF demo_ready demo_put_accepted demo_put_if_match, of "''work''" "dquoted ''old''" "''standup.ics''"]
  show ?thesis by (simp add: demo_put_uid ob split: prod.splits)
qed

text \<open>No update is lost between requests that follow each other: when two clients hold the same
  ETag and both PUT with it as \<open>If-Match\<close>, the first succeeds, the second is refused with 412,
  and the object keeps the first client's text.\<close>

lemma second_writer_refused:
  assumes "ready E w cid" "put_accepted r1 d1" "put_accepted r2 d2"
    and "if_match_header r1 = Some e" "if_match_header r2 = Some e" "e \<noteq> ''*''"
    and "put_uid fname d1 = uid" "put_uid fname d2 = uid"
    and "lookup_object w cid uid = Some ob" "o_etag ob = e"
  shows "\<exists>r w1 w2. run (handle_put E cid fname r1) w = (Reply (ok_put False r), w1) \<and>
    outcome_status (fst (run (handle_put E cid fname r2) w1)) = Some PRECONDITION_FAILED \<and>
    snd (run (handle_put E cid fname r2) w1) = w2 \<and>
    map_option o_ical_data (lookup_object w2 cid uid) = Some d1"
proof -
  have E: "no_faults E" "bodies_bounded E" using assms(1) by (simp_all add: ready_def)
  obtain ob1 w1 where 1: "run (put_object E None cid uid d1) (tick w) = (Reply (ok_put False (o_etag ob1)), w1)"
      "lookup_object w1 cid uid = Some ob1" "o_ical_data ob1 = d1" "o_etag ob1 \<notin> set (map o_etag (db_objects w))"
    using assms(9) by (rule_tac stored_by_put [OF ready_tick [OF assms(1)], of uid d1]) simp
  have "ob \<in> set (db_objects w)" using find_SomeD [OF assms(9) [unfolded lookup_object_def]] by simp
  then have "map_option o_etag (lookup_object w1 cid uid) \<noteq> Some e" using 1(2,4) assms(10) by auto
  from run_put_refused [OF E(1) assms(6) this, of d2] 1 assms(9,10) show ?thesis
    by (auto simp: handle_put_eq [OF E(2) assms(2)] handle_put_eq [OF E(2) assms(3)] assms(4,5,7,8)
        run_put_matched [OF E(1) assms(6)])
qed

end
