(* ===== verification/Caldav_Router.thy ===== *)
theory Caldav_Router
  imports Caldav_Objects Caldav_Collections Caldav_Report
begin

text \<open>
  The router of \<open>src/caldav/mod.rs\<close> with its dispatching handlers, and \<open>src/caldav/wellknown.rs\<close>.
  The handlers whose names are taken by the modules they dispatch to are called
  \<open>dispatch_...\<close> here.
\<close>

section \<open>Discovery without a user\<close>

definition allow_header :: "string \<times> string" where
  "allow_header =
     (''Allow'', ''OPTIONS, GET, HEAD, PUT, DELETE, PROPFIND, PROPPATCH, REPORT, MKCALENDAR'')"

definition handle_well_known :: "http_request \<Rightarrow> handler" where
  "handle_well_known request =
     Ret (Reply (if req_method request = ''OPTIONS''
       then \<lparr>resp_status = OK, resp_headers = [dav_header, allow_header], resp_body = []\<rparr>
       else \<lparr>resp_status = MOVED_PERMANENTLY,
             resp_headers = [(''location'', ''/caldav/''), dav_header], resp_body = []\<rparr>))"

definition handle_options :: handler where
  "handle_options = Ret (Reply \<lparr>resp_status = OK, resp_headers = [dav_header, allow_header], resp_body = []\<rparr>)"

definition method_not_allowed :: handler where
  "method_not_allowed = Ret (Reply (text_response METHOD_NOT_ALLOWED ''Method not allowed''))"

definition access_denied :: handler where
  "access_denied = Ret (Reply (text_response FORBIDDEN ''Access denied''))"

text \<open>The answer to PROPFIND that the three root handlers share: whether the credentials are
  good only decides which principal is shown.\<close>

definition root_propfind :: "ext \<Rightarrow> string \<Rightarrow> http_request \<Rightarrow> handler" where
  "root_propfind E href request =
     bind (inline_auth E (extract_auth_header request)) (\<lambda>r.
       let props = (case r of Inr user \<Rightarrow> root_props (u_username user) | Inl _ \<Rightarrow> root_props_unauthenticated)
       in Ret (Reply (multistatus_response
            (xml_write E (builder_build (add_response builder_new href props []))))))"

definition handle_server_root :: "ext \<Rightarrow> http_request \<Rightarrow> handler" where
  "handle_server_root E request =
     (if req_method request = ''OPTIONS'' then handle_options
      else if req_method request = ''PROPFIND'' then root_propfind E ''/'' request
      else Ret (Reply \<lparr>resp_status = MOVED_PERMANENTLY,
             resp_headers = [(''location'', ''/caldav/'')], resp_body = []\<rparr>))"

definition handle_caldav_root :: "ext \<Rightarrow> http_request \<Rightarrow> handler" where
  "handle_caldav_root E request =
     (if req_method request = ''OPTIONS'' then handle_options
      else if req_method request = ''PROPFIND'' then root_propfind E ''/caldav/'' request
      else method_not_allowed)"

definition handle_fallback_discovery :: "ext \<Rightarrow> http_request \<Rightarrow> handler" where
  "handle_fallback_discovery E request =
     (if req_method request = ''OPTIONS'' then handle_options
      else if req_method request = ''PROPFIND'' then root_propfind E ''/caldav/'' request
      else method_not_allowed)"

definition handle_principal_discovery :: "ext \<Rightarrow> string \<Rightarrow> http_request \<Rightarrow> handler" where
  "handle_principal_discovery E username request =
     (if req_method request = ''OPTIONS'' then handle_options
      else Ret (built (header_value_ok E) MOVED_PERMANENTLY
             [(''location'', ''/caldav/users/'' @ username @ ''/'')] []))"

section \<open>Discovery by email\<close>

definition handle_caldav_email_discovery :: "ext \<Rightarrow> string \<Rightarrow> http_request \<Rightarrow> handler" where
  "handle_caldav_email_discovery E email request =
     (let depth = get_depth request;
          body = body_or_empty E request (64 * 1024)
      in if req_method request = ''OPTIONS'' then handle_options
         else if req_method request = ''PROPFIND'' then
           (let request_path = ''/calendar/dav/'' @ encode_email_for_path email @ ''/user/'';
                propfind = parse_propfind E body
            in case extract_auth_header request of
                 Some h \<Rightarrow>
                   bind (try_basic_auth E h) (\<lambda>u.
                     case u of
                       None \<Rightarrow> Ret (Reply unauthorized_response_fn)
                     | Some user \<Rightarrow>
                         bind (handle_email_home E user request_path depth email propfind) (\<lambda>resp.
                           Ret (Reply resp)))
               | None \<Rightarrow>
                   bind (get_user_by_email E email) (\<lambda>r.
                     case unwrap_or r None of
                       None \<Rightarrow> Ret (Reply unauthorized_response_fn)
                     | Some user \<Rightarrow>
                         bind (handle_email_home E user request_path depth email propfind) (\<lambda>resp.
                           Ret (Reply (buffer_response E (512 * 1024) resp)))))
         else method_not_allowed)"

section \<open>Calendar homes, calendars and objects\<close>

definition dispatch_calendar_home :: "ext \<Rightarrow> string \<Rightarrow> http_request \<Rightarrow> handler" where
  "dispatch_calendar_home E username request =
     (if req_method request = ''OPTIONS'' then handle_options
      else bind (auth_or_path_user E (extract_auth_header request) username) (\<lambda>r.
        case r of
          Inl resp \<Rightarrow> Ret (Reply resp)
        | Inr user \<Rightarrow>
            if req_method request = ''PROPFIND'' then handle_calendar_home E user request
            else method_not_allowed))"

text \<open>The two collection handlers and the two object handlers match on the method in the same
  way; on the email routes the username of the path is the one of the user found, and the href
  context is set.\<close>

definition collection_method ::
  "ext \<Rightarrow> User \<Rightarrow> HrefContext option \<Rightarrow> string \<Rightarrow> string \<Rightarrow> http_request \<Rightarrow> handler" where
  "collection_method E user ctx username calendar_id request =
     (let m = req_method request
      in if m = ''PROPFIND'' then handle_calendar E user ctx calendar_id request
         else if m = ''REPORT'' then handle_report E user ctx calendar_id request
         else if m = ''MKCALENDAR'' then handle_mkcalendar E user username calendar_id request
         else if m = ''PROPPATCH'' then handle_proppatch E user ctx calendar_id request
         else if m = ''DELETE'' then handle_delete_calendar E calendar_id
         else method_not_allowed)"

definition object_method :: "ext \<Rightarrow> string \<Rightarrow> string \<Rightarrow> http_request \<Rightarrow> handler" where
  "object_method E calendar_id filename request =
     (let m = req_method request
      in if m = ''GET'' then handle_get E calendar_id filename
         else if m = ''PUT'' then handle_put E calendar_id filename request
         else if m = ''DELETE'' then handle_delete_object E calendar_id filename
         else method_not_allowed)"

definition handle_calendar_collection :: "ext \<Rightarrow> string \<Rightarrow> string \<Rightarrow> http_request \<Rightarrow> handler" where
  "handle_calendar_collection E username calendar_id request =
     (if req_method request = ''OPTIONS'' then handle_options
      else bind (auth_or_path_user E (extract_auth_header request) username) (\<lambda>r.
        case r of
          Inl resp \<Rightarrow> Ret (Reply resp)
        | Inr user \<Rightarrow>
            if req_method request = ''MKCALENDAR''
            then collection_method E user None username calendar_id request
            else bind (verify_calendar_access E user calendar_id) (\<lambda>ok.
              if ok then collection_method E user None username calendar_id request
              else access_denied)))"

definition handle_object :: "ext \<Rightarrow> string \<Rightarrow> string \<Rightarrow> string \<Rightarrow> http_request \<Rightarrow> handler" where
  "handle_object E username calendar_id filename request =
     (if req_method request = ''OPTIONS'' then handle_options
      else bind (auth_or_path_user E (extract_auth_header request) username) (\<lambda>r.
        case r of
          Inl resp \<Rightarrow> Ret (Reply resp)
        | Inr user \<Rightarrow>
            bind (verify_calendar_access E user calendar_id) (\<lambda>ok.
              if ok then object_method E calendar_id filename request else access_denied)))"

definition handle_email_calendar_collection :: "ext \<Rightarrow> string \<Rightarrow> string \<Rightarrow> http_request \<Rightarrow> handler" where
  "handle_email_calendar_collection E email calendar_id request =
     (if req_method request = ''OPTIONS'' then handle_options
      else bind (auth_or_email_user E (extract_auth_header request) email) (\<lambda>r.
        case r of
          Inl resp \<Rightarrow> Ret (Reply resp)
        | Inr user \<Rightarrow>
            let ctx = Some \<lparr>h_email = Some (encode_email_for_path email), h_username = u_username user\<rparr>
            in if req_method request = ''MKCALENDAR''
               then collection_method E user ctx (u_username user) calendar_id request
               else bind (verify_calendar_access E user calendar_id) (\<lambda>ok.
                 if ok then collection_method E user ctx (u_username user) calendar_id request
                 else access_denied)))"

definition handle_email_object :: "ext \<Rightarrow> string \<Rightarrow> string \<Rightarrow> string \<Rightarrow> http_request \<Rightarrow> handler" where
  "handle_email_object E email calendar_id filename request =
     (if req_method request = ''OPTIONS'' then handle_options
      else bind (auth_or_email_user E (extract_auth_header request) email) (\<lambda>r.
        case r of
          Inl resp \<Rightarrow> Ret (Reply resp)
        | Inr user \<Rightarrow>
            bind (verify_calendar_access E user calendar_id) (\<lambda>ok.
              if ok then object_method E calendar_id filename request else access_denied)))"

section \<open>The routes\<close>

text \<open>A path is the list of what stands between its slashes, so that a path with a trailing slash
  ends in an empty segment. A parameter of a pattern matches one segment that is not empty.\<close>

datatype segment = Lit string | Param

datatype endpoint =
    WellKnown | ServerRoot | CaldavRoot | PrincipalDiscovery | FallbackDiscovery | EmailDiscovery
  | EmailCalendar | EmailObject | CalendarHome | CalendarCollection | CalendarFile

definition caldav_routes :: "(segment list \<times> endpoint) list" where
  "caldav_routes =
     [([Lit ''.well-known'', Lit ''caldav''], WellKnown),
      ([Lit []], ServerRoot),
      ([Lit ''caldav'', Lit []], CaldavRoot),
      ([Lit ''caldav''], CaldavRoot),
      ([Lit ''caldav'', Lit ''principals'', Param, Lit []], PrincipalDiscovery),
      ([Lit ''caldav'', Lit ''principals'', Param], PrincipalDiscovery),
      ([Lit ''principals'', Lit []], FallbackDiscovery),
      ([Lit ''principals'', Param, Lit []], FallbackDiscovery),
      ([Lit ''calendar'', Lit ''dav'', Param, Lit ''user'', Lit []], EmailDiscovery),
      ([Lit ''calendar'', Lit ''dav'', Param, Lit ''user'', Param, Lit []], EmailCalendar),
      ([Lit ''calendar'', Lit ''dav'', Param, Lit ''user'', Param, Param], EmailObject),
      ([Lit ''caldav'', Lit ''users'', Param, Lit []], CalendarHome),
      ([Lit ''caldav'', Lit ''users'', Param], CalendarHome),
      ([Lit ''caldav'', Lit ''users'', Param, Param, Lit []], CalendarCollection),
      ([Lit ''caldav'', Lit ''users'', Param, Param], CalendarCollection),
      ([Lit ''caldav'', Lit ''users'', Param, Param, Param], CalendarFile)]"

fun match_pattern :: "segment list \<Rightarrow> string list \<Rightarrow> string list option" where
  "match_pattern [] [] = Some []"
| "match_pattern (Lit l # ps) (s # ss) = (if l = s then match_pattern ps ss else None)"
| "match_pattern (Param # ps) (s # ss) = (if s = [] then None else map_option ((#) s) (match_pattern ps ss))"
| "match_pattern _ _ = None"

fun find_route :: "(segment list \<times> endpoint) list \<Rightarrow> string list \<Rightarrow> (endpoint \<times> string list) option" where
  "find_route [] path = None"
| "find_route ((pat, ep) # rs) path =
     (case match_pattern pat path of Some params \<Rightarrow> Some (ep, params) | None \<Rightarrow> find_route rs path)"

text \<open>The parameters are percent-decoded by the framework before the handler sees them; what is
  not UTF-8 afterwards is refused by it.\<close>

fun decode_params :: "ext \<Rightarrow> string list \<Rightarrow> string list option" where
  "decode_params E [] = Some []"
| "decode_params E (p # ps) =
     (case (path_decode E p, decode_params E ps) of (Some q, Some qs) \<Rightarrow> Some (q # qs) | _ \<Rightarrow> None)"

definition with_params :: "ext \<Rightarrow> string list \<Rightarrow> (string list \<Rightarrow> handler) \<Rightarrow> handler" where
  "with_params E params h =
     (case decode_params E params of None \<Rightarrow> Ret (Reply (path_rejection E)) | Some ps \<Rightarrow> h ps)"

definition serve_endpoint :: "ext \<Rightarrow> endpoint \<Rightarrow> string list \<Rightarrow> http_request \<Rightarrow> handler" where
  "serve_endpoint E ep params request =
     (case ep of
        WellKnown \<Rightarrow> handle_well_known request
      | ServerRoot \<Rightarrow> handle_server_root E request
      | CaldavRoot \<Rightarrow> handle_caldav_root E request
      | PrincipalDiscovery \<Rightarrow>
          with_params E params (\<lambda>ps. handle_principal_discovery E (ps ! 0) request)
      | FallbackDiscovery \<Rightarrow> handle_fallback_discovery E request
      | EmailDiscovery \<Rightarrow>
          with_params E params (\<lambda>ps. handle_caldav_email_discovery E (ps ! 0) request)
      | EmailCalendar \<Rightarrow>
          with_params E params (\<lambda>ps. handle_email_calendar_collection E (ps ! 0) (ps ! 1) request)
      | EmailObject \<Rightarrow>
          with_params E params (\<lambda>ps. handle_email_object E (ps ! 0) (ps ! 1) (ps ! 2) request)
      | CalendarHome \<Rightarrow> with_params E params (\<lambda>ps. dispatch_calendar_home E (ps ! 0) request)
      | CalendarCollection \<Rightarrow>
          with_params E params (\<lambda>ps. handle_calendar_collection E (ps ! 0) (ps ! 1) request)
      | CalendarFile \<Rightarrow>
          with_params E params (\<lambda>ps. handle_object E (ps ! 0) (ps ! 1) (ps ! 2) request))"

definition caldav_router :: "ext \<Rightarrow> string list \<Rightarrow> http_request \<Rightarrow> handler" where
  "caldav_router E path request =
     (case find_route caldav_routes path of
        None \<Rightarrow> Ret (Reply (route_not_found E))
      | Some (ep, params) \<Rightarrow> serve_endpoint E ep params request)"

lemmas router_defs [op_defs] =
  root_propfind_def handle_server_root_def handle_caldav_root_def handle_fallback_discovery_def
  handle_principal_discovery_def handle_caldav_email_discovery_def dispatch_calendar_home_def
  collection_method_def object_method_def handle_calendar_collection_def handle_object_def
  handle_email_calendar_collection_def handle_email_object_def

section \<open>Every interleaving keeps an invariant of the statements\<close>

lemma safe_fixed_replies [safe_rules]:
  "safe I (handle_well_known r)" "safe I handle_options" "safe I method_not_allowed" "safe I access_denied"
  "safe I (handle_principal_discovery E n r)"
  by (simp_all add: handle_well_known_def handle_options_def method_not_allowed_def access_denied_def
      handle_principal_discovery_def)

context tick_invariant
begin

lemma safe_root_propfind [safe_rules]: "safe I (root_propfind E h r)"
  unfolding root_propfind_def by (intro safe_rules)

lemma safe_root_handlers [safe_rules]:
  "safe I (handle_server_root E r)" "safe I (handle_caldav_root E r)" "safe I (handle_fallback_discovery E r)"
  unfolding handle_server_root_def handle_caldav_root_def handle_fallback_discovery_def
  by (intro safe_rules)+

lemma safe_handle_caldav_email_discovery [safe_rules]: "safe I (handle_caldav_email_discovery E m r)"
  unfolding handle_caldav_email_discovery_def by (intro safe_rules)

lemma safe_dispatch_calendar_home [safe_rules]: "safe I (dispatch_calendar_home E n r)"
  unfolding dispatch_calendar_home_def by (intro safe_rules)

end

context object_stmts
begin

lemma safe_object_method [safe_rules]: "safe I (object_method E cid f r)"
  unfolding object_method_def by (intro safe_rules)

lemma safe_handle_object [safe_rules]: "safe I (handle_object E n cid f r)"
  unfolding handle_object_def by (intro safe_rules)

lemma safe_handle_email_object [safe_rules]: "safe I (handle_email_object E m cid f r)"
  unfolding handle_email_object_def by (intro safe_rules)

end

context stmt_invariant
begin

lemma safe_collection_method [safe_rules]: "safe I (collection_method E u x n c r)"
  unfolding collection_method_def by (intro safe_rules)

lemma safe_handle_calendar_collection [safe_rules]: "safe I (handle_calendar_collection E n c r)"
  unfolding handle_calendar_collection_def by (intro safe_rules)

lemma safe_handle_email_calendar_collection [safe_rules]: "safe I (handle_email_calendar_collection E m c r)"
  unfolding handle_email_calendar_collection_def by (intro safe_rules)

lemma safe_with_params: "(\<And>ps. safe I (h ps)) \<Longrightarrow> safe I (with_params E params h)"
  unfolding with_params_def by (intro safe_rules)

lemma safe_serve_endpoint [safe_rules]: "safe I (serve_endpoint E ep ps r)"
  unfolding serve_endpoint_def by (cases ep) (auto intro!: safe_with_params intro: safe_rules)

lemma safe_caldav_router [safe_rules]: "safe I (caldav_router E path r)"
  unfolding caldav_router_def by (intro safe_rules)

end

end
