(* ===== verification/Caldav_Properties.thy ===== *)
theory Caldav_Properties
  imports Caldav_Router
begin

text \<open>
  What holds of the CalDAV interface as a whole: who can reach a calendar, what a request can
  change, and the form of the answers.
\<close>

section \<open>Authentication and access\<close>

lemma same_data_run_bind:
  assumes "\<And>v. same_data v (snd (run p v))" "\<And>x v. same_data v (snd (run (k x) v))"
  shows "same_data w (snd (run (bind p k) w))"
  using assms(1) [of w] assms(2) same_data_trans by (auto simp: run_simps split: prod.split)

lemma reads_data:
  assumes "\<And>w. safe (same_data w) p" shows "same_data w (snd (run p w))"
  using always_run [OF assms same_data_refl] by blast

lemma accessible_same_data: "same_data w v \<Longrightarrow> has_access v u c = has_access w u c"
  by (simp add: same_data_iff has_access_def accessible_calendars_def owned_calendars_def joined_calendars_def)

lemma run_verify_access:
  assumes "no_faults E"
  shows "run (verify_calendar_access E u c) w = (has_access w (u_id u) c, tick w)"
proof -
  have "accessible_calendars (tick w) v = accessible_calendars w v" for v
    by (simp add: accessible_calendars_def owned_calendars_def joined_calendars_def)
  then show ?thesis
    using assms
    by (auto simp: verify_calendar_access_def list_calendars_for_user_def run_simps run_select has_access_def list_ex_iff)
qed

text \<open>The step every resource handler makes after authentication.\<close>

lemma run_after_auth:
  assumes "fst (run p w) = Inr user" "same_data w (snd (run p w))"
  obtains v where "run p w = (Inr user, v)" "same_data w v"
  using assms by (cases "run p w") auto

lemma auth_reads:
  "same_data w (snd (run (auth_or_path_user E h n) w))" "same_data w (snd (run (auth_or_email_user E h n) w))"
  by (rule reads_data, rule reading.safe_auth_or_path_user, rule reads_data, rule reading.safe_auth_or_email_user)

definition denied :: "world \<Rightarrow> outcome \<times> world \<Rightarrow> bool" where
  "denied w r \<longleftrightarrow> fst r = Reply (text_response FORBIDDEN ''Access denied'') \<and> same_data w (snd r)"

lemmas guarded_handlers =
  handle_object_def handle_calendar_collection_def handle_email_object_def
  handle_email_calendar_collection_def access_denied_def denied_def run_simps accessible_same_data

text \<open>C4: isolation of users. On the routes of a calendar and of its objects, under either form of
  URL, a request of a user who neither owns the calendar nor has a share of it is answered with
  403 and changes nothing, whatever its method is (OPTIONS, which never looks at data, and
  MKCALENDAR, which makes a new calendar, excepted).\<close>

theorem no_access_no_effect:
  assumes "no_faults E" "\<not> has_access w (u_id user) cid" "req_method r \<notin> {''OPTIONS'', ''MKCALENDAR''}"
  shows "(fst (run (auth_or_path_user E (extract_auth_header r) name) w) = Inr user \<longrightarrow>
      denied w (run (handle_object E name cid fname r) w) \<and>
      denied w (run (handle_calendar_collection E name cid r) w)) \<and>
    (fst (run (auth_or_email_user E (extract_auth_header r) email) w) = Inr user \<longrightarrow>
      denied w (run (handle_email_object E email cid fname r) w) \<and>
      denied w (run (handle_email_calendar_collection E email cid r) w))"
proof (intro conjI impI)
  assume "fst (run (auth_or_path_user E (extract_auth_header r) name) w) = Inr user"
  then obtain v where "run (auth_or_path_user E (extract_auth_header r) name) w = (Inr user, v)" "same_data w v"
    using auth_reads(1) by (rule run_after_auth)
  then show "denied w (run (handle_object E name cid fname r) w)" "denied w (run (handle_calendar_collection E name cid r) w)"
    using assms(2,3) by (simp_all add: guarded_handlers run_verify_access [OF assms(1)])
next
  assume "fst (run (auth_or_email_user E (extract_auth_header r) email) w) = Inr user"
  then obtain v where "run (auth_or_email_user E (extract_auth_header r) email) w = (Inr user, v)" "same_data w v"
    using auth_reads(2) by (rule run_after_auth)
  then show "denied w (run (handle_email_object E email cid fname r) w)" "denied w (run (handle_email_calendar_collection E email cid r) w)"
    using assms(2,3) by (simp_all add: guarded_handlers run_verify_access [OF assms(1)])
qed

definition demo_request :: "string \<Rightarrow> string option \<Rightarrow> http_request" where
  "demo_request m auth = \<lparr>req_method = m, req_headers = [(''authorization'', auth)], req_body = []\<rparr>"

lemma demo_request_simps [simp]:
  "req_method (demo_request m auth) = m" "extract_auth_header (demo_request m auth) = auth"
  by (simp_all add: demo_request_def extract_auth_header_def header_str_def)

lemma run_path_user: "no_faults E \<Longrightarrow> find (\<lambda>u. u_username u = n) (db_users w) = Some u \<Longrightarrow>
    run (auth_or_path_user E None n) w = (Inr u, tick w)"
  by (simp add: auth_or_path_user_def run_simps)

theorem no_access_no_effect_witness:
  "denied demo_world (run (handle_object demo_ext ''alice'' ''home'' ''x.ics'' (demo_request ''DELETE'' None)) demo_world) \<and>
   denied demo_world (run (handle_calendar_collection demo_ext ''alice'' ''home'' (demo_request ''DELETE'' None)) demo_world)"
proof -
  have "\<not> has_access demo_world (u_id alice) ''home''"
    by (simp add: has_access_iff owns_def is_shared_def demo_defs)
  moreover have "fst (run (auth_or_path_user demo_ext None ''alice'') demo_world) = Inr alice"
    by (subst run_path_user [OF demo_no_faults, where u = alice]) (simp_all add: demo_defs)
  ultimately show ?thesis
    using no_access_no_effect [OF demo_no_faults, of demo_world alice "''home''" "demo_request ''DELETE'' None" "''alice''" "''x.ics''"]
    by simp
qed

text \<open>C14: a request for an object cannot reach outside its calendar. Whatever the request, its
  sender and the failures of the database, the objects, log entries and tags of all other
  calendars, and all users, shares, tokens and sessions, are afterwards what they were.\<close>

theorem object_request_confined:
  "same_outside w cid (snd (run (handle_object E name cid fname r) w)) \<and>
   same_outside w cid (snd (run (handle_email_object E email cid fname r) w))"
  using always_run [OF confined.safe_handle_object same_outside_refl]
    always_run [OF confined.safe_handle_email_object same_outside_refl] by blast

section \<open>Requests that only read\<close>

definition changing_methods :: "string set" where
  "changing_methods = {''PUT'', ''DELETE'', ''MKCALENDAR'', ''PROPPATCH''}"

context tick_invariant
begin

lemma safe_object_method_reading: "req_method r \<notin> changing_methods \<Longrightarrow> safe I (object_method E c f r)"
  by (auto simp: object_method_def changing_methods_def Let_def intro: safe_rules)

lemma safe_collection_method_reading:
  "req_method r \<notin> changing_methods \<Longrightarrow> safe I (collection_method E u x n c r)"
  by (auto simp: collection_method_def changing_methods_def Let_def intro: safe_rules)

lemma safe_resource_reading:
  assumes "req_method r \<notin> changing_methods"
  shows "safe I (handle_object E n c f r)" "safe I (handle_email_object E n c f r)"
    "safe I (handle_calendar_collection E n c r)" "safe I (handle_email_calendar_collection E n c r)"
  unfolding handle_object_def handle_email_object_def handle_calendar_collection_def handle_email_calendar_collection_def
  by (intro safe_rules safe_object_method_reading safe_collection_method_reading assms)+

lemma safe_params: "(\<And>ps. safe I (h ps)) \<Longrightarrow> safe I (with_params E params h)"
  unfolding with_params_def by (intro safe_rules)

lemma safe_router_reading:
  "req_method r \<notin> changing_methods \<Longrightarrow> safe I (caldav_router E path r)"
  unfolding caldav_router_def serve_endpoint_def
  by (auto split: option.split endpoint.split intro!: safe_params intro: safe_resource_reading safe_rules)

end

text \<open>C15: only PUT, DELETE, MKCALENDAR and PROPPATCH change data. A request with any other method, to
  any path, leaves every table and the sessions as they were, also when database calls fail in
  between.\<close>

theorem other_methods_read_only:
  assumes "req_method r \<notin> changing_methods"
  shows "same_data w (snd (run (caldav_router E path r) w))"
  by (rule reads_data) (rule reading.safe_router_reading [OF assms])

theorem other_methods_read_only_witness:
  "same_data demo_world (snd (run (caldav_router demo_ext [''caldav'', ''users'', ''alice'', ''work'', ''standup.ics'']
     (demo_request ''GET'' None)) demo_world))"
  by (rule other_methods_read_only) (simp add: changing_methods_def)

section \<open>Credentials\<close>

lemma run_try_basic_auth:
  assumes "no_faults E"
  shows "fst (run (try_basic_auth E h) w) = Some u \<longleftrightarrow>
    (\<exists>n p. basic_credentials E h = Some (n, p) \<and> login_user w n = Some u \<and>
       verify_password E p (u_password_hash u) = Inr True)"
proof (cases "basic_credentials E h")
  case None
  then show ?thesis by (simp add: try_basic_auth_def parse_basic_auth_def run_simps)
next
  case (Some np)
  obtain n p where np: "np = (n, p)" by fastforce
  obtain r w' where r: "run (verify_user E n p) w = (r, w')" by fastforce
  have "fst (run (try_basic_auth E h) w) = unwrap_or r None"
    using Some np r by (cases r) (simp_all add: try_basic_auth_def parse_basic_auth_def run_simps)
  moreover have "r = fst (run (verify_user E n p) w)" by (simp add: r)
  ultimately show ?thesis
    using Some np by (auto simp: verify_user_result [OF assms] split: option.splits sum.splits)
qed

lemma try_basic_auth_reads: "same_data w (snd (run (try_basic_auth E h) w))"
  by (rule reads_data) (rule reading.safe_try_basic_auth)



section \<open>The form of the answers\<close>

definition xml_body :: "ext \<Rightarrow> string \<Rightarrow> bool" where
  "xml_body E body \<longleftrightarrow> (\<exists>evs. body = xml_write E evs \<and> open_tags evs [] = Some [])"

definition good_response :: "ext \<Rightarrow> http_response \<Rightarrow> bool" where
  "good_response E r \<longleftrightarrow> resp_status r = MULTI_STATUS \<longrightarrow> resp_body r = [] \<or> xml_body E (resp_body r)"

definition good_reply :: "ext \<Rightarrow> outcome \<Rightarrow> bool" where
  "good_reply E out = (case out of Reply r \<Rightarrow> good_response E r | Panic \<Rightarrow> True)"

lemma good_reply_simps [simp]: "good_reply E (Reply r) = good_response E r" "good_reply E Panic"
  by (simp_all add: good_reply_def)

lemma xml_body_builder: "is_builder b \<Longrightarrow> xml_body E (xml_write E (builder_build b))"
  by (auto simp: xml_body_def dest: builder_wellformed)

lemma good_multistatus:
  "is_builder b \<Longrightarrow> good_response E (multistatus_response (xml_write E (builder_build b)))"
  by (auto simp: good_response_def multistatus_response_def xml_body_def dest: builder_wellformed)

lemma good_text [simp]: "st \<noteq> MULTI_STATUS \<Longrightarrow> good_response E (text_response st msg)"
  by (simp add: good_response_def)

lemma good_built: "st \<noteq> MULTI_STATUS \<Longrightarrow> good_reply E (built ok st hs body)"
  by (simp add: built_def good_response_def)

lemma good_buffered: "bodies_bounded E \<Longrightarrow> good_response E r \<Longrightarrow> good_response E (buffer_response E n r)"
  by (auto simp: good_response_def buffer_response_def to_bytes_eq)

lemma good_unauthorized [simp]: "good_response E unauthorized_response_fn"
  by (simp add: good_response_def unauthorized_response_fn_def)

lemma is_builder_filtered [simp, intro]: "is_builder b \<Longrightarrow> is_builder (add_filtered pf b href ps)"
  by (auto simp: add_filtered_def split: prod.split)

lemma is_builder_object: "is_builder b \<Longrightarrow> is_builder (add_object ctx c d b ob)"
  by (simp add: add_object_def)

lemma yields_sync_changes: "is_builder b \<Longrightarrow> yields is_builder (sync_changes_loop E ctx c d xs b)"
  by (induction xs arbitrary: b) (auto simp: Let_def intro!: yields_rules split: option.split)

lemmas good_rules =
  good_multistatus is_builder_foldl is_builder_object is_builder_response is_builder_new is_builder_filtered
  is_builder_token

lemma yields_reports:
  "yields (good_response E) (handle_multiget E ctx c hs)" "yields (good_response E) (handle_query E ctx c tr)"
  "yields (good_response E) (handle_sync E ctx c ps tok)"
proof -
  show "yields (good_response E) (handle_multiget E ctx c hs)" "yields (good_response E) (handle_query E ctx c tr)"
    unfolding handle_multiget_def handle_query_def Let_def by (intro yields_rules good_rules; assumption)+
  have part: "yields is_builder (if tok = []
      then bind (list_objects E c) (\<lambda>r. Ret (foldl (add_object ctx c d) builder_new (unwrap_or r [])))
      else bind (get_sync_changes_since E c tok) (\<lambda>r. sync_changes_loop E ctx c d (unwrap_or r []) builder_new))" for d
    by (intro yields_rules yields_sync_changes good_rules; assumption)
  show "yields (good_response E) (handle_sync E ctx c ps tok)"
    unfolding handle_sync_def Let_def
    by (intro yields_bind yields_option yields_bind_via [OF part] yields_Ret good_rules; simp)
qed

lemma yields_handle_report:
  assumes "bodies_bounded E" shows "yields (good_reply E) (handle_report E u x c r)"
proof -
  have "yields (good_response E) (dispatch_report E ctx c rep)" for ctx rep
    by (cases rep) (simp_all add: dispatch_report_def yields_reports)
  then show ?thesis
    unfolding handle_report_def Let_def
    by (auto intro!: yields_option yields_bind_via [where R = "good_response E"] good_buffered [OF assms])
qed

lemma yields_email_home: "yields (good_response E) (handle_email_home E u p d m pf)"
  unfolding handle_email_home_def Let_def by (intro yields_rules good_rules; assumption)

lemma yields_collections:
  "yields (good_reply E) (handle_calendar_home E u r)" "yields (good_reply E) (handle_calendar E u x c r)"
  "yields (good_reply E) (handle_mkcalendar E u n c r)" "yields (good_reply E) (handle_delete_calendar E c)"
  unfolding handle_calendar_home_def handle_calendar_def handle_mkcalendar_def handle_delete_calendar_def Let_def
  by (auto intro!: yields_rules good_rules split: sum.split option.split AppError.split)

lemma yields_proppatch: "yields (good_reply E) (handle_proppatch E u x c r)"
  unfolding handle_proppatch_def Let_def
  by (auto intro!: yields_rules simp: good_response_def split: sum.split)
    (rule notE, assumption, rule xml_body_builder, rule is_builder_response, rule is_builder_new)

lemma yields_objects:
  "yields (good_reply E) (handle_get E c f)" "yields (good_reply E) (handle_put E c f r)"
  "yields (good_reply E) (handle_delete_object E c f)"
proof -
  show "yields (good_reply E) (handle_get E c f)" "yields (good_reply E) (handle_delete_object E c f)"
    unfolding handle_get_def handle_delete_object_def
    by (auto intro!: yields_rules good_built split: sum.split option.split AppError.split)
  have "yields (\<lambda>x. \<forall>resp. x = Some resp \<longrightarrow> good_response E resp) (check_if_match E i c u)" for i u
    unfolding check_if_match_def by (auto intro!: yields_rules split: sum.splits option.splits if_splits)
  then have "yields (good_reply E) (put_object E i c u d)" for i u d
    unfolding put_object_def
    by (rule yields_bind_via) (auto intro!: yields_rules good_built split: sum.split option.split if_splits)
  then show "yields (good_reply E) (handle_put E c f r)"
    unfolding handle_put_def by (intro yields_rules) simp_all
qed

lemma yields_fixed:
  "yields (good_reply E) handle_options" "yields (good_reply E) method_not_allowed" "yields (good_reply E) access_denied"
  "yields (good_reply E) (handle_well_known r)" "yields (good_reply E) (handle_principal_discovery E n r)"
  by (auto simp: handle_options_def method_not_allowed_def access_denied_def handle_well_known_def
      handle_principal_discovery_def good_response_def intro: good_built)

lemma yields_auth:
  "yields (\<lambda>x. \<forall>resp. x = Inl resp \<longrightarrow> good_response E resp) (auth_or_path_user E h n)"
  "yields (\<lambda>x. \<forall>resp. x = Inl resp \<longrightarrow> good_response E resp) (auth_or_email_user E h n)"
  unfolding auth_or_path_user_def auth_or_email_user_def ok_orE_def okE_def errE_def
  by (auto intro!: yields_rules split: option.split)

lemma yields_guarded:
  assumes "\<And>user. yields (good_reply E) (k user)"
  shows "yields (good_reply E) (bind (auth_or_path_user E h n) (\<lambda>r. case r of Inl resp \<Rightarrow> Ret (Reply resp) | Inr user \<Rightarrow> k user))"
    "yields (good_reply E) (bind (auth_or_email_user E h n) (\<lambda>r. case r of Inl resp \<Rightarrow> Ret (Reply resp) | Inr user \<Rightarrow> k user))"
  using assms
  by (auto intro: yields_bind_via [OF yields_auth(1)] yields_bind_via [OF yields_auth(2)] split: sum.split)

lemma yields_roots:
  "yields (good_reply E) (handle_server_root E r)" "yields (good_reply E) (handle_caldav_root E r)"
  "yields (good_reply E) (handle_fallback_discovery E r)"
proof -
  have "yields (good_reply E) (root_propfind E h r)" for h
    unfolding root_propfind_def Let_def by (auto intro!: yields_rules good_rules)
  then show "yields (good_reply E) (handle_server_root E r)" "yields (good_reply E) (handle_caldav_root E r)"
    "yields (good_reply E) (handle_fallback_discovery E r)"
    by (auto simp: handle_server_root_def handle_caldav_root_def handle_fallback_discovery_def yields_fixed
        good_response_def)
qed

lemma yields_email_discovery:
  assumes "bodies_bounded E" shows "yields (good_reply E) (handle_caldav_email_discovery E m r)"
  unfolding handle_caldav_email_discovery_def Let_def
  by (auto intro!: yields_if yields_option yields_bind [where p = "try_basic_auth E h" for h]
      yields_bind [where p = "get_user_by_email E m"] yields_bind_via [OF yields_email_home]
      good_buffered [OF assms] yields_fixed)

lemma yields_resources:
  assumes "bodies_bounded E"
  shows "yields (good_reply E) (dispatch_calendar_home E n r)" "yields (good_reply E) (handle_calendar_collection E n c r)"
    "yields (good_reply E) (handle_object E n c f r)" "yields (good_reply E) (handle_email_calendar_collection E n c r)"
    "yields (good_reply E) (handle_email_object E n c f r)"
proof -
  have "yields (good_reply E) (collection_method E u x m c r)" "yields (good_reply E) (object_method E c f r)" for u x m
    unfolding collection_method_def object_method_def Let_def
    by (simp_all add: yields_collections yields_proppatch yields_objects yields_fixed yields_handle_report [OF assms])
  note parts = this yields_fixed yields_collections
  show "yields (good_reply E) (dispatch_calendar_home E n r)" "yields (good_reply E) (handle_calendar_collection E n c r)"
    "yields (good_reply E) (handle_object E n c f r)" "yields (good_reply E) (handle_email_calendar_collection E n c r)"
    "yields (good_reply E) (handle_email_object E n c f r)"
    unfolding dispatch_calendar_home_def handle_calendar_collection_def handle_object_def
      handle_email_calendar_collection_def handle_email_object_def Let_def
    by (rule parts yields_guarded yields_if | rule yields_bind)+
qed

lemma yields_caldav_router:
  assumes "bodies_bounded E" "framework_statuses E"
  shows "yields (good_reply E) (caldav_router E path r)"
proof -
  have params: "yields (good_reply E) (with_params E ps h)" if "\<And>qs. yields (good_reply E) (h qs)" for ps h
    unfolding with_params_def
    using that assms(2) by (auto simp: framework_statuses_def good_response_def intro!: yields_option)
  have "yields (good_reply E) (serve_endpoint E ep ps r)" for ep ps
    by (cases ep) (auto simp: serve_endpoint_def yields_fixed yields_roots
        intro!: params yields_resources yields_email_discovery assms(1) yields_fixed)
  then show ?thesis
    unfolding caldav_router_def
    using assms(2) by (auto simp: framework_statuses_def good_response_def intro!: yields_option yields_prod)
qed



section \<open>Routing\<close>

text \<open>Two patterns that no path can satisfy both.\<close>

fun clash :: "segment list \<Rightarrow> segment list \<Rightarrow> bool" where
  "clash [] [] = False"
| "clash (Lit a # ps) (Lit b # qs) = (a \<noteq> b \<or> clash ps qs)"
| "clash (Lit a # ps) (Param # qs) = (a = [] \<or> clash ps qs)"
| "clash (Param # ps) (Lit b # qs) = (b = [] \<or> clash ps qs)"
| "clash (Param # ps) (Param # qs) = clash ps qs"
| "clash _ _ = True"

lemma match_Nil: "match_pattern [] path = (if path = [] then Some [] else None)"
  by (cases path) auto

lemma match_Cons_Nil: "match_pattern (s # ps) [] = None"
  by (cases s) auto

lemma clash_excludes: "clash p q \<Longrightarrow> match_pattern p path = None \<or> match_pattern q path = None"
proof (induction p q arbitrary: path rule: clash.induct)
  case (2 a ps b qs)
  then show ?case by (cases path; auto; metis option.distinct(1))
next
  case (3 a ps qs)
  then show ?case by (cases path; auto; metis option.distinct(1))
next
  case (4 ps b qs)
  then show ?case by (cases path; auto; metis option.distinct(1))
next
  case (5 ps qs)
  then show ?case by (cases path; auto; metis option.distinct(1))
qed (simp_all add: match_Nil match_Cons_Nil)

lemma find_route_member:
  "(pat, ep) \<in> set rs \<Longrightarrow> match_pattern pat path = Some params \<Longrightarrow>
   (\<And>p e. (p, e) \<in> set rs \<Longrightarrow> p \<noteq> pat \<Longrightarrow> match_pattern p path = None) \<Longrightarrow> distinct (map fst rs) \<Longrightarrow>
   find_route rs path = Some (ep, params)"
  by (induction rs path rule: find_route.induct) (auto split: option.split, force+)

text \<open>The routing table is unambiguous. No path matches two of its patterns, so the handler of a
  request does not depend on the order of the table: if a pattern of the table matches the path,
  then its handler is the one that is found, with the segments at the pattern's parameters.\<close>

lemma routes_unambiguous:
  assumes "(pat, ep) \<in> set caldav_routes" "match_pattern pat path = Some params"
  shows "find_route caldav_routes path = Some (ep, params) \<and>
    (\<forall>pat' ep'. (pat', ep') \<in> set caldav_routes \<and> pat' \<noteq> pat \<longrightarrow> match_pattern pat' path = None)"
proof -
  have "\<forall>p \<in> set (map fst caldav_routes). \<forall>q \<in> set (map fst caldav_routes). p = q \<or> clash p q"
    unfolding caldav_routes_def by simp
  then have other: "match_pattern p path = None" if "(p, e) \<in> set caldav_routes" "p \<noteq> pat" for p e
    using that assms clash_excludes [of p pat path] by fastforce
  moreover have "distinct (map fst caldav_routes)" unfolding caldav_routes_def by simp
  ultimately show ?thesis using find_route_member [OF assms] by blast
qed

end
