(* ===== verification/Mcp_Session.thy ===== *)
theory Mcp_Session
  imports Schema Keyed_Store
begin

text \<open>
  \<open>src/mcp/session.rs\<close>: the table of MCP sessions, a hash map from session ids to user ids behind
  a mutex. Every operation holds the mutex for its whole access to the map, so it is one atomic
  call; drawing the session id happens before the mutex is taken.
\<close>

section \<open>Operations\<close>

definition insert_session :: "string \<Rightarrow> string \<Rightarrow> (string \<times> string) list \<Rightarrow> (string \<times> string) list" where
  "insert_session session_id user_id ss =
     (session_id, user_id) # filter (\<lambda>e. fst e \<noteq> session_id) ss"

definition drop_session :: "string \<Rightarrow> (string \<times> string) list \<Rightarrow> (string \<times> string) list" where
  "drop_session session_id ss = filter (\<lambda>e. fst e \<noteq> session_id) ss"

definition create_session :: "ext \<Rightarrow> string \<Rightarrow> (world, string) prog" where
  "create_session E user_id =
     bind (draw (uuid_v4 E)) (\<lambda>session_id.
       atomic (\<lambda>w. (session_id,
         w\<lparr>mcp_sessions := insert_session session_id user_id (mcp_sessions w)\<rparr>)))"

definition get_user_id :: "string \<Rightarrow> (world, string option) prog" where
  "get_user_id session_id = atomic (\<lambda>w. (map_of (mcp_sessions w) session_id, w))"

definition remove_session :: "string \<Rightarrow> (world, unit) prog" where
  "remove_session session_id =
     atomic (\<lambda>w. ((), w\<lparr>mcp_sessions := drop_session session_id (mcp_sessions w)\<rparr>))"

section \<open>The table as a map\<close>

lemma map_of_filter_key: "map_of (filter (\<lambda>e. fst e \<noteq> k) xs) = (map_of xs)(k := None)"
  by (induction xs) (auto simp: fun_eq_iff)

lemma map_of_insert_session: "map_of (insert_session k v xs) = (map_of xs)(k \<mapsto> v)"
  by (simp add: insert_session_def map_of_filter_key fun_eq_iff)

text \<open>The hash map keeps the contract of a store, without conditions.\<close>

interpretation session_table: keyed_store "\<lambda>_ _. True" map_of insert_session drop_session
  by unfold_locales (simp_all add: map_of_insert_session map_of_filter_key drop_session_def)

lemma run_create_session [run_simps]:
  "run (create_session E u) w =
     (uuid_v4 E (ticks w),
      (tick w)\<lparr>mcp_sessions := insert_session (uuid_v4 E (ticks w)) u (mcp_sessions w)\<rparr>)"
  by (simp add: create_session_def run_simps)

lemma run_get_user_id [run_simps]: "run (get_user_id s) w = (map_of (mcp_sessions w) s, w)"
  by (simp add: get_user_id_def run_simps)

lemma run_remove_session [run_simps]:
  "run (remove_session s) w =
     ((), w\<lparr>mcp_sessions := drop_session s (mcp_sessions w)\<rparr>)"
  by (simp add: remove_session_def run_simps)

lemma safe_get_user_id [safe_rules]: "safe I (get_user_id s)"
  unfolding get_user_id_def by (rule safe_atomic) simp

context stmt_invariant
begin

lemma safe_create_session [safe_rules]: "safe I (create_session E u)"
  unfolding create_session_def by (rule safe_bind [OF safe_draw], rule safe_atomic) (simp add: keep_sessions)

lemma safe_remove_session [safe_rules]: "safe I (remove_session s)"
  unfolding remove_session_def by (rule safe_atomic) (simp add: keep_sessions)

end

section \<open>Properties\<close>

text \<open>A session is found under its id until it is removed. Creating a session returns an id under
  which the user is found and leaves every other id as it was; after removing the id nothing is
  found under it, while all other sessions remain.\<close>

theorem session_lifecycle:
  "let (sid, w1) = run (create_session E user) w; w2 = snd (run (remove_session sid) w1)
   in fst (run (get_user_id sid) w1) = Some user \<and> fst (run (get_user_id sid) w2) = None \<and>
      (\<forall>s. s = sid \<or> (fst (run (get_user_id s) w1) = fst (run (get_user_id s) w) \<and>
                       fst (run (get_user_id s) w2) = fst (run (get_user_id s) w)))"
  by (simp add: run_simps session_table.get_put session_table.get_del)

end
