(* ===== verification/Mcp_Tool_Defs.thy ===== *)
theory Mcp_Tool_Defs
  imports Externals
begin

text \<open>
  The tool definitions that \<open>tools/list\<close> publishes: \<open>tool_defs\<close> of the four modules under
  \<open>src/mcp/tools\<close>, and \<open>all_tools\<close> of \<open>src/mcp/tools/mod.rs\<close>. All input schemas have the same
  shape: an object with properties, the required ones, and nothing else.
\<close>

section \<open>Definitions\<close>

record ToolDef =
  tool_name :: string
  tool_description :: string
  tool_schema :: json

definition string_prop :: "string \<Rightarrow> json" where
  "string_prop d = JObject [(''type'', JString ''string''), (''description'', JString d)]"

definition object_schema :: "(string \<times> json) list \<Rightarrow> string list option \<Rightarrow> json" where
  "object_schema properties required =
     JObject ([(''type'', JString ''object''), (''properties'', JObject properties)] @
       (case required of None \<Rightarrow> [] | Some names \<Rightarrow> [(''required'', JArray (map JString names))]) @
       [(''additionalProperties'', JBool False)])"

definition calendar_tool_defs :: "ToolDef list" where
  "calendar_tool_defs =
     [
      \<lparr>tool_name = ''list_calendars'',
       tool_description = ''List all calendars accessible to the authenticated user (owned + shared)'',
       tool_schema = object_schema
         []
         None\<rparr>,
      \<lparr>tool_name = ''get_calendar'',
       tool_description = ''Get details about a specific calendar'',
       tool_schema = object_schema
         [(''calendar_id'', string_prop ''The calendar ID'')]
         (Some [''calendar_id''])\<rparr>,
      \<lparr>tool_name = ''create_calendar'',
       tool_description = ''Create a new calendar'',
       tool_schema = object_schema
         [(''name'', string_prop ''Calendar display name''),
          (''description'', string_prop ''Calendar description''),
          (''color'', string_prop ''Calendar color (hex, e.g. #FF0000)''),
          (''timezone'', string_prop ''Calendar timezone (e.g. America/New_York)'')]
         (Some [''name''])\<rparr>,
      \<lparr>tool_name = ''delete_calendar'',
       tool_description = ''Delete a calendar and all its events'',
       tool_schema = object_schema
         [(''calendar_id'', string_prop ''The calendar ID to delete'')]
         (Some [''calendar_id''])\<rparr>]"

definition event_tool_defs :: "ToolDef list" where
  "event_tool_defs =
     [
      \<lparr>tool_name = ''create_event'',
       tool_description = ''Create a new calendar event'',
       tool_schema = object_schema
         [(''calendar_id'', string_prop ''The target calendar ID''),
          (''title'', string_prop ''Event title/summary''),
          (''start'', string_prop ''Local start time in iCal format, e.g. 20260301T090000 (no Z when timezone provided)''),
          (''end'', string_prop ''Local end time in iCal format''),
          (''timezone'', string_prop ''IANA timezone, e.g. America/Los_Angeles. Omit only for explicit UTC times (Z suffix).''),
          (''description'', string_prop ''Event description''),
          (''location'', string_prop ''Event location'')]
         (Some [''calendar_id'', ''title'', ''start'', ''end''])\<rparr>,
      \<lparr>tool_name = ''get_event'',
       tool_description = ''Get a specific event by its UID'',
       tool_schema = object_schema
         [(''calendar_id'', string_prop ''The calendar ID''),
          (''event_uid'', string_prop ''The event UID'')]
         (Some [''calendar_id'', ''event_uid''])\<rparr>,
      \<lparr>tool_name = ''update_event'',
       tool_description = ''Update an existing event (replaces the entire event)'',
       tool_schema = object_schema
         [(''calendar_id'', string_prop ''The calendar ID''),
          (''event_uid'', string_prop ''The event UID to update''),
          (''title'', string_prop ''New event title''),
          (''start'', string_prop ''New local start time in iCal format''),
          (''end'', string_prop ''New local end time in iCal format''),
          (''timezone'', string_prop ''IANA timezone, e.g. America/Los_Angeles''),
          (''description'', string_prop ''New description''),
          (''location'', string_prop ''New location'')]
         (Some [''calendar_id'', ''event_uid'', ''title'', ''start'', ''end''])\<rparr>,
      \<lparr>tool_name = ''delete_event'',
       tool_description = ''Delete a calendar event'',
       tool_schema = object_schema
         [(''calendar_id'', string_prop ''The calendar ID''),
          (''event_uid'', string_prop ''The event UID to delete'')]
         (Some [''calendar_id'', ''event_uid''])\<rparr>,
      \<lparr>tool_name = ''query_events'',
       tool_description = ''Query events in a calendar, optionally filtered by time range'',
       tool_schema = object_schema
         [(''calendar_id'', string_prop ''The calendar ID''),
          (''start'', string_prop ''Range start (iCal format, e.g. 20260301T000000Z)''),
          (''end'', string_prop ''Range end (iCal format)''),
          (''limit'', JObject [(''type'', JString ''integer''), (''description'', JString ''Max events to return (default 50)''), (''minimum'', JNumber (PosInt 1)), (''maximum'', JNumber (PosInt 500))])]
         (Some [''calendar_id''])\<rparr>]"

definition sharing_tool_defs :: "ToolDef list" where
  "sharing_tool_defs =
     [
      \<lparr>tool_name = ''share_calendar'',
       tool_description = ''Share a calendar with another user'',
       tool_schema = object_schema
         [(''calendar_id'', string_prop ''The calendar ID to share''),
          (''username'', string_prop ''Username of the user to share with''),
          (''permission'', JObject [(''type'', JString ''string''), (''enum'', JArray [JString ''read'', JString ''read-write'']), (''description'', JString ''Access level to grant'')])]
         (Some [''calendar_id'', ''username'', ''permission''])\<rparr>,
      \<lparr>tool_name = ''unshare_calendar'',
       tool_description = (''Revoke a user'' @ [CHR 0x27] @ ''s access to a shared calendar''),
       tool_schema = object_schema
         [(''calendar_id'', string_prop ''The calendar ID''),
          (''username'', string_prop ''Username to revoke access from'')]
         (Some [''calendar_id'', ''username''])\<rparr>,
      \<lparr>tool_name = ''list_shared_calendars'',
       tool_description = ''List calendars shared with the authenticated user'',
       tool_schema = object_schema
         []
         None\<rparr>]"

definition simple_tool_defs :: "ToolDef list" where
  "simple_tool_defs =
     [
      \<lparr>tool_name = ''add_event'',
       tool_description = ''Add a calendar event.'',
       tool_schema = object_schema
         [(''title'', string_prop ''Event title''),
          (''start'', string_prop ''Local start time in iCal format, e.g. 20260301T090000 (no Z suffix when timezone is provided)''),
          (''end'', string_prop ''Local end time in iCal format, e.g. 20260301T100000''),
          (''timezone'', string_prop ''IANA timezone name, e.g. America/Los_Angeles. Required for local time; omit only for explicit UTC (append Z to start/end).''),
          (''description'', JObject [(''type'', JString ''string'')]),
          (''location'', JObject [(''type'', JString ''string'')])]
         (Some [''title'', ''start'', ''end''])\<rparr>,
      \<lparr>tool_name = ''delete_event'',
       tool_description = ''Delete a calendar event by its UID.'',
       tool_schema = object_schema
         [(''event_uid'', string_prop ''Event UID to delete'')]
         (Some [''event_uid''])\<rparr>,
      \<lparr>tool_name = ''list_events'',
       tool_description = ''List upcoming calendar events. Optionally filter by time range.'',
       tool_schema = object_schema
         [(''start'', string_prop ''Range start, e.g. 20260301T000000Z''),
          (''end'', string_prop ''Range end, e.g. 20260331T235959Z''),
          (''limit'', JObject [(''type'', JString ''integer''), (''description'', JString ''Max results (default 50)''), (''minimum'', JNumber (PosInt 1)), (''maximum'', JNumber (PosInt 500))])]
         None\<rparr>]"

definition all_tools :: "string \<Rightarrow> ToolDef list" where
  "all_tools tool_mode =
     (if tool_mode = ''simple'' then simple_tool_defs
      else calendar_tool_defs @ event_tool_defs @ sharing_tool_defs)"

text \<open>Reading a schema back: the names of its properties and the required ones.\<close>

definition schema_properties :: "ToolDef \<Rightarrow> string list" where
  "schema_properties t =
     (case json_index (tool_schema t) ''properties'' of JObject ms \<Rightarrow> map fst ms | _ \<Rightarrow> [])"

definition schema_required :: "ToolDef \<Rightarrow> string list" where
  "schema_required t =
     (case json_index (tool_schema t) ''required'' of
        JArray vs \<Rightarrow> List.map_filter as_str vs | _ \<Rightarrow> [])"

lemmas tool_defs_defs =
  calendar_tool_defs_def event_tool_defs_def sharing_tool_defs_def simple_tool_defs_def

end
