(* ===== verification/Mcp_Tools.thy ===== *)
theory Mcp_Tools
  imports Shares Events Ical_Builder Mcp_Tool_Defs
begin

text \<open>
  The tools of the MCP server: \<open>src/mcp/tools\<close> (\<open>calendars.rs\<close>, \<open>events.rs\<close>, \<open>sharing.rs\<close>,
  \<open>simple.rs\<close>) and the dispatch of \<open>mod.rs\<close>. A tool ends with a JSON value or with the text of an
  error. The tools named like the database operation they call carry the suffix \<open>_tool\<close>.
\<close>

section \<open>Arguments and errors\<close>

type_synonym tool = "(world, string + json) prog"

definition arg_str :: "json \<Rightarrow> string \<Rightarrow> string option" where
  "arg_str args k = as_str (json_index args k)"

definition required :: "json \<Rightarrow> string \<Rightarrow> (world, string + string) prog" where
  "required args k = ok_orE (''Missing '' @ k) (arg_str args k)"

text \<open>\<open>map_err(|e| format!("...: {e}"))\<close>.\<close>

definition describe :: "ext \<Rightarrow> string \<Rightarrow> 'a app \<Rightarrow> (world, string + 'a) prog" where
  "describe E context p = map_errE (\<lambda>e. context @ '': '' @ error_to_string (sqlx_display E) e) p"

section \<open>Calendars\<close>

definition calendar_summary :: "Calendar \<Rightarrow> (string \<times> json) list" where
  "calendar_summary c =
     [(''id'', JString (c_id c)), (''name'', JString (c_name c)),
      (''description'', JString (c_description c)), (''color'', JString (c_color c)),
      (''timezone'', JString (c_timezone c))]"

definition list_calendars_tool :: "ext \<Rightarrow> string \<Rightarrow> json \<Rightarrow> tool" where
  "list_calendars_tool E user_id args =
     bindE (describe E ''Failed to list calendars'' (list_calendars_for_user E user_id)) (\<lambda>cals.
       okE (JObject [(''calendars'', JArray (map (\<lambda>c.
         JObject (calendar_summary c @ [(''owner_id'', JString (c_owner_id c))])) cals))]))"

definition get_calendar_tool :: "ext \<Rightarrow> string \<Rightarrow> json \<Rightarrow> tool" where
  "get_calendar_tool E user_id args =
     bindE (required args ''calendar_id'') (\<lambda>calendar_id.
     bindE (describe E ''Database error'' (get_calendar_by_id E calendar_id)) (\<lambda>found.
     bindE (ok_orE ''Calendar not found'' found) (\<lambda>cal.
     okE (JObject (calendar_summary cal @
       [(''owner_id'', JString (c_owner_id cal)), (''ctag'', JString (c_ctag cal))])))))"

definition str_or :: "string option \<Rightarrow> string \<Rightarrow> string" where
  "str_or x d = (case x of None \<Rightarrow> d | Some s \<Rightarrow> s)"

definition create_calendar_tool :: "ext \<Rightarrow> string \<Rightarrow> json \<Rightarrow> tool" where
  "create_calendar_tool E user_id args =
     bindE (required args ''name'') (\<lambda>name.
     bindE (describe E ''Failed to create calendar''
              (create_calendar E user_id name (str_or (arg_str args ''description'') [])
                (str_or (arg_str args ''color'') ''#0E61B9'')
                (str_or (arg_str args ''timezone'') ''UTC''))) (\<lambda>cal.
     okE (JObject (calendar_summary cal))))"

definition delete_calendar_tool :: "ext \<Rightarrow> string \<Rightarrow> json \<Rightarrow> tool" where
  "delete_calendar_tool E user_id args =
     bindE (required args ''calendar_id'') (\<lambda>calendar_id.
     bindE (describe E ''Failed to delete calendar'' (delete_calendar E calendar_id)) (\<lambda>_.
     okE (JObject [(''deleted'', JBool True), (''calendar_id'', JString calendar_id)])))"

section \<open>Events\<close>

definition generate_uid :: "ext \<Rightarrow> (world, string) prog" where
  "generate_uid E = bind (draw (uuid_v4 E)) (\<lambda>u. Ret (uid_of u))"

definition create_event :: "ext \<Rightarrow> string \<Rightarrow> json \<Rightarrow> tool" where
  "create_event E user_id args =
     bindE (required args ''calendar_id'') (\<lambda>calendar_id.
     bindE (required args ''title'') (\<lambda>title.
     bindE (required args ''start'') (\<lambda>start.
     bindE (required args ''end'') (\<lambda>stop.
     bind (generate_uid E) (\<lambda>uid.
     bind (draw (utc_stamp E)) (\<lambda>now.
     let ical_data = build_vevent now uid title start stop (arg_str args ''description'')
                       (arg_str args ''location'') (arg_str args ''timezone'')
     in bindE (describe E ''Failed to create event''
                 (upsert_object E calendar_id uid ical_data (event_fields title start stop))) (\<lambda>(obj, is_new).
        okE (JObject
          [(''uid'', JString (o_uid obj)), (''calendar_id'', JString calendar_id),
           (''title'', JString title), (''start'', JString start), (''end'', JString stop),
           (''etag'', JString (o_etag obj))]))))))))"

definition get_event :: "ext \<Rightarrow> string \<Rightarrow> json \<Rightarrow> tool" where
  "get_event E user_id args =
     bindE (required args ''calendar_id'') (\<lambda>calendar_id.
     bindE (required args ''event_uid'') (\<lambda>event_uid.
     bindE (describe E ''Database error'' (get_object_by_uid E calendar_id event_uid)) (\<lambda>found.
     bindE (ok_orE ''Event not found'' found) (\<lambda>obj.
     okE (JObject
       [(''uid'', JString (o_uid obj)), (''calendar_id'', JString (o_calendar_id obj)),
        (''summary'', json_opt_str (o_summary obj)), (''dtstart'', json_opt_str (o_dtstart obj)),
        (''dtend'', json_opt_str (o_dtend obj)), (''etag'', JString (o_etag obj)),
        (''ical_data'', JString (o_ical_data obj))])))))"

definition update_event :: "ext \<Rightarrow> string \<Rightarrow> json \<Rightarrow> tool" where
  "update_event E user_id args =
     bindE (required args ''calendar_id'') (\<lambda>calendar_id.
     bindE (required args ''event_uid'') (\<lambda>event_uid.
     bindE (required args ''title'') (\<lambda>title.
     bindE (required args ''start'') (\<lambda>start.
     bindE (required args ''end'') (\<lambda>stop.
     bindE (describe E ''Database error'' (get_object_by_uid E calendar_id event_uid)) (\<lambda>found.
     bindE (ok_orE ''Event not found'' found) (\<lambda>_.
     bind (draw (utc_stamp E)) (\<lambda>now.
     let ical_data = build_vevent now event_uid title start stop (arg_str args ''description'')
                       (arg_str args ''location'') (arg_str args ''timezone'')
     in bindE (describe E ''Failed to update event''
                 (upsert_object E calendar_id event_uid ical_data (event_fields title start stop))) (\<lambda>(obj, is_new).
        okE (JObject
          [(''uid'', JString (o_uid obj)), (''calendar_id'', JString calendar_id),
           (''title'', JString title), (''etag'', JString (o_etag obj)),
           (''updated'', JBool True)]))))))))))"

definition delete_event :: "ext \<Rightarrow> string \<Rightarrow> json \<Rightarrow> tool" where
  "delete_event E user_id args =
     bindE (required args ''calendar_id'') (\<lambda>calendar_id.
     bindE (required args ''event_uid'') (\<lambda>event_uid.
     bindE (describe E ''Failed to delete event'' (delete_object E calendar_id event_uid)) (\<lambda>_.
     okE (JObject [(''deleted'', JBool True), (''event_uid'', JString event_uid)]))))"

text \<open>\<open>limit\<close> is an unsigned 64-bit number; \<open>usize\<close> has 64 bits as well.\<close>

definition arg_limit :: "json \<Rightarrow> nat" where
  "arg_limit args = (case as_u64 (json_index args ''limit'') of None \<Rightarrow> 50 | Some n \<Rightarrow> unat n)"

text \<open>The query of \<open>query_events\<close> and of \<open>list_events\<close>: by range only when both ends are given.\<close>

definition selected_objects :: "ext \<Rightarrow> string \<Rightarrow> json \<Rightarrow> (world, string + CalendarObject list) prog" where
  "selected_objects E calendar_id args =
     (case (arg_str args ''start'', arg_str args ''end'') of
        (Some s, Some e) \<Rightarrow> describe E ''Database error'' (list_objects_in_range E calendar_id s e)
      | _ \<Rightarrow> describe E ''Database error'' (list_objects E calendar_id))"

definition query_events :: "ext \<Rightarrow> string \<Rightarrow> json \<Rightarrow> tool" where
  "query_events E user_id args =
     bindE (required args ''calendar_id'') (\<lambda>calendar_id.
     bindE (selected_objects E calendar_id args) (\<lambda>objects.
     let events = map (\<lambda>obj. JObject
           [(''uid'', JString (o_uid obj)), (''summary'', json_opt_str (o_summary obj)),
            (''dtstart'', json_opt_str (o_dtstart obj)), (''dtend'', json_opt_str (o_dtend obj)),
            (''etag'', JString (o_etag obj))]) (take (arg_limit args) objects)
     in okE (JObject
          [(''calendar_id'', JString calendar_id), (''count'', json_len (length events)),
           (''events'', JArray events)])))"

section \<open>Sharing\<close>

definition user_named :: "ext \<Rightarrow> string \<Rightarrow> (world, string + User) prog" where
  "user_named E username =
     bindE (describe E ''Database error'' (get_user_by_username E username)) (\<lambda>found.
       ok_orE (''User '' @ squoted username @ '' not found'') found)"

definition share_calendar_tool :: "ext \<Rightarrow> string \<Rightarrow> json \<Rightarrow> tool" where
  "share_calendar_tool E user_id args =
     bindE (required args ''calendar_id'') (\<lambda>calendar_id.
     bindE (required args ''username'') (\<lambda>username.
     bindE (required args ''permission'') (\<lambda>permission_str.
     bindE (ok_orE ''Invalid permission value'' (perm_from_str_value permission_str)) (\<lambda>permission.
     bindE (user_named E username) (\<lambda>target_user.
     bindE (describe E ''Failed to share calendar''
              (share_calendar E calendar_id (u_id target_user) permission)) (\<lambda>share.
     okE (JObject
       [(''calendar_id'', JString (s_calendar_id share)), (''shared_with'', JString username),
        (''permission'', JString (s_permission share))])))))))"

definition unshare_calendar_tool :: "ext \<Rightarrow> string \<Rightarrow> json \<Rightarrow> tool" where
  "unshare_calendar_tool E user_id args =
     bindE (required args ''calendar_id'') (\<lambda>calendar_id.
     bindE (required args ''username'') (\<lambda>username.
     bindE (user_named E username) (\<lambda>target_user.
     bindE (describe E ''Failed to unshare calendar''
              (unshare_calendar E calendar_id (u_id target_user))) (\<lambda>_.
     okE (JObject
       [(''unshared'', JBool True), (''calendar_id'', JString calendar_id),
        (''username'', JString username)])))))"

definition list_shared_calendars_tool :: "ext \<Rightarrow> string \<Rightarrow> json \<Rightarrow> tool" where
  "list_shared_calendars_tool E user_id args =
     bindE (describe E ''Database error'' (list_shared_calendars E user_id)) (\<lambda>shared.
       okE (JObject [(''shared_calendars'', JArray (map (\<lambda>(cal, perm). JObject
         [(''id'', JString (c_id cal)), (''name'', JString (c_name cal)),
          (''owner_id'', JString (c_owner_id cal)), (''permission'', JString (perm_as_str perm)),
          (''color'', JString (c_color cal))]) shared))]))"

section \<open>The simple tools\<close>

definition resolve_calendar :: "ext \<Rightarrow> string \<Rightarrow> (world, string + string) prog" where
  "resolve_calendar E user_id =
     bindE (describe E ''Failed to list calendars'' (list_calendars_for_user E user_id)) (\<lambda>cals.
       case cals of
         cal # _ \<Rightarrow> okE (c_id cal)
       | [] \<Rightarrow>
           bindE (describe E ''Failed to create default calendar''
                    (create_calendar E user_id ''Calendar'' [] ''#0E61B9'' ''UTC'')) (\<lambda>cal.
             okE (c_id cal)))"

definition handle_add :: "ext \<Rightarrow> string \<Rightarrow> json \<Rightarrow> tool" where
  "handle_add E user_id args =
     bindE (required args ''title'') (\<lambda>title.
     bindE (required args ''start'') (\<lambda>start.
     bindE (required args ''end'') (\<lambda>stop.
     bindE (resolve_calendar E user_id) (\<lambda>calendar_id.
     bind (generate_uid E) (\<lambda>uid.
     bind (draw (utc_stamp E)) (\<lambda>now.
     let ical_data = build_vevent now uid title start stop (arg_str args ''description'')
                       (arg_str args ''location'') (arg_str args ''timezone'')
     in bindE (describe E ''Failed to create event''
                 (upsert_object E calendar_id uid ical_data (event_fields title start stop))) (\<lambda>(obj, is_new).
        okE (JObject
          [(''uid'', JString (o_uid obj)), (''title'', JString title), (''start'', JString start),
           (''end'', JString stop)]))))))))"

definition handle_simple_delete :: "ext \<Rightarrow> string \<Rightarrow> json \<Rightarrow> tool" where
  "handle_simple_delete E user_id args =
     bindE (required args ''event_uid'') (\<lambda>event_uid.
     bindE (resolve_calendar E user_id) (\<lambda>calendar_id.
     bindE (describe E ''Failed to delete event'' (delete_object E calendar_id event_uid)) (\<lambda>_.
     okE (JObject [(''deleted'', JBool True), (''event_uid'', JString event_uid)]))))"

definition handle_list :: "ext \<Rightarrow> string \<Rightarrow> json \<Rightarrow> tool" where
  "handle_list E user_id args =
     bindE (resolve_calendar E user_id) (\<lambda>calendar_id.
     bindE (selected_objects E calendar_id args) (\<lambda>objects.
     let events = map (\<lambda>obj. JObject
           [(''uid'', JString (o_uid obj)), (''summary'', json_opt_str (o_summary obj)),
            (''start'', json_opt_str (o_dtstart obj)), (''end'', json_opt_str (o_dtend obj))])
           (take (arg_limit args) objects)
     in okE (JObject [(''count'', json_len (length events)), (''events'', JArray events)])))"

definition simple_dispatch :: "ext \<Rightarrow> string \<Rightarrow> string \<Rightarrow> json \<Rightarrow> tool" where
  "simple_dispatch E user_id name args =
     (if name = ''add_event'' then handle_add E user_id args
      else if name = ''delete_event'' then handle_simple_delete E user_id args
      else if name = ''list_events'' then handle_list E user_id args
      else errE (''Unknown tool: '' @ name))"

section \<open>Dispatch\<close>

definition dispatch :: "ext \<Rightarrow> string \<Rightarrow> string \<Rightarrow> json \<Rightarrow> string \<Rightarrow> tool" where
  "dispatch E user_id name args tool_mode =
     (if tool_mode = ''simple'' then simple_dispatch E user_id name args
      else if name = ''list_calendars'' then list_calendars_tool E user_id args
      else if name = ''get_calendar'' then get_calendar_tool E user_id args
      else if name = ''create_calendar'' then create_calendar_tool E user_id args
      else if name = ''delete_calendar'' then delete_calendar_tool E user_id args
      else if name = ''create_event'' then create_event E user_id args
      else if name = ''get_event'' then get_event E user_id args
      else if name = ''update_event'' then update_event E user_id args
      else if name = ''delete_event'' then delete_event E user_id args
      else if name = ''query_events'' then query_events E user_id args
      else if name = ''share_calendar'' then share_calendar_tool E user_id args
      else if name = ''unshare_calendar'' then unshare_calendar_tool E user_id args
      else if name = ''list_shared_calendars'' then list_shared_calendars_tool E user_id args
      else errE (''Unknown tool: '' @ name))"

lemmas tools_defs [op_defs] =
  required_def describe_def generate_uid_def list_calendars_tool_def get_calendar_tool_def create_calendar_tool_def
  delete_calendar_tool_def create_event_def get_event_def update_event_def delete_event_def
  selected_objects_def query_events_def user_named_def share_calendar_tool_def
  unshare_calendar_tool_def list_shared_calendars_tool_def resolve_calendar_def handle_add_def
  handle_simple_delete_def handle_list_def

section \<open>Every interleaving keeps an invariant of the statements\<close>

lemma safe_required [safe_rules]: "safe I (required args k)"
  unfolding required_def by (intro safe_rules)

lemma safe_describe [safe_rules]: "safe I p \<Longrightarrow> safe I (describe E s p)"
  unfolding describe_def by (intro safe_rules)

lemma safe_list [safe_rules]:
  "safe I p \<Longrightarrow> (\<And>x xs. safe I (q x xs)) \<Longrightarrow> safe I (case y of [] \<Rightarrow> p | x # xs \<Rightarrow> q x xs)"
  by (cases y) auto

context tick_invariant
begin

lemma safe_generate_uid [safe_rules]: "safe I (generate_uid E)"
  unfolding generate_uid_def by (intro safe_rules)

lemma safe_reading_tools [safe_rules]:
  "safe I (list_calendars_tool E u a)" "safe I (get_calendar_tool E u a)" "safe I (get_event E u a)"
  "safe I (list_shared_calendars_tool E u a)"
  unfolding list_calendars_tool_def get_calendar_tool_def get_event_def list_shared_calendars_tool_def
  by (intro safe_rules)+

lemma safe_selected_objects [safe_rules]: "safe I (selected_objects E c a)"
  unfolding selected_objects_def by (intro safe_rules)

lemma safe_query_events [safe_rules]: "safe I (query_events E u a)"
  unfolding query_events_def by (intro safe_rules)

lemma safe_user_named [safe_rules]: "safe I (user_named E n)"
  unfolding user_named_def by (intro safe_rules)

end

context stmt_invariant
begin

lemma safe_calendar_tools [safe_rules]:
  "safe I (create_calendar_tool E u a)" "safe I (delete_calendar_tool E u a)"
  unfolding create_calendar_tool_def delete_calendar_tool_def by (intro safe_rules)+

lemma safe_event_tools [safe_rules]:
  "safe I (create_event E u a)" "safe I (update_event E u a)" "safe I (delete_event E u a)"
  unfolding create_event_def update_event_def delete_event_def Let_def by (intro safe_rules describes_event)+

lemma safe_sharing_tools [safe_rules]:
  "safe I (share_calendar_tool E u a)" "safe I (unshare_calendar_tool E u a)"
  unfolding share_calendar_tool_def unshare_calendar_tool_def by (intro safe_rules)+

lemma safe_resolve_calendar [safe_rules]: "safe I (resolve_calendar E u)"
  unfolding resolve_calendar_def by (intro safe_rules)

lemma safe_simple_tools [safe_rules]:
  "safe I (handle_add E u a)" "safe I (handle_simple_delete E u a)" "safe I (handle_list E u a)"
  unfolding handle_add_def handle_simple_delete_def handle_list_def Let_def by (intro safe_rules describes_event)+

lemma safe_dispatch [safe_rules]: "safe I (dispatch E u n a m)"
  unfolding dispatch_def simple_dispatch_def by (intro safe_rules)

end

end
