(* ===== verification/Mcp_Server.thy ===== *)
theory Mcp_Server
  imports Tokens Mcp_Session Mcp_Tools Caldav_Auth
begin

text \<open>
  The MCP server: the bearer-token middleware (\<open>src/mcp/auth.rs\<close>), the JSON-RPC methods
  (\<open>handlers.rs\<close>), the HTTP transport (\<open>transport.rs\<close>) and the router (\<open>mod.rs\<close>).
\<close>

section \<open>JSON-RPC methods\<close>

definition instructions :: "string \<Rightarrow> string" where
  "instructions tool_mode =
     (if tool_mode = ''simple''
      then ''Calendar server. Tools: add_event (create event), delete_event (remove event), list_events (show events, optional time range filter).''
      else ''This MCP server provides tools to manage CalDAV calendars and events. Use list_calendars to see available calendars, then create_event, query_events, etc. to manage events.'')"

definition handle_initialize :: "ext \<Rightarrow> string \<Rightarrow> JsonRpcRequest \<Rightarrow> string \<Rightarrow> (world, json) prog" where
  "handle_initialize E user_id request tool_mode =
     bind (create_session E user_id) (\<lambda>session_id.
       Ret (rpc_success (rpc_id request) (JObject
         [(''protocolVersion'', JString ''2025-03-26''),
          (''capabilities'', JObject [(''tools'', JObject [(''listChanged'', JBool False)])]),
          (''serverInfo'', JObject [(''name'', JString ''caldav-mcp-server''), (''version'', JString ''0.1.0'')]),
          (''instructions'', JString (instructions tool_mode))])))"

definition tool_json :: "ToolDef \<Rightarrow> json" where
  "tool_json t =
     JObject [(''name'', JString (tool_name t)), (''description'', JString (tool_description t)),
              (''inputSchema'', tool_schema t)]"

definition handle_tools_list :: "JsonRpcRequest \<Rightarrow> string \<Rightarrow> json" where
  "handle_tools_list request tool_mode =
     rpc_success (rpc_id request) (JObject [(''tools'', JArray (map tool_json (all_tools tool_mode)))])"

definition tool_content :: "ext \<Rightarrow> string + json \<Rightarrow> json" where
  "tool_content E r =
     (case r of
        Inr result \<Rightarrow> JObject
          ([(''content'', JArray [JObject [(''type'', JString ''text''), (''text'', JString (json_pretty E result))]]),
            (''isError'', JBool False)] @
           (if is_object result then [(''structuredContent'', result)] else []))
      | Inl err \<Rightarrow> JObject
          [(''content'', JArray [JObject [(''type'', JString ''text''), (''text'', JString err)]]),
           (''isError'', JBool True)])"

definition handle_tools_call :: "ext \<Rightarrow> string \<Rightarrow> JsonRpcRequest \<Rightarrow> string \<Rightarrow> (world, json) prog" where
  "handle_tools_call E user_id request tool_mode =
     (case Option.bind (json_get (rpc_params request) ''name'') as_str of
        None \<Rightarrow> Ret (invalid_params (rpc_id request) (''Missing '' @ squoted ''name'' @ '' in params''))
      | Some name \<Rightarrow>
          let arguments = (case json_get (rpc_params request) ''arguments'' of
                             Some a \<Rightarrow> a | None \<Rightarrow> JObject [])
          in bind (dispatch E user_id name arguments tool_mode) (\<lambda>r.
               Ret (rpc_success (rpc_id request) (tool_content E r))))"

definition handle_request :: "ext \<Rightarrow> string \<Rightarrow> JsonRpcRequest \<Rightarrow> string \<Rightarrow> (world, json) prog" where
  "handle_request E user_id request tool_mode =
     (let m = rpc_method request
      in if m = ''initialize'' then handle_initialize E user_id request tool_mode
         else if m = ''notifications/initialized'' then Ret JNull
         else if m = ''tools/list'' then Ret (handle_tools_list request tool_mode)
         else if m = ''tools/call'' then handle_tools_call E user_id request tool_mode
         else if m = ''ping'' then Ret (rpc_success (rpc_id request) (JObject []))
         else Ret (Json.method_not_found (rpc_id request)))"

section \<open>Transport\<close>

definition json_headers :: "(string \<times> string) list" where
  "json_headers = [(''content-type'', ''application/json'')]"

definition parse_failure :: "string \<Rightarrow> json" where
  "parse_failure msg =
     JObject [(''jsonrpc'', JString ''2.0''), (''id'', JNull),
       (''error'', JObject [(''code'', JNumber (NegInt PARSE_ERROR)), (''message'', JString (''Parse error: '' @ msg))])]"

definition handle_post :: "ext \<Rightarrow> string \<Rightarrow> string \<Rightarrow> http_request \<Rightarrow> handler" where
  "handle_post E tool_mode user_id request =
     (case to_bytes E (req_body request) (1024 * 1024) of
        None \<Rightarrow> Ret (Reply (text_response BAD_REQUEST ''Request body too large''))
      | Some body \<Rightarrow>
          (case rpc_from_slice E body of
             Inl e \<Rightarrow>
               Ret (Reply \<lparr>resp_status = OK, resp_headers = json_headers, resp_body = json_vec E (parse_failure e)\<rparr>)
           | Inr rpc \<Rightarrow>
               bind (handle_request E user_id rpc tool_mode) (\<lambda>response.
                 if rpc_id rpc = None then Ret (Reply (text_response ACCEPTED []))
                 else if rpc_method rpc = ''initialize''
                 then bind (get_user_id user_id) (\<lambda>found.
                   Ret (built (header_value_ok E) OK
                     (json_headers @ (case found of None \<Rightarrow> [] | Some session_id \<Rightarrow> [(''mcp-session-id'', session_id)]))
                     (json_vec E response)))
                 else Ret (Reply \<lparr>resp_status = OK, resp_headers = json_headers, resp_body = json_vec E response\<rparr>))))"

definition handle_mcp_get :: handler where
  "handle_mcp_get =
     Ret (Reply \<lparr>resp_status = OK,
       resp_headers = [(''content-type'', ''text/event-stream''), (''cache-control'', ''no-cache'')],
       resp_body = []\<rparr>)"

definition handle_mcp_delete :: "http_request \<Rightarrow> handler" where
  "handle_mcp_delete request =
     bind (case header_str request ''mcp-session-id'' of
             Some session_id \<Rightarrow> remove_session session_id
           | None \<Rightarrow> Ret ()) (\<lambda>_.
       Ret (Reply (text_response OK ''Session terminated'')))"

section \<open>Authentication and routing\<close>

definition unauthorized_response :: "string \<Rightarrow> http_response" where
  "unauthorized_response msg =
     \<lparr>resp_status = UNAUTHORIZED,
      resp_headers = [(''www-authenticate'', ''Bearer realm='' @ dquoted ''CalDAV MCP'')],
      resp_body = msg\<rparr>"

definition bearer_user :: "ext \<Rightarrow> http_request \<Rightarrow> (world, http_response + string) prog" where
  "bearer_user E request =
     bindE (ok_orE (unauthorized_response ''Missing Authorization header'')
              (header_str request ''authorization'')) (\<lambda>auth_header.
     bindE (ok_orE (unauthorized_response ''Invalid authorization scheme, expected Bearer'')
              (strip_prefix auth_header ''Bearer '')) (\<lambda>token.
     bindE (map_errE (\<lambda>_. unauthorized_response ''Token validation failed'') (validate_token E token)) (\<lambda>found.
     ok_orE (unauthorized_response ''Invalid or expired token'') found)))"

definition require_bearer_auth :: "ext \<Rightarrow> http_request \<Rightarrow> (string \<Rightarrow> handler) \<Rightarrow> handler" where
  "require_bearer_auth E request next_handler =
     bind (bearer_user E request) (\<lambda>r.
       case r of Inl resp \<Rightarrow> Ret (Reply resp) | Inr user_id \<Rightarrow> next_handler user_id)"

text \<open>The middleware wraps every route, also the answer to unknown paths and methods; the
  framework answers HEAD with the handler of GET.\<close>

definition mcp_route :: "ext \<Rightarrow> string \<Rightarrow> string list \<Rightarrow> http_request \<Rightarrow> string \<Rightarrow> handler" where
  "mcp_route E tool_mode path request user_id =
     (if path \<noteq> [''mcp''] then Ret (Reply (route_not_found E))
      else if req_method request = ''POST'' then handle_post E tool_mode user_id request
      else if req_method request \<in> {''GET'', ''HEAD''} then handle_mcp_get
      else if req_method request = ''DELETE'' then handle_mcp_delete request
      else Ret (Reply (route_method_not_allowed E)))"

definition mcp_router :: "ext \<Rightarrow> string \<Rightarrow> string list \<Rightarrow> http_request \<Rightarrow> handler" where
  "mcp_router E tool_mode path request =
     require_bearer_auth E request (mcp_route E tool_mode path request)"

lemmas server_defs [op_defs] =
  handle_initialize_def handle_tools_call_def handle_request_def handle_post_def handle_mcp_get_def
  handle_mcp_delete_def bearer_user_def require_bearer_auth_def mcp_route_def mcp_router_def

context tick_invariant
begin

lemma safe_bearer_user [safe_rules]: "safe I (bearer_user E r)"
  unfolding bearer_user_def by (intro safe_rules)

end

context stmt_invariant
begin

lemma safe_handle_initialize [safe_rules]: "safe I (handle_initialize E u r m)"
  unfolding handle_initialize_def by (intro safe_rules)

lemma safe_handle_tools_call [safe_rules]: "safe I (handle_tools_call E u r m)"
  unfolding handle_tools_call_def by (intro safe_rules)

lemma safe_handle_request [safe_rules]: "safe I (handle_request E u r m)"
  unfolding handle_request_def by (intro safe_rules)

lemma safe_handle_post [safe_rules]: "safe I (handle_post E m u r)"
  unfolding handle_post_def by (intro safe_rules)

lemma safe_mcp_route [safe_rules]: "safe I (mcp_route E m path r u)"
  unfolding mcp_route_def handle_mcp_get_def handle_mcp_delete_def by (intro safe_rules)

lemma safe_mcp_router [safe_rules]: "safe I (mcp_router E m path r)"
  unfolding mcp_router_def require_bearer_auth_def by (intro safe_rules)

end

end
