(* ===== verification/Mcp_Properties.thy ===== *)
theory Mcp_Properties
  imports Mcp_Server Object_Store "HOL-Library.Multiset"
begin

text \<open>
  What holds of the MCP interface: authentication, the form of the JSON-RPC answers, the tools'
  agreement with their published schemas, and what the event tools store and return.
\<close>

section \<open>Authentication\<close>

lemma bearer_user_reads: "same_data w (snd (run (bearer_user E r) w))"
  using always_run [OF reading.safe_bearer_user same_data_refl] by blast

lemma strip_prefix_Some: "strip_prefix s p = Some t \<Longrightarrow> s = p @ t"
  by (auto simp: strip_prefix_def starts_with_def split: if_splits) (metis append_take_drop_id)

lemmas run_result = run_bind run_bindE run_okE run_errE run_map_errE run_ok_orE run.simps

text \<open>Apart from the user of a token that validates there is only the 401 answer.\<close>

lemma bearer_user_cases:
  obtains u tok where "fst (run (bearer_user E r) w) = Inr u"
      "header_str r ''authorization'' = Some (''Bearer '' @ tok)" "fst (run (validate_token E tok) w) = Inr (Some u)"
    | resp where "fst (run (bearer_user E r) w) = Inl resp" "resp_status resp = UNAUTHORIZED"
proof (cases "header_str r ''authorization''")
  case None
  then show thesis using that(2) by (simp add: bearer_user_def run_result unauthorized_response_def)
next
  case header: (Some h)
  show thesis
  proof (cases "strip_prefix h ''Bearer ''")
    case None
    with header show thesis using that(2) by (simp add: bearer_user_def run_result unauthorized_response_def)
  next
    case token: (Some tok)
    obtain v w' where "run (validate_token E tok) w = (v, w')" by fastforce
    with header token show thesis
      using that strip_prefix_Some [OF token]
      by (cases v; cases "projr v") (simp_all add: bearer_user_def run_result unauthorized_response_def)
  qed
qed

text \<open>C16: nothing on the MCP port works without a valid token. Unless the Authorization header is
  \<open>Bearer\<close> with a token that validates, every request, to any path and with any method, is
  answered with 401 and leaves all data and sessions as they were, even when the database fails.\<close>

theorem mcp_requires_token:
  assumes "\<forall>tok u. header_str r ''authorization'' = Some (''Bearer '' @ tok) \<longrightarrow>
    fst (run (validate_token E tok) w) \<noteq> Inr (Some u)"
  shows "outcome_status (fst (run (mcp_router E mode path r) w)) = Some UNAUTHORIZED \<and>
    same_data w (snd (run (mcp_router E mode path r) w))"
proof (rule bearer_user_cases [of E r w])
  fix resp
  assume "fst (run (bearer_user E r) w) = Inl resp" "resp_status resp = UNAUTHORIZED"
  then show ?thesis
    using bearer_user_reads [of w E r]
    by (cases "run (bearer_user E r) w") (simp add: mcp_router_def require_bearer_auth_def run_result)
qed (use assms in blast)

theorem mcp_requires_token_witness:
  "outcome_status (fst (run (mcp_router demo_ext ''full'' [''mcp'']
     \<lparr>req_method = ''POST'', req_headers = [(''authorization'', Some ''Basic alice:secret'')], req_body = []\<rparr>) demo_world)) =
     Some UNAUTHORIZED"
  by (rule mcp_requires_token [THEN conjunct1]) (simp add: header_str_def)

section \<open>Tools and their published schemas\<close>

definition tool_names :: "string \<Rightarrow> string list" where
  "tool_names mode = map tool_name (all_tools mode)"

lemma run_required [run_simps]:
  "run (required args k) w =
     (case arg_str args k of None \<Rightarrow> (Inl (''Missing '' @ k), w) | Some s \<Rightarrow> (Inr s, w))"
  by (simp add: required_def run_ok_orE cong: option.case_cong)

lemma tool_names_simps:
  "tool_names ''simple'' = [''add_event'', ''delete_event'', ''list_events'']"
  "mode \<noteq> ''simple'' \<Longrightarrow> tool_names mode =
     [''list_calendars'', ''get_calendar'', ''create_calendar'', ''delete_calendar'', ''create_event'',
      ''get_event'', ''update_event'', ''delete_event'', ''query_events'', ''share_calendar'',
      ''unshare_calendar'', ''list_shared_calendars'']"
  by (simp_all add: tool_names_def all_tools_def calendar_tool_defs_def event_tool_defs_def
      sharing_tool_defs_def simple_tool_defs_def)

text \<open>No error text of a tool begins like the refusal of an unknown tool.\<close>

definition known :: "string + 'a \<Rightarrow> bool" where
  "known r = (case r of Inl e \<Rightarrow> take 7 e \<noteq> ''Unknown'' | Inr _ \<Rightarrow> True)"

named_theorems known_rules \<open>programs whose error texts are those of known tools\<close>

lemma known_bindE [known_rules]:
  "yields known p \<Longrightarrow> (\<And>x. yields known (k x)) \<Longrightarrow> yields known (bindE p k)"
  unfolding bindE_def by (rule always_bind, assumption) (simp add: known_def split: sum.splits)

lemma known_okE [known_rules]: "yields known (okE x)"
  by (simp add: okE_def known_def)

lemma known_ok_orE [known_rules]: "take 7 e \<noteq> ''Unknown'' \<Longrightarrow> yields known (ok_orE e x)"
  by (simp add: ok_orE_def okE_def errE_def known_def split: option.split)

lemma known_required [known_rules]: "yields known (required args k)"
  unfolding required_def by (rule known_ok_orE) simp

lemma known_describe [known_rules]: "take 7 (s @ ''::::::::'') \<noteq> ''Unknown'' \<Longrightarrow> 7 \<le> length s \<Longrightarrow> yields known (describe E s p)"
  unfolding describe_def map_errE_def
  by (rule yields_bind) (simp add: known_def errE_def okE_def split: sum.split)

lemma yields_list [known_rules]:
  "yields Q p \<Longrightarrow> (\<And>x xs. yields Q (q x xs)) \<Longrightarrow> yields Q (case y of [] \<Rightarrow> p | x # xs \<Rightarrow> q x xs)"
  by (cases y) auto

declare yields_bind [known_rules] yields_let [known_rules] yields_option [known_rules] yields_prod [known_rules]

lemma known_helpers [known_rules]:
  "yields known (selected_objects E c args)" "yields known (user_named E n)" "yields known (resolve_calendar E u)"
  unfolding selected_objects_def user_named_def resolve_calendar_def
  by ((intro known_rules) | simp)+

lemma known_tools [known_rules]:
  "yields known (list_calendars_tool E u a)" "yields known (get_calendar_tool E u a)"
  "yields known (create_calendar_tool E u a)" "yields known (delete_calendar_tool E u a)"
  "yields known (create_event E u a)" "yields known (get_event E u a)" "yields known (update_event E u a)"
  "yields known (delete_event E u a)" "yields known (query_events E u a)"
  "yields known (share_calendar_tool E u a)" "yields known (unshare_calendar_tool E u a)"
  "yields known (list_shared_calendars_tool E u a)" "yields known (handle_add E u a)"
  "yields known (handle_simple_delete E u a)" "yields known (handle_list E u a)"
  unfolding list_calendars_tool_def get_calendar_tool_def create_calendar_tool_def
    delete_calendar_tool_def create_event_def get_event_def update_event_def delete_event_def
    query_events_def share_calendar_tool_def unshare_calendar_tool_def
    list_shared_calendars_tool_def handle_add_def handle_simple_delete_def handle_list_def generate_uid_def
  by ((intro known_rules) | simp)+

text \<open>C35: the published tools are exactly the tools that exist. In both modes a call is refused as an
  unknown tool if and only if \<open>tools/list\<close> does not name the tool, and then nothing is changed.\<close>

theorem published_tools_exact:
  "(fst (run (dispatch E u name args mode) w) = Inl (''Unknown tool: '' @ name)) = (name \<notin> set (tool_names mode)) \<and>
   (name \<in> set (tool_names mode) \<or> snd (run (dispatch E u name args mode) w) = w)"
proof (cases "name \<in> set (tool_names mode)")
  case True
  then have "yields known (dispatch E u name args mode)"
    by (cases "mode = ''simple''") (auto simp: tool_names_simps dispatch_def simple_dispatch_def known_tools)
  from yields_run [OF this, of w] True show ?thesis by (auto simp: known_def)
next
  case False
  then have "dispatch E u name args mode = errE (''Unknown tool: '' @ name)"
    by (cases "mode = ''simple''") (simp_all add: tool_names_simps dispatch_def simple_dispatch_def)
  with False show ?thesis by (simp add: run_errE)
qed

text \<open>A program that first takes the named arguments, and stops at the first that is absent.\<close>

definition needs :: "json \<Rightarrow> string list \<Rightarrow> tool \<Rightarrow> bool" where
  "needs args ks p \<longleftrightarrow> (\<forall>w. \<forall>k \<in> set ks. arg_str args k = None \<longrightarrow>
     (\<exists>j \<in> set ks. arg_str args j = None \<and> run p w = (Inl (''Missing '' @ j), w)))"

lemma needs_Nil: "needs args [] p"
  by (simp add: needs_def)

lemma needs_Cons: "(\<And>x. needs args ks (f x)) \<Longrightarrow> needs args (k # ks) (bindE (required args k) f)"
  unfolding needs_def by (cases "arg_str args k") (simp add: run_bindE run_required, fastforce simp: run_bindE run_required)

lemmas needs_rules = needs_Nil needs_Cons

lemma needs_tools:
  "needs args [] (list_calendars_tool E u args)" "needs args [''calendar_id''] (get_calendar_tool E u args)"
  "needs args [''name''] (create_calendar_tool E u args)" "needs args [''calendar_id''] (delete_calendar_tool E u args)"
  "needs args [''calendar_id'', ''title'', ''start'', ''end''] (create_event E u args)"
  "needs args [''calendar_id'', ''event_uid''] (get_event E u args)"
  "needs args [''calendar_id'', ''event_uid'', ''title'', ''start'', ''end''] (update_event E u args)"
  "needs args [''calendar_id'', ''event_uid''] (delete_event E u args)"
  "needs args [''calendar_id''] (query_events E u args)"
  "needs args [''calendar_id'', ''username'', ''permission''] (share_calendar_tool E u args)"
  "needs args [''calendar_id'', ''username''] (unshare_calendar_tool E u args)"
  "needs args [] (list_shared_calendars_tool E u args)"
  "needs args [''title'', ''start'', ''end''] (handle_add E u args)"
  "needs args [''event_uid''] (handle_simple_delete E u args)" "needs args [] (handle_list E u args)"
  unfolding get_calendar_tool_def create_calendar_tool_def
    delete_calendar_tool_def create_event_def get_event_def update_event_def delete_event_def
    query_events_def share_calendar_tool_def unshare_calendar_tool_def
    handle_add_def handle_simple_delete_def
  by (intro needs_rules)+

lemmas schema_simps = schema_required_def json_index_def object_schema_def List.map_filter_def comp_def

text \<open>Names and required arguments of the published tools.\<close>

definition signatures :: "string \<Rightarrow> (string \<times> string list) list" where
  "signatures mode = map (\<lambda>t. (tool_name t, schema_required t)) (all_tools mode)"

lemma signatures_simps:
  "signatures ''simple'' =
     [(''add_event'', [''title'', ''start'', ''end'']), (''delete_event'', [''event_uid'']), (''list_events'', [])]"
  "mode \<noteq> ''simple'' \<Longrightarrow> signatures mode =
     [(''list_calendars'', []), (''get_calendar'', [''calendar_id'']), (''create_calendar'', [''name'']),
      (''delete_calendar'', [''calendar_id'']),
      (''create_event'', [''calendar_id'', ''title'', ''start'', ''end'']),
      (''get_event'', [''calendar_id'', ''event_uid'']),
      (''update_event'', [''calendar_id'', ''event_uid'', ''title'', ''start'', ''end'']),
      (''delete_event'', [''calendar_id'', ''event_uid'']), (''query_events'', [''calendar_id'']),
      (''share_calendar'', [''calendar_id'', ''username'', ''permission'']),
      (''unshare_calendar'', [''calendar_id'', ''username'']), (''list_shared_calendars'', [])]"
  by (simp_all add: signatures_def all_tools_def tool_defs_defs schema_simps)

lemma needs_signature:
  assumes "(name, ks) \<in> set (signatures mode)"
  shows "needs args ks (dispatch E u name args mode)"
proof (cases "mode = ''simple''")
  case True
  then show ?thesis
    using assms by (auto simp: signatures_simps) (simp_all add: dispatch_def simple_dispatch_def needs_tools)
next
  case False
  then show ?thesis
    using assms by (auto simp: signatures_simps) (simp_all add: dispatch_def needs_tools)
qed

text \<open>C34: the \<open>required\<close> lists of the published schemas are enforced. When an argument that the schema of
  a tool requires is absent or not a string, the call ends with the error \<open>Missing\<close> for a required
  argument and the state is untouched: nothing is half done, and no database call was made.\<close>

theorem required_arguments_enforced:
  assumes "t \<in> set (all_tools mode)" "k \<in> set (schema_required t)" "arg_str args k = None"
  shows "\<exists>j \<in> set (schema_required t). arg_str args j = None \<and>
    run (dispatch E u (tool_name t) args mode) w = (Inl (''Missing '' @ j), w)"
proof -
  have "(tool_name t, schema_required t) \<in> set (signatures mode)"
    using assms(1) by (simp add: signatures_def image_iff) blast
  from needs_signature [OF this, of args E u] assms(2,3) show ?thesis unfolding needs_def by blast
qed

theorem required_arguments_enforced_witness:
  "run (dispatch demo_ext ''u1'' ''share_calendar'' (JObject [(''calendar_id'', JString ''work''),
      (''username'', JString ''bob'')]) ''full'') demo_world = (Inl ''Missing permission'', demo_world)"
proof -
  let ?args = "JObject [(''calendar_id'', JString ''work''), (''username'', JString ''bob'')]"
  have "hd sharing_tool_defs \<in> set (all_tools ''full'')"
    by (simp add: all_tools_def sharing_tool_defs_def)
  moreover have "''permission'' \<in> set (schema_required (hd sharing_tool_defs))"
    by (simp add: sharing_tool_defs_def schema_simps)
  moreover have "arg_str ?args ''permission'' = None" by (simp add: arg_str_def json_index_def)
  ultimately obtain j where "j \<in> set (schema_required (hd sharing_tool_defs))" "arg_str ?args j = None"
      "run (dispatch demo_ext ''u1'' (tool_name (hd sharing_tool_defs)) ?args ''full'') demo_world = (Inl (''Missing '' @ j), demo_world)"
    using required_arguments_enforced by blast
  then show ?thesis by (auto simp: sharing_tool_defs_def arg_str_def schema_simps)
qed

section \<open>JSON-RPC answers\<close>

text \<open>An answer to \<open>q\<close> as JSON-RPC 2.0 wants it: the version, the id of the request, and either a
  result or an error.\<close>

definition answers :: "JsonRpcRequest \<Rightarrow> json \<Rightarrow> bool" where
  "answers q a \<longleftrightarrow> json_get a ''jsonrpc'' = Some (JString ''2.0'') \<and> json_get a ''id'' = rpc_id q \<and>
     (json_get a ''result'' = None) = (json_get a ''error'' \<noteq> None)"

lemma answers_success [simp]: "answers q (rpc_success (rpc_id q) v)"
  by (simp add: answers_def rpc_success_def id_member_def split: option.split)

lemma answers_error [simp]: "answers q (rpc_error (rpc_id q) c m)"
  by (simp add: answers_def rpc_error_def id_member_def split: option.split)

definition rpc_answer_ok :: "JsonRpcRequest \<Rightarrow> json \<Rightarrow> bool" where
  "rpc_answer_ok q a = (if rpc_method q = ''notifications/initialized'' then a = JNull else answers q a)"

lemma handle_request_answers: "yields (rpc_answer_ok q) (handle_request E u q mode)"
  unfolding handle_request_def handle_initialize_def handle_tools_call_def Let_def
  by (auto simp: rpc_answer_ok_def handle_tools_list_def Json.method_not_found_def invalid_params_def
      intro!: yields_bind split: option.split)

definition post_answer_ok :: "ext \<Rightarrow> JsonRpcRequest \<Rightarrow> outcome \<Rightarrow> bool" where
  "post_answer_ok E q r =
     (case r of
        Panic \<Rightarrow> rpc_method q = ''initialize''
      | Reply resp \<Rightarrow>
          if rpc_id q = None then resp_status resp = ACCEPTED \<and> resp_body resp = []
          else resp_status resp = OK \<and> (''content-type'', ''application/json'') \<in> set (resp_headers resp) \<and>
               (\<exists>a. resp_body resp = json_vec E a \<and> rpc_answer_ok q a))"



text \<open>The session that \<open>initialize\<close> creates is not reported to the client. The session is entered
  into the table under a fresh id, but the transport looks the table up by the user's id, so as long
  as no session id equals a user id the answer has no \<open>Mcp-Session-Id\<close> header.\<close>

theorem initialize_session_unreported:
  assumes "to_bytes E (req_body r) (1024 * 1024) = Some body" "rpc_from_slice E body = Inr q"
    and "rpc_method q = ''initialize''" "rpc_id q \<noteq> None"
    and "map_of (mcp_sessions w) u = None" "uuid_v4 E (ticks w) \<noteq> u" "headers_sound E"
  shows "\<exists>doc. run (handle_post E mode u r) w =
    (Reply \<lparr>resp_status = OK, resp_headers = json_headers, resp_body = doc\<rparr>,
     (tick w)\<lparr>mcp_sessions := insert_session (uuid_v4 E (ticks w)) u (mcp_sessions w)\<rparr>)"
proof -
  have "header_value_ok E ''application/json''"
    using assms(7) by (simp add: headers_sound_def printable_def)
  moreover obtain i where "rpc_id q = Some i" using assms(4) by blast
  ultimately show ?thesis
    using assms(1-3,5,6)
    by (simp add: handle_post_def handle_request_def handle_initialize_def run_simps map_of_insert_session
        built_def json_headers_def)
qed

definition demo_initialize :: JsonRpcRequest where
  "demo_initialize =
     \<lparr>rpc_jsonrpc = ''2.0'', rpc_id = Some (JString ''1''), rpc_method = ''initialize'', rpc_params = JNull\<rparr>"

theorem initialize_session_unreported_witness:
  "let E = demo_ext\<lparr>rpc_from_slice := \<lambda>b. Inr demo_initialize\<rparr>;
       (resp, w') = run (handle_post E ''full'' ''u1'' \<lparr>req_method = ''POST'', req_headers = [], req_body = ''{}''\<rparr>) demo_world
   in length (mcp_sessions w') = Suc (length (mcp_sessions demo_world)) \<and>
      (\<forall>x. resp = Reply x \<longrightarrow> resp_headers x = json_headers)"
proof -
  let ?E = "demo_ext\<lparr>rpc_from_slice := \<lambda>b. Inr demo_initialize\<rparr>"
  let ?r = "\<lparr>req_method = ''POST'', req_headers = [], req_body = ''{}''\<rparr>"
  have "headers_sound ?E" using demo_headers_sound by (simp add: headers_sound_def)
  then have "\<exists>doc. run (handle_post ?E ''full'' ''u1'' ?r) demo_world =
      (Reply \<lparr>resp_status = OK, resp_headers = json_headers, resp_body = doc\<rparr>,
       (tick demo_world)\<lparr>mcp_sessions := insert_session (uuid_v4 ?E (ticks demo_world)) ''u1'' (mcp_sessions demo_world)\<rparr>)"
    by (intro initialize_session_unreported [where body = "''{}''" and q = demo_initialize])
      (simp_all add: demo_ext_def demo_initialize_def demo_defs)
  then show ?thesis by (auto simp: insert_session_def demo_defs)
qed

section \<open>Events through the tools\<close>

text \<open>The arguments of the two event tools as a client sends them.\<close>

definition event_args :: "string \<Rightarrow> string \<Rightarrow> string \<Rightarrow> string \<Rightarrow> json" where
  "event_args cid title start stop =
     JObject [(''calendar_id'', JString cid), (''title'', JString title), (''start'', JString start), (''end'', JString stop)]"

definition uid_args :: "string \<Rightarrow> string \<Rightarrow> json" where
  "uid_args cid uid = JObject [(''calendar_id'', JString cid), (''event_uid'', JString uid)]"

definition update_args :: "string \<Rightarrow> string \<Rightarrow> string \<Rightarrow> string \<Rightarrow> string \<Rightarrow> json" where
  "update_args cid uid title start stop =
     JObject [(''calendar_id'', JString cid), (''event_uid'', JString uid), (''title'', JString title),
       (''start'', JString start), (''end'', JString stop)]"

lemma update_args_simps [simp]:
  "arg_str (update_args c i t s e) ''calendar_id'' = Some c" "arg_str (update_args c i t s e) ''event_uid'' = Some i"
  "arg_str (update_args c i t s e) ''title'' = Some t" "arg_str (update_args c i t s e) ''start'' = Some s"
  "arg_str (update_args c i t s e) ''end'' = Some e" "arg_str (update_args c i t s e) ''description'' = None"
  "arg_str (update_args c i t s e) ''location'' = None" "arg_str (update_args c i t s e) ''timezone'' = None"
  by (simp_all add: arg_str_def json_index_def update_args_def)

lemma arg_str_simps [simp]:
  "arg_str (event_args c t s e) ''calendar_id'' = Some c" "arg_str (event_args c t s e) ''title'' = Some t"
  "arg_str (event_args c t s e) ''start'' = Some s" "arg_str (event_args c t s e) ''end'' = Some e"
  "arg_str (event_args c t s e) ''description'' = None" "arg_str (event_args c t s e) ''location'' = None"
  "arg_str (event_args c t s e) ''timezone'' = None"
  "arg_str (uid_args c u) ''calendar_id'' = Some c" "arg_str (uid_args c u) ''event_uid'' = Some u"
  by (simp_all add: arg_str_def json_index_def event_args_def uid_args_def)

lemma run_describe [run_simps]:
  "run (describe E s p) w = (case run p w of
     (Inl e, w') \<Rightarrow> (Inl (s @ '': '' @ error_to_string (sqlx_display E) e), w') | (Inr x, w') \<Rightarrow> (Inr x, w'))"
  by (simp add: describe_def run_map_errE split: prod.splits sum.splits)

abbreviation plain_vevent :: "string \<Rightarrow> string \<Rightarrow> string \<Rightarrow> string \<Rightarrow> string \<Rightarrow> string" where
  "plain_vevent now uid title start stop \<equiv> build_vevent now uid title start stop None None None"

lemma run_create_event:
  assumes "no_faults E" "ids_fresh E w" "calendar_exists w cid" "uid = uid_of (uuid_v4 E (ticks w))" "lookup_object w cid uid = None"
  shows "run (create_event E u (event_args cid title start stop)) w =
    (Inr (JObject [(''uid'', JString uid), (''calendar_id'', JString cid), (''title'', JString title),
        (''start'', JString start), (''end'', JString stop), (''etag'', JString (etag_of (uuid_v4 E (ticks w + 3))))]),
     inserted E (tick (tick w)) cid uid (plain_vevent (utc_stamp E (Suc (ticks w))) uid title start stop)
       (event_fields title start stop))"
proof -
  have "ids_fresh E (tick (tick w))" "calendar_exists (tick (tick w)) cid" "lookup_object (tick (tick w)) cid uid = None"
    using assms by (simp_all add: ids_fresh_tick lookup_object_def)
  note stored = run_upsert_new [OF assms(1) this(2,3,1)]
  have "o_uid (new_object E t cid uid d fs) = uid" for t d fs
    by (simp add: new_object_def)
  then show ?thesis
    by (simp add: assms(4) [symmetric] create_event_def generate_uid_def run_result run_draw run_required run_describe stored Let_def
        del: tick_simps(9)) (simp add: eval_nat_numeral)
qed

lemma run_get_event:
  assumes "no_faults E"
  shows "run (get_event E u (uid_args cid uid)) w =
    (case lookup_object w cid uid of
       None \<Rightarrow> Inl ''Event not found''
     | Some obj \<Rightarrow> Inr (JObject
         [(''uid'', JString (o_uid obj)), (''calendar_id'', JString (o_calendar_id obj)),
          (''summary'', json_opt_str (o_summary obj)), (''dtstart'', json_opt_str (o_dtstart obj)),
          (''dtend'', json_opt_str (o_dtend obj)), (''etag'', JString (o_etag obj)),
          (''ical_data'', JString (o_ical_data obj))]), tick w)"
  using assms by (simp add: get_event_def run_result run_required run_describe run_get_object split: option.split)

lemma run_delete_event:
  assumes "no_faults E" "calendar_exists w cid" "lookup_object w cid uid = Some obj"
  shows "run (delete_event E u (uid_args cid uid)) w =
    (Inr (JObject [(''deleted'', JBool True), (''event_uid'', JString uid)]), removed E w cid uid)"
  using run_delete_found [OF assms] by (simp add: delete_event_def run_result run_required run_describe)

lemma run_update_event:
  assumes "no_faults E" "calendar_exists w cid" "lookup_object w cid uid = Some obj"
  shows "run (update_event E u (update_args cid uid title start stop)) w =
    (Inr (JObject [(''uid'', JString (o_uid obj)), (''calendar_id'', JString cid), (''title'', JString title),
        (''etag'', JString (etag_of (uuid_v4 E (ticks w + 3)))), (''updated'', JBool True)]),
     updated E (tick (tick w)) cid uid (plain_vevent (utc_stamp E (Suc (ticks w))) uid title start stop)
       (event_fields title start stop))"
proof -
  have "calendar_exists (tick (tick w)) cid" "lookup_object (tick (tick w)) cid uid = Some obj"
    using assms(2,3) by (simp_all add: lookup_object_def)
  note stored = run_upsert_old [OF assms(1) this]
  have "o_uid (changed_object E t d fs ob) = o_uid ob" for t d fs ob by simp
  then show ?thesis
    using assms(3)
    by (simp add: update_event_def run_result run_draw run_required run_describe run_get_object [OF assms(1)] stored Let_def
        del: tick_simps(9)) (simp add: eval_nat_numeral)
qed

text \<open>What \<open>get_event\<close> says of an event that the tools wrote.\<close>

definition shows_event :: "string + json \<Rightarrow> string \<Rightarrow> string \<Rightarrow> string \<Rightarrow> string \<Rightarrow> string \<Rightarrow> bool" where
  "shows_event r uid title start stop text \<longleftrightarrow>
     (\<exists>doc. r = Inr doc \<and> json_get doc ''uid'' = Some (JString uid) \<and> json_get doc ''summary'' = Some (JString title) \<and>
        json_get doc ''dtstart'' = Some (JString start) \<and> json_get doc ''dtend'' = Some (JString stop) \<and>
        json_get doc ''ical_data'' = Some (JString text))"

lemma get_event_shows:
  assumes "no_faults E" "lookup_object w cid uid = Some obj" "o_uid obj = uid" "object_value obj = (text, event_fields title start stop)"
  shows "shows_event (fst (run (get_event E u (uid_args cid uid)) w)) uid title start stop text"
  using assms by (simp add: run_get_event shows_event_def object_value_def event_fields_def json_opt_str_def)

text \<open>C31: the life of an event under the tools. In a calendar that exists \<open>create_event\<close> succeeds with a
  new UID, and \<open>get_event\<close> with it returns the title, the times and the iCalendar text built from
  them; after \<open>update_event\<close> with another title and other times it returns those, under the same UID;
  after \<open>delete_event\<close> it answers \<open>Event not found\<close>, and an update is refused without effect.\<close>

theorem event_tools_life:
  assumes "no_faults E" "ids_fresh E w" "calendar_exists w cid" "lookup_object w cid (uid_of (uuid_v4 E (ticks w))) = None"
  shows "let uid = uid_of (uuid_v4 E (ticks w));
      (created, w1) = run (create_event E u (event_args cid title start stop)) w;
      (changed, w2) = run (update_event E u' (update_args cid uid title' start' stop')) w1;
      (deleted, w3) = run (delete_event E u' (uid_args cid uid)) w2
    in (\<exists>v. created = Inr v \<and> json_get v ''uid'' = Some (JString uid)) \<and>
       (\<exists>now. shows_event (fst (run (get_event E u' (uid_args cid uid)) w1)) uid title start stop
         (plain_vevent now uid title start stop)) \<and>
       (\<exists>v. changed = Inr v \<and> json_get v ''updated'' = Some (JBool True)) \<and>
       (\<exists>now. shows_event (fst (run (get_event E u' (uid_args cid uid)) w2)) uid title' start' stop'
         (plain_vevent now uid title' start' stop')) \<and>
       deleted = Inr (JObject [(''deleted'', JBool True), (''event_uid'', JString uid)]) \<and>
       fst (run (get_event E u' (uid_args cid uid)) w3) = Inl ''Event not found'' \<and>
       run (update_event E u' (update_args cid uid title' start' stop')) w3 = (Inl ''Event not found'', tick w3)"
proof -
  define uid where "uid = uid_of (uuid_v4 E (ticks w))"
  define d1 where "d1 = plain_vevent (utc_stamp E (Suc (ticks w))) uid title start stop"
  define w1 where "w1 = inserted E (tick (tick w)) cid uid d1 (event_fields title start stop)"
  define d2 where "d2 = plain_vevent (utc_stamp E (Suc (ticks w1))) uid title' start' stop'"
  define w2 where "w2 = updated E (tick (tick w1)) cid uid d2 (event_fields title' start' stop')"
  define o1 where "o1 = new_object E (ticks (tick (tick w))) cid uid d1 (event_fields title start stop)"
  define o2 where "o2 = changed_object E (ticks (tick (tick w1))) d2 (event_fields title' start' stop') o1"
  have "lookup_object (tick (tick w)) cid uid = None" using assms(4) by (simp add: uid_def lookup_object_def)
  then have f1: "lookup_object w1 cid uid = Some o1" "calendar_exists w1 cid"
    using assms(3) by (simp_all add: w1_def o1_def lookup_inserted)
  then have "lookup_object (tick (tick w1)) cid uid = Some o1" by (simp add: lookup_object_def)
  then have f2: "lookup_object w2 cid uid = Some o2" "calendar_exists w2 cid"
    using f1(2) by (simp_all add: w2_def o2_def lookup_updated)
  have obs: "o_uid o1 = uid" "o_uid o2 = uid" "object_value o1 = (d1, event_fields title start stop)"
      "object_value o2 = (d2, event_fields title' start' stop')"
    by (simp_all add: o1_def o2_def new_object_def object_value_def changed_object_def)
  have gone: "lookup_object (removed E w2 cid uid) cid uid = None" by (simp add: lookup_removed)
  have refused: "run (update_event E u' (update_args cid uid title' start' stop')) (removed E w2 cid uid) =
      (Inl ''Event not found'', tick (removed E w2 cid uid))"
    by (simp add: update_event_def run_result run_required run_describe run_get_object [OF assms(1)] gone)
  have "run (create_event E u (event_args cid title start stop)) w =
      (Inr (JObject [(''uid'', JString uid), (''calendar_id'', JString cid), (''title'', JString title),
        (''start'', JString start), (''end'', JString stop), (''etag'', JString (etag_of (uuid_v4 E (ticks w + 3))))]), w1)"
    using run_create_event [OF assms(1-3) uid_def] assms(4) by (simp add: w1_def d1_def flip: uid_def)
  moreover have "run (update_event E u' (update_args cid uid title' start' stop')) w1 =
      (Inr (JObject [(''uid'', JString uid), (''calendar_id'', JString cid), (''title'', JString title'),
        (''etag'', JString (etag_of (uuid_v4 E (ticks w1 + 3)))), (''updated'', JBool True)]), w2)"
    using run_update_event [OF assms(1) f1(2,1)] obs(1) by (simp add: w2_def d2_def)
  ultimately show ?thesis
    using run_delete_event [OF assms(1) f2(2,1), of u'] refused run_get_event [OF assms(1), of u' cid uid "removed E w2 cid uid"] gone
      get_event_shows [OF assms(1) f1(1) obs(1,3), of u'] get_event_shows [OF assms(1) f2(1) obs(2,4), of u']
    unfolding d1_def d2_def by (auto simp: Let_def simp flip: uid_def)
qed

theorem event_tools_life_witness:
  "let args = uid_args ''work'' (uid_of ''u'');
       w1 = snd (run (create_event demo_ext ''u1'' (event_args ''work'' ''Lunch'' ''20260302T120000'' ''20260302T130000'')) demo_world);
       w2 = snd (run (update_event demo_ext ''u2'' (update_args ''work'' (uid_of ''u'') ''Brunch'' ''20260302T100000'' ''20260302T110000'')) w1);
       w3 = snd (run (delete_event demo_ext ''u2'' args) w2)
   in fst (run (get_event demo_ext ''u2'' args) w3) = Inl ''Event not found''"
proof -
  have uid: "uuid_v4 demo_ext (ticks demo_world) = ''u''" by (simp add: demo_ext_def demo_defs)
  have "calendar_exists demo_world ''work''" by (simp add: demo_world_calendars)
  moreover have "lookup_object demo_world ''work'' (uid_of (uuid_v4 demo_ext (ticks demo_world))) = None"
    by (simp add: uid uid_of_def lookup_object_def demo_defs)
  ultimately show ?thesis
    using event_tools_life [OF demo_no_faults demo_world_fresh, of "''work''" "''u1''" "''Lunch''"
        "''20260302T120000''" "''20260302T130000''" "''u2''" "''Brunch''" "''20260302T100000''" "''20260302T110000''"]
    unfolding uid Let_def case_prod_beta by blast
qed

text \<open>Which objects the arguments of a query select.\<close>

definition selects :: "json \<Rightarrow> string \<Rightarrow> CalendarObject \<Rightarrow> bool" where
  "selects args cid ob \<longleftrightarrow> o_calendar_id ob = cid \<and>
     (case (arg_str args ''start'', arg_str args ''end'') of (Some s, Some e) \<Rightarrow> in_range s e ob | _ \<Rightarrow> True)"

lemma run_selected_objects:
  "no_faults E \<Longrightarrow> run (selected_objects E cid args) w =
     (Inr (sort_key o_dtstart (filter (selects args cid) (db_objects w))), tick w)"
  by (simp add: selected_objects_def selects_def [abs_def] list_objects_def list_objects_in_range_def run_describe run_select objects_of_def
      filter_filter conj_commute split: option.split)



end
