(* ===== verification/Ical_Properties.thy ===== *)
theory Ical_Properties
  imports Ical_Builder
begin

text \<open>
  The builder and the parser of iCalendar text agree: the fields stored beside an event that the
  tools build are those the parser finds in its text.
\<close>

section \<open>Prefixes, computed from the left\<close>

lemma starts_with_simps [simp]:
  "starts_with s []" "\<not> starts_with [] (c # p)" "starts_with (x # s) (c # p) \<longleftrightarrow> x = c \<and> starts_with s p"
  by (simp_all add: starts_with_def)

lemma strip_prefix_simps [simp]:
  "strip_prefix s [] = Some s" "strip_prefix [] (c # p) = None"
  "strip_prefix (x # s) (c # p) = (if x = c then strip_prefix s p else None)"
  by (simp_all add: strip_prefix_def starts_with_def)

section \<open>Lines\<close>

lemma raw_lines_line: "nl \<notin> set l \<Longrightarrow> raw_lines (l @ nl # rest) = (l @ [nl]) # raw_lines rest"
  by (induction l) (auto split: list.split)

lemma strip_eol_crlf: "strip_eol (l @ [cr, nl]) = l"
  by (simp add: strip_eol_def strip_suffix_def ends_with_def)

lemma str_lines_crlf: "nl \<notin> set l \<Longrightarrow> str_lines (l @ cr # nl # rest) = l # str_lines rest"
  using raw_lines_line [of "l @ [cr]" rest] strip_eol_crlf [of l] by (simp add: str_lines_def)

lemma str_lines_all:
  "(\<forall>l \<in> set ls. nl \<notin> set l) \<Longrightarrow> str_lines (concat (map (\<lambda>l. l @ [cr, nl]) ls)) = ls"
proof (induction ls)
  case Nil
  then show ?case by (simp add: str_lines_def)
next
  case (Cons l ls)
  then show ?case using str_lines_crlf [of l] by simp
qed

lemma join_terminated: "ls \<noteq> [] \<Longrightarrow> join ls sep @ sep = concat (map (\<lambda>l. l @ sep) ls)"
  by (induction ls sep rule: join.induct) auto

text \<open>A line that is not empty and does not start with a space or a tab, also without the
  carriage returns at its end.\<close>

definition content_line :: "string \<Rightarrow> bool" where
  "content_line l \<longleftrightarrow> (case trim_end_matches l [cr] of [] \<Rightarrow> False | c # _ \<Rightarrow> c \<noteq> CHR '' '' \<and> c \<noteq> tab)"

lemma unfold_loop_content:
  "list_all content_line ls \<Longrightarrow> unfold_loop ls result current =
     (if current = [] then result else result @ [current]) @ map (\<lambda>l. trim_end_matches l [cr]) ls"
  by (induction ls arbitrary: result current) (auto simp: content_line_def split: list.splits)

lemma unfold_lines_built:
  assumes "\<forall>l \<in> set ls. nl \<notin> set l" "list_all content_line ls" "ls \<noteq> []"
  shows "unfold_lines (join ls [cr, nl] @ [cr, nl]) = map (\<lambda>l. trim_end_matches l [cr]) ls"
  unfolding unfold_lines_def join_terminated [OF assms(3)] str_lines_all [OF assms(1)]
  using unfold_loop_content [OF assms(2)] by simp

section \<open>Trimming behind a colon\<close>

lemma ends_with_iff: "ends_with s u \<longleftrightarrow> (\<exists>v. s = v @ u)"
proof
  assume "ends_with s u"
  then have "s = take (length s - length u) s @ u"
    unfolding ends_with_def by (metis append_take_drop_id)
  then show "\<exists>v. s = v @ u" ..
qed (auto simp: ends_with_def)

lemma ends_with_colon: "CHR '':'' \<notin> set u \<Longrightarrow> ends_with (p @ CHR '':'' # s) u \<longleftrightarrow> ends_with s u"
  by (auto simp: ends_with_iff append_eq_append_conv2 Cons_eq_append_conv)

lemma ws_units_colon: "u \<in> set ws_units \<Longrightarrow> CHR '':'' \<notin> set u \<and> u \<noteq> []"
  by (auto simp: ws_units_def)

lemma find_ws_colon:
  "find (\<lambda>u. ends_with (p @ CHR '':'' # s) u) ws_units = find (\<lambda>u. ends_with s u) ws_units"
  by (rule find_cong) (simp_all add: ends_with_colon ws_units_colon)

lemma trim_end_colon: "trim_end (p @ CHR '':'' # s) = p @ CHR '':'' # trim_end s"
proof (induction s rule: length_induct)
  case (1 s)
  show ?case
  proof (cases "find (\<lambda>u. ends_with s u) ws_units")
    case None
    then show ?thesis by (simp add: trim_end.simps [of s] trim_end.simps [of "p @ CHR '':'' # s"] find_ws_colon)
  next
    case (Some u)
    then have u: "ends_with s u" "u \<noteq> []" "s \<noteq> []"
      using find_SomeD [OF Some] ws_units_colon [of u] by (auto simp: ends_with_def)
    then have "length (take (length s - length u) s) < length s" "length u \<le> length s"
      by (auto simp: ends_with_def min_def)
    then show ?thesis
      using 1 Some u
      by (simp add: trim_end.simps [of s] trim_end.simps [of "p @ CHR '':'' # s"] find_ws_colon Suc_diff_le)
  qed
qed

lemma trim_end_matches_colon:
  "trim_end_matches (p @ CHR '':'' # s) [cr] = p @ CHR '':'' # trim_end_matches s [cr]"
proof (induction s rule: rev_induct)
  case Nil
  show ?case
    by (simp add: trim_end_matches.simps [of "[]"] trim_end_matches.simps [of "p @ [CHR '':'']"] ends_with_def)
next
  case (snoc c s)
  then show ?case
    by (simp add: trim_end_matches.simps [of "s @ [c]"] trim_end_matches.simps [of "p @ CHR '':'' # s @ [c]"] ends_with_def)
qed

lemma find_ws_Some: "find (\<lambda>u. ends_with s u) ws_units = Some u \<Longrightarrow> u \<noteq> [] \<and> s \<noteq> []"
  using find_SomeD [of "\<lambda>u. ends_with s u" ws_units u] ws_units_colon [of u] by (auto simp: ends_with_def)

lemma trim_end_step:
  "find (\<lambda>u. ends_with s u) ws_units = Some u \<Longrightarrow> trim_end s = trim_end (take (length s - length u) s)"
  using find_ws_Some [of s u] by (subst trim_end.simps) simp

lemma trim_end_none: "find (\<lambda>u. ends_with s u) ws_units = None \<Longrightarrow> trim_end s = s"
  by (subst trim_end.simps) simp

lemma length_trim_end: "length (trim_end s) \<le> length s"
proof (induction s rule: length_induct)
  case (1 s)
  show ?case
  proof (cases "find (\<lambda>u. ends_with s u) ws_units")
    case None
    then show ?thesis by (simp add: trim_end_none)
  next
    case (Some u)
    let ?t = "take (length s - length u) s"
    have "length ?t < length s" using find_ws_Some [OF Some] by simp
    then show ?thesis using 1 trim_end_step [OF Some] by fastforce
  qed
qed

lemma trim_end_matches_tidy:
  assumes "trim_end s = s"
  shows "trim_end_matches s [cr] = s"
proof (cases "find (\<lambda>u. ends_with s u) ws_units")
  case None
  moreover have "[cr] \<in> set ws_units" by (simp add: ws_units_def)
  ultimately have "\<not> ends_with s [cr]" using find_NoneD by fastforce
  then show ?thesis by (simp add: trim_end_matches.simps [of s])
next
  case (Some u)
  let ?t = "take (length s - length u) s"
  have "length ?t < length s" using find_ws_Some [OF Some] by simp
  then have "length (trim_end s) < length s" using length_trim_end [of ?t] trim_end_step [OF Some] by simp
  with assms show ?thesis by simp
qed

section \<open>The lines of a built event\<close>

text \<open>A line with its value; what the parser reads of it; and texts that it reads unchanged.\<close>

definition ln :: "string \<Rightarrow> string \<Rightarrow> string" where
  "ln p v = p @ CHR '':'' # v"

definition tidied :: "string \<Rightarrow> string" where
  "tidied v = trim_end (trim_end_matches v [cr])"

definition tidy :: "string \<Rightarrow> bool" where
  "tidy v \<longleftrightarrow> nl \<notin> set v \<and> trim_end v = v"

abbreviation visible :: "char \<Rightarrow> bool" where
  "visible c \<equiv> byte_in 0x21 0x7E c"

lemma tidied_tidy [simp]: "tidy v \<Longrightarrow> tidied v = v"
  by (simp add: tidied_def tidy_def trim_end_matches_tidy)

lemma ws_units_head: "u \<in> set ws_units \<Longrightarrow> \<not> visible (hd u)"
  by (auto simp: ws_units_def)

lemma find_ws_visible: "visible c \<Longrightarrow> find (\<lambda>u. starts_with (c # s) u) ws_units = None"
  using ws_units_head ws_units_colon
  by (auto simp: find_None_iff starts_with_def take_Cons split: nat.splits) fastforce

lemma trim_start_visible: "visible c \<Longrightarrow> trim_start (c # s) = c # s"
  by (subst trim_start.simps) (simp add: find_ws_visible)

lemma trim_line: "visible c \<Longrightarrow> trim (trim_end_matches (ln (c # p) v) [cr]) = ln (c # p) (tidied v)"
  using trim_end_matches_colon [of "c # p" v] trim_end_colon [of "c # p" "trim_end_matches v [cr]"]
  by (simp add: trim_def ln_def tidied_def trim_start_visible)

lemma content_line_ln: "visible c \<Longrightarrow> content_line (ln (c # p) v)"
  using trim_end_matches_colon [of "c # p" v] by (auto simp: content_line_def ln_def)

lemma vevent_lines_ln:
  "vevent_lines now uid summary dtstart dtend description location timezone =
     [ln ''BEGIN'' ''VCALENDAR'', ln ''VERSION'' ''2.0'', ln ''PRODID'' ''-//CalDAV Server//EN''] @
     (case timezone of None \<Rightarrow> [] | Some tz \<Rightarrow>
       [ln ''BEGIN'' ''VTIMEZONE'', ln ''TZID'' tz, ln ''BEGIN'' ''STANDARD'', ln ''DTSTART'' ''19671029T020000'',
        ln ''RRULE'' ''FREQ=YEARLY;BYDAY=1SU;BYMONTH=11'', vtimezone_std_offset tz, vtimezone_dst_offset tz,
        ln ''END'' ''STANDARD'', ln ''BEGIN'' ''DAYLIGHT'', ln ''DTSTART'' ''20070311T020000'',
        ln ''RRULE'' ''FREQ=YEARLY;BYDAY=2SU;BYMONTH=3'', vtimezone_dst_offset tz, vtimezone_std_offset tz,
        ln ''END'' ''DAYLIGHT'', ln ''END'' ''VTIMEZONE'']) @
     [ln ''BEGIN'' ''VEVENT'', ln ''UID'' uid, ln ''DTSTAMP'' now] @
     (case timezone of
        Some tz \<Rightarrow> [ln (''DTSTART;TZID='' @ tz) dtstart, ln (''DTEND;TZID='' @ tz) dtend]
      | None \<Rightarrow> [ln ''DTSTART'' dtstart, ln ''DTEND'' dtend]) @
     [ln ''SUMMARY'' summary] @
     (case description of Some d \<Rightarrow> [ln ''DESCRIPTION'' d] | None \<Rightarrow> []) @
     (case location of Some l \<Rightarrow> [ln ''LOCATION'' l] | None \<Rightarrow> []) @
     [ln ''END'' ''VEVENT'', ln ''END'' ''VCALENDAR'']"
  by (simp add: vevent_lines_def vtimezone_lines_def ln_def split: option.split)

lemma vtimezone_offset_ln:
  "\<exists>v. vtimezone_std_offset tz = ln ''TZOFFSETFROM'' v \<and> nl \<notin> set v"
  "\<exists>v. vtimezone_dst_offset tz = ln ''TZOFFSETTO'' v \<and> nl \<notin> set v"
  by (simp_all add: vtimezone_std_offset_def vtimezone_dst_offset_def ln_def)

text \<open>What the parser does with a line that it has trimmed.\<close>

definition line_step :: "bool \<times> IcalFields \<Rightarrow> string \<Rightarrow> bool \<times> IcalFields" where
  "line_step st line =
     (let (in_component, fs) = enter_component line st
      in if \<not> in_component \<and> \<not> starts_with line ''UID'' then (in_component, fs)
         else (in_component, read_property line fs))"

lemma field_step_ln:
  "visible c \<Longrightarrow> field_step st (trim_end_matches (ln (c # p) v) [cr]) = line_step st (ln (c # p) (tidied v))"
  by (simp add: field_step_def line_step_def trim_line Let_def)

lemma split_once_colon: "CHR '':'' \<notin> set a \<Longrightarrow> split_once (a @ CHR '':'' # b) CHR '':'' = Some (a, b)"
  by (induction a) auto

lemmas line_step_simps = line_step_def enter_component_def read_property_def extract_property_def ln_def

lemma line_step_ignored:
  "line_step (False, fs) (ln ''VERSION'' v) = (False, fs)" "line_step (False, fs) (ln ''PRODID'' v) = (False, fs)"
  "line_step (False, fs) (ln ''TZID'' v) = (False, fs)" "line_step (False, fs) (ln ''RRULE'' v) = (False, fs)"
  "line_step (False, fs) (ln ''DTSTART'' v) = (False, fs)"
  "line_step (False, fs) (ln ''TZOFFSETFROM'' v) = (False, fs)" "line_step (False, fs) (ln ''TZOFFSETTO'' v) = (False, fs)"
  by (simp_all add: line_step_simps)

lemma line_step_read:
  "line_step (True, fs) (ln ''UID'' v) = (True, fs\<lparr>i_uid := Some v\<rparr>)"
  "line_step (True, fs) (ln ''DTSTAMP'' v) = (True, fs)"
  "line_step (True, fs) (ln ''DTSTART'' v) = (True, fs\<lparr>i_dtstart := Some v\<rparr>)"
  "line_step (True, fs) (ln ''DTEND'' v) = (True, fs\<lparr>i_dtend := Some v\<rparr>)"
  "line_step (True, fs) (ln ''SUMMARY'' v) = (True, fs\<lparr>i_summary := Some v\<rparr>)"
  "line_step (True, fs) (ln ''DESCRIPTION'' v) = (True, fs)" "line_step (True, fs) (ln ''LOCATION'' v) = (True, fs)"
  by (simp_all add: line_step_simps)

lemma line_step_zoned:
  assumes "CHR '':'' \<notin> set tz"
  shows "line_step (True, fs) (ln (''DTSTART;TZID='' @ tz) v) = (True, fs\<lparr>i_dtstart := Some v\<rparr>)"
    "line_step (True, fs) (ln (''DTEND;TZID='' @ tz) v) = (True, fs\<lparr>i_dtend := Some v\<rparr>)"
  using split_once_colon [OF assms] by (simp_all add: line_step_simps)

lemmas line_step_zoned_chars = line_step_zoned [unfolded append.simps]

lemma tidied_constants:
  "tidied ''VCALENDAR'' = ''VCALENDAR''" "tidied ''VEVENT'' = ''VEVENT''" "tidied ''VTIMEZONE'' = ''VTIMEZONE''"
  "tidied ''STANDARD'' = ''STANDARD''" "tidied ''DAYLIGHT'' = ''DAYLIGHT''"
  by code_simp+

lemma line_step_frame:
  "line_step (b, fs) (ln ''BEGIN'' ''VCALENDAR'') = (b, fs)"
  "line_step (b, fs) (ln ''BEGIN'' ''VEVENT'') = (True, fs\<lparr>i_component_type := ''VEVENT''\<rparr>)"
  "line_step (b, fs) (ln ''BEGIN'' ''VTIMEZONE'') = (b, fs)" "line_step (b, fs) (ln ''BEGIN'' ''STANDARD'') = (b, fs)"
  "line_step (b, fs) (ln ''BEGIN'' ''DAYLIGHT'') = (b, fs)" "line_step (b, fs) (ln ''END'' ''VTIMEZONE'') = (b, fs)"
  "line_step (b, fs) (ln ''END'' ''STANDARD'') = (b, fs)" "line_step (b, fs) (ln ''END'' ''DAYLIGHT'') = (b, fs)"
  "line_step (b, fs) (ln ''END'' ''VEVENT'') = (False, fs)" "line_step (b, fs) (ln ''END'' ''VCALENDAR'') = (b, fs)"
  by (simp_all add: line_step_simps)

section \<open>Round trip\<close>

text \<open>The arguments of an event that stay on their lines: no line feeds; the values to be read back
  do not end in white space, and the name of a time zone has no colon.\<close>

definition opt_line :: "string option \<Rightarrow> bool" where
  "opt_line x = (case x of None \<Rightarrow> True | Some s \<Rightarrow> nl \<notin> set s)"

definition opt_zone :: "string option \<Rightarrow> bool" where
  "opt_zone x = (case x of None \<Rightarrow> True | Some s \<Rightarrow> nl \<notin> set s \<and> CHR '':'' \<notin> set s)"

lemma unfold_built:
  assumes "nl \<notin> set now" "nl \<notin> set uid" "nl \<notin> set summary" "nl \<notin> set dtstart" "nl \<notin> set dtend"
    and "opt_line description" "opt_line location" "opt_zone timezone"
  shows "unfold_lines (build_vevent now uid summary dtstart dtend description location timezone) =
    map (\<lambda>l. trim_end_matches l [cr]) (vevent_lines now uid summary dtstart dtend description location timezone)"
proof -
  let ?ls = "vevent_lines now uid summary dtstart dtend description location timezone"
  obtain std dst where tz: "vtimezone_std_offset tz = ln ''TZOFFSETFROM'' (std tz)" "nl \<notin> set (std tz)"
      "vtimezone_dst_offset tz = ln ''TZOFFSETTO'' (dst tz)" "nl \<notin> set (dst tz)" for tz
    using vtimezone_offset_ln by metis
  have "\<forall>l \<in> set ?ls. nl \<notin> set l"
    using assms tz by (auto simp: vevent_lines_ln ln_def opt_line_def opt_zone_def split: option.splits)
  moreover have "list_all content_line ?ls"
    by (auto simp: vevent_lines_ln content_line_ln tz split: option.split)
  moreover have "?ls \<noteq> []" by (simp add: vevent_lines_def)
  ultimately show ?thesis unfolding build_vevent_def by (rule unfold_lines_built)
qed

text \<open>C37: the parser reads back what the builder wrote. The UID, times and summary that
  \<open>extract_fields\<close> finds in the text of a built event are those it was built from, with and
  without a time zone, description and location (the times in the time-zone block are not
  mistaken for the event's).\<close>

theorem extract_built_fields:
  assumes "tidy uid" "tidy summary" "tidy dtstart" "tidy dtend" "nl \<notin> set now"
    and "opt_line description" "opt_line location" "opt_zone timezone"
  shows "extract_fields (build_vevent now uid summary dtstart dtend description location timezone) =
    \<lparr>i_uid = Some uid, i_dtstart = Some dtstart, i_dtend = Some dtend, i_summary = Some summary,
     i_component_type = ''VEVENT''\<rparr>"
proof -
  have nl: "nl \<notin> set uid" "nl \<notin> set summary" "nl \<notin> set dtstart" "nl \<notin> set dtend"
    using assms(1-4) by (simp_all add: tidy_def)
  obtain std dst where tz: "vtimezone_std_offset tz = ln ''TZOFFSETFROM'' (std tz)"
      "vtimezone_dst_offset tz = ln ''TZOFFSETTO'' (dst tz)" for tz
    using vtimezone_offset_ln by metis
  have zone: "CHR '':'' \<notin> set z" if "timezone = Some z" for z
    using assms(8) that by (simp add: opt_zone_def)
  show ?thesis
    unfolding extract_fields_def unfold_built [OF assms(5) nl(1-4) assms(6-8)] vevent_lines_ln
    using zone assms(1-4)
    by (cases timezone; cases description; cases location)
      (simp_all add: field_step_ln tz tidied_constants line_step_frame line_step_ignored line_step_read
        line_step_zoned_chars no_fields_def)
qed

theorem extract_built_fields_witness:
  "i_dtstart (extract_fields (build_vevent ''20260301T090000Z'' ''u1@caldav-server'' ''Team lunch'' ''20260302T120000''
     ''20260302T130000'' (Some ''at noon'') None (Some ''Europe/Paris''))) = Some ''20260302T120000''"
  by (subst extract_built_fields) (simp_all add: opt_line_def opt_zone_def tidy_def, code_simp+)

text \<open>Without that condition a title can add properties of its own: nothing escapes a line feed.\<close>

lemma title_with_line_feed:
  "i_uid (extract_fields (build_vevent ''20260301T090000Z'' ''u1'' (''Lunch'' @ [nl] @ ''UID:other'') ''20260302T120000''
     ''20260302T130000'' None None None)) = Some ''other''"
  by code_simp

end
