(* ===== verification/Concurrency.thy ===== *)
theory Concurrency
  imports Caldav_Objects "HOL-Library.Multiset"
begin

text \<open>
  Schedules of concurrent requests. Every request ends after finitely many calls, in every
  schedule; a request can run to its end at any time; and the check of \<open>If-Match\<close> and the store
  after it are separate calls, between which another request may write.
\<close>

section \<open>Every schedule ends\<close>

text \<open>One request makes its next call; no request is started.\<close>

definition call_step :: "('w, 'a) prog list \<times> 'w \<Rightarrow> ('w, 'a) prog list \<times> 'w \<Rightarrow> bool" where
  "call_step s t = sys_step {} s t"

definition finished :: "('w, 'a) prog \<Rightarrow> bool" where
  "finished p = (case p of Ret _ \<Rightarrow> True | Call _ _ \<Rightarrow> False)"

inductive_set rest :: "(('w, 'a) prog \<times> ('w, 'a) prog) set" where
  rest: "(c w, Call u c) \<in> rest"

inductive_cases restE: "(p, q) \<in> rest"

lemma wf_rest: "wf rest"
proof (rule wfUNIVI)
  fix P p
  assume step: "\<forall>p. (\<forall>q. (q, p) \<in> rest \<longrightarrow> P q) \<longrightarrow> P p"
  show "P p"
  proof (induction p)
    case (Ret x)
    show ?case by (rule step [rule_format]) (auto elim: restE)
  next
    case (Call u c)
    show ?case by (rule step [rule_format]) (auto elim: restE intro: Call.IH)
  qed
qed

lemma call_step_mult:
  assumes "call_step s t"
  shows "(mset (fst t), mset (fst s)) \<in> mult rest"
  using assms unfolding call_step_def
proof (cases rule: sys_step.cases)
  case (call i ps u c w)
  then have "mset ps = mset (ps[i := c w]) - {#c w#} + {#Call u c#}"
    using mset_update [of i ps "c w"] nth_mem_mset [of i ps] by simp
  moreover have "mset (ps[i := c w]) = mset (ps[i := c w]) - {#c w#} + {#c w#}"
    using call mset_update [of i ps "c w"] by simp
  ultimately have "(mset (ps[i := c w]), mset ps) \<in> mult1 rest"
    unfolding mult1_def
    by (intro CollectI case_prodI exI [of _ "Call u c"] exI [of _ "mset (ps[i := c w]) - {#c w#}"] exI [of _ "{#c w#}"])
      (auto intro: rest.rest)
  then show ?thesis using call by (simp add: mult_def)
qed simp

lemma no_infinite_schedule: "\<not> (\<forall>n. call_step (f n) (f (Suc n)))"
proof
  assume "\<forall>n. call_step (f n) (f (Suc n))"
  then have chain: "(mset (fst (f (Suc n))), mset (fst (f n))) \<in> mult rest" for n
    using call_step_mult by blast
  show False
    by (rule wf_no_infinite_down_chainE [OF wf_mult [OF wf_rest], of "\<lambda>n. mset (fst (f n))"]) (use chain in blast)
qed

lemma stuck_iff_finished: "(\<nexists>t. call_step (ps, w) t) \<longleftrightarrow> list_all finished ps"
proof
  assume stuck: "\<nexists>t. call_step (ps, w) t"
  have "finished p" if p: "p \<in> set ps" for p
  proof (cases p)
    case (Call u c)
    then obtain i where "i < length ps" "ps ! i = Call u c" using p unfolding in_set_conv_nth by blast
    then have "call_step (ps, w) (ps[i := c w], u w)"
      unfolding call_step_def by (rule sys_step.call)
    with stuck show ?thesis by blast
  qed (simp add: finished_def)
  then show "list_all finished ps" by (simp add: list_all_iff)
next
  assume ended: "list_all finished ps"
  show "\<nexists>t. call_step (ps, w) t"
  proof
    assume "\<exists>t. call_step (ps, w) t"
    then obtain i u c where "i < length ps" "ps ! i = Call u c"
      unfolding call_step_def by (auto elim: sys_stepE)
    with ended show False by (auto simp: list_all_length finished_def)
  qed
qed

section \<open>Running one request to its end\<close>

lemma sys_reach_at:
  "sys_reach P w0 (ps, w) \<Longrightarrow> i < length ps \<Longrightarrow> ps ! i = p \<Longrightarrow>
   sys_reach P w0 (ps[i := Ret (fst (run p w))], snd (run p w))"
proof (induction p arbitrary: ps w)
  case (Ret x)
  then show ?case by (metis fst_conv list_update_id run.simps(1) snd_conv)
next
  case (Call u c)
  have "sys_reach P w0 (ps[i := c w], u w)"
    by (rule sys_reach.step [OF Call.prems(1)], rule sys_step.call) (use Call.prems in simp_all)
  from Call.IH [OF _ this] Call.prems show ?case by auto
qed

section \<open>Two conditional writers\<close>

text \<open>The check is the first call of a conditional PUT; when it succeeds, the rest is an
  unconditional PUT.\<close>

lemma put_object_check:
  assumes "no_faults E" "e \<noteq> ''*''"
  obtains u c where "put_object E (Some e) cid uid data = Call u c" "\<And>w. u w = tick w"
    "\<And>w ob. lookup_object w cid uid = Some ob \<Longrightarrow> o_etag ob = e \<Longrightarrow> c w = put_object E None cid uid data"
proof -
  let ?q = "\<lambda>w. case db_fault E (ticks w) of Some e \<Rightarrow> (Inl e, tick w) | None \<Rightarrow> select (\<lambda>w. lookup_object w cid uid) (tick w)"
  obtain u c where prog: "put_object E (Some e) cid uid data = Call u c"
      and u: "u = (\<lambda>w. snd (?q w))"
      and c: "\<And>w ob. lookup_object w cid uid = Some ob \<Longrightarrow> o_etag ob = e \<Longrightarrow> c w = put_object E None cid uid data"
    using assms
    by (simp add: put_object_def check_if_match_def get_object_by_uid_def query_def map_errE_def exec_def atomic_def
        errE_def okE_def select_def no_faults_def)
  moreover have "u w = tick w" for w
    using assms(1) by (simp add: u no_faults_def select_def)
  ultimately show thesis using that by blast
qed

text \<open>There is a schedule of two conditional writers in which both checks come before both stores.\<close>

lemma both_writers_confirmed:
  assumes "ready E w cid" "put_accepted r1 d1" "put_accepted r2 d2"
    and "if_match_header r1 = Some e" "if_match_header r2 = Some e" "e \<noteq> ''*''"
    and "put_uid fname d1 = uid" "put_uid fname d2 = uid"
    and "lookup_object w cid uid = Some ob" "o_etag ob = e"
  shows "\<exists>e1 e2 w'. sys_reach {handle_put E cid fname r1, handle_put E cid fname r2} w
      ([Ret (Reply (ok_put False e1)), Ret (Reply (ok_put False e2))], w') \<and>
    map_option o_ical_data (lookup_object w' cid uid) = Some d2"
proof -
  let ?P = "{handle_put E cid fname r1, handle_put E cid fname r2}"
  let ?s1 = "put_object E None cid uid d1" and ?s2 = "put_object E None cid uid d2"
  have E: "no_faults E" "bodies_bounded E" using assms(1) by (simp_all add: ready_def)
  have put: "handle_put E cid fname r1 = put_object E (Some e) cid uid d1"
    "handle_put E cid fname r2 = put_object E (Some e) cid uid d2"
    using assms(4,5,7,8) handle_put_eq [OF E(2) assms(2)] handle_put_eq [OF E(2) assms(3)] by simp_all
  obtain u1 c1 where p1: "handle_put E cid fname r1 = Call u1 c1" "u1 w = tick w" "c1 w = ?s1"
    using put_object_check [OF E(1) assms(6), of cid uid d1] put(1) assms(9,10) by metis
  obtain u2 c2 where p2: "handle_put E cid fname r2 = Call u2 c2" "u2 (tick w) = tick (tick w)" "c2 (tick w) = ?s2"
    using put_object_check [OF E(1) assms(6), of cid uid d2] put(2) assms(9,10) lookup_tick by metis
  have "sys_reach ?P w ([Call u1 c1], w)"
    using sys_reach.step [OF sys_reach.init sys_step.spawn [of "Call u1 c1" ?P "[]" w]] p1(1) by simp
  then have "sys_reach ?P w ([Call u1 c1, Call u2 c2], w)"
    using sys_reach.step [OF _ sys_step.spawn [of "Call u2 c2" ?P "[Call u1 c1]" w]] p2(1) by simp
  then have "sys_reach ?P w ([?s1, Call u2 c2], tick w)"
    using sys_reach.step [OF _ sys_step.call [of 0 "[Call u1 c1, Call u2 c2]" u1 c1 ?P w]] p1 by simp
  then have both: "sys_reach ?P w ([?s1, ?s2], tick (tick w))"
    using sys_reach.step [OF _ sys_step.call [of 1 "[?s1, Call u2 c2]" u2 c2 ?P "tick w"]] p2 by simp
  obtain o1 w1 where w1: "run ?s1 (tick (tick w)) = (Reply (ok_put False (o_etag o1)), w1)"
      "lookup_object w1 cid uid = Some o1" "ready E w1 cid"
    using assms(9) by (rule_tac stored_by_put [OF ready_tick [OF ready_tick [OF assms(1)]], of uid d1]) simp
  then obtain o2 w2 where w2: "run ?s2 w1 = (Reply (ok_put False (o_etag o2)), w2)"
      "lookup_object w2 cid uid = Some o2" "o_ical_data o2 = d2"
    by (rule_tac stored_by_put [OF w1(3), of uid d2]) simp
  have "sys_reach ?P w ([Ret (Reply (ok_put False (o_etag o1))), ?s2], w1)"
    using sys_reach_at [OF both, of 0] w1(1) by simp
  then have "sys_reach ?P w ([Ret (Reply (ok_put False (o_etag o1))), Ret (Reply (ok_put False (o_etag o2)))], w2)"
    using sys_reach_at [of ?P w "[Ret (Reply (ok_put False (o_etag o1))), ?s2]" w1 1] w2(1) by simp
  moreover have "map_option o_ical_data (lookup_object w2 cid uid) = Some d2" by (simp add: w2(2,3))
  ultimately show ?thesis by blast
qed

text \<open>C9: a conditional PUT loses no update exactly as long as requests follow each other. Two clients
  hold the same current ETag and both PUT with it as \<open>If-Match\<close>. One after the other, the first
  succeeds, the second is refused with 412, and the object keeps the first text. Run concurrently,
  both can be answered with 204: the check and the store are separate database calls, and there is
  a schedule in which both checks come first; the object then holds the second text, and the first
  writer's confirmed text is lost.\<close>

theorem lost_update_only_by_interleaving:
  assumes "ready E w cid" "put_accepted r1 d1" "put_accepted r2 d2"
    and "if_match_header r1 = Some e" "if_match_header r2 = Some e" "e \<noteq> ''*''"
    and "put_uid fname d1 = uid" "put_uid fname d2 = uid"
    and "lookup_object w cid uid = Some ob" "o_etag ob = e"
  shows "(\<exists>etag w1 w2. run (handle_put E cid fname r1) w = (Reply (ok_put False etag), w1) \<and>
      outcome_status (fst (run (handle_put E cid fname r2) w1)) = Some PRECONDITION_FAILED \<and>
      snd (run (handle_put E cid fname r2) w1) = w2 \<and>
      map_option o_ical_data (lookup_object w2 cid uid) = Some d1) \<and>
    (\<exists>e1 e2 w'. sys_reach {handle_put E cid fname r1, handle_put E cid fname r2} w
      ([Ret (Reply (ok_put False e1)), Ret (Reply (ok_put False e2))], w') \<and>
      map_option o_ical_data (lookup_object w' cid uid) = Some d2)"
  by (rule conjI [OF second_writer_refused [OF assms] both_writers_confirmed [OF assms]])

theorem lost_update_only_by_interleaving_witness:
  "(\<exists>w1. outcome_status (fst (run (handle_put demo_ext ''work'' ''standup.ics'' (demo_put (Some (dquoted ''e1'')))) w1)) =
      Some PRECONDITION_FAILED) \<and>
   (\<exists>e1 e2 w'. sys_reach {handle_put demo_ext ''work'' ''standup.ics'' (demo_put (Some (dquoted ''e1'')))} demo_world
      ([Ret (Reply (ok_put False e1)), Ret (Reply (ok_put False e2))], w'))"
proof -
  have "lookup_object demo_world ''work'' ''standup'' = Some standup" "o_etag standup = dquoted ''e1''" "dquoted ''e1'' \<noteq> ''*''"
    by (simp_all add: lookup_object_def demo_defs)
  from lost_update_only_by_interleaving [OF demo_ready demo_put_accepted demo_put_accepted demo_put_if_match
      demo_put_if_match this(3) demo_put_uid(2) demo_put_uid(2) this(1,2)]
  show ?thesis by auto
qed

text \<open>All requests that are running can be brought to their ends.\<close>

lemma sys_reach_prefix:
  assumes "sys_reach P w0 (ps, w)"
  shows "k \<le> length ps \<Longrightarrow> \<exists>rs w'. length rs = k \<and> sys_reach P w0 (map Ret rs @ drop k ps, w')"
proof (induction k)
  case 0
  show ?case using assms by (intro exI [of _ "[]"]) auto
next
  case (Suc k)
  then obtain rs w' where rs: "length rs = k" "sys_reach P w0 (map Ret rs @ drop k ps, w')" by auto
  let ?p = "ps ! k"
  have "drop k ps = ?p # drop (Suc k) ps" using Suc.prems by (simp add: Cons_nth_drop_Suc)
  then have "sys_reach P w0 (map Ret (rs @ [fst (run ?p w')]) @ drop (Suc k) ps, snd (run ?p w'))"
    using sys_reach_at [OF rs(2), of k ?p] rs(1) Suc.prems by (simp add: list_update_append nth_append)
  then show ?case using rs(1) by (intro exI [of _ "rs @ [fst (run ?p w')]"]) auto
qed

lemma sys_reach_all_end:
  "sys_reach P w0 (ps, w) \<Longrightarrow> \<exists>rs w'. length rs = length ps \<and> sys_reach P w0 (map Ret rs, w')"
  using sys_reach_prefix [of P w0 ps w "length ps"] by simp

end
