(* ===== verification/Failures.thy ===== *)
theory Failures
  imports Object_Store
begin

text \<open>
  Failures of the database in the middle of an operation. Storing and deleting an object are
  sequences of statements without a transaction (\<open>upsert_object\<close> and \<open>delete_object\<close> of
  \<open>src/db/events.rs\<close>), so a failure leaves the steps before it done. This theory says how far an
  operation can have come, without any assumption on which statements fail.
\<close>

section \<open>Reasoning about results with errors\<close>

text \<open>\<open>ends p F Q w\<close>: run in \<open>w\<close>, \<open>p\<close> ends either with an error in a state with \<open>F\<close>, or with a value
  and a state with \<open>Q\<close>.\<close>

definition ends :: "('w, 'e + 'a) prog \<Rightarrow> ('w \<Rightarrow> bool) \<Rightarrow> ('a \<Rightarrow> 'w \<Rightarrow> bool) \<Rightarrow> 'w \<Rightarrow> bool" where
  "ends p F Q w = (case run p w of (Inl _, w') \<Rightarrow> F w' | (Inr x, w') \<Rightarrow> Q x w')"

lemma ends_bindE:
  "ends p F R w \<Longrightarrow> (\<And>x v. R x v \<Longrightarrow> ends (k x) F Q v) \<Longrightarrow> ends (bindE p k) F Q w"
  by (cases "run p w"; cases "fst (run p w)") (fastforce simp: ends_def run_bindE)+

lemma ends_draw: "ends (k (f (ticks w))) F Q (tick w) \<Longrightarrow> ends (bind (draw f) k) F Q w"
  by (simp add: ends_def run_bind run_draw)

lemma ends_new_etag: "(\<And>e. ends (k e) F Q (tick w)) \<Longrightarrow> ends (bind (new_etag E) k) F Q w"
  by (simp add: ends_def new_etag_def run_simps)

lemma ends_new_token: "(\<And>t. ends (k t) F Q (tick w)) \<Longrightarrow> ends (bind (new_sync_token E) k) F Q w"
  by (simp add: ends_def new_sync_token_def run_simps)

lemma ends_okE: "Q x w \<Longrightarrow> ends (okE x) F Q w"
  by (simp add: ends_def run_okE)

lemma ends_errE: "F w \<Longrightarrow> ends (errE e) F Q w"
  by (simp add: ends_def run_errE)

lemma ends_ok_orE: "F w \<Longrightarrow> (\<And>x. y = Some x \<Longrightarrow> Q x w) \<Longrightarrow> ends (ok_orE e y) F Q w"
  by (simp add: ends_def run_ok_orE split: option.split)

text \<open>A statement that may fail; \<open>F\<close> has to hold where it was sent.\<close>

lemma ends_query:
  assumes "F (tick w)" "\<And>e v. q (tick w) = (Inl e, v) \<Longrightarrow> F v" "\<And>x v. q (tick w) = (Inr x, v) \<Longrightarrow> Q x v"
  shows "ends (query E q) F Q w"
  using assms
  by (simp add: ends_def query_def run_map_errE exec_def run_atomic split: option.split)
    (cases "q (tick w)"; cases "fst (q (tick w))"; auto)

section \<open>How far an operation has come\<close>

datatype stage = Untouched | Stored | Logged | Tagged

text \<open>The stages follow each other.\<close>

primrec stage_rank :: "stage \<Rightarrow> nat" where
  "stage_rank Untouched = 0"
| "stage_rank Stored = 1"
| "stage_rank Logged = 2"
| "stage_rank Tagged = 3"

instantiation stage :: linorder
begin

definition less_eq_stage :: "stage \<Rightarrow> stage \<Rightarrow> bool" where
  "less_eq_stage s t = (stage_rank s \<le> stage_rank t)"

definition less_stage :: "stage \<Rightarrow> stage \<Rightarrow> bool" where
  "less_stage s t = (stage_rank s < stage_rank t)"

instance
proof
  fix s t :: stage
  show "s \<le> t \<Longrightarrow> t \<le> s \<Longrightarrow> s = t"
    by (cases s; cases t) (simp_all add: less_eq_stage_def)
qed (auto simp: less_eq_stage_def less_stage_def)

end

lemmas stage_order = less_eq_stage_def less_stage_def

text \<open>The state \<open>v\<close> shows an operation on the object \<open>k\<close> that was begun in \<open>w\<close> at stage \<open>s\<close>; \<open>val\<close>
  is what is stored, or \<open>None\<close> for a deletion.\<close>

definition at_stage ::
  "(string \<times> string) \<Rightarrow> (string \<times> ObjectFields) option \<Rightarrow> world \<Rightarrow> stage \<Rightarrow> world \<Rightarrow> bool" where
  "at_stage k val w s v \<longleftrightarrow>
     db_users v = db_users w \<and> db_shares v = db_shares w \<and> db_tokens v = db_tokens w \<and>
     mcp_sessions v = mcp_sessions w \<and>
     stored_value v = (if Stored \<le> s then (stored_value w)(k := val) else stored_value w) \<and>
     (if Logged \<le> s
      then \<exists>x. db_changes v = db_changes w @ [x] \<and> (x_calendar_id x, x_object_uid x) = k \<and>
             (x_change_type x = ''deleted'') = (val = None)
      else db_changes v = db_changes w) \<and>
     (if Tagged \<le> s
      then map c_id (db_calendars v) = map c_id (db_calendars w) \<and>
           filter (\<lambda>c. c_id c \<noteq> fst k) (db_calendars v) = filter (\<lambda>c. c_id c \<noteq> fst k) (db_calendars w) \<and>
           (\<exists>token. \<forall>c \<in> set (db_calendars v). c_id c = fst k \<longrightarrow> c_ctag c = token \<and> c_sync_token c = token)
      else db_calendars v = db_calendars w)"

definition cut_off :: "(string \<times> string) \<Rightarrow> (string \<times> ObjectFields) option \<Rightarrow> world \<Rightarrow> world \<Rightarrow> bool" where
  "cut_off k val w v \<longleftrightarrow> (\<exists>s. at_stage k val w s v)"

lemma stored_value_tick [simp]: "stored_value (tick w) = stored_value w"
  by (simp add: stored_value_def lookup_object_def fun_eq_iff)

lemma at_stage_tick [simp]: "at_stage k val w s (tick v) = at_stage k val w s v"
  by (simp add: at_stage_def)

lemma at_stage_refl: "at_stage k val w Untouched w"
  by (simp add: at_stage_def stage_order)

lemma cut_offI: "at_stage k val w s v \<Longrightarrow> cut_off k val w v"
  by (auto simp: cut_off_def)

lemma cut_off_tick [simp]: "cut_off k val w (tick v) = cut_off k val w v"
  by (simp add: cut_off_def)

section \<open>The steps\<close>

lemma ends_read:
  "at_stage k val w s v \<Longrightarrow> ends (get_object_by_uid E c u) (cut_off k val w) (\<lambda>_. at_stage k val w s) v"
  unfolding get_object_by_uid_def by (rule ends_query) (auto simp: select_def intro: cut_offI)

lemma ends_log:
  assumes "at_stage (c, u) val w Stored v" "(kind = ''deleted'') = (val = None)"
  shows "ends (log_sync_change E c u kind token) (cut_off (c, u) val w) (\<lambda>_. at_stage (c, u) val w Logged) v"
  unfolding log_sync_change_def
proof (rule ends_query)
  have same: "stored_value (w'\<lparr>db_changes := xs, change_seq := n\<rparr>) = stored_value w'" for w' xs n
    by (simp add: stored_value_def lookup_object_def fun_eq_iff)
  show "at_stage (c, u) val w Logged v'"
    if "insert_change \<lparr>x_id = 0, x_calendar_id = c, x_object_uid = u, x_change_type = kind,
        x_sync_token = token, x_created_at = datetime_now E (ticks (tick v))\<rparr> (tick v) = (Inr x, v')" for x v'
    using that assms by (auto simp: insert_change_def at_stage_def stage_order same split: if_splits)
qed (use assms in \<open>auto simp: insert_change_def intro: cut_offI split: if_splits\<close>)

lemma ends_bump:
  assumes "at_stage (c, u) val w Logged v"
  shows "ends (bump_ctag E c) (cut_off (c, u) val w) (\<lambda>_. at_stage (c, u) val w Tagged) v"
proof -
  let ?tag = "\<lambda>w' token. map (\<lambda>x. if c_id x = c
      then x\<lparr>c_ctag := token, c_sync_token := token, c_updated_at := datetime_now E (ticks w')\<rparr> else x) (db_calendars w')"
  have tagged: "at_stage (c, u) val w Tagged (v'\<lparr>db_calendars := ?tag v' token\<rparr>)"
    if "at_stage (c, u) val w Logged v'" for v' token
  proof -
    have "stored_value (v'\<lparr>db_calendars := ?tag v' token\<rparr>) = stored_value v'"
      by (simp add: stored_value_def lookup_object_def fun_eq_iff)
    with that show ?thesis
      by (auto simp: at_stage_def stage_order map_upd_column filter_other_upd simp del: map_map)
  qed
  show ?thesis
    unfolding bump_ctag_def
    by (rule ends_new_token, rule ends_bindE [where R = "\<lambda>_. at_stage (c, u) val w Tagged"], rule ends_query)
      (use assms tagged [of "tick (tick v)"] in \<open>auto simp: update_calendar_tokens_def intro: cut_offI ends_okE\<close>)
qed

text \<open>The first step of storing an object, in its two forms, and of deleting one.\<close>

lemma stored_value_insert:
  assumes "insert_object ob w = (Inr (), v)"
  shows "stored_value v = (stored_value w)(obj_key ob \<mapsto> object_value ob)"
proof -
  have "obj_key ob \<notin> set (map obj_key (db_objects w))" and v: "v = w\<lparr>db_objects := db_objects w @ [ob]\<rparr>"
    using assms by (auto simp: insert_object_def split: if_splits)
  then have "find (\<lambda>x. obj_key x = obj_key ob) (db_objects w) = None"
    unfolding find_key_None by simp
  then show ?thesis
    by (auto simp: v stored_value_def lookup_object_def find_append fun_eq_iff split: option.split)
qed

lemma stored_value_update:
  assumes "lookup_object w c u \<noteq> None"
  shows "stored_value (snd (update_object_row E e d ct ds de sm c u w)) =
    (stored_value w)((c, u) \<mapsto> (d, \<lparr>f_component_type = ct, f_dtstart = ds, f_dtend = de, f_summary = sm\<rparr>))"
proof -
  let ?f = "\<lambda>ob. ob\<lparr>o_etag := e, o_ical_data := d, o_component_type := ct, o_dtstart := ds, o_dtend := de,
      o_summary := sm, o_updated_at := datetime_now E (ticks w)\<rparr>"
  have "find (\<lambda>ob. obj_key ob = k) (map (\<lambda>ob. if obj_key ob = (c, u) then ?f ob else ob) obs) =
      (if k = (c, u) then map_option ?f (find (\<lambda>ob. obj_key ob = k) obs) else find (\<lambda>ob. obj_key ob = k) obs)" for k obs
    by (rule find_key_upd) simp
  then show ?thesis
    using assms
    by (auto simp: update_object_row_def stored_value_def lookup_object_def fun_eq_iff object_value_def)
qed

lemma stored_value_delete:
  "stored_value (snd (delete_object_row c u w)) = (stored_value w)((c, u) := None)"
  by (auto simp: delete_object_row_def stored_value_def lookup_object_def fun_eq_iff find_filter_none
      intro!: arg_cong [where f = "map_option object_value"] find_filter_other)

section \<open>The operations\<close>

lemma ends_insert:
  assumes "\<And>v. obj_key (ob v) = k \<and> object_value (ob v) = val" "at_stage k (Some val) w Untouched w'"
  shows "ends (query E (\<lambda>v. insert_object (ob v) v)) (cut_off k (Some val) w) (\<lambda>_. at_stage k (Some val) w Stored) w'"
proof (rule ends_query)
  fix x v
  assume ins: "insert_object (ob (tick w')) (tick w') = (Inr x, v)"
  then have v: "v = (tick w')\<lparr>db_objects := db_objects w' @ [ob (tick w')]\<rparr>"
    by (auto simp: insert_object_def split: if_splits)
  show "at_stage k (Some val) w Stored v"
    using stored_value_insert [of "ob (tick w')" "tick w'" v] ins assms by (simp add: at_stage_def stage_order v)
qed (use assms(2) in \<open>auto simp: insert_object_def intro: cut_offI split: if_splits\<close>)

lemma ends_update:
  assumes "at_stage (c, u) (Some (d, fs)) w Untouched w'" "stored_value w (c, u) \<noteq> None"
  shows "ends (query E (update_object_row E e d (f_component_type fs) (f_dtstart fs) (f_dtend fs) (f_summary fs) c u))
    (cut_off (c, u) (Some (d, fs)) w) (\<lambda>_. at_stage (c, u) (Some (d, fs)) w Stored) w'"
proof (rule ends_query)
  fix x v
  assume "update_object_row E e d (f_component_type fs) (f_dtstart fs) (f_dtend fs) (f_summary fs) c u (tick w') = (Inr x, v)"
  then have v: "v = snd (update_object_row E e d (f_component_type fs) (f_dtstart fs) (f_dtend fs) (f_summary fs) c u (tick w'))"
    by simp
  have "stored_value (tick w') = stored_value w" using assms(1) by (simp add: at_stage_def stage_order)
  then have "stored_value (tick w') (c, u) \<noteq> None" using assms(2) by (simp del: stored_value_tick)
  then have "lookup_object (tick w') c u \<noteq> None" by (simp add: stored_value_def del: stored_value_tick)
  from stored_value_update [OF this, of E e d "f_component_type fs" "f_dtstart fs" "f_dtend fs" "f_summary fs"]
  have "stored_value v = (stored_value w')((c, u) \<mapsto> (d, fs))" by (cases fs) (simp add: v)
  then show "at_stage (c, u) (Some (d, fs)) w Stored v"
    using assms(1) by (simp add: at_stage_def stage_order) (simp add: v update_object_row_def)
qed (use assms(1) in \<open>auto simp: update_object_row_def intro: cut_offI\<close>)

lemma ends_upsert:
  "ends (upsert_object E c u d fs) (cut_off (c, u) (Some (d, fs)) w) (\<lambda>_. at_stage (c, u) (Some (d, fs)) w Tagged) w"
proof -
  let ?k = "(c, u)" and ?val = "Some (d, fs)"
  let ?F = "cut_off ?k ?val w" and ?at = "at_stage ?k ?val w"
  have first: "ends (get_object_by_uid E c u) ?F (\<lambda>r v. ?at Untouched v \<and> (r = None) = (stored_value w ?k = None)) w"
    unfolding get_object_by_uid_def
    by (rule ends_query)
      (auto simp: select_def stored_value_def lookup_object_def intro: cut_offI at_stage_refl)
  have insert: "ends (bind (draw (uuid_v7 E)) (\<lambda>i.
          bindE (query E (\<lambda>w. insert_object (ob i w) w)) (\<lambda>_. log_sync_change E c u ''created'' token))) ?F (\<lambda>_. ?at Logged) v"
    if "?at Untouched v" "\<And>i w. obj_key (ob i w) = ?k \<and> object_value (ob i w) = (d, fs)" for ob token v
    by (rule ends_draw, rule ends_bindE [OF ends_insert]) (use that in \<open>auto intro: ends_log\<close>)
  have update: "ends (bindE (query E (update_object_row E e d (f_component_type fs) (f_dtstart fs) (f_dtend fs)
          (f_summary fs) c u)) (\<lambda>_. log_sync_change E c u ''modified'' token)) ?F (\<lambda>_. ?at Logged) v"
    if "?at Untouched v" "stored_value w ?k \<noteq> None" for e token v
    by (rule ends_bindE [OF ends_update]) (use that in \<open>auto intro: ends_log\<close>)
  have last: "ends (bindE (bump_ctag E c) (\<lambda>_. bindE (get_object_by_uid E c u) (\<lambda>found.
        bindE (ok_orE (Internal ''Object upserted but not found'') found) (\<lambda>obj. okE (obj, is_new))))) ?F (\<lambda>_. ?at Tagged) v"
    if "?at Logged v" for is_new v
    by (rule ends_bindE [OF ends_bump [OF that]], rule ends_bindE [OF ends_read], assumption,
        rule ends_bindE [where R = "\<lambda>_. ?at Tagged"])
      (auto intro: ends_ok_orE ends_okE cut_offI)
  show ?thesis
    unfolding upsert_object_def Let_def
    by (rule ends_bindE [OF first], rule ends_new_etag, rule ends_draw, rule ends_bindE [where R = "\<lambda>_. ?at Logged"])
      (auto simp: object_value_def intro: insert update last)
qed

lemma ends_delete:
  "ends (delete_object E c u) (cut_off (c, u) None w) (\<lambda>_. at_stage (c, u) None w Tagged) w"
proof -
  have gone: "at_stage (c, u) None w Stored (snd (delete_object_row c u (tick w)))"
    using stored_value_delete [of c u "tick w"]
    by (simp add: at_stage_def stage_order) (simp add: delete_object_row_def)
  have "ends (query E (delete_object_row c u)) (cut_off (c, u) None w) (\<lambda>_. at_stage (c, u) None w Stored) w"
    by (rule ends_query) (use gone in \<open>auto intro: cut_offI at_stage_refl\<close>)
  then show ?thesis
    unfolding delete_object_def
  proof (rule ends_bindE)
    fix n v
    assume v: "at_stage (c, u) None w Stored v"
    have "ends (bind (draw (uuid_v7 E)) (\<lambda>x. bindE (log_sync_change E c u ''deleted'' (sync_token_of x)) (\<lambda>_.
        bindE (bump_ctag E c) (\<lambda>_. okE ())))) (cut_off (c, u) None w) (\<lambda>_. at_stage (c, u) None w Tagged) v"
      by (rule ends_draw, rule ends_bindE [OF ends_log], use v in simp, simp)
        (rule ends_bindE [OF ends_bump], assumption, rule ends_okE)
    then show "ends (if n = 0 then errE (NotFound (''Object with UID '' @ squoted u @ '' not found in calendar''))
        else bind (draw (uuid_v7 E)) (\<lambda>x. bindE (log_sync_change E c u ''deleted'' (sync_token_of x)) (\<lambda>_.
        bindE (bump_ctag E c) (\<lambda>_. okE ())))) (cut_off (c, u) None w) (\<lambda>_. at_stage (c, u) None w Tagged) v"
      using v by (auto intro: ends_errE cut_offI)
  qed
qed

section \<open>Properties\<close>

lemma ends_staged:
  "ends p (cut_off k val w) (\<lambda>_. at_stage k val w Tagged) w \<Longrightarrow>
   case run p w of (r, w') \<Rightarrow> \<exists>s. at_stage k val w s w' \<and> (isl r \<or> s = Tagged)"
  by (auto simp: ends_def cut_off_def split: prod.splits sum.splits)

text \<open>C24: a failure stops a store or a deletion between its steps, never inside one or out of order.
  Whichever database calls fail, the state afterwards is that of one of the stages: nothing done; the
  object written; the change logged as well; the calendar's tags renewed as well. Users, shares,
  tokens and sessions, all other objects, earlier log entries and other calendars are untouched, and
  success is reported only when all steps are done.\<close>

theorem failure_leaves_a_stage:
  "(case run (upsert_object E cid uid data flds) w of (r, w') \<Rightarrow>
      \<exists>s. at_stage (cid, uid) (Some (data, flds)) w s w' \<and> (isl r \<or> s = Tagged)) \<and>
   (case run (delete_object E cid uid) w of (r, w') \<Rightarrow>
      \<exists>s. at_stage (cid, uid) None w s w' \<and> (isl r \<or> s = Tagged))"
  by (rule conjI [OF ends_staged [OF ends_upsert] ends_staged [OF ends_delete]])

end
