(* ===== verification/Divergences.thy ===== *)
theory Divergences
  imports Sync_Report Caldav_Properties Mcp_Properties Ical_Properties Concurrency Failures
begin

text \<open>
  Places where the code does something else than its comments or its documentation say, each with
  the fact of the model that shows it. The two larger ones are properties of their own: the tokens
  of the change log in \<open>Sync_Log\<close>, and the race of conditional writers in \<open>Concurrency\<close>. What
  a failing statement leaves behind is in \<open>Failures\<close>; the request in which it shows is below.
\<close>

section \<open>CalDAV\<close>

text \<open>A user with whom a calendar is shared can store objects in it, whatever the permission of the
  share: only its existence is looked at. The user is the one named in the path, and no credentials
  are needed.\<close>

lemma any_share_can_write:
  assumes "ready E w cid" "req_method r = ''PUT''" "extract_auth_header r = None" "put_accepted r data" "if_match_header r = None"
    and "find (\<lambda>u. u_username u = name) (db_users w) = Some user" "is_shared w cid (u_id user)"
  shows "\<exists>new etag w'. run (handle_object E name cid fname r) w = (Reply (ok_put new etag), w') \<and>
    map_option o_ical_data (lookup_object w' cid (put_uid fname data)) = Some data"
proof -
  have E: "no_faults E" "bodies_bounded E" "calendar_exists w cid" using assms(1) by (simp_all add: ready_def)
  then have "has_access (tick w) (u_id user) cid"
    using assms(7) by (auto simp: has_access_row is_shared_def calendar_exists_def)
  then have "run (handle_object E name cid fname r) w = run (put_object E None cid (put_uid fname data) data) (tick (tick w))"
    using assms(2,3,5,6)
    by (simp add: handle_object_def object_method_def run_bind run_path_user [OF E(1)] run_verify_access [OF E(1)]
        handle_put_eq [OF E(2) assms(4)])
  moreover obtain ob w' where "run (put_object E None cid (put_uid fname data) data) (tick (tick w)) =
        (Reply (ok_put (lookup_object (tick (tick w)) cid (put_uid fname data) = None) (o_etag ob)), w')"
      "lookup_object w' cid (put_uid fname data) = Some ob" "o_ical_data ob = data"
    by (rule stored_by_put [OF ready_tick [OF ready_tick [OF assms(1)]], of "put_uid fname data" data])
  ultimately show ?thesis by (auto simp del: lookup_tick)
qed

text \<open>A store that fails at the log entry is answered with 500, but the new text stays and no change is
  logged: a client that follows the log does not learn of it.\<close>

lemma failed_store_unlogged:
  assumes "lookup_object w cid uid = Some ob" "db_fault E = (\<lambda>n. if n = ticks w + 4 then Some e else None)"
  shows "\<exists>w'. run (put_object E None cid uid data) w =
      (Reply (text_response INTERNAL_SERVER_ERROR ''Failed to save event''), w') \<and>
    map_option o_ical_data (lookup_object w' cid uid) = Some data \<and>
    db_changes w' = db_changes w \<and> db_calendars w' = db_calendars w"
proof -
  let ?row = "update_object_row E (etag_of (uuid_v4 E (Suc (ticks w)))) data (f_component_type (put_fields (extract_fields data)))
      (f_dtstart (put_fields (extract_fields data))) (f_dtend (put_fields (extract_fields data)))
      (f_summary (put_fields (extract_fields data))) cid uid"
  let ?v = "snd (?row (tick (tick (tick (tick w)))))"
  have "stored_value ?v (cid, uid) = Some (data, put_fields (extract_fields data))"
    using assms(1) stored_value_update [of "tick (tick (tick (tick w)))" cid uid] by (simp add: put_fields_def)
  then have "map_option o_ical_data (lookup_object ?v cid uid) = Some data"
    by (auto simp: stored_value_def object_value_def)
  moreover have "run (put_object E None cid uid data) w =
      (Reply (text_response INTERNAL_SERVER_ERROR ''Failed to save event''), tick ?v)"
    using assms
    by (simp add: put_object_def check_if_match_def upsert_object_def get_object_by_uid_def log_sync_change_def
        query_def exec_def run_simps new_etag_def select_def update_object_row_def)
  ultimately show ?thesis
    by (intro exI [of _ "tick ?v"]) (simp add: update_object_row_def)
qed

text \<open>The response for a deleted object in a sync report has no status.\<close>

lemma deletion_without_status:
  "add_response b href [] [] = b @ [OStart ''D:response'' [], OStart ''D:href'' [], OText href, OEnd ''D:href'', OEnd ''D:response'']"
  by (simp add: add_response_def text_element_def)

text \<open>The first request of a client, with an empty token element, is read as a request with the token
  \<open>1\<close>: the text of the level that follows.\<close>

lemma initial_sync_reads_level:
  assumes "xml_read E body = sync_events rs []" "body \<noteq> []" "list_all reportable rs"
  shows "parse_report E body = Some (SyncCollection rs ''1'')"
  using parse_sync [OF assms] by (simp add: effective_token_def)

text \<open>The answer to a report that is longer than 512 KiB is sent as 207 without a body.\<close>

lemma long_report_is_empty:
  assumes "bodies_bounded E" "parse_report E (body_or_empty E r (256 * 1024)) = Some report"
    and "run (dispatch_report E ctx cid report) w = (resp, w')" "length (resp_body resp) > 512 * 1024"
  shows "run (handle_report E user (Some ctx) cid r) w = (Reply (resp\<lparr>resp_body := []\<rparr>), w')"
  using assms by (simp add: handle_report_def run_bind buffer_response_def to_bytes_eq)

text \<open>A percent sign without two digits swallows the two characters after it, and an encoded byte
  becomes the character with its number, not a byte of UTF-8.\<close>

lemma percent_decode_divergences:
  "percent_decode ''100%-done'' = ''100%one''"
  "percent_decode ''%C3%A9'' = [CHR 0xC3, CHR 0x83, CHR 0xC2, CHR 0xA9]"
  by code_simp+

text \<open>A user name with a line feed cannot be put into the \<open>Location\<close> header, and the handler panics.\<close>

lemma principal_redirect_panics:
  "fst (run (handle_principal_discovery demo_ext [CHR ''a'', nl] (demo_request ''PROPFIND'' None)) demo_world) = Panic"
  by code_simp

section \<open>MCP\<close>

text \<open>The tools on calendars and events do not look at the user of the token.\<close>

lemma tools_ignore_user:
  "delete_calendar_tool E u a = delete_calendar_tool E v a" "get_calendar_tool E u a = get_calendar_tool E v a"
  "create_event E u a = create_event E v a" "get_event E u a = get_event E v a" "update_event E u a = update_event E v a"
  "delete_event E u a = delete_event E v a" "query_events E u a = query_events E v a"
  "share_calendar_tool E u a = share_calendar_tool E v a" "unshare_calendar_tool E u a = unshare_calendar_tool E v a"
  by (simp_all add: delete_calendar_tool_def get_calendar_tool_def create_event_def get_event_def update_event_def
      delete_event_def query_events_def share_calendar_tool_def unshare_calendar_tool_def)

text \<open>The schema gives 500 as the largest limit of a query; the tools take any number.\<close>

lemma limit_not_capped: "arg_limit (JObject [(''limit'', JNumber (PosInt n))]) = unat n"
  by (simp add: arg_limit_def json_index_def)

lemma phoenix_offset: "vtimezone_dst_offset ''America/Phoenix'' = ''TZOFFSETTO:+0900'' \<and>
    vtimezone_std_offset ''America/Phoenix'' = ''TZOFFSETFROM:-0700''"
  by (simp add: vtimezone_std_offset_def vtimezone_dst_offset_def)

lemma simple_mode_tools: "length (all_tools ''simple'') = 3"
  by (simp add: all_tools_def simple_tool_defs_def)

end
