(* ===== verification/End_To_End.thy ===== *)
theory End_To_End
  imports Caldav_Properties Mcp_Properties
begin

text \<open>
  Requests as clients send them, through the two routers: authentication, routing, the access check,
  the handler and the database together, over several requests and across the two ports.
\<close>

section \<open>Requests for an object\<close>

text \<open>Who a request is from: the account whose credentials the header carries, or without a header the
  account the URL names.\<close>

definition sent_by :: "ext \<Rightarrow> world \<Rightarrow> http_request \<Rightarrow> (User \<Rightarrow> bool) \<Rightarrow> User \<Rightarrow> bool" where
  "sent_by E w r named user \<longleftrightarrow>
     (case extract_auth_header r of
        Some h \<Rightarrow> \<exists>n p. basic_credentials E h = Some (n, p) \<and> login_user w n = Some user \<and>
                    verify_password E p (u_password_hash user) = Inr True
      | None \<Rightarrow> find named (db_users w) = Some user)"

text \<open>A request of a user for the object with this file name, under either form of URL.\<close>

definition object_request ::
  "ext \<Rightarrow> world \<Rightarrow> string list \<Rightarrow> http_request \<Rightarrow> User \<Rightarrow> string \<Rightarrow> string \<Rightarrow> bool" where
  "object_request E w path r user cid fname \<longleftrightarrow>
     req_method r \<noteq> ''OPTIONS'' \<and>
     (\<exists>n c f name. n \<noteq> [] \<and> c \<noteq> [] \<and> f \<noteq> [] \<and>
        path_decode E n = Some name \<and> path_decode E c = Some cid \<and> path_decode E f = Some fname \<and>
        (path = [''caldav'', ''users'', n, c, f] \<and> sent_by E w r (\<lambda>u. u_username u = name) user \<or>
         path = [''calendar'', ''dav'', n, ''user'', c, f] \<and> sent_by E w r (\<lambda>u. u_email u = Some name) user))"

lemma login_user_users: "db_users v = db_users w \<Longrightarrow> login_user v n = login_user w n"
  by (simp add: login_user_def cong: option.case_cong)

lemma object_request_users:
  assumes "db_users v = db_users w"
  shows "object_request E v path r user cid fname = object_request E w path r user cid fname"
proof -
  have "sent_by E v r named user = sent_by E w r named user" for named
    by (cases "extract_auth_header r") (simp_all add: sent_by_def login_user_users [OF assms] assms)
  then show ?thesis by (simp add: object_request_def)
qed

text \<open>The same data at a later time: what reading leaves behind.\<close>

definition later :: "world \<Rightarrow> world \<Rightarrow> bool" where
  "later w v \<longleftrightarrow> same_data w v \<and> ticks w \<le> ticks v"

lemma later_refl [simp]: "later w w"
  by (simp add: later_def)

lemma later_tick [simp]: "later w v \<Longrightarrow> later w (tick v)"
  by (simp add: later_def)

lemma later_same: "later w v \<Longrightarrow> same_data w v"
  by (simp add: later_def)

interpretation moving_on: tick_invariant "later w" for w
  by unfold_locales simp

lemma later_ready: "later w v \<Longrightarrow> ready E w cid \<Longrightarrow> ready E v cid"
  by (auto simp: later_def ready_def same_data_iff ids_fresh_def calendar_exists_def)

lemma same_data_lookup: "same_data w v \<Longrightarrow> lookup_object v c u = lookup_object w c u"
  by (simp add: same_data_iff lookup_object_def)

lemma run_sent_by:
  assumes "no_faults E"
  shows "sent_by E w r (\<lambda>u. u_username u = name) user \<Longrightarrow>
      \<exists>v. run (auth_or_path_user E (extract_auth_header r) name) w = (Inr user, v) \<and> later w v"
    "sent_by E w r (\<lambda>u. u_email u = Some name) user \<Longrightarrow>
      \<exists>v. run (auth_or_email_user E (extract_auth_header r) name) w = (Inr user, v) \<and> later w v"
proof -
  have login: "\<exists>v. run (try_basic_auth E h) w = (Some user, v) \<and> later w v"
    if "basic_credentials E h = Some (n, p)" "login_user w n = Some user"
      "verify_password E p (u_password_hash user) = Inr True" for h n p
    using that run_try_basic_auth [OF assms, of h w user] always_run [OF moving_on.safe_try_basic_auth later_refl, of w E h]
    by (cases "run (try_basic_auth E h) w") auto
  show "\<exists>v. run (auth_or_path_user E (extract_auth_header r) name) w = (Inr user, v) \<and> later w v"
    if "sent_by E w r (\<lambda>u. u_username u = name) user"
    using that login
    by (cases "extract_auth_header r") (fastforce simp: sent_by_def auth_or_path_user_def run_simps assms)+
  show "\<exists>v. run (auth_or_email_user E (extract_auth_header r) name) w = (Inr user, v) \<and> later w v"
    if "sent_by E w r (\<lambda>u. u_email u = Some name) user"
    using that login
    by (cases "extract_auth_header r") (fastforce simp: sent_by_def auth_or_email_user_def run_simps assms)+
qed

lemma object_routes:
  assumes "n \<noteq> []" "c \<noteq> []" "f \<noteq> []"
    and "path_decode E n = Some name" "path_decode E c = Some cid" "path_decode E f = Some fname"
  shows "caldav_router E [''caldav'', ''users'', n, c, f] r = handle_object E name cid fname r"
    "caldav_router E [''calendar'', ''dav'', n, ''user'', c, f] r = handle_email_object E name cid fname r"
  using assms by (simp_all add: caldav_router_def caldav_routes_def serve_endpoint_def with_params_def)

text \<open>What the router does with such a request: the handler of the method when the user has access
  to the calendar, and otherwise a refusal.\<close>

lemma run_object_request:
  assumes "no_faults E" "object_request E w path r user cid fname"
  obtains v where "later w v"
    "run (caldav_router E path r) w =
       run (if has_access w (u_id user) cid then object_method E cid fname r else access_denied) v"
proof -
  obtain n c f name where path: "n \<noteq> []" "c \<noteq> []" "f \<noteq> []" "path_decode E n = Some name"
      "path_decode E c = Some cid" "path_decode E f = Some fname" "req_method r \<noteq> ''OPTIONS''"
      and url: "path = [''caldav'', ''users'', n, c, f] \<and> sent_by E w r (\<lambda>u. u_username u = name) user \<or>
         path = [''calendar'', ''dav'', n, ''user'', c, f] \<and> sent_by E w r (\<lambda>u. u_email u = Some name) user"
    using assms(2) unfolding object_request_def by blast
  note routes = object_routes [OF path(1-6), of r]
  have guard: "run (bind (verify_calendar_access E user cid) (\<lambda>ok. if ok then p else q)) v =
      run (if has_access w (u_id user) cid then p else q) (tick v)" if "later w v" for p q v
    using that by (simp add: run_bind run_verify_access [OF assms(1)] accessible_same_data [OF later_same])
  from url show thesis
  proof (elim disjE conjE)
    assume p: "path = [''caldav'', ''users'', n, c, f]" and s: "sent_by E w r (\<lambda>u. u_username u = name) user"
    obtain v where "run (auth_or_path_user E (extract_auth_header r) name) w = (Inr user, v)" "later w v"
      using run_sent_by(1) [OF assms(1) s] by blast
    then show thesis
      using that [of "tick v"] path(7) by (simp add: p routes handle_object_def run_bind [of "auth_or_path_user E h n" for h n] guard)
  next
    assume p: "path = [''calendar'', ''dav'', n, ''user'', c, f]" and s: "sent_by E w r (\<lambda>u. u_email u = Some name) user"
    obtain v where "run (auth_or_email_user E (extract_auth_header r) name) w = (Inr user, v)" "later w v"
      using run_sent_by(2) [OF assms(1) s] by blast
    then show thesis
      using that [of "tick v"] path(7) by (simp add: p routes handle_email_object_def run_bind [of "auth_or_email_user E h n" for h n] guard)
  qed
qed

section \<open>What decides about access\<close>

text \<open>Statements on the objects of a calendar leave alone who may do what.\<close>

definition same_access :: "world \<Rightarrow> world \<Rightarrow> bool" where
  "same_access w v \<longleftrightarrow> db_users v = db_users w \<and> db_shares v = db_shares w \<and>
     map (\<lambda>c. (c_id c, c_owner_id c)) (db_calendars v) = map (\<lambda>c. (c_id c, c_owner_id c)) (db_calendars w)"

lemma same_access_refl [simp]: "same_access w w"
  by (simp add: same_access_def)

lemma same_access_trans: "same_access u v \<Longrightarrow> same_access v w \<Longrightarrow> same_access u w"
  by (simp add: same_access_def)

lemma same_data_access: "same_data w v \<Longrightarrow> same_access w v"
  by (simp add: same_access_def same_data_iff)

lemma same_access_has_access: "same_access w v \<Longrightarrow> has_access v u c = has_access w u c"
proof -
  have owner: "owns x u c \<longleftrightarrow> (c, u) \<in> set (map (\<lambda>c. (c_id c, c_owner_id c)) (db_calendars x))" for x
    by (auto simp: owns_def)
  have exists: "calendar_exists x c \<longleftrightarrow> c \<in> fst ` set (map (\<lambda>c. (c_id c, c_owner_id c)) (db_calendars x))" for x
    by (force simp: calendar_exists_def)
  assume "same_access w v"
  then show ?thesis unfolding has_access_iff owner exists is_shared_def same_access_def by simp
qed

lemma same_access_request:
  "same_access w v \<Longrightarrow> object_request E v path r user cid fname = object_request E w path r user cid fname"
  by (rule object_request_users) (simp add: same_access_def)

interpretation access_kept: object_stmts "same_access w" cid for w cid
  by unfold_locales
    (auto simp: same_access_def stmt_defs map_upd_column simp del: map_map split: if_splits)

section \<open>The life of an object\<close>

lemma router_put:
  assumes "ready E w cid" "object_request E w path r user cid fname" "has_access w (u_id user) cid"
    and "req_method r = ''PUT''" "put_accepted r data" "if_match_header r = None" "put_uid fname data = uid"
  obtains ob w' where "run (caldav_router E path r) w = (Reply (ok_put (lookup_object w cid uid = None) (o_etag ob)), w')"
    "lookup_object w' cid uid = Some ob" "o_ical_data ob = data" "header_value_ok E (o_etag ob)"
    "ready E w' cid" "same_access w w'"
proof -
  have E: "no_faults E" "bodies_bounded E" using assms(1) by (simp_all add: ready_def)
  have "object_method E cid fname r = put_object E None cid uid data"
    using assms(4,6,7) by (simp add: object_method_def handle_put_eq [OF E(2) assms(5)])
  then obtain v where v: "later w v" "run (caldav_router E path r) w = run (put_object E None cid uid data) v"
    by (rule_tac run_object_request [OF E(1) assms(2)]) (simp add: assms(3))
  show thesis
  proof (rule stored_by_put [OF later_ready [OF v(1) assms(1)], of uid data])
    fix ob w'
    assume p: "run (put_object E None cid uid data) v = (Reply (ok_put (lookup_object v cid uid = None) (o_etag ob)), w')"
      "lookup_object w' cid uid = Some ob" "o_ical_data ob = data" "header_value_ok E (o_etag ob)" "ready E w' cid"
    have "describes uid data (put_fields (extract_fields data))"
      using describes_put [of fname data] assms(7) by simp
    then have "same_access v (snd (run (put_object E None cid uid data) v))"
      using always_run [OF access_kept.safe_put_object same_access_refl] by blast
    then have "same_access v w'" using p(1) by simp
    then show thesis
      using that [OF _ p(2-5)] p(1) v same_data_lookup [OF later_same [OF v(1)]]
        same_access_trans [OF same_data_access [OF later_same [OF v(1)]]] by simp
  qed
qed

lemma router_get:
  assumes "no_faults E" "headers_sound E" "object_request E w path r user cid fname" "has_access w (u_id user) cid"
    and "req_method r = ''GET''" "trim_end_matches fname ''.ics'' = uid"
    and "case lookup_object w cid uid of None \<Rightarrow> True | Some ob \<Rightarrow> header_value_ok E (o_etag ob)"
  shows "fst (run (caldav_router E path r) w) =
    (case lookup_object w cid uid of
       None \<Rightarrow> Reply (text_response NOT_FOUND ''Object not found'')
     | Some ob \<Rightarrow> Reply (ok_get (o_etag ob) (o_ical_data ob)))"
proof -
  have "object_method E cid fname r = handle_get E cid fname"
    using assms(5) by (simp add: object_method_def)
  then obtain v where "later w v" "run (caldav_router E path r) w = run (handle_get E cid fname) v"
    by (rule_tac run_object_request [OF assms(1,3)]) (simp add: assms(4))
  moreover from this(1) have "lookup_object v cid uid = lookup_object w cid uid"
    by (intro same_data_lookup later_same)
  ultimately show ?thesis
    using assms(6,7) run_handle_get_found [OF assms(1,2), of v cid fname] run_handle_get_missing [OF assms(1), of v cid fname]
    by (cases "lookup_object w cid uid") simp_all
qed

lemma router_delete:
  assumes "no_faults E" "object_request E w path r user cid fname" "has_access w (u_id user) cid"
    and "req_method r = ''DELETE''" "trim_end_matches fname ''.ics'' = uid" "calendar_exists w cid"
    and "lookup_object w cid uid = Some ob"
  obtains w' where "run (caldav_router E path r) w = (Reply (text_response NO_CONTENT []), w')"
    "lookup_object w' cid uid = None" "same_access w w'"
proof -
  have "object_method E cid fname r = handle_delete_object E cid fname"
    using assms(4) by (simp add: object_method_def)
  then obtain v where v: "later w v" "run (caldav_router E path r) w = run (handle_delete_object E cid fname) v"
    by (rule_tac run_object_request [OF assms(1,2)]) (simp add: assms(3))
  have same: "same_data w v" using v(1) by (rule later_same)
  have "run (delete_object E cid uid) v = (Inr (), removed E v cid uid)"
    using assms(6,7) same [unfolded same_data_iff]
    by (intro run_delete_found [OF assms(1)]) (simp_all add: same_data_lookup [OF same] calendar_exists_def)
  then have "run (handle_delete_object E cid fname) v = (Reply (text_response NO_CONTENT []), removed E v cid uid)"
    using assms(5) by (simp add: handle_delete_object_def run_bind)
  moreover have "same_access v (snd (run (handle_delete_object E cid fname) v))"
    using always_run [OF access_kept.safe_handle_delete_object same_access_refl] by blast
  ultimately show thesis
    using that [of "removed E v cid uid"] v(2) same_access_trans [OF same_data_access [OF same]]
    by (simp add: lookup_removed)
qed


lemma demo_object_requests:
  "object_request demo_ext demo_world [''caldav'', ''users'', ''alice'', ''work'', ''review.ics''] (demo_put None) alice ''work'' ''review.ics''"
  "object_request demo_ext demo_world [''caldav'', ''users'', ''bob'', ''work'', ''review.ics''] (demo_request ''GET'' (Some ''Basic bob:hidden'')) bob ''work'' ''review.ics''"
  "object_request demo_ext demo_world [''calendar'', ''dav'', ''alice@example.com'', ''user'', ''work'', ''review.ics''] (demo_request ''DELETE'' None) alice ''work'' ''review.ics''"
proof -
  have "basic_credentials demo_ext ''Basic bob:hidden'' = Some (''bob'', ''hidden'')" by code_simp
  then show "object_request demo_ext demo_world [''caldav'', ''users'', ''bob'', ''work'', ''review.ics'']
      (demo_request ''GET'' (Some ''Basic bob:hidden'')) bob ''work'' ''review.ics''"
    by (simp add: object_request_def sent_by_def login_user_def verify_password_def demo_defs demo_ext_def starts_with_def)
qed (simp_all add: object_request_def sent_by_def demo_put_def extract_auth_header_def header_str_def demo_request_def demo_defs demo_ext_def)

lemma demo_access: "has_access demo_world (u_id alice) ''work''" "has_access demo_world (u_id bob) ''work''"
  by (auto simp: has_access_iff owns_def is_shared_def calendar_exists_def demo_defs)


section \<open>A tool call\<close>

text \<open>A POST on the MCP port with a valid token of the user, whose body is a call of a tool.\<close>

definition tool_call :: "ext \<Rightarrow> world \<Rightarrow> http_request \<Rightarrow> string \<Rightarrow> json \<Rightarrow> string \<Rightarrow> json \<Rightarrow> bool" where
  "tool_call E w r user_id i name args \<longleftrightarrow>
     req_method r = ''POST'' \<and> length (req_body r) \<le> 1024 * 1024 \<and>
     (\<exists>tok. header_str r ''authorization'' = Some (''Bearer '' @ tok) \<and>
        find_token E tok (filter (token_live E (tick w)) (db_tokens w)) = Inr (Some user_id)) \<and>
     (\<exists>q. rpc_from_slice E (req_body r) = Inr q \<and> rpc_id q = Some i \<and> rpc_method q = ''tools/call'' \<and>
        json_get (rpc_params q) ''name'' = Some (JString name) \<and>
        json_get (rpc_params q) ''arguments'' = Some args)"

definition ok_rpc :: "ext \<Rightarrow> json \<Rightarrow> json \<Rightarrow> http_response" where
  "ok_rpc E i v = \<lparr>resp_status = OK, resp_headers = json_headers, resp_body = json_vec E (rpc_success (Some i) v)\<rparr>"

lemma strip_prefix_append: "strip_prefix (p @ s) p = Some s"
  by (simp add: strip_prefix_def starts_with_def)

lemma run_tool_call:
  assumes "no_faults E" "bodies_bounded E" "tool_call E w r user_id i name args"
  shows "run (mcp_router E mode [''mcp''] r) w =
    (case run (dispatch E user_id name args mode) (tick w) of (res, w') \<Rightarrow> (Reply (ok_rpc E i (tool_content E res)), w'))"
proof -
  obtain tok q where c: "req_method r = ''POST''" "length (req_body r) \<le> 1024 * 1024"
      "header_str r ''authorization'' = Some (''Bearer '' @ tok)"
      "find_token E tok (filter (token_live E (tick w)) (db_tokens w)) = Inr (Some user_id)"
      "rpc_from_slice E (req_body r) = Inr q" "rpc_id q = Some i" "rpc_method q = ''tools/call''"
      "json_get (rpc_params q) ''name'' = Some (JString name)" "json_get (rpc_params q) ''arguments'' = Some args"
    using assms(3) unfolding tool_call_def by blast
  have "run (bearer_user E r) w = (Inr user_id, tick w)"
    using c(3,4) assms(1)
    by (simp add: bearer_user_def run_result run_validate_token strip_prefix_append [of "''Bearer ''", simplified])
  then show ?thesis
    using c assms(2)
    by (simp add: mcp_router_def require_bearer_auth_def run_result mcp_route_def handle_post_def to_bytes_eq
        handle_request_def handle_tools_call_def ok_rpc_def split: prod.split)
qed

section \<open>From the MCP port to the CalDAV port\<close>

lemma trim_ics: "\<not> ends_with s ''.ics'' \<Longrightarrow> trim_end_matches (s @ ''.ics'') ''.ics'' = s"
  by (subst trim_end_matches.simps, simp add: ends_with_def, subst trim_end_matches.simps) (auto simp: ends_with_def)

lemma trim_generated: "trim_end_matches (uid_of u @ ''.ics'') ''.ics'' = uid_of u"
  by (rule trim_ics) (simp add: uid_of_def ends_with_def)

lemma inserted_access: "same_access w (inserted E w cid uid data fs)"
  by (simp add: same_access_def inserted_def logged_def map_upd_column del: map_map)

text \<open>C7: an event made by a language model is served to calendar clients. A \<open>create_event\<close> call on the
  MCP port, in the mode with all tools and with a valid token, is answered with the new UID and an
  ETag; from then on, until something else is written, a CalDAV GET of that UID by any user with
  access to the calendar returns, under the same ETag, the iCalendar text built from the title and
  the times of the call.\<close>

theorem mcp_event_served_by_caldav:
  assumes "ready E w cid" "mode \<noteq> ''simple''"
    and "tool_call E w r1 user_id i ''create_event'' (event_args cid title start stop)"
    and "uid = uid_of (uuid_v4 E (Suc (ticks w)))" "lookup_object w cid uid = None"
    and "object_request E w p2 r2 user2 cid (uid @ ''.ics'')" "has_access w (u_id user2) cid" "req_method r2 = ''GET''"
  shows "\<exists>res etag now w1.
    run (mcp_router E mode [''mcp''] r1) w = (Reply (ok_rpc E i (tool_content E (Inr res))), w1) \<and>
    json_get res ''uid'' = Some (JString uid) \<and> json_get res ''etag'' = Some (JString etag) \<and>
    (\<forall>v. same_data w1 v \<longrightarrow>
       fst (run (caldav_router E p2 r2) v) = Reply (ok_get etag (plain_vevent now uid title start stop)))"
proof -
  have E: "no_faults E" "headers_sound E" "bodies_bounded E" "uuids_printable E" "ids_fresh E (tick w)"
      "calendar_exists (tick w) cid"
    using ready_tick [OF assms(1)] by (simp_all add: ready_def)
  let ?data = "plain_vevent (utc_stamp E (Suc (Suc (ticks w)))) uid title start stop"
  let ?ob = "new_object E (ticks w + 3) cid uid ?data (event_fields title start stop)"
  define w1 where "w1 = inserted E (tick (tick (tick w))) cid uid ?data (event_fields title start stop)"
  have "dispatch E user_id ''create_event'' (event_args cid title start stop) mode =
      create_event E user_id (event_args cid title start stop)"
    using assms(2) by (simp add: dispatch_def)
  then obtain res where res: "run (mcp_router E mode [''mcp''] r1) w = (Reply (ok_rpc E i (tool_content E (Inr res))), w1)"
      "json_get res ''uid'' = Some (JString uid)" "json_get res ''etag'' = Some (JString (o_etag ?ob))"
    using run_tool_call [OF E(1,3) assms(3), of mode] run_create_event [OF E(1,5,6), of uid user_id title start stop] assms(4,5)
    by (simp add: w1_def)
  have found: "lookup_object w1 cid uid = Some ?ob"
    using assms(5) by (simp add: w1_def lookup_inserted eval_nat_numeral)
  have access: "same_access w w1"
    using inserted_access [of "tick (tick (tick w))"] by (simp add: w1_def same_access_def)
  have "fst (run (caldav_router E p2 r2) v) = Reply (ok_get (o_etag ?ob) ?data)" if v: "same_data w1 v" for v
  proof -
    have acc: "same_access w v" by (rule same_access_trans [OF access same_data_access [OF v]])
    have "lookup_object v cid uid = Some ?ob" using same_data_lookup [OF v] found by simp
    moreover have "header_value_ok E (o_etag ?ob)" by (simp add: etag_header_ok [OF E(2,4)])
    ultimately show ?thesis
      using router_get [OF E(1,2), of v p2 r2 user2 cid "uid @ ''.ics''" uid] assms(6-8)
      by (simp add: same_access_request [OF acc] same_access_has_access [OF acc] assms(4) trim_generated new_object_def)
  qed
  with res show ?thesis by blast
qed

text \<open>Sharing and unsharing by tool call, and what the router then says to the other user.\<close>

definition share_args :: "string \<Rightarrow> string \<Rightarrow> string \<Rightarrow> json" where
  "share_args cid name permission =
     JObject [(''calendar_id'', JString cid), (''username'', JString name), (''permission'', JString permission)]"

definition unshare_args :: "string \<Rightarrow> string \<Rightarrow> json" where
  "unshare_args cid name = JObject [(''calendar_id'', JString cid), (''username'', JString name)]"

lemma share_args_simps [simp]:
  "arg_str (share_args c n p) ''calendar_id'' = Some c" "arg_str (share_args c n p) ''username'' = Some n"
  "arg_str (share_args c n p) ''permission'' = Some p"
  "arg_str (unshare_args c n) ''calendar_id'' = Some c" "arg_str (unshare_args c n) ''username'' = Some n"
  by (simp_all add: arg_str_def json_index_def share_args_def unshare_args_def)

lemma run_user_named:
  assumes "no_faults E" "find (\<lambda>u. u_username u = name) (db_users w) = Some user"
  shows "run (user_named E name) w = (Inr user, tick w)"
  using assms by (simp add: user_named_def run_result run_describe run_get_user_by_username)

lemma run_share_tool:
  assumes "no_faults E" "calendar_exists w cid" "find (\<lambda>u. u_username u = name) (db_users w) = Some user"
    and "uuid_v7 E (Suc (ticks w)) \<notin> set (map s_id (db_shares w))"
  obtains res w' where "run (share_calendar_tool E u (share_args cid name (perm_as_str p))) w = (Inr res, w')"
    "has_access w' (u_id user) cid" "db_users w' = db_users w" "db_objects w' = db_objects w" "db_calendars w' = db_calendars w"
proof -
  have "user_exists (tick w) (u_id user)" using find_SomeD [OF assms(3)] by (auto simp: user_exists_def)
  then obtain s w' where s: "run (share_calendar E cid (u_id user) p) (tick w) = (Inr s, w')"
      "\<forall>c v. find_share w' c v = (if (c, v) = (cid, u_id user) then Some s else find_share (tick w) c v)"
      "db_calendars w' = db_calendars (tick w)" "db_users w' = db_users (tick w)" "db_objects w' = db_objects (tick w)"
    using assms(2,4) by (rule_tac run_share_calendar [OF assms(1), of "tick w" cid "u_id user" p]) auto
  have "is_shared w' cid (u_id user)" using s(2) by (simp flip: find_share_eq)
  then have "has_access w' (u_id user) cid" using assms(2) s(3) by (simp add: has_access_iff calendar_exists_def)
  then show thesis
    using that [OF _ _ _ _ _] s(1,3-5)
    by (simp add: share_calendar_tool_def run_result run_required run_describe perm_round_trip run_user_named [OF assms(1,3)])
qed

lemma run_unshare_tool:
  assumes "no_faults E" "find (\<lambda>u. u_username u = name) (db_users w) = Some user" "is_shared w cid (u_id user)"
  shows "\<exists>res. run (unshare_calendar_tool E u (unshare_args cid name)) w = (Inr res, without_share (tick w) cid (u_id user))"
proof -
  have "is_shared (tick w) cid (u_id user)" using assms(3) by (simp add: is_shared_def)
  then show ?thesis
    by (simp add: unshare_calendar_tool_def run_result run_required run_describe run_user_named [OF assms(1,2)]
        run_unshare_calendar [OF assms(1)])
qed


section \<open>A concrete tool call\<close>

definition calls_ext :: "string \<Rightarrow> json \<Rightarrow> ext" where
  "calls_ext name args = demo_ext\<lparr>rpc_from_slice := \<lambda>b. Inr
     \<lparr>rpc_jsonrpc = ''2.0'', rpc_id = Some (JString ''1''), rpc_method = ''tools/call'',
      rpc_params = JObject [(''name'', JString name), (''arguments'', args)]\<rparr>\<rparr>"

definition demo_post :: http_request where
  "demo_post = \<lparr>req_method = ''POST'', req_headers = [(''authorization'', Some ''Bearer mcp_a'')], req_body = ''{}''\<rparr>"

lemma demo_tool_call: "tool_call (calls_ext name args) two_tokens demo_post ''u1'' (JString ''1'') name args"
  by (simp add: tool_call_def demo_post_def header_str_def calls_ext_def demo_ext_def two_tokens_def demo_defs
      token_live_def verify_token_def starts_with_def)

lemma calls_ext_ready: "c \<in> {''work'', ''home''} \<Longrightarrow> ready (calls_ext name args) two_tokens c"
  using demo_ready [of c]
  by (simp add: ready_def calls_ext_def two_tokens_def no_faults_def uuids_distinct_def headers_sound_def uuids_printable_def
      bodies_bounded_def ids_fresh_def calendar_exists_def)

lemma demo_path_request:
  assumes "find (\<lambda>u. u_username u = name) (db_users demo_world) = Some user" "name \<noteq> []" "cid \<noteq> []" "fname \<noteq> []" "m \<noteq> ''OPTIONS''"
  shows "object_request (calls_ext tool args) two_tokens [''caldav'', ''users'', name, cid, fname] (demo_request m None) user cid fname"
  using assms by (simp add: object_request_def sent_by_def calls_ext_def demo_ext_def two_tokens_def)

theorem mcp_event_served_by_caldav_witness:
  "\<exists>etag now w1.
     snd (run (mcp_router (calls_ext ''create_event'' (event_args ''work'' ''Lunch'' ''20260302T120000'' ''20260302T130000''))
       ''full'' [''mcp''] demo_post) two_tokens) = w1 \<and>
     fst (run (caldav_router (calls_ext ''create_event'' (event_args ''work'' ''Lunch'' ''20260302T120000'' ''20260302T130000''))
       [''caldav'', ''users'', ''bob'', ''work'', ''u4@caldav-server.ics''] (demo_request ''GET'' None)) w1) =
     Reply (ok_get etag (plain_vevent now ''u4@caldav-server'' ''Lunch'' ''20260302T120000'' ''20260302T130000''))"
proof -
  let ?E = "calls_ext ''create_event'' (event_args ''work'' ''Lunch'' ''20260302T120000'' ''20260302T130000'')"
  have uid: "''u4@caldav-server'' = uid_of (uuid_v4 ?E (Suc (ticks two_tokens)))"
    by (simp add: calls_ext_def demo_ext_def uid_of_def two_tokens_def demo_defs)
  have none: "lookup_object two_tokens ''work'' ''u4@caldav-server'' = None"
    by (simp add: lookup_object_def two_tokens_def demo_defs)
  have "find (\<lambda>u. u_username u = ''bob'') (db_users demo_world) = Some bob" by (simp add: demo_defs)
  then have req: "object_request ?E two_tokens [''caldav'', ''users'', ''bob'', ''work'', ''u4@caldav-server'' @ ''.ics'']
      (demo_request ''GET'' None) bob ''work'' (''u4@caldav-server'' @ ''.ics'')"
    by (rule demo_path_request) simp_all
  have access: "has_access two_tokens (u_id bob) ''work''"
    using demo_access(2) by (simp add: has_access_iff owns_def is_shared_def calendar_exists_def two_tokens_def)
  obtain res etag now w1 where
      "run (mcp_router ?E ''full'' [''mcp''] demo_post) two_tokens = (Reply (ok_rpc ?E (JString ''1'') (tool_content ?E (Inr res))), w1)"
      "\<forall>v. same_data w1 v \<longrightarrow> fst (run (caldav_router ?E [''caldav'', ''users'', ''bob'', ''work'', ''u4@caldav-server'' @ ''.ics'']
          (demo_request ''GET'' None)) v) =
        Reply (ok_get etag (plain_vevent now ''u4@caldav-server'' ''Lunch'' ''20260302T120000'' ''20260302T130000''))"
    using mcp_event_served_by_caldav [OF calls_ext_ready _ demo_tool_call uid none req access, of "''full''"] by force
  then show ?thesis
    by (intro exI [of _ etag] exI [of _ now] exI [of _ w1]) simp
qed


end
