(* ===== verification/Fair_Schedules.thy ===== *)
theory Fair_Schedules
  imports Concurrency
begin

text \<open>
  Infinite schedules. A schedule is a sequence of states of the system; it is fair when a request
  that has not ended gets another turn. In a fair schedule every request ends, however many new
  requests keep arriving.
\<close>

section \<open>Definitions\<close>

text \<open>The request at position \<open>i\<close> makes its next call.\<close>

definition turn :: "nat \<Rightarrow> ('w, 'a) prog list \<times> 'w \<Rightarrow> ('w, 'a) prog list \<times> 'w \<Rightarrow> bool" where
  "turn i s t \<longleftrightarrow> (\<exists>u c. i < length (fst s) \<and> fst s ! i = Call u c \<and>
     t = ((fst s)[i := c (snd s)], u (snd s)))"

text \<open>A schedule may also pause.\<close>

definition schedule :: "('w, 'a) prog set \<Rightarrow> (nat \<Rightarrow> ('w, 'a) prog list \<times> 'w) \<Rightarrow> bool" where
  "schedule P f \<longleftrightarrow> (\<forall>n. sys_step P (f n) (f (Suc n)) \<or> f (Suc n) = f n)"

definition fair :: "(nat \<Rightarrow> ('w, 'a) prog list \<times> 'w) \<Rightarrow> bool" where
  "fair f \<longleftrightarrow> (\<forall>n i. i < length (fst (f n)) \<and> \<not> finished (fst (f n) ! i) \<longrightarrow>
     (\<exists>m \<ge> n. turn i (f m) (f (Suc m))))"

section \<open>One request along a schedule\<close>

lemma sys_step_keeps:
  assumes "sys_step P s t" "i < length (fst s)"
  shows "i < length (fst t) \<and> (fst t ! i, fst s ! i) \<in> rest\<^sup>="
  using assms
proof (cases rule: sys_step.cases)
  case (call j ps u c w)
  then show ?thesis using assms(2) by (cases "j = i") (auto intro: rest.rest)
qed (auto simp: nth_append)

lemma schedule_keeps:
  assumes "schedule P f" "i < length (fst (f n))"
  shows "i < length (fst (f (n + d))) \<and> (fst (f (n + d)) ! i, fst (f n) ! i) \<in> rest\<^sup>*"
proof (induction d)
  case 0
  show ?case using assms(2) by simp
next
  case (Suc d)
  have "sys_step P (f (n + d)) (f (Suc (n + d))) \<or> f (Suc (n + d)) = f (n + d)"
    using assms(1) by (simp add: schedule_def)
  with Suc sys_step_keeps [of P "f (n + d)" "f (Suc (n + d))" i]
  show ?case by (auto intro: converse_rtrancl_into_rtrancl)
qed

lemma turn_rest: "turn i s t \<Longrightarrow> (fst t ! i, fst s ! i) \<in> rest"
  by (auto simp: turn_def intro: rest.rest)

lemma finished_iff: "finished p \<longleftrightarrow> (\<exists>x. p = Ret x)"
  by (cases p) (simp_all add: finished_def)

lemma rest_star_Ret: "(p, Ret x) \<in> rest\<^sup>* \<Longrightarrow> p = Ret x"
  by (erule rtranclE) (auto elim: restE)

lemma fair_ends:
  assumes "schedule P f" "fair f" "i < length (fst (f n))"
  shows "\<exists>m \<ge> n. finished (fst (f m) ! i)"
  using assms(3)
proof (induction "fst (f n) ! i" arbitrary: n rule: wf_induct_rule [OF wf_trancl [OF wf_rest]])
  case 1
  show ?case
  proof (cases "finished (fst (f n) ! i)")
    case False
    with assms(2) "1.prems" obtain m where m: "m \<ge> n" "turn i (f m) (f (Suc m))"
      unfolding fair_def by blast
    from m(1) have at_m: "(fst (f m) ! i, fst (f n) ! i) \<in> rest\<^sup>*"
      using schedule_keeps [OF assms(1) "1.prems", of "m - n"] by simp
    have "i < length (fst (f (Suc m)))"
      using schedule_keeps [OF assms(1) "1.prems", of "Suc m - n"] m(1) by simp
    moreover have "(fst (f (Suc m)) ! i, fst (f n) ! i) \<in> rest\<^sup>+"
      using turn_rest [OF m(2)] at_m by (rule rtrancl_into_trancl2)
    ultimately obtain k where "k \<ge> Suc m" "finished (fst (f k) ! i)"
      using "1.hyps" by blast
    with m(1) show ?thesis by (intro exI [of _ k]) simp
  qed blast
qed

text \<open>Once there, the answer stays.\<close>

lemma fair_answer:
  assumes "schedule P f" "fair f" "i < length (fst (f n))"
  shows "\<exists>m \<ge> n. \<exists>x. \<forall>k \<ge> m. fst (f k) ! i = Ret x"
proof -
  obtain m x where m: "m \<ge> n" "fst (f m) ! i = Ret x"
    using fair_ends [OF assms] unfolding finished_iff by blast
  have len: "i < length (fst (f m))"
    using schedule_keeps [OF assms(1,3), of "m - n"] m(1) by simp
  have "fst (f k) ! i = Ret x" if "k \<ge> m" for k
  proof (rule rest_star_Ret)
    show "(fst (f k) ! i, Ret x) \<in> rest\<^sup>*"
      using schedule_keeps [OF assms(1) len, of "k - m"] that by (simp add: m(2))
  qed
  with m(1) show ?thesis by blast
qed

text \<open>What all executions of a request return, it returns in a schedule.\<close>

lemma rest_yields: "(p, q) \<in> rest\<^sup>* \<Longrightarrow> yields Q q \<Longrightarrow> yields Q p"
  by (induction rule: converse_rtrancl_induct) (auto elim: restE)

lemma fair_answer_yields:
  assumes "schedule P f" "fair f" "i < length (fst (f n))" "yields Q (fst (f n) ! i)"
  shows "\<exists>m \<ge> n. \<exists>x. Q x \<and> (\<forall>k \<ge> m. fst (f k) ! i = Ret x)"
proof -
  obtain m x where m: "m \<ge> n" "\<forall>k \<ge> m. fst (f k) ! i = Ret x"
    using fair_answer [OF assms(1-3)] by blast
  have "(fst (f m) ! i, fst (f n) ! i) \<in> rest\<^sup>*"
    using schedule_keeps [OF assms(1,3), of "m - n"] m(1) by simp
  from rest_yields [OF this assms(4)] have "Q x" by (simp add: m(2))
  with m show ?thesis by blast
qed

text \<open>A property of all programs that can start holds of the answers.\<close>

lemma schedule_yields:
  assumes "schedule P f" "fst (f 0) = []" "\<And>p. p \<in> P \<Longrightarrow> yields Q p"
  shows "list_all (yields Q) (fst (f n))"
proof (induction n)
  case (Suc n)
  consider "f (Suc n) = f n" | "sys_step P (f n) (f (Suc n))"
    using assms(1) by (auto simp: schedule_def)
  then show ?case
  proof cases
    case 2
    then show ?thesis
      using Suc assms(3) by (cases rule: sys_step.cases) (auto simp: list_all_length nth_list_update nth_append less_Suc_eq)
  qed (simp add: Suc)
qed (simp add: assms(2))

section \<open>One request alone\<close>

text \<open>The request arrives and is then given every turn.\<close>

definition one_call :: "('w, 'a) prog \<times> 'w \<Rightarrow> ('w, 'a) prog \<times> 'w" where
  "one_call s = (case fst s of Ret _ \<Rightarrow> s | Call u c \<Rightarrow> (c (snd s), u (snd s)))"

definition alone :: "('w, 'a) prog \<Rightarrow> 'w \<Rightarrow> nat \<Rightarrow> ('w, 'a) prog list \<times> 'w" where
  "alone p w n = (case n of 0 \<Rightarrow> ([], w) | Suc k \<Rightarrow> (case (one_call ^^ k) (p, w) of (q, v) \<Rightarrow> ([q], v)))"

lemma alone_simps [simp]: "alone p w 0 = ([], w)" "alone p w (Suc 0) = ([p], w)"
  by (simp_all add: alone_def)

lemma alone_next:
  obtains q v where "alone p w (Suc k) = ([q], v)"
    "alone p w (Suc (Suc k)) = ([fst (one_call (q, v))], snd (one_call (q, v)))"
  by (cases "(one_call ^^ k) (p, w)") (auto simp: alone_def split: prod.split)

lemma schedule_alone:
  assumes "p \<in> P"
  shows "schedule P (alone p w)"
  unfolding schedule_def
proof
  fix n
  show "sys_step P (alone p w n) (alone p w (Suc n)) \<or> alone p w (Suc n) = alone p w n"
  proof (cases n)
    case 0
    then show ?thesis using sys_step.spawn [OF assms, of "[]" w] by simp
  next
    case (Suc k)
    obtain q v where s: "alone p w (Suc k) = ([q], v)"
        "alone p w (Suc (Suc k)) = ([fst (one_call (q, v))], snd (one_call (q, v)))"
      by (rule alone_next)
    show ?thesis
      using sys_step.call [of 0 "[q]" _ _ P v] by (cases q) (auto simp: Suc s one_call_def)
  qed
qed

lemma fair_alone: "fair (alone p w)"
  unfolding fair_def
proof (intro allI impI)
  fix n i
  assume i: "i < length (fst (alone p w n)) \<and> \<not> finished (fst (alone p w n) ! i)"
  then obtain k where n: "n = Suc k" by (cases n) simp_all
  obtain q v where "alone p w (Suc k) = ([q], v)"
      "alone p w (Suc (Suc k)) = ([fst (one_call (q, v))], snd (one_call (q, v)))"
    by (rule alone_next)
  with i have "turn i (alone p w n) (alone p w (Suc n))"
    by (cases q) (auto simp: n turn_def one_call_def finished_def)
  then show "\<exists>m \<ge> n. turn i (alone p w m) (alone p w (Suc m))" by blast
qed

end
