(* ===== verification/Service_Spec.thy ===== *)
theory Service_Spec
  imports Schema
begin

text \<open>
  What the server is for, without tables, identifiers of rows, tags and time: accounts, calendars with
  their owners, shares, objects under calendar and UID, and the access tokens of accounts. The steps
  say what may happen to them; every statement of the server is one of these steps or changes nothing
  they speak of.
\<close>

section \<open>The specification\<close>

record service =
  sv_users :: "string \<Rightarrow> (string \<times> string option \<times> string) option"
  sv_calendars :: "string \<Rightarrow> string option"
  sv_shares :: "string \<times> string \<Rightarrow> string option"
  sv_objects :: "string \<times> string \<Rightarrow> (string \<times> ObjectFields) option"
  sv_tokens :: "string \<Rightarrow> (string \<times> string \<times> string option) option"

text \<open>An account has a name, an email and a password hash, a calendar its owner, a share a permission,
  an object its text and columns, a token its user, hash and expiry.\<close>

inductive svc_step :: "service \<Rightarrow> service \<Rightarrow> bool" where
  add_user: "sv_users s u = None \<Longrightarrow> (\<forall>v a. sv_users s v = Some a \<longrightarrow> fst a \<noteq> n) \<Longrightarrow>
    svc_step s (s\<lparr>sv_users := (sv_users s)(u \<mapsto> (n, m, h))\<rparr>)"
| set_password: "sv_users s u = Some (n, m, h) \<Longrightarrow>
    svc_step s (s\<lparr>sv_users := (sv_users s)(u \<mapsto> (n, m, h'))\<rparr>)"
| add_calendar: "sv_calendars s c = None \<Longrightarrow> sv_users s owner \<noteq> None \<Longrightarrow>
    svc_step s (s\<lparr>sv_calendars := (sv_calendars s)(c \<mapsto> owner)\<rparr>)"
| remove_calendar: "sv_calendars s c \<noteq> None \<Longrightarrow>
    svc_step s (s\<lparr>sv_calendars := (sv_calendars s)(c := None),
      sv_shares := (\<lambda>k. if fst k = c then None else sv_shares s k),
      sv_objects := (\<lambda>k. if fst k = c then None else sv_objects s k)\<rparr>)"
| grant: "sv_calendars s c \<noteq> None \<Longrightarrow> sv_users s u \<noteq> None \<Longrightarrow> permission_check p \<Longrightarrow>
    svc_step s (s\<lparr>sv_shares := (sv_shares s)((c, u) \<mapsto> p)\<rparr>)"
| revoke: "sv_shares s (c, u) \<noteq> None \<Longrightarrow> svc_step s (s\<lparr>sv_shares := (sv_shares s)((c, u) := None)\<rparr>)"
| store: "sv_calendars s c \<noteq> None \<Longrightarrow> describes u text columns \<Longrightarrow>
    svc_step s (s\<lparr>sv_objects := (sv_objects s)((c, u) \<mapsto> (text, columns))\<rparr>)"
| discard: "sv_objects s (c, u) \<noteq> None \<Longrightarrow> svc_step s (s\<lparr>sv_objects := (sv_objects s)((c, u) := None)\<rparr>)"
| add_token: "sv_tokens s t = None \<Longrightarrow> sv_users s u \<noteq> None \<Longrightarrow>
    svc_step s (s\<lparr>sv_tokens := (sv_tokens s)(t \<mapsto> (u, h, x))\<rparr>)"
| remove_token: "sv_tokens s t \<noteq> None \<Longrightarrow> svc_step s (s\<lparr>sv_tokens := (sv_tokens s)(t := None)\<rparr>)"

inductive_cases svc_stepE: "svc_step s t"

definition no_service :: service where
  "no_service = \<lparr>sv_users = Map.empty, sv_calendars = Map.empty, sv_shares = Map.empty, sv_objects = Map.empty,
     sv_tokens = Map.empty\<rparr>"

text \<open>What the steps keep: everything hangs together, names are unique, columns describe their text.\<close>

definition svc_ok :: "service \<Rightarrow> bool" where
  "svc_ok s \<longleftrightarrow>
     (\<forall>u v a b. sv_users s u = Some a \<longrightarrow> sv_users s v = Some b \<longrightarrow> fst a = fst b \<longrightarrow> u = v) \<and>
     (\<forall>c u. sv_calendars s c = Some u \<longrightarrow> sv_users s u \<noteq> None) \<and>
     (\<forall>c u. sv_shares s (c, u) \<noteq> None \<longrightarrow> sv_calendars s c \<noteq> None \<and> sv_users s u \<noteq> None) \<and>
     (\<forall>c u x. sv_objects s (c, u) = Some x \<longrightarrow> sv_calendars s c \<noteq> None \<and> describes u (fst x) (snd x)) \<and>
     (\<forall>t u h x. sv_tokens s t = Some (u, h, x) \<longrightarrow> sv_users s u \<noteq> None)"

lemma svc_ok_init: "svc_ok no_service"
  by (simp add: svc_ok_def no_service_def)

lemma svc_ok_step: "svc_step s t \<Longrightarrow> svc_ok s \<Longrightarrow> svc_ok t"
proof (induction rule: svc_step.induct)
  case (add_user s u n m h)
  then show ?case unfolding svc_ok_def by (simp split: if_splits) metis
next
  case (add_calendar s c owner)
  then show ?case unfolding svc_ok_def by (simp split: if_splits) metis
qed (unfold svc_ok_def, (simp split: if_splits; metis)+)

lemma svc_ok_steps: "svc_step\<^sup>*\<^sup>* s t \<Longrightarrow> svc_ok s \<Longrightarrow> svc_ok t"
  by (induction rule: rtranclp_induct) (auto intro: svc_ok_step)

section \<open>The server as a service\<close>

definition service_of :: "world \<Rightarrow> service" where
  "service_of w =
     \<lparr>sv_users = table u_id (\<lambda>u. (u_username u, u_email u, u_password_hash u)) (db_users w),
      sv_calendars = table c_id c_owner_id (db_calendars w),
      sv_shares = table share_key s_permission (db_shares w),
      sv_objects = table obj_key (\<lambda>ob. (o_ical_data ob, object_fields ob)) (db_objects w),
      sv_tokens = table t_id (\<lambda>t. (t_user_id t, t_token_hash t, t_expires_at t)) (db_tokens w)\<rparr>"

lemma service_of_init: "service_of init_world = no_service"
  by (simp add: service_of_def init_world_def no_service_def)

lemma service_of_tick [simp]: "service_of (tick w) = service_of w"
  by (simp add: service_of_def)

lemma service_of_sessions [simp]: "service_of (w\<lparr>mcp_sessions := ss\<rparr>) = service_of w"
  by (simp add: service_of_def)

lemma service_rows:
  "sv_users (service_of w) u = None \<longleftrightarrow> \<not> user_exists w u"
  "sv_calendars (service_of w) c = None \<longleftrightarrow> \<not> calendar_exists w c"
  "sv_shares (service_of w) (i, j) = None \<longleftrightarrow> (i, j) \<notin> share_key ` set (db_shares w)"
  "sv_objects (service_of w) (i, j) = None \<longleftrightarrow> (i, j) \<notin> obj_key ` set (db_objects w)"
  "sv_tokens (service_of w) t = None \<longleftrightarrow> t \<notin> t_id ` set (db_tokens w)"
  by (simp_all add: service_of_def table_None user_exists_def calendar_exists_def)

lemma user_names: "sv_users (service_of w) u = Some a \<Longrightarrow> fst a \<in> u_username ` set (db_users w)"
  by (auto simp: service_of_def table_def dest!: find_SomeD)

text \<open>Statement by statement: one step of the specification, or none.\<close>

abbreviation refines_step :: "world \<Rightarrow> world \<Rightarrow> bool" where
  "refines_step w v \<equiv> svc_step\<^sup>=\<^sup>= (service_of w) (service_of v)"

lemma service_insert_user: "refines_step w (snd (insert_user r w))"
proof (cases "u_id r \<in> set (map u_id (db_users w)) \<or> u_username r \<in> set (map u_username (db_users w))")
  case False
  then have "service_of (snd (insert_user r w)) = (service_of w)\<lparr>sv_users :=
      (sv_users (service_of w))(u_id r \<mapsto> (u_username r, u_email r, u_password_hash r))\<rparr>"
    by (simp add: insert_user_def service_of_def table_append)
  moreover have "sv_users (service_of w) (u_id r) = None" using False by (simp add: service_rows user_exists_def)
  moreover have "\<forall>v a. sv_users (service_of w) v = Some a \<longrightarrow> fst a \<noteq> u_username r"
    using False user_names [of w] by auto
  ultimately show ?thesis using svc_step.add_user by (metis sup2CI)
qed (auto simp: insert_user_def)

lemma service_update_password:
  assumes "users_ok w"
  shows "refines_step w (snd (update_password h n w))"
proof (cases "find (\<lambda>u. u_username u = n) (db_users w)")
  case None
  then have "map (\<lambda>u. if u_username u = n then u\<lparr>u_password_hash := h\<rparr> else u) (db_users w) = db_users w"
    by (intro map_idI) (auto dest: find_NoneD)
  then show ?thesis by (simp add: update_password_def)
next
  case (Some x)
  then have x: "x \<in> set (db_users w)" "u_username x = n" using find_SomeD by fastforce+
  have "u_username y = n \<longleftrightarrow> u_id y = u_id x" if "y \<in> set (db_users w)" for y
    using assms that x by (auto simp: users_ok_def distinct_map inj_on_def)
  then have same: "map (\<lambda>u. if u_username u = n then u\<lparr>u_password_hash := h\<rparr> else u) (db_users w) =
      map (\<lambda>u. if u_id u = u_id x then u\<lparr>u_password_hash := h\<rparr> else u) (db_users w)"
    by (intro map_cong) auto
  have "find (\<lambda>y. u_id y = u_id x) (db_users w) = Some x"
    using assms x(1) by (intro find_key_unique) (simp_all add: users_ok_def)
  then have "service_of (snd (update_password h n w)) = (service_of w)\<lparr>sv_users :=
      (sv_users (service_of w))(u_id x \<mapsto> (n, u_email x, h))\<rparr>"
    and "sv_users (service_of w) (u_id x) = Some (n, u_email x, u_password_hash x)"
    unfolding update_password_def service_of_def same snd_conv
    using x(2) by (simp_all add: table_update) (simp_all add: table_def)
  then show ?thesis by (auto intro: svc_step.set_password)
qed

lemma service_insert_calendar: "refines_step w (snd (insert_calendar r w))"
proof (cases "c_id r \<in> set (map c_id (db_calendars w)) \<or> \<not> user_exists w (c_owner_id r)")
  case False
  then have "service_of (snd (insert_calendar r w)) =
      (service_of w)\<lparr>sv_calendars := (sv_calendars (service_of w))(c_id r \<mapsto> c_owner_id r)\<rparr>"
    by (simp add: insert_calendar_def service_of_def table_append)
  moreover have "sv_calendars (service_of w) (c_id r) = None" "sv_users (service_of w) (c_owner_id r) \<noteq> None"
    using False by (simp_all add: service_rows calendar_exists_def)
  ultimately show ?thesis by (auto intro: svc_step.add_calendar)
qed (auto simp: insert_calendar_def)

lemma service_update_calendar:
  "service_of (snd (update_calendar_props E n d k z i w)) = service_of w"
  "service_of (snd (update_calendar_tokens E tk i w)) = service_of w"
  by (simp_all add: update_calendar_props_def update_calendar_tokens_def service_of_def table_columns)

lemma service_insert_change: "service_of (snd (insert_change r w)) = service_of w"
  by (simp add: insert_change_def service_of_def)

lemma service_delete_calendar:
  assumes "db_inv w"
  shows "refines_step w (snd (delete_calendar_row c w))"
proof (cases "calendar_exists w c")
  case True
  have "service_of (snd (delete_calendar_row c w)) = (service_of w)\<lparr>sv_calendars := (sv_calendars (service_of w))(c := None),
      sv_shares := (\<lambda>k. if fst k = c then None else sv_shares (service_of w) k),
      sv_objects := (\<lambda>k. if fst k = c then None else sv_objects (service_of w) k)\<rparr>"
    using table_filter [of share_key s_permission "\<lambda>k. fst k \<noteq> c" "db_shares w"]
      table_filter [of obj_key "\<lambda>ob. (o_ical_data ob, object_fields ob)" "\<lambda>k. fst k \<noteq> c" "db_objects w"]
    by (simp add: delete_calendar_row_def service_of_def table_remove fun_eq_iff)
  with True show ?thesis using svc_step.remove_calendar [of "service_of w" c] by (simp add: service_rows)
next
  case False
  then have "filter (\<lambda>x. c_id x \<noteq> c) (db_calendars w) = db_calendars w" "filter (\<lambda>x. o_calendar_id x \<noteq> c) (db_objects w) = db_objects w"
      "filter (\<lambda>x. s_calendar_id x \<noteq> c) (db_shares w) = db_shares w"
    using assms by (auto simp: filter_id_conv calendar_exists_def db_inv_def objects_ok_def shares_ok_def)
  then show ?thesis by (simp add: delete_calendar_row_def service_of_def)
qed

lemma service_insert_object:
  assumes "described r"
  shows "refines_step w (snd (insert_object r w))"
proof (cases "fst (insert_object r w)")
  case (Inr x)
  then have "obj_key r \<notin> obj_key ` set (db_objects w)" "calendar_exists w (o_calendar_id r)"
      "snd (insert_object r w) = w\<lparr>db_objects := db_objects w @ [r]\<rparr>"
    by (auto simp: insert_object_def split: if_splits)
  then have "service_of (snd (insert_object r w)) = (service_of w)\<lparr>sv_objects :=
      (sv_objects (service_of w))((o_calendar_id r, o_uid r) \<mapsto> (o_ical_data r, object_fields r))\<rparr>"
    and "sv_calendars (service_of w) (o_calendar_id r) \<noteq> None"
    using table_append [of obj_key r "db_objects w" "\<lambda>ob. (o_ical_data ob, object_fields ob)"]
    by (simp_all add: service_rows) (simp add: service_of_def)
  then show ?thesis using svc_step.store assms unfolding described_def by (metis sup2CI)
qed (auto simp: insert_object_def split: if_splits)

lemma service_update_object:
  assumes "db_inv w" "describes u d \<lparr>f_component_type = ct, f_dtstart = ds, f_dtend = de, f_summary = sm\<rparr>"
  shows "refines_step w (snd (update_object_row E e d ct ds de sm c u w))"
proof (cases "(c, u) \<in> obj_key ` set (db_objects w)")
  case True
  let ?f = "\<lambda>ob. ob\<lparr>o_etag := e, o_ical_data := d, o_component_type := ct, o_dtstart := ds, o_dtend := de,
      o_summary := sm, o_updated_at := datetime_now E (ticks w)\<rparr>"
  let ?v = "(d, \<lparr>f_component_type = ct, f_dtstart = ds, f_dtend = de, f_summary = sm\<rparr>)"
  have "table obj_key (\<lambda>ob. (o_ical_data ob, object_fields ob)) (map (\<lambda>ob. if obj_key ob = (c, u) then ?f ob else ob) (db_objects w))
      = (table obj_key (\<lambda>ob. (o_ical_data ob, object_fields ob)) (db_objects w))((c, u) \<mapsto> ?v)"
    using table_update [of obj_key ?f "\<lambda>ob. (o_ical_data ob, object_fields ob)" "(c, u)" "db_objects w"]
      table_const [of obj_key ?v "db_objects w" "(c, u)"] True by (simp add: object_fields_def)
  then have "service_of (snd (update_object_row E e d ct ds de sm c u w)) =
      (service_of w)\<lparr>sv_objects := (sv_objects (service_of w))((c, u) \<mapsto> ?v)\<rparr>"
    by (simp add: update_object_row_def service_of_def)
  moreover have "sv_calendars (service_of w) c \<noteq> None"
    using assms(1) True by (auto simp: service_rows db_inv_def objects_ok_def calendar_exists_def)
  ultimately show ?thesis using svc_step.store assms(2) by (metis sup2CI)
next
  case False
  then have "map (\<lambda>ob. if obj_key ob = (c, u) then f ob else ob) (db_objects w) = db_objects w" for f
    by (intro map_idI) auto
  then show ?thesis by (simp add: update_object_row_def)
qed

lemma service_delete_object: "refines_step w (snd (delete_object_row c u w))"
proof -
  have "service_of (snd (delete_object_row c u w)) =
      (service_of w)\<lparr>sv_objects := (sv_objects (service_of w))((c, u) := None)\<rparr>"
    using table_remove [of obj_key "\<lambda>ob. (o_ical_data ob, object_fields ob)" "(c, u)" "db_objects w"]
    by (simp add: delete_object_row_def service_of_def)
  then show ?thesis using svc_step.discard [of "service_of w" c u] by (cases "sv_objects (service_of w) (c, u)") (simp_all add: fun_upd_idem)
qed

lemma service_delete_share: "refines_step w (snd (delete_share_row c u w))"
proof -
  have "service_of (snd (delete_share_row c u w)) =
      (service_of w)\<lparr>sv_shares := (sv_shares (service_of w))((c, u) := None)\<rparr>"
    using table_remove [of share_key s_permission "(c, u)" "db_shares w"]
    by (simp add: delete_share_row_def service_of_def)
  then show ?thesis using svc_step.revoke [of "service_of w" c u] by (cases "sv_shares (service_of w) (c, u)") (simp_all add: fun_upd_idem)
qed

lemma service_insert_token: "refines_step w (snd (insert_token r w))"
proof (cases "fst (insert_token r w)")
  case (Inr x)
  then have "t_id r \<notin> t_id ` set (db_tokens w)" "user_exists w (t_user_id r)"
      "snd (insert_token r w) = w\<lparr>db_tokens := db_tokens w @ [r]\<rparr>"
    by (auto simp: insert_token_def split: if_splits)
  then have "service_of (snd (insert_token r w)) = (service_of w)\<lparr>sv_tokens :=
      (sv_tokens (service_of w))(t_id r \<mapsto> (t_user_id r, t_token_hash r, t_expires_at r))\<rparr>"
    and "sv_tokens (service_of w) (t_id r) = None" "sv_users (service_of w) (t_user_id r) \<noteq> None"
    by (simp_all add: service_rows) (simp add: service_of_def table_append)
  then show ?thesis using svc_step.add_token by (metis sup2CI)
qed (auto simp: insert_token_def split: if_splits)

lemma service_delete_token: "refines_step w (snd (delete_token_row t w))"
proof -
  have "service_of (snd (delete_token_row t w)) = (service_of w)\<lparr>sv_tokens := (sv_tokens (service_of w))(t := None)\<rparr>"
    by (simp add: delete_token_row_def service_of_def table_remove)
  then show ?thesis using svc_step.remove_token [of "service_of w" t] by (cases "sv_tokens (service_of w) t") (simp_all add: fun_upd_idem)
qed

lemma service_upsert_share:
  assumes "db_inv w"
  shows "refines_step w (snd (upsert_share r w))"
proof (cases "fst (upsert_share r w)")
  case (Inr x)
  have "service_of (snd (upsert_share r w)) = (service_of w)\<lparr>sv_shares :=
      (sv_shares (service_of w))((s_calendar_id r, s_user_id r) \<mapsto> s_permission r)\<rparr>"
  proof (cases "share_key r \<in> share_key ` set (db_shares w)")
    case True
    then have "snd (upsert_share r w) = w\<lparr>db_shares := map (\<lambda>s. if share_key s = share_key r
        then s\<lparr>s_permission := s_permission r\<rparr> else s) (db_shares w)\<rparr>"
      using Inr by (auto simp: upsert_share_def split: if_splits)
    then show ?thesis
      using True table_update [of share_key "\<lambda>s. s\<lparr>s_permission := s_permission r\<rparr>" s_permission "share_key r" "db_shares w"]
        table_const [of share_key "s_permission r" "db_shares w" "share_key r"]
      by (simp add: service_of_def)
  next
    case False
    then have "snd (upsert_share r w) = w\<lparr>db_shares := db_shares w @ [r]\<rparr>"
      using Inr by (auto simp: upsert_share_def split: if_splits)
    then show ?thesis using False table_append [of share_key r "db_shares w" s_permission] by (simp add: service_of_def)
  qed
  moreover have "permission_check (s_permission r)" "calendar_exists w (s_calendar_id r)" "user_exists w (s_user_id r)"
    using Inr assms by (auto simp: upsert_share_def db_inv_def shares_ok_def calendar_exists_def user_exists_def split: if_splits)
  ultimately show ?thesis using svc_step.grant service_rows(1,2) by (metis sup2CI)
qed (auto simp: upsert_share_def split: if_splits)

section \<open>The simulation\<close>

lemma refines_then:
  "svc_step\<^sup>*\<^sup>* s (service_of w) \<Longrightarrow> refines_step w v \<Longrightarrow> svc_step\<^sup>*\<^sup>* s (service_of v)"
  by (auto intro: rtranclp.rtrancl_into_rtrancl)

text \<open>The states from which on the specification can account for everything since \<open>w\<close>.\<close>

definition accounted :: "world \<Rightarrow> world \<Rightarrow> bool" where
  "accounted w v \<longleftrightarrow> db_inv v \<and> svc_step\<^sup>*\<^sup>* (service_of w) (service_of v)"

lemma accounted_refl: "db_inv w \<Longrightarrow> accounted w w"
  by (simp add: accounted_def)

lemma accounted_step:
  assumes "accounted w v" "db_inv v \<Longrightarrow> db_inv v'" "db_inv v \<Longrightarrow> refines_step v v'"
  shows "accounted w v'"
  using assms refines_then by (auto simp: accounted_def simp del: sup2CI)

interpretation service: stmt_invariant "accounted w" for w
proof unfold_locales
  fix v assume v: "accounted w v"
  then have inv: "db_inv v" by (simp add: accounted_def)
  show "accounted w (tick v)" using v by (simp add: accounted_def)
  show "accounted w (snd (insert_user u v))" for u
    by (rule accounted_step [OF v db_inv_insert_user service_insert_user])
  show "accounted w (snd (update_password h n v))" for h n
    by (rule accounted_step [OF v db_inv_update_password service_update_password]) (simp_all add: db_inv_def)
  show "accounted w (snd (insert_calendar c v))" for c
    by (rule accounted_step [OF v db_inv_insert_calendar service_insert_calendar])
  show "accounted w (snd (update_calendar_props E n d k z i v))" for E n d k z i
    by (rule accounted_step [OF v db_inv_update_calendar_props]) (simp_all add: service_update_calendar)
  show "accounted w (snd (update_calendar_tokens E tk i v))" for E tk i
    by (rule accounted_step [OF v db_inv_update_calendar_tokens]) (simp_all add: service_update_calendar)
  show "accounted w (snd (delete_calendar_row i v))" for i
    by (rule accounted_step [OF v db_inv_delete_calendar service_delete_calendar])
  show "accounted w (snd (insert_object ob v))" if "described ob" for ob
    by (rule accounted_step [OF v db_inv_insert_object service_insert_object [OF that]])
  show "accounted w (snd (update_object_row E e d ct ds de sm c u v))"
    if "describes u d \<lparr>f_component_type = ct, f_dtstart = ds, f_dtend = de, f_summary = sm\<rparr>" for E e d ct ds de sm c u
    by (rule accounted_step [OF v db_inv_update_object service_update_object [OF _ that]])
  show "accounted w (snd (delete_object_row c u v))" for c u
    by (rule accounted_step [OF v db_inv_delete_object service_delete_object])
  show "accounted w (snd (upsert_share s v))" for s
    by (rule accounted_step [OF v db_inv_upsert_share service_upsert_share])
  show "accounted w (snd (delete_share_row c u v))" for c u
    by (rule accounted_step [OF v db_inv_delete_share service_delete_share])
  show "accounted w (snd (insert_change x v))" for x
    by (rule accounted_step [OF v db_inv_insert_change]) (simp_all add: service_insert_change)
  show "accounted w (snd (insert_token t v))" for t
    by (rule accounted_step [OF v db_inv_insert_token service_insert_token])
  show "accounted w (snd (delete_token_row t v))" for t
    by (rule accounted_step [OF v db_inv_delete_token service_delete_token])
  show "accounted w (v\<lparr>mcp_sessions := ss\<rparr>)" for ss using v by (simp add: accounted_def)
qed

end
