(* ===== verification/Simple_Tools.thy ===== *)
theory Simple_Tools
  imports Mcp_Properties Collection_Properties
begin

text \<open>
  The tools of the simple mode (\<open>src/mcp/tools/simple.rs\<close>), which choose the calendar themselves:
  the first of the user's calendars, or a new one when the user has none.
\<close>

section \<open>The choice of the calendar\<close>

text \<open>An UPDATE of columns that the list does not depend on changes the rows in place.\<close>

lemma insort_key_map: "(\<And>x. k (g x) = k x) \<Longrightarrow> insort_key k (g x) (map g xs) = map g (insort_key k x xs)"
  by (induction xs) auto

lemma sort_key_map: "(\<And>x. k (g x) = k x) \<Longrightarrow> sort_key k (map g xs) = map g (sort_key k xs)"
  by (induction xs) (simp_all add: insort_key_map)

lemma remdups_map_inj: "inj_on g (set xs) \<Longrightarrow> remdups (map g xs) = map g (remdups xs)"
  by (induction xs) (auto simp: inj_on_def)

lemma accessible_upd:
  assumes "calendars_ok w" "db_calendars v = map g (db_calendars w)" "db_shares v = db_shares w"
    and "\<And>c. c_id (g c) = c_id c" "\<And>c. c_name (g c) = c_name c" "\<And>c. c_owner_id (g c) = c_owner_id c"
  shows "accessible_calendars v u = map g (accessible_calendars w u)"
proof -
  let ?xs = "owned_calendars w u @ joined_calendars w u"
  have "owned_calendars v u @ joined_calendars v u = map g ?xs"
    by (simp add: owned_calendars_def joined_calendars_def assms(2-4,6) filter_map comp_def map_concat)
  moreover have "inj_on g (set ?xs)"
  proof (rule inj_onI)
    fix x y assume "x \<in> set ?xs" "y \<in> set ?xs" "g x = g y"
    then have "x \<in> set (db_calendars w)" "y \<in> set (db_calendars w)" "c_id x = c_id y"
      using assms(4) by (auto simp: owned_calendars_def joined_calendars_def) metis+
    then show "x = y" using assms(1) by (auto simp: calendars_ok_def distinct_map inj_on_def)
  qed
  ultimately show ?thesis
    by (simp only: accessible_calendars_def remdups_map_inj sort_key_map [of c_name g, OF assms(5)])
qed

text \<open>The calendar the tools use, where there is one.\<close>

definition first_calendar :: "world \<Rightarrow> string \<Rightarrow> string option" where
  "first_calendar w u = (case accessible_calendars w u of [] \<Rightarrow> None | c # _ \<Rightarrow> Some (c_id c))"

lemma first_calendar_tick [simp]: "first_calendar (tick w) u = first_calendar w u"
  by (simp add: first_calendar_def accessible_calendars_def owned_calendars_def joined_calendars_def)

lemma first_calendar_logged:
  assumes "calendars_ok w"
  shows "first_calendar (logged E t c i k tk w) u = first_calendar w u"
proof -
  let ?g = "\<lambda>x. if c_id x = c then x\<lparr>c_ctag := sync_token_of (uuid_v7 E t), c_sync_token := sync_token_of (uuid_v7 E t),
      c_updated_at := datetime_now E (t + 2)\<rparr> else x"
  have "accessible_calendars (logged E t c i k tk w) u = map ?g (accessible_calendars w u)"
    by (rule accessible_upd [OF assms]) (simp_all add: logged_def)
  then show ?thesis by (cases "accessible_calendars w u") (simp_all add: first_calendar_def)
qed

lemma run_resolve_first:
  assumes "no_faults E" "first_calendar w u = Some cid"
  shows "run (resolve_calendar E u) w = (Inr cid, tick w)"
  using assms by (cases "accessible_calendars w u")
    (simp_all add: resolve_calendar_def run_result run_describe list_calendars_for_user_def run_select first_calendar_def
      accessible_calendars_def owned_calendars_def joined_calendars_def)

text \<open>A user without calendars gets one, and it is then the first.\<close>

lemma set_accessible_rows: "set (accessible_calendars w u) = set (owned_calendars w u) \<union> set (joined_calendars w u)"
  by (simp add: accessible_calendars_def)

lemma first_calendar_new:
  assumes "first_calendar w u = None" "db_inv w" "c_owner_id cal = u" "\<not> calendar_exists w (c_id cal)"
  shows "first_calendar (w\<lparr>db_calendars := db_calendars w @ [cal], ticks := n\<rparr>) u = Some (c_id cal)"
proof -
  let ?v = "w\<lparr>db_calendars := db_calendars w @ [cal], ticks := n\<rparr>"
  have none: "accessible_calendars w u = []"
    using assms(1) by (simp add: first_calendar_def split: list.splits)
  then have "set (owned_calendars w u) = {} \<and> set (joined_calendars w u) = {}"
    using set_accessible_rows [of w u] by simp
  then have "set (accessible_calendars ?v u) = {cal}"
    using assms(3) by (auto simp: set_accessible_rows owned_calendars_def joined_calendars_def)
  then show ?thesis by (cases "accessible_calendars ?v u") (auto simp: first_calendar_def)
qed

definition calendar_ids_fresh :: "ext \<Rightarrow> world \<Rightarrow> bool" where
  "calendar_ids_fresh E w \<longleftrightarrow> (\<forall>n \<ge> ticks w. \<not> calendar_exists w (uuid_v7 E n))"

lemma run_resolve_new:
  assumes "no_faults E" "first_calendar w u = None" "db_inv w" "user_exists w u" "calendar_ids_fresh E w"
  obtains cal n where "run (resolve_calendar E u) w = (Inr (c_id cal), w\<lparr>db_calendars := db_calendars w @ [cal], ticks := n\<rparr>)"
    "c_owner_id cal = u" "\<not> calendar_exists w (c_id cal)" "ticks w \<le> n"
proof -
  let ?w = "tick (tick w)" and ?i = "uuid_v7 E (Suc (ticks w))"
  let ?cal = "new_calendar E (ticks ?w) ?i u ''Calendar'' [] ''#0E61B9'' ''UTC''"
  have fresh: "\<not> calendar_exists ?w ?i" using assms(5) by (simp add: calendar_ids_fresh_def)
  have "accessible_calendars (tick w) u = []"
    using assms(2) by (simp add: first_calendar_def accessible_calendars_def owned_calendars_def joined_calendars_def split: list.splits)
  then have "run (resolve_calendar E u) w = (Inr (c_id ?cal), ?w\<lparr>db_calendars := db_calendars ?w @ [?cal], ticks := ticks ?w + 3\<rparr>)"
    using run_create_calendar_with_id [OF assms(1) fresh, of u "''Calendar''" "[]" "''#0E61B9''" "''UTC''"] assms(1,4)
    by (simp add: resolve_calendar_def run_result run_describe list_calendars_for_user_def run_select create_calendar_def run_draw)
  moreover have "?w\<lparr>db_calendars := db_calendars ?w @ [?cal], ticks := ticks ?w + 3\<rparr> = w\<lparr>db_calendars := db_calendars w @ [?cal], ticks := ticks w + 5\<rparr>"
    by (simp add: tick_def)
  moreover have "c_owner_id ?cal = u" "c_id ?cal = ?i" by (simp_all add: new_calendar_def)
  ultimately show thesis using that [of ?cal "ticks w + 5"] fresh by simp
qed

lemma resolved:
  assumes "no_faults E" "db_inv w" "user_exists w u" "calendar_ids_fresh E w" "ids_fresh E w"
  obtains cid w1 where "run (resolve_calendar E u) w = (Inr cid, w1)" "first_calendar w1 u = Some cid" "calendar_exists w1 cid"
    "db_objects w1 = db_objects w" "db_inv w1" "ids_fresh E w1" "ticks w \<le> ticks w1"
    "first_calendar w u = Some cid \<or> first_calendar w u = None \<and> \<not> calendar_exists w cid"
proof (cases "first_calendar w u")
  case None
  obtain cal n where r: "run (resolve_calendar E u) w = (Inr (c_id cal), w\<lparr>db_calendars := db_calendars w @ [cal], ticks := n\<rparr>)"
      "c_owner_id cal = u" "\<not> calendar_exists w (c_id cal)" "ticks w \<le> n"
    by (rule run_resolve_new [OF assms(1) None assms(2-4)])
  have "db_inv (snd (run (resolve_calendar E u) w))"
    using always_run [OF integrity.safe_resolve_calendar assms(2)] by blast
  then show thesis
    using that [OF r(1) first_calendar_new [OF None assms(2) r(2,3)]] r assms(5) None
    by (auto simp: calendar_exists_def ids_fresh_def)
next
  case (Some cid)
  then obtain c cs where "accessible_calendars w u = c # cs" "c_id c = cid"
    by (auto simp: first_calendar_def split: list.splits)
  then have "c \<in> set (accessible_calendars w u)" by simp
  then have "c \<in> set (db_calendars w)" by (auto simp: set_accessible_rows owned_calendars_def joined_calendars_def)
  then have "calendar_exists w cid" using \<open>c_id c = cid\<close> by (auto simp: calendar_exists_def)
  then show thesis
    using that [OF run_resolve_first [OF assms(1) Some]] Some assms(2,5) by (simp add: ids_fresh_tick)
qed

lemma first_calendar_objects [simp]: "first_calendar (w\<lparr>db_objects := obs, ticks := n\<rparr>) u = first_calendar w u"
  by (simp add: first_calendar_def accessible_calendars_def owned_calendars_def joined_calendars_def)

lemma first_calendar_changed:
  assumes "db_inv w"
  shows "first_calendar (inserted E w c i d fs) u = first_calendar w u" "first_calendar (removed E w c i) u = first_calendar w u"
proof -
  have "calendars_ok (w\<lparr>db_objects := obs, ticks := n\<rparr>)" for obs n
    using assms by (simp add: db_inv_def calendars_ok_def)
  then show "first_calendar (inserted E w c i d fs) u = first_calendar w u" "first_calendar (removed E w c i) u = first_calendar w u"
    by (simp_all add: inserted_def removed_def first_calendar_logged)
qed

section \<open>The tools\<close>

definition add_args :: "string \<Rightarrow> string \<Rightarrow> string \<Rightarrow> json" where
  "add_args title start stop = JObject [(''title'', JString title), (''start'', JString start), (''end'', JString stop)]"

definition simple_uid_args :: "string \<Rightarrow> json" where
  "simple_uid_args uid = JObject [(''event_uid'', JString uid)]"

lemma add_args_simps [simp]:
  "arg_str (add_args t s e) ''title'' = Some t" "arg_str (add_args t s e) ''start'' = Some s" "arg_str (add_args t s e) ''end'' = Some e"
  "arg_str (add_args t s e) ''description'' = None" "arg_str (add_args t s e) ''location'' = None"
  "arg_str (add_args t s e) ''timezone'' = None" "arg_str (simple_uid_args i) ''event_uid'' = Some i"
  "arg_str (JObject []) k = None"
  by (simp_all add: arg_str_def json_index_def add_args_def simple_uid_args_def)

lemma run_add:
  assumes "no_faults E" "run (resolve_calendar E u) w = (Inr cid, w1)" "calendar_exists w1 cid" "ids_fresh E w1"
    and "uid = uid_of (uuid_v4 E (ticks w1))" "lookup_object w1 cid uid = None"
  shows "run (handle_add E u (add_args title start stop)) w =
    (Inr (JObject [(''uid'', JString uid), (''title'', JString title), (''start'', JString start), (''end'', JString stop)]),
     inserted E (tick (tick w1)) cid uid (plain_vevent (utc_stamp E (Suc (ticks w1))) uid title start stop) (event_fields title start stop))"
proof -
  have "ids_fresh E (tick (tick w1))" "calendar_exists (tick (tick w1)) cid" "lookup_object (tick (tick w1)) cid uid = None"
    using assms(3,4,6) by (simp_all add: ids_fresh_tick lookup_object_def)
  note stored = run_upsert_new [OF assms(1) this(2,3,1)]
  have "o_uid (new_object E t cid uid d fs) = uid" for t d fs by (simp add: new_object_def)
  then show ?thesis
    using assms(2)
    by (simp add: assms(5) [symmetric] handle_add_def generate_uid_def run_result run_draw run_required run_describe stored Let_def
        del: tick_simps(9)) simp
qed

lemma run_simple_delete:
  assumes "no_faults E" "first_calendar w u = Some cid" "calendar_exists w cid" "lookup_object w cid uid = Some ob"
  shows "run (handle_simple_delete E u (simple_uid_args uid)) w =
    (Inr (JObject [(''deleted'', JBool True), (''event_uid'', JString uid)]), removed E (tick w) cid uid)"
proof -
  have "lookup_object (tick w) cid uid = Some ob" using assms(4) by (simp add: lookup_object_def)
  then show ?thesis
    using assms(3) run_delete_found [OF assms(1), of "tick w" cid uid ob]
    by (simp add: handle_simple_delete_def run_result run_required run_describe run_resolve_first [OF assms(1,2)])
qed

lemma run_list:
  assumes "no_faults E" "first_calendar w u = Some cid"
  shows "run (handle_list E u (JObject [])) w =
    (let events = map (\<lambda>obj. JObject [(''uid'', JString (o_uid obj)), (''summary'', json_opt_str (o_summary obj)),
        (''start'', json_opt_str (o_dtstart obj)), (''end'', json_opt_str (o_dtend obj))]) (take 50 (sort_key o_dtstart (objects_of w cid)))
     in (Inr (JObject [(''count'', json_len (length events)), (''events'', JArray events)]), tick (tick w)))"
proof -
  have "selects (JObject []) cid = (\<lambda>ob. o_calendar_id ob = cid)" by (simp add: selects_def fun_eq_iff)
  moreover have "arg_limit (JObject []) = 50" by (simp add: arg_limit_def json_index_def as_u64_def)
  ultimately show ?thesis
    using assms(1)
    by (simp add: handle_list_def run_result run_resolve_first [OF assms] run_selected_objects objects_of_def Let_def)
qed

section \<open>Properties\<close>

lemma stored_value_inserted:
  "lookup_object w c i = None \<Longrightarrow> stored_value (inserted E w c i d fs) = (stored_value w)((c, i) \<mapsto> (d, fs))"
  by (auto simp: stored_value_def fun_eq_iff lookup_inserted prod_eq_iff)

lemma stored_value_removed: "stored_value (removed E w c i) = (stored_value w)((c, i) := None)"
  by (auto simp: stored_value_def fun_eq_iff lookup_removed prod_eq_iff)

lemma stored_value_objects: "db_objects v = db_objects w \<Longrightarrow> stored_value v = stored_value w"
  by (simp add: stored_value_def lookup_object_def fun_eq_iff)

text \<open>C32: the tools of the simple mode work on one calendar. For a user with calendars it is the first of
  them by name; for a user without any \<open>add_event\<close> creates one, and it is the first from then on.
  \<open>add_event\<close> stores exactly the event that was described, under a new UID, \<open>list_events\<close> then lists
  the events of that calendar by start, at most fifty, and \<open>delete_event\<close> with the UID finds the event
  in the same calendar and leaves the objects as they were before.\<close>

theorem simple_tools_life:
  assumes "no_faults E" "db_inv w" "user_exists w u" "calendar_ids_fresh E w" "ids_fresh E w"
    and "\<forall>n \<ge> ticks w. uid_of (uuid_v4 E n) \<notin> set (map o_uid (db_objects w))"
  shows "\<exists>cid uid now w1 w2 evs.
    (first_calendar w u = Some cid \<or> first_calendar w u = None \<and> \<not> calendar_exists w cid) \<and> first_calendar w1 u = Some cid \<and>
    run (simple_dispatch E u ''add_event'' (add_args title start stop)) w =
      (Inr (JObject [(''uid'', JString uid), (''title'', JString title), (''start'', JString start), (''end'', JString stop)]), w1) \<and>
    stored_value w1 = (stored_value w)((cid, uid) \<mapsto> (plain_vevent now uid title start stop, event_fields title start stop)) \<and>
    fst (run (simple_dispatch E u ''list_events'' (JObject [])) w1) =
      Inr (JObject [(''count'', json_len (length evs)), (''events'', JArray evs)]) \<and>
    map (\<lambda>e. json_get e ''uid'') evs = map (\<lambda>ob. Some (JString (o_uid ob))) (take 50 (sort_key o_dtstart (objects_of w1 cid))) \<and>
    run (simple_dispatch E u ''delete_event'' (simple_uid_args uid)) w1 =
      (Inr (JObject [(''deleted'', JBool True), (''event_uid'', JString uid)]), w2) \<and>
    stored_value w2 = stored_value w"
proof -
  obtain cid v where v: "run (resolve_calendar E u) w = (Inr cid, v)" "first_calendar v u = Some cid" "calendar_exists v cid"
      "db_objects v = db_objects w" "db_inv v" "ids_fresh E v" "ticks w \<le> ticks v"
      "first_calendar w u = Some cid \<or> first_calendar w u = None \<and> \<not> calendar_exists w cid"
    by (rule resolved [OF assms(1-5)])
  define uid where "uid = uid_of (uuid_v4 E (ticks v))"
  define now where "now = utc_stamp E (Suc (ticks v))"
  define w1 where "w1 = inserted E (tick (tick v)) cid uid (plain_vevent now uid title start stop) (event_fields title start stop)"
  define evs where "evs = map (\<lambda>obj. JObject [(''uid'', JString (o_uid obj)), (''summary'', json_opt_str (o_summary obj)),
      (''start'', json_opt_str (o_dtstart obj)), (''end'', json_opt_str (o_dtend obj))]) (take 50 (sort_key o_dtstart (objects_of w1 cid)))"
  have "uid \<notin> set (map o_uid (db_objects v))" using assms(6) v(4,7) by (simp add: uid_def)
  then have none: "lookup_object v cid uid = None" "lookup_object (tick (tick v)) cid uid = None"
    by (auto simp: lookup_object_def find_None_iff)
  have first: "first_calendar w1 u = Some cid" using v(2,5) by (simp add: w1_def first_calendar_changed)
  have stored: "stored_value w1 = (stored_value w)((cid, uid) \<mapsto> (plain_vevent now uid title start stop, event_fields title start stop))"
    using stored_value_inserted [OF none(2)] stored_value_objects [of "tick (tick v)" w] v(4) by (simp add: w1_def)
  have "run (simple_dispatch E u ''add_event'' (add_args title start stop)) w =
      (Inr (JObject [(''uid'', JString uid), (''title'', JString title), (''start'', JString start), (''end'', JString stop)]), w1)"
    using run_add [OF assms(1) v(1,3,6) uid_def none(1), of title start stop] by (simp add: simple_dispatch_def w1_def now_def)
  moreover have "fst (run (simple_dispatch E u ''list_events'' (JObject [])) w1) =
      Inr (JObject [(''count'', json_len (length evs)), (''events'', JArray evs)])"
    using run_list [OF assms(1) first] by (simp add: simple_dispatch_def evs_def Let_def)
  moreover have "map (\<lambda>e. json_get e ''uid'') evs = map (\<lambda>ob. Some (JString (o_uid ob))) (take 50 (sort_key o_dtstart (objects_of w1 cid)))"
    by (simp add: evs_def)
  moreover obtain ob where "lookup_object w1 cid uid = Some ob" using lookup_inserted [OF none(2)] by (simp add: w1_def)
  then have "run (simple_dispatch E u ''delete_event'' (simple_uid_args uid)) w1 =
      (Inr (JObject [(''deleted'', JBool True), (''event_uid'', JString uid)]), removed E (tick w1) cid uid)"
    using run_simple_delete [OF assms(1) first] v(3) by (simp add: simple_dispatch_def w1_def)
  moreover have "stored_value w (cid, uid) = None" using none(1) v(4) by (simp add: stored_value_def lookup_object_def)
  then have "stored_value (removed E (tick w1) cid uid) = stored_value w"
    using stored stored_value_objects [of "tick w1" w1] by (simp add: stored_value_removed fun_eq_iff)
  ultimately show ?thesis using v(8) first stored by blast
qed

text \<open>Somebody who has no calendar yet.\<close>

definition newcomer :: world where
  "newcomer = demo_world\<lparr>db_users := db_users demo_world @ [\<lparr>u_id = ''u9'', u_username = ''zoe'', u_email = None,
     u_password_hash = ''$zoe'', u_created_at = ''2026-02-01 00:00:00''\<rparr>]\<rparr>"

theorem simple_tools_life_witness:
  "\<exists>cid uid w1 w2. first_calendar newcomer ''u9'' = None \<and> \<not> calendar_exists newcomer cid \<and> first_calendar w1 ''u9'' = Some cid \<and>
     snd (run (simple_dispatch demo_ext ''u9'' ''add_event'' (add_args ''Lunch'' ''20260302T120000'' ''20260302T130000'')) newcomer) = w1 \<and>
     snd (run (simple_dispatch demo_ext ''u9'' ''delete_event'' (simple_uid_args uid)) w1) = w2 \<and> stored_value w2 = stored_value newcomer"
proof -
  let ?add = "simple_dispatch demo_ext ''u9'' ''add_event'' (add_args ''Lunch'' ''20260302T120000'' ''20260302T130000'')"
  have user: "db_inv newcomer" "user_exists newcomer ''u9''"
    by (simp_all add: newcomer_def db_inv_def ok_defs demo_defs permission_check_def change_type_check_def)
  have "calendar_ids_fresh demo_ext newcomer" "ids_fresh demo_ext newcomer"
      "\<forall>n \<ge> ticks newcomer. uid_of (uuid_v4 demo_ext n) \<notin> set (map o_uid (db_objects newcomer))"
    using demo_world_fresh
    by (auto simp: newcomer_def calendar_ids_fresh_def calendar_exists_def demo_ext_def demo_defs uid_of_def ids_fresh_def)
  from simple_tools_life [OF demo_no_faults user this, of "''Lunch''" "''20260302T120000''" "''20260302T130000''"]
  obtain cid uid w1 w2 r1 r2 where life: "first_calendar newcomer ''u9'' = Some cid \<or> first_calendar newcomer ''u9'' = None \<and> \<not> calendar_exists newcomer cid"
      "first_calendar w1 ''u9'' = Some cid" "run ?add newcomer = (r1, w1)"
      "run (simple_dispatch demo_ext ''u9'' ''delete_event'' (simple_uid_args uid)) w1 = (r2, w2)" "stored_value w2 = stored_value newcomer"
    by (elim exE conjE) (rule that)
  have "first_calendar newcomer ''u9'' = None"
    by (simp add: first_calendar_def accessible_calendars_def owned_calendars_def joined_calendars_def newcomer_def demo_defs)
  with life show ?thesis by (intro exI [of _ cid] exI [of _ uid] exI [of _ w1] exI [of _ w2]) simp
qed

end
