(* ===== verification/Spec2Isabelle.thy ===== *)
theory Spec2Isabelle
  imports Startup Divergences End_To_End Fair_Schedules Service_Spec Simple_Tools
begin

text \<open>
  A verification of the CalDAV and MCP calendar server (\<open>src/src\<close>, Rust).

  \<^bold>\<open>The program.\<close> One process serves two ports over one SQLite database. On the CalDAV port calendar
  clients discover, list, read, write and synchronise calendars over HTTP and XML; on the MCP port
  language models call tools over JSON-RPC; a command line creates users and tokens. The parts are
  the database layer (\<open>db/\<close>), the iCalendar parser and builder (\<open>ical/\<close>), the CalDAV handlers with
  their XML layer (\<open>caldav/\<close>), the MCP handlers and tools (\<open>mcp/\<close>), the configuration and the
  commands (\<open>config.rs\<close>, \<open>main.rs\<close>). All of them are modelled, operation by operation, with the names
  of the source; a name that would clash carries a suffix (\<open>_tool\<close> for the tools that are named like
  the database operation they call).

  \<^bold>\<open>Execution.\<close> \<open>Prelude\<close> models an asynchronous function as a tree of atomic calls (\<open>prog\<close>): a
  database statement, a draw from a clock or random source, or an access to the session table. \<open>run\<close>
  executes it alone; \<open>sys_step\<close> and \<open>sys_reach\<close> interleave any number of them call by call, and
  \<open>always\<close> speaks of all their interleavings. \<open>bindE\<close> is the \<open>?\<close> operator, a sum type carries the
  errors, and a handler ends with a response or with a panic (\<open>outcome\<close>). \<open>Rust_Str\<close> has the string
  operations of the standard library on byte strings, UTF-8 included. No fuel is used: every loop of
  the source runs over a finite list and is structural recursion, or has a termination proof
  (\<open>trim_end_matches\<close>, \<open>trim_start\<close>, \<open>trim_end\<close>, \<open>utf8_chunks\<close>).

  \<^bold>\<open>What is a parameter.\<close> The record \<open>ext\<close> (\<open>Externals\<close>) holds what the server takes from libraries
  and the system: UUIDs, random bytes and clocks indexed by a counter of external calls, Argon2,
  base64, the XML reader and writer, JSON texts, percent decoding of paths, the legality of header
  values, and whether a database statement fails; whether a port can be bound is a parameter of
  \<open>run_server\<close>. What a property needs of them is one of the named
  predicates there (\<open>no_faults\<close>, \<open>uuids_distinct\<close>, \<open>hashing_sound\<close>, \<open>bodies_bounded\<close>, \<open>headers_sound\<close>
  and others), each stating documented behaviour; \<open>demo_ext\<close> satisfies all of them.

  \<^bold>\<open>The theories and the source.\<close>
  \<^item> \<open>App_Error\<close> (\<open>error.rs\<close>), \<open>Json\<close> (\<open>mcp/jsonrpc.rs\<close>), \<open>Startup\<close> (\<open>config.rs\<close>, \<open>db/mod.rs\<close> and the
    commands of \<open>main.rs\<close>).
  \<^item> \<open>Database\<close>: the tables of \<open>migrations/001_initial.sql\<close> as lists of the rows of \<open>db/models.rs\<close>, and
    one function per SQL statement that changes a table, with keys, references, checks and cascades.
    \<open>Service_Spec\<close>: what the server is for, as a record of maps and an inductive step relation, and
    the simulation of every statement.
    \<open>Object_Text\<close>: the columns stored beside the text of an object, and when they describe it.
    \<open>Schema\<close>: the constraints as \<open>db_inv\<close>, and the locales \<open>tick_invariant\<close>, \<open>stmt_invariant\<close> and
    \<open>object_stmts\<close>: an invariant that every statement keeps is kept by every operation. They are
    interpreted for the constraints (\<open>integrity\<close>), the permanence of users (\<open>user_kept\<close>), columns that
    describe their text (\<open>texts\<close>), the confinement to one calendar (\<open>confined\<close>), the rights of access
    (\<open>access_kept\<close>), the simulation (\<open>service\<close>), for reading only (\<open>reading\<close>) and for the passing of
    time (\<open>moving_on\<close>).
  \<^item> \<open>Users\<close>, \<open>Tokens\<close>, \<open>Calendars\<close>, \<open>Shares\<close>, \<open>Events\<close>: the files of \<open>db/\<close> with these names.
  \<^item> \<open>Keyed_Store\<close>: the contract of a store as a locale, refined to a map; it is interpreted on the event
    store (\<open>Object_Store\<close>) and on the session table (\<open>Mcp_Session\<close>, \<open>mcp/session.rs\<close>).
    \<open>Sync_Log\<close>: the change log, replayed by a client. \<open>Sync_Report\<close>: a client that keeps a copy by
    sync-collection reports, from the XML it sends to the XML it reads. \<open>Failures\<close>: how far a store or a deletion has come
    when a statement fails, by rules for the error exits of a program.
  \<^item> \<open>Ical_Parser\<close>, \<open>Ical_Builder\<close> (\<open>ical/\<close>); \<open>Ical_Properties\<close>: the parser inverts the builder.
  \<^item> \<open>Multistatus\<close>, \<open>Xml_Parse\<close>, \<open>Properties\<close> (\<open>caldav/xml/\<close>); \<open>Xml_Properties\<close>: requests read back.
  \<^item> \<open>Caldav_Auth\<close> (\<open>auth.rs\<close> and the access checks of \<open>caldav/mod.rs\<close>), \<open>Caldav_Objects\<close> (\<open>get.rs\<close>,
    \<open>put.rs\<close>, \<open>delete.rs\<close>), \<open>Caldav_Collections\<close> (\<open>mkcalendar.rs\<close>, \<open>proppatch.rs\<close>, \<open>propfind.rs\<close>),
    \<open>Caldav_Report\<close> (\<open>report.rs\<close>), \<open>Caldav_Router\<close> (\<open>wellknown.rs\<close> and the routes of \<open>caldav/mod.rs\<close>);
    \<open>Caldav_Properties\<close> and \<open>Collection_Properties\<close>: isolation, authentication, well-formed answers,
    the effects of requests on collections.
  \<^item> \<open>Mcp_Tool_Defs\<close>, \<open>Mcp_Tools\<close> (\<open>mcp/tools/\<close>), \<open>Mcp_Server\<close> (\<open>auth.rs\<close>, \<open>handlers.rs\<close>,
    \<open>transport.rs\<close>, \<open>mod.rs\<close>); \<open>Mcp_Properties\<close>: authentication, schemas, JSON-RPC answers, event tools;
    \<open>Simple_Tools\<close>: the tools of the simple mode and the calendar they choose.
  \<^item> \<open>End_To_End\<close>: sequences of requests through both routers, with authentication, routing, access check,
    handler and database together.
  \<^item> \<open>Concurrency\<close>: schedules of finitely many requests. \<open>Fair_Schedules\<close>: infinite schedules in which
    requests keep arriving. \<open>Divergences\<close>: where the code and its documentation differ.
  \<^item> This theory: the running system.

  \<^bold>\<open>What is shown.\<close> The schema's constraints hold in every reachable state of every interleaving, also
  under database failures (C1); each call of the running server is accounted for by steps of the
  service specification (C2); the columns beside an object go on describing its text (C13). Every
  request ends (C39), and in a fair schedule each is answered although more keep arriving (C40).
  The event store is a map with a log beside it (C3, C23), and a failure leaves it between two steps of
  an operation (C24). What one user puts through the router is what another gets until it is deleted
  (C6), and what a language model creates on the one port calendar clients read on the other (C7).
  Conditional writes are decided by the ETag (C8), and lose an update only when they interleave (C9).
  A client that keeps a copy by sync reports has the current objects after every round (C10); behind
  it, the log agrees with the objects (C11), and the token a calendar shows makes the client start
  over (C12). Without access, credentials or token nothing changes (C4, C5, C15, C16), and a request
  for an object stays inside its calendar (C14). Accounts, tokens and shares do what they are for,
  across the two ports (C17 to C22); calendars are created, changed and deleted as the requests say
  (C25 to C27). Answers have the right form and content (C28 to C30, C36), the MCP tools agree with
  their schemas and store what they are given (C31 to C35, C37), and the ports are decided by the
  configuration (C38).

  \<^bold>\<open>Limits.\<close> Rows that an ORDER BY leaves tied come in the order of insertion, where SQLite promises
  none. The members of a JSON object are a list in the order of the source. A statement fails as a
  whole or not at all, and statements are serialised, as SQLite serialises writers. The UTF-8 bytes of
  a string are its characters. That the runtime gives every waiting request another turn is the
  hypothesis \<open>fair\<close> of C40; no other property needs it.

  \<^bold>\<open>Not modelled.\<close> Logging (\<open>tracing\<close>), the parsing of the command line (\<open>clap\<close>), the
  serving of connections once both ports are bound, the connection pool, the texts of JSON and XML documents (their libraries are
  parameters), and the test modules inside the source files.
\<close>

section \<open>The whole system\<close>

text \<open>What can run against the shared state: requests to the CalDAV port, requests to the MCP
  port in either tool mode, and the commands of \<open>main\<close>, in any number and interleaved call by call;
  the two routers are what \<open>run_server\<close> of \<open>src/main.rs\<close> serves.\<close>

datatype answer =
    Caldav_Answer outcome
  | Mcp_Answer outcome
  | Cli_Answer "cli_error + string list"

definition answering :: "('a \<Rightarrow> answer) \<Rightarrow> (world, 'a) prog \<Rightarrow> (world, answer) prog" where
  "answering tag p = bind p (\<lambda>x. Ret (tag x))"

definition server_programs :: "ext \<Rightarrow> tcp_bind \<Rightarrow> string \<Rightarrow> env \<Rightarrow> string \<Rightarrow> (world, answer) prog set" where
  "server_programs E B sql env mode =
     {answering Caldav_Answer (caldav_router E path request) | path request. True} \<union>
     {answering Mcp_Answer (mcp_router E mode path request) | path request. True} \<union>
     {answering Cli_Answer (run_command E B sql env subcommand) | subcommand. True}"

context stmt_invariant
begin

lemma safe_server_programs: "p \<in> server_programs E B sql env mode \<Longrightarrow> safe I p"
  by (auto simp: server_programs_def answering_def intro!: safe_rules)

end

lemma server_programs_intros [intro, simp]:
  "answering Caldav_Answer (caldav_router E path r) \<in> server_programs E B sql env mode"
  "answering Mcp_Answer (mcp_router E mode path r) \<in> server_programs E B sql env mode"
  "answering Cli_Answer (run_command E B sql env c) \<in> server_programs E B sql env mode"
  by (auto simp: server_programs_def)

lemma run_answering: "run (answering tag p) w = (tag (fst (run p w)), snd (run p w))"
  by (simp add: answering_def run_simps split: prod.split)

text \<open>A state with an account, for the examples below.\<close>

lemma demo_first_user:
  "\<exists>ps w. db_users w \<noteq> [] \<and>
     sys_reach (server_programs demo_ext (\<lambda>_ _. None) [] (\<lambda>_. None) ''full'') init_world (ps, w)"
proof -
  let ?P = "server_programs demo_ext (\<lambda>_ _. None) [] (\<lambda>_. None) ''full''"
  let ?p = "answering Cli_Answer (run_command demo_ext (\<lambda>_ _. None) [] (\<lambda>_. None) (Some (CreateUser ''alice'' ''pw'' None)))"
  obtain ps where r: "sys_reach ?P init_world (ps, snd (run ?p init_world))"
    using sys_reach_run [OF sys_reach.init, of ?p ?P init_world] by auto
  obtain w where pool: "run (cli_pool demo_ext [] (\<lambda>_. None)) init_world = (Inr (), w)"
      and w: "same_data init_world w"
    using run_cli_pool [OF demo_no_faults from_env_default, of "[]" init_world]
    by (auto simp: demo_ext_def)
  have "argon2_hash demo_ext ''pw'' (salt_string demo_ext (ticks w + 1)) = Inr ''$pw''"
    by (simp add: demo_ext_def)
  moreover have "fresh_user_id demo_ext w" and "''alice'' \<notin> set (map u_username (db_users w))"
    using w by (simp_all add: same_data_iff init_world_def fresh_user_id_def)
  ultimately have "db_users (snd (run ?p init_world)) \<noteq> []"
    unfolding run_answering snd_conv
    by (simp add: run_command_def cmd_create_user_def run_simps pool run_create_user [OF demo_no_faults])
  then show ?thesis using r by blast
qed

text \<open>C1: however the requests and commands interleave, and whatever database failures occur,
  every reachable state satisfies all constraints of the schema: keys are unique, references
  point to existing rows, checked columns hold legal values, and the change log is ordered.\<close>

theorem server_integrity:
  assumes "sys_reach (server_programs E B sql env mode) init_world s"
  shows "db_inv (snd s)"
  using sys_reach_invariant [OF assms db_inv_init integrity.safe_server_programs] .

theorem server_integrity_witness:
  "\<exists>ps w. db_users w \<noteq> [] \<and> db_inv w \<and>
     sys_reach (server_programs demo_ext (\<lambda>_ _. None) [] (\<lambda>_. None) ''full'') init_world (ps, w)"
  using demo_first_user server_integrity by fastforce





text \<open>What an answer of the CalDAV port promises: a multistatus body is well formed.\<close>

definition sound_answer :: "ext \<Rightarrow> answer \<Rightarrow> bool" where
  "sound_answer E x = (case x of Caldav_Answer out \<Rightarrow> good_reply E out | _ \<Rightarrow> True)"

lemma yields_server_programs:
  assumes "bodies_bounded E" "framework_statuses E" "p \<in> server_programs E B sql env mode"
  shows "yields (sound_answer E) p"
  using assms(3) unfolding server_programs_def answering_def
  by (auto simp: sound_answer_def intro: yields_bind_via [OF yields_caldav_router [OF assms(1,2)]] intro: yields_bind)



text \<open>C13: the columns of every stored object describe its text. In every reachable state of every
  interleaving, also under database failures, the component type, the times and the summary that are
  stored beside an object, and its UID where the text has one, are what the parser reads from the
  stored text, or the text is an event built from exactly these values. Nothing updates the one
  without the other.\<close>

theorem columns_describe_text:
  assumes "\<forall>ob \<in> set (db_objects w0). described ob"
    and "sys_reach (server_programs E B sql env mode) w0 s"
  shows "\<forall>ob \<in> set (db_objects (snd s)). described ob"
proof -
  have "texts_described w0" using assms(1) by (simp add: texts_described_def list_all_iff)
  then have "texts_described (snd s)"
    by (rule sys_reach_invariant [OF assms(2) _ texts.safe_server_programs])
  then show ?thesis by (simp add: texts_described_def list_all_iff)
qed

theorem columns_describe_text_witness:
  "\<exists>ps w ob. sys_reach (server_programs demo_ext (\<lambda>_ _. None) [] (\<lambda>_. None) ''full'') (demo_world\<lparr>db_objects := []\<rparr>) (ps, w) \<and>
     lookup_object w ''work'' ''review'' = Some ob \<and> o_ical_data ob = ''SUMMARY:Review'' \<and> described ob"
proof -
  let ?P = "server_programs demo_ext (\<lambda>_ _. None) [] (\<lambda>_. None) ''full''" and ?w = "demo_world\<lparr>db_objects := []\<rparr>"
  let ?path = "[''caldav'', ''users'', ''alice'', ''work'', ''review.ics'']"
  let ?p = "answering Caldav_Answer (caldav_router demo_ext ?path (demo_put None))"
  have same: "same_access demo_world ?w" by (simp add: same_access_def)
  have "ready demo_ext ?w ''work''"
    using demo_ready [of "''work''"] by (simp add: ready_def ids_fresh_def calendar_exists_def)
  then obtain ob w where w: "snd (run (caldav_router demo_ext ?path (demo_put None)) ?w) = w"
      "lookup_object w ''work'' ''review'' = Some ob" "o_ical_data ob = ''SUMMARY:Review''"
    using demo_access(1) demo_object_requests(1)
    by (rule_tac router_put [of demo_ext ?w "''work''" ?path "demo_put None" alice "''review.ics''" "''SUMMARY:Review''" "''review''"])
      (simp_all add: same_access_request [OF same] same_access_has_access [OF same] demo_put_accepted demo_put_if_match
        demo_put_uid(1), simp add: demo_put_def)
  obtain ps where r: "sys_reach ?P ?w (ps, w)"
    using sys_reach_run [OF sys_reach.init, of ?p ?P ?w] w(1) by (auto simp: run_answering)
  have "ob \<in> set (db_objects w)" using w(2) unfolding lookup_object_def by (rule find_SomeD [THEN conjunct2])
  moreover have "\<forall>ob \<in> set (db_objects w). described ob" using columns_describe_text [OF _ r] by simp
  ultimately have "described ob" by blast
  with r w(2,3) show ?thesis by blast
qed

text \<open>No request and no command removes a user.\<close>

lemma users_permanent:
  "sys_reach (server_programs E B sql env mode) w0 s \<Longrightarrow> user_exists w0 i \<Longrightarrow> user_exists (snd s) i"
  unfolding user_exists_def
  by (rule sys_reach_invariant [OF _ _ user_kept.safe_server_programs])

end
